(* ===== verification/Aeon_Prelude.thy ===== *)
theory Aeon_Prelude
  imports Main "HOL-Library.Word"
begin

text \<open>
  Prelude of the development: the machine-integer and byte types, Rust's checked and
  saturating arithmetic on them, the little-endian byte encoding used in PDA seeds and in
  the receipt hash, and the rewrite rules that turn the success of a chain of guards into
  the conjunction of what each guard established.
\<close>

unbundle bit_operations_syntax

subsection \<open>Types\<close>

type_synonym u8 = "8 word"
type_synonym u16 = "16 word"
type_synonym u64 = "64 word"
type_synonym u128 = "128 word"
type_synonym bytes = "u8 list"

text \<open>A Solana address is a byte string (32 bytes on chain).\<close>

type_synonym pubkey = bytes

subsection \<open>Guard chains\<close>

text \<open>
  A handler is a chain of guards, each of which returns an error or goes on.  The rules of
  \<open>ok_simps\<close> read such a chain backwards: the chain returned a value exactly when every
  guard let it through.
\<close>

named_theorems ok_simps "success of a guard chain as a conjunction"

lemma if_Inl_eq_Inr [ok_simps]:
  "((if c then Inl e else k) = Inr y) = (\<not> c \<and> k = Inr y)"
  by simp

lemma if_k_Inl_eq_Inr [ok_simps]:
  "((if c then k else Inl e) = Inr y) = (c \<and> k = Inr y)"
  by simp

text \<open>Rust's \<^verbatim>\<open>?\<close> operator, and \<^verbatim>\<open>ok_or\<close> in front of it.\<close>

definition bindr :: "'e + 'a \<Rightarrow> ('a \<Rightarrow> 'e + 'b) \<Rightarrow> 'e + 'b" where
  "bindr m k = (case m of Inl e \<Rightarrow> Inl e | Inr v \<Rightarrow> k v)"

definition ok_or :: "'a option \<Rightarrow> 'e \<Rightarrow> 'e + 'a" where
  "ok_or x e = (case x of None \<Rightarrow> Inl e | Some v \<Rightarrow> Inr v)"

lemma bindr_simps [simp]: "bindr (Inl e) k = Inl e" "bindr (Inr v) k = k v"
  by (simp_all add: bindr_def)

lemma bindr_cong [fundef_cong]:
  assumes "m = m'" and "\<And>v. m' = Inr v \<Longrightarrow> k v = k' v"
  shows "bindr m k = bindr m' k'"
  using assms by (cases m') simp_all

lemma ok_or_simps [simp]: "ok_or None e = Inl e" "ok_or (Some v) e = Inr v"
  by (simp_all add: ok_or_def)

lemma bindr_eq_Inr [ok_simps]: "(bindr m k = Inr y) = (\<exists>v. m = Inr v \<and> k v = Inr y)"
  by (cases m) simp_all

lemma ok_or_eq_Inr [ok_simps]: "(ok_or x e = Inr v) = (x = Some v)"
  by (cases x) simp_all

lemma case_prod_eq_Inr [ok_simps]:
  "((case p of (a, b) \<Rightarrow> k a b) = Inr y) = (\<exists>a b. p = (a, b) \<and> k a b = Inr y)"
  by (cases p) simp

subsection \<open>Checked and saturating arithmetic\<close>

definition checked_add :: "'a::len word \<Rightarrow> 'a word \<Rightarrow> 'a word option" where
  "checked_add x y = (if unat x + unat y < 2 ^ LENGTH('a) then Some (x + y) else None)"

definition checked_sub :: "'a::len word \<Rightarrow> 'a word \<Rightarrow> 'a word option" where
  "checked_sub x y = (if y \<le> x then Some (x - y) else None)"

definition checked_mul :: "'a::len word \<Rightarrow> 'a word \<Rightarrow> 'a word option" where
  "checked_mul x y = (if unat x * unat y < 2 ^ LENGTH('a) then Some (x * y) else None)"

definition checked_div :: "'a::len word \<Rightarrow> 'a word \<Rightarrow> 'a word option" where
  "checked_div x y = (if y = 0 then None else Some (x div y))"

definition saturating_sub :: "'a::len word \<Rightarrow> 'a word \<Rightarrow> 'a word" where
  "saturating_sub x y = (if y \<le> x then x - y else 0)"

definition saturating_add :: "'a::len word \<Rightarrow> 'a word \<Rightarrow> 'a word" where
  "saturating_add x y = (if unat x + unat y < 2 ^ LENGTH('a) then x + y else - 1)"

text \<open>A checked operation succeeds exactly when its result is the unbounded one.\<close>

lemma checked_add_eq_Some [ok_simps]:
  fixes x y z :: "'a::len word"
  shows "(checked_add x y = Some z) = (unat z = unat x + unat y)"
proof
  assume "checked_add x y = Some z"
  then show "unat z = unat x + unat y"
    by (auto simp: checked_add_def unat_word_ariths split: if_splits)
next
  assume z: "unat z = unat x + unat y"
  moreover have "unat z < 2 ^ LENGTH('a)" by (rule unsigned_less)
  ultimately have "unat x + unat y < 2 ^ LENGTH('a)" by simp
  moreover from this have "unat (x + y) = unat z"
    using z by (simp add: unat_word_ariths)
  ultimately show "checked_add x y = Some z"
    by (simp add: checked_add_def word_unat_eq_iff)
qed

lemma checked_sub_eq_Some [ok_simps]:
  fixes x y z :: "'a::len word"
  shows "(checked_sub x y = Some z) = (unat x = unat z + unat y)"
proof
  assume "checked_sub x y = Some z"
  then have "y \<le> x" and "z = x - y"
    by (auto simp: checked_sub_def split: if_splits)
  then show "unat x = unat z + unat y"
    by (simp add: unat_sub word_le_nat_alt)
next
  assume x: "unat x = unat z + unat y"
  then have "y \<le> x" by (simp add: word_le_nat_alt)
  moreover from this have "unat (x - y) = unat z"
    using x by (simp add: unat_sub)
  ultimately show "checked_sub x y = Some z"
    by (simp add: checked_sub_def word_unat_eq_iff)
qed

lemma checked_mul_Some:
  fixes x y z :: "'a::len word"
  shows "checked_mul x y = Some z \<Longrightarrow> unat z = unat x * unat y"
  by (auto simp: checked_mul_def unat_word_ariths split: if_splits)

lemma unat_saturating_sub:
  "y \<le> x \<Longrightarrow> unat (saturating_sub x y) = unat x - unat y"
  by (simp add: saturating_sub_def unat_sub)

text \<open>Overflow tests that compute on words, for evaluating the model on concrete inputs.\<close>

lemma checked_add_code [code]:
  fixes x y :: "'a::len word"
  shows "checked_add x y = (if x \<le> x + y then Some (x + y) else None)"
  by (simp add: checked_add_def no_olen_add_nat)

lemma saturating_add_code [code]:
  fixes x y :: "'a::len word"
  shows "saturating_add x y = (if x \<le> x + y then x + y else - 1)"
  by (simp add: saturating_add_def no_olen_add_nat)

lemma mult_no_overflow_iff:
  fixes x y :: "'a::len word"
  assumes "y \<noteq> 0"
  shows "unat x * unat y < 2 ^ LENGTH('a) \<longleftrightarrow> (x * y) div y = x"
proof
  have y: "0 < unat y" using assms by (simp add: unat_gt_0)
  assume "unat x * unat y < 2 ^ LENGTH('a)"
  then show "(x * y) div y = x" using y by (simp add: word_unat_eq_iff unat_div unat_word_ariths)
next
  have y: "0 < unat y" using assms by (simp add: unat_gt_0)
  assume "(x * y) div y = x"
  then have "unat (x * y) div unat y = unat x" by (metis unat_div)
  then have "unat x * unat y \<le> unat (x * y)" by (metis div_times_less_eq_dividend)
  also have "unat (x * y) < 2 ^ LENGTH('a)" by (rule unsigned_less)
  finally show "unat x * unat y < 2 ^ LENGTH('a)" .
qed

lemma checked_mul_code [code]:
  fixes x y :: "'a::len word"
  shows "checked_mul x y = (if y = 0 then Some 0 else if (x * y) div y = x then Some (x * y) else None)"
  using mult_no_overflow_iff [of y x] by (simp add: checked_mul_def)

subsection \<open>Lists updated by index\<close>

lemma take_Suc_update: "i < length xs \<Longrightarrow> take (Suc i) (xs[i := x]) = take i xs @ [x]"
  by (subst take_Suc_conv_app_nth) simp_all

lemma drop_take_Cons:
  "i < n \<Longrightarrow> i < length xs \<Longrightarrow> drop i (take n xs) = xs ! i # drop (Suc i) (take n xs)"
  by (subst Cons_nth_drop_Suc [symmetric]) simp_all

end
