(* ===== verification/Aeon_Base.thy ===== *)
theory Aeon_Base
  imports Aeon_Prelude
begin

text \<open>
  The vocabulary of the program: the constants of \<^verbatim>\<open>constants.rs\<close>, the error codes of
  \<^verbatim>\<open>errors.rs\<close>, the events of \<^verbatim>\<open>events.rs\<close>, and the failures an instruction can end
  with.  Numeric constants are unfolded by the simplifier; the byte strings of the seeds
  are kept folded and unfolded by \<open>seed_defs\<close> where their contents matter.
\<close>

subsection \<open>Numeric constants\<close>

definition MAX_AUTHORITY_DEPTH :: u8 where [simp]: "MAX_AUTHORITY_DEPTH = 3"
definition MAX_CATEGORIES :: nat where [simp]: "MAX_CATEGORIES = 8"
definition MAX_BLOCKED_RECIPIENTS :: nat where [simp]: "MAX_BLOCKED_RECIPIENTS = 4"
definition DEFAULT_MIN_SOLVENCY_BPS :: u16 where [simp]: "DEFAULT_MIN_SOLVENCY_BPS = 10000"

definition AUTH_STATUS_ACTIVE :: u8 where [simp]: "AUTH_STATUS_ACTIVE = 0"
definition AUTH_STATUS_REVOKED :: u8 where [simp]: "AUTH_STATUS_REVOKED = 1"
definition AUTH_STATUS_EXPIRED :: u8 where [simp]: "AUTH_STATUS_EXPIRED = 2"
definition AUTH_STATUS_EXHAUSTED :: u8 where [simp]: "AUTH_STATUS_EXHAUSTED = 3"

definition ESCROW_STATUS_OPEN :: u8 where [simp]: "ESCROW_STATUS_OPEN = 0"
definition ESCROW_STATUS_RELEASED :: u8 where [simp]: "ESCROW_STATUS_RELEASED = 1"
definition ESCROW_STATUS_CANCELLED :: u8 where [simp]: "ESCROW_STATUS_CANCELLED = 2"
definition ESCROW_STATUS_EXPIRED :: u8 where [simp]: "ESCROW_STATUS_EXPIRED = 3"

definition CONDITION_IMMEDIATE :: u8 where [simp]: "CONDITION_IMMEDIATE = 0"
definition CONDITION_RECEIPT :: u8 where [simp]: "CONDITION_RECEIPT = 1"
definition CONDITION_ORACLE :: u8 where [simp]: "CONDITION_ORACLE = 2"
definition CONDITION_MULTISIG :: u8 where [simp]: "CONDITION_MULTISIG = 3"
definition CONDITION_TIMEOUT :: u8 where [simp]: "CONDITION_TIMEOUT = 4"

definition BOND_STATUS_ACTIVE :: u8 where [simp]: "BOND_STATUS_ACTIVE = 0"
definition BOND_STATUS_SLASHED :: u8 where [simp]: "BOND_STATUS_SLASHED = 1"

definition ORG_STATUS_ACTIVE :: u8 where [simp]: "ORG_STATUS_ACTIVE = 0"
definition ORG_STATUS_DISSOLVING :: u8 where [simp]: "ORG_STATUS_DISSOLVING = 1"
definition ORG_STATUS_CLOSED :: u8 where [simp]: "ORG_STATUS_CLOSED = 2"

definition ROLE_ADMIN :: u8 where [simp]: "ROLE_ADMIN = 0"
definition ROLE_MEMBER :: u8 where [simp]: "ROLE_MEMBER = 1"
definition ROLE_VIEWER :: u8 where [simp]: "ROLE_VIEWER = 2"

subsection \<open>PDA seeds\<close>

named_theorems seed_defs "the byte strings of the PDA seeds"

definition SEED_CONFIG :: bytes where
  [seed_defs]: "SEED_CONFIG = map of_char ''aeon_config''"
definition SEED_AGENT :: bytes where
  [seed_defs]: "SEED_AGENT = map of_char ''agent''"
definition SEED_CRI :: bytes where
  [seed_defs]: "SEED_CRI = map of_char ''cri''"
definition SEED_AUTHORITY :: bytes where
  [seed_defs]: "SEED_AUTHORITY = map of_char ''authority''"
definition SEED_ESCROW :: bytes where
  [seed_defs]: "SEED_ESCROW = map of_char ''escrow''"
definition SEED_ESCROW_VAULT :: bytes where
  [seed_defs]: "SEED_ESCROW_VAULT = map of_char ''escrow_vault''"
definition SEED_ORG :: bytes where
  [seed_defs]: "SEED_ORG = map of_char ''org''"
definition SEED_ORG_TREASURY :: bytes where
  [seed_defs]: "SEED_ORG_TREASURY = map of_char ''org_treasury''"
definition SEED_ORG_MEMBER :: bytes where
  [seed_defs]: "SEED_ORG_MEMBER = map of_char ''org_member''"
definition SEED_RECEIPT :: bytes where
  [seed_defs]: "SEED_RECEIPT = map of_char ''receipt''"
definition SEED_AUTHORITY_BOND :: bytes where
  [seed_defs]: "SEED_AUTHORITY_BOND = map of_char ''authority_bond''"
definition RECEIPT_DOMAIN_SEPARATOR :: bytes where
  [seed_defs]: "RECEIPT_DOMAIN_SEPARATOR = map of_char ''AEON_RECEIPT_V1''"

text \<open>\<^verbatim>\<open>u64::to_le_bytes\<close>: eight bytes, least significant first.\<close>

definition le_bytes :: "u64 \<Rightarrow> bytes" where
  "le_bytes x = [ucast x, ucast (drop_bit 8 x), ucast (drop_bit 16 x), ucast (drop_bit 24 x),
     ucast (drop_bit 32 x), ucast (drop_bit 40 x), ucast (drop_bit 48 x), ucast (drop_bit 56 x)]"

lemma le_bytes_nth: "i < 8 \<Longrightarrow> le_bytes x ! i = ucast (drop_bit (8 * i) x)"
  by (auto simp: le_bytes_def less_Suc_eq numeral_eq_Suc)

lemma length_le_bytes [simp]: "length (le_bytes x) = 8"
  by (simp add: le_bytes_def)

lemma le_bytes_inject [simp]: "(le_bytes x = le_bytes y) = (x = y)"
proof
  assume eq: "le_bytes x = le_bytes y"
  show "x = y"
  proof (rule bit_word_eqI)
    fix n assume n: "n < LENGTH(64)"
    have "n div 8 < 8" using n by simp
    with eq have b: "(ucast (drop_bit (8 * (n div 8)) x) :: u8) = ucast (drop_bit (8 * (n div 8)) y)"
      by (metis le_bytes_nth)
    have "bit (ucast (drop_bit (8 * (n div 8)) w) :: u8) (n mod 8) = bit w n" for w :: u64
      by (simp add: bit_simps)
    with b show "bit x n = bit y n" by metis
  qed
qed simp

subsection \<open>Error codes\<close>

datatype aeon_error =
    Paused | Unauthorized | AgentAlreadyRegistered | AgentNotActive | InvalidBudget
  | MaxDelegationDepth | ParentNotActive | ChildBudgetExceedsParent | AuthorityNotActive
  | AuthorityExpired | InvalidCategoryCount | InvalidBlockedCount | ParentRequired
  | ParentIdMismatch | Overflow | InvalidAmount | ExceedsMaxPerTx | ExceedsMaxTotal
  | InsufficientBudget | CategoryNotAllowed | RecipientBlocked | AuthorityRequired
  | AuthorityAgentMismatch | EmptyCategoryIntersection | InvalidMint | TokenTransferFailed
  | AuthorityAlreadyRevoked | InvalidCascadeChild | EscrowNotOpen | EscrowConditionFailed
  | EscrowExpired | EscrowCancelUnauthorized | EscrowIdMismatch | OrgNotActive
  | TreasuryConservation | InvalidRemainingAccounts | InvalidShareBps | ShareBpsExceedsMax
  | OrgNotClosed | InvalidPayload | ReceiptIdMismatch | ReceiptChainMismatch
  | InsufficientBond | BondNotActive | AuthorityNotSlashed | AuthorityNotExpired

text \<open>The error codes of the Anchor framework that the account declarations can raise.\<close>

datatype anchor_error =
    AccountNotSigner | AccountNotInitialized | AccountDiscriminatorMismatch
  | AccountOwnedByWrongProgram | AccountDidNotSerialize | InvalidProgramId
  | ConstraintMut | ConstraintSeeds | AccountAlreadyInUse
  | InstructionMissing | InstructionFallbackNotFound | InstructionDidNotDeserialize
  | AccountNotEnoughKeys

text \<open>
  A failed instruction: an error of the program, one of the framework, one returned by a
  called program, or a panic (an index out of bounds aborts the instruction).
\<close>

datatype failure = Aeon aeon_error | Anchor anchor_error | Cpi nat | Panic

abbreviation err :: "aeon_error \<Rightarrow> failure + 'a" where
  "err e \<equiv> Inl (Aeon e)"

text \<open>\<^verbatim>\<open>xs[i]\<close> on a vector: an index outside it panics.\<close>

definition index_at :: "'a list \<Rightarrow> nat \<Rightarrow> failure + 'a" where
  "index_at xs i = (if i < length xs then Inr (xs ! i) else Inl Panic)"

lemma index_at_eq_Inr [ok_simps]: "(index_at xs i = Inr x) = (i < length xs \<and> x = xs ! i)"
  by (auto simp: index_at_def)

subsection \<open>Events\<close>

datatype event =
    AgentRegisteredEv (ev_agent: pubkey)
  | AuthorityIssuedEv (ev_authority_id: u64) (ev_agent: pubkey) (ev_budget: u64) (ev_parent_id: u64)
  | AuthorityRevokedEv (ev_authority_id: u64) (ev_cascade: bool)
  | PaymentSettledEv (ev_payer: pubkey) (ev_payee: pubkey) (ev_amount: u64)
      (ev_authority_id: u64) (ev_category: bytes)
  | CriUpdatedEv (ev_agent: pubkey) (ev_successful_settlements: u64) (ev_volume_settled: u64)
  | EscrowCreatedEv (ev_escrow_id: u64) (ev_payer: pubkey) (ev_payee: pubkey) (ev_amount: u64)
  | EscrowReleasedEv (ev_escrow_id: u64) (ev_payee: pubkey) (ev_amount: u64)
  | EscrowCancelledEv (ev_escrow_id: u64) (ev_payer: pubkey) (ev_amount: u64)
  | OrgCreatedEv (ev_org_id: u64) (ev_creator: pubkey)
  | OrgDepositedEv (ev_org_id: u64) (ev_agent: pubkey) (ev_amount: u64)
  | OrgSplitEv (ev_org_id: u64) (ev_total: u64) (ev_recipient_count: u16)
  | OrgDissolvedEv (ev_org_id: u64) (ev_total_distributed: u64)
  | MemberJoinedEv (ev_org_id: u64) (ev_agent: pubkey) (ev_role: u8) (ev_share_bps: u16)
  | MemberShareUpdatedEv (ev_org_id: u64) (ev_agent: pubkey) (ev_old_share_bps: u16)
      (ev_new_share_bps: u16)
  | OrgResidualReclaimedEv (ev_org_id: u64) (ev_amount: u64) (ev_destination: pubkey)
  | ReceiptCreatedEv (ev_receipt_id: u64) (ev_actor: pubkey) (ev_receipt_type: u8)
      (ev_prev_hash: bytes) (ev_hash: bytes) (ev_slot: u64)
  | ConfigPausedEv (ev_admin: pubkey)
  | ConfigUnpausedEv (ev_admin: pubkey)
  | AuthorityExpiredEv (ev_authority_id: u64) (ev_agent: pubkey) (ev_expired_slot: u64)
  | BondSlashedEv (ev_authority_id: u64) (ev_amount: u64) (ev_slasher: pubkey)

end
