(* ===== verification/Aeon_State.thy ===== *)
theory Aeon_State
  imports Aeon_Base
begin

text \<open>
  The account types of \<^verbatim>\<open>state.rs\<close>, one record per \<^verbatim>\<open>#[account]\<close> struct with the
  struct's fields in order, the methods of \<^verbatim>\<open>Authority\<close> with the loops they run, and the
  Borsh layout of an \<^verbatim>\<open>Authority\<close>, which the revocation cascade depends on.
  The struct \<^verbatim>\<open>OracleEntry\<close> is declared by the source but no instruction reads or writes
  it, so it has no record here.
\<close>

subsection \<open>Account types\<close>

record config =
  cfg_admin :: pubkey
  cfg_aeon_mint :: pubkey
  cfg_authority_counter :: u64
  cfg_escrow_counter :: u64
  cfg_org_counter :: u64
  cfg_receipt_counter :: u64
  cfg_min_solvency_bps :: u16
  cfg_paused :: bool
  cfg_bump :: u8

record agent_identity =
  ag_agent :: pubkey
  ag_created_slot :: u64
  ag_active :: bool
  ag_metadata_uri_hash :: bytes
  ag_bump :: u8

record cri =
  cri_agent :: pubkey
  cri_successful_settlements :: u64
  cri_failed_settlements :: u64
  cri_successful_commitments :: u64
  cri_failed_commitments :: u64
  cri_volume_settled :: u64
  cri_last_active_slot :: u64
  cri_created_slot :: u64
  cri_last_receipt_hash :: bytes
  cri_receipt_count :: u64
  cri_bump :: u8

record authority =
  au_authority_id :: u64
  au_agent :: pubkey
  au_parent_id :: u64
  au_depth :: u8
  au_budget :: u64
  au_spent :: u64
  au_max_per_tx :: u64
  au_max_total :: u64
  au_category_count :: u8
  au_categories :: "bytes list"
  au_blocked_count :: u8
  au_blocked_recipients :: "pubkey list"
  au_require_min_reserve :: u64
  au_expiry_slot :: u64
  au_status :: u8
  au_bond_amount :: u64
  au_bump :: u8

record escrow =
  es_escrow_id :: u64
  es_payer :: pubkey
  es_payee :: pubkey
  es_amount :: u64
  es_authority_id :: u64
  es_category :: bytes
  es_condition_type :: u8
  es_condition_data :: bytes
  es_status :: u8
  es_created_slot :: u64
  es_expiry_slot :: u64
  es_vault_bump :: u8
  es_bump :: u8

record organization =
  org_org_id :: u64
  org_name_hash :: bytes
  org_creator :: pubkey
  org_member_count :: u16
  org_total_share_bps :: u16
  org_status :: u8
  org_created_slot :: u64
  org_treasury_bump :: u8
  org_bump :: u8

record org_member =
  om_org_id :: u64
  om_agent :: pubkey
  om_role :: u8
  om_share_bps :: u16
  om_bump :: u8

record receipt =
  rc_receipt_id :: u64
  rc_receipt_type :: u8
  rc_actor :: pubkey
  rc_slot :: u64
  rc_payload_hash :: bytes
  rc_prev_hash :: bytes
  rc_hash :: bytes
  rc_bump :: u8

record authority_bond =
  bd_authority_id :: u64
  bd_agent :: pubkey
  bd_amount :: u64
  bd_status :: u8
  bd_bump :: u8

subsection \<open>Scanning a fixed-size array\<close>

text \<open>
  The loops \<^verbatim>\<open>for i in 0..n { if &xs[i] == x { return true; } } false\<close>: reading an index past
  the array panics.
\<close>

function scan :: "'a list \<Rightarrow> 'a \<Rightarrow> nat \<Rightarrow> nat \<Rightarrow> failure + bool" where
  "scan xs x i n =
     (if n \<le> i then Inr False
      else if \<not> i < length xs then Inl Panic
      else if xs ! i = x then Inr True
      else scan xs x (Suc i) n)"
  by pat_completeness auto
termination
  by (relation "measure (\<lambda>(xs, x, i, n). n - i)") auto

declare scan.simps [simp del]

text \<open>Within the array the loop is membership in the scanned prefix, and never panics.\<close>

lemma scan_from:
  "n \<le> length xs \<Longrightarrow> scan xs x i n = Inr (\<exists>j. i \<le> j \<and> j < n \<and> xs ! j = x)"
proof (induction xs x i n rule: scan.induct)
  case (1 xs x i n)
  show ?case
  proof (cases "n \<le> i \<or> xs ! i = x")
    case True
    with "1.prems" show ?thesis by (subst scan.simps) auto
  next
    case False
    with "1.prems" have "scan xs x i n = scan xs x (Suc i) n"
      by (subst scan.simps) auto
    also have "\<dots> = Inr (\<exists>j. Suc i \<le> j \<and> j < n \<and> xs ! j = x)"
      using False "1.prems" by (intro "1.IH") auto
    also have "(\<exists>j. Suc i \<le> j \<and> j < n \<and> xs ! j = x) = (\<exists>j. i \<le> j \<and> j < n \<and> xs ! j = x)"
      using False by (metis Suc_leD Suc_leI le_neq_implies_less)
    finally show ?thesis .
  qed
qed

lemma scan_eq_prefix:
  assumes "n \<le> length xs"
  shows "scan xs x 0 n = Inr (x \<in> set (take n xs))"
  unfolding scan_from [OF assms] using assms by (auto simp: in_set_conv_nth)

text \<open>Whatever the bound, an answer \<open>True\<close> is a hit in the scanned prefix.\<close>

lemma scan_True:
  "scan xs x i n = Inr True \<Longrightarrow> \<exists>j. i \<le> j \<and> j < n \<and> j < length xs \<and> xs ! j = x"
proof (induction xs x i n rule: scan.induct)
  case (1 xs x i n)
  from "1.prems" have "i < n" and "i < length xs"
    by (subst (asm) scan.simps; simp split: if_splits)+
  show ?case
  proof (cases "xs ! i = x")
    case True
    with \<open>i < n\<close> \<open>i < length xs\<close> show ?thesis by blast
  next
    case False
    with "1.prems" \<open>i < n\<close> \<open>i < length xs\<close> have "scan xs x (Suc i) n = Inr True"
      by (subst (asm) scan.simps) simp
    with "1.IH" False \<open>i < n\<close> \<open>i < length xs\<close>
    obtain j where "Suc i \<le> j" "j < n" "j < length xs" "xs ! j = x" by auto
    then show ?thesis by (intro exI [of _ j]) simp
  qed
qed

subsection \<open>Methods of \<^verbatim>\<open>Authority\<close>\<close>

definition remaining :: "authority \<Rightarrow> u64 option" where
  "remaining a = checked_sub (au_budget a) (au_spent a)"

definition category_allowed :: "authority \<Rightarrow> bytes \<Rightarrow> failure + bool" where
  "category_allowed a cat =
     (if au_category_count a = 0 then Inr True
      else scan (au_categories a) cat 0 (unat (au_category_count a)))"

definition recipient_blocked :: "authority \<Rightarrow> pubkey \<Rightarrow> failure + bool" where
  "recipient_blocked a r =
     scan (au_blocked_recipients a) r 0 (unat (au_blocked_count a))"

text \<open>The categories an authority may spend on: an empty list allows every category.\<close>

definition allows :: "authority \<Rightarrow> bytes \<Rightarrow> bool" where
  "allows a cat = (au_category_count a = 0
     \<or> cat \<in> set (take (unat (au_category_count a)) (au_categories a)))"

lemma category_allowed_eq_allows:
  assumes "unat (au_category_count a) \<le> length (au_categories a)"
  shows "category_allowed a cat = Inr (allows a cat)"
  using assms by (simp add: category_allowed_def allows_def scan_eq_prefix)

lemma category_allowed_True: "category_allowed a cat = Inr True \<Longrightarrow> allows a cat"
  by (fastforce simp: category_allowed_def allows_def in_set_conv_nth split: if_splits
      dest: scan_True)

subsection \<open>Borsh layout of an authority\<close>

text \<open>
  \<^verbatim>\<open>#[account]\<close> serialises the fields in declaration order, integers little-endian and
  fixed-size arrays without a length prefix.
\<close>

definition borsh_authority :: "authority \<Rightarrow> bytes" where
  "borsh_authority a =
     le_bytes (au_authority_id a) @ au_agent a @ le_bytes (au_parent_id a) @ [au_depth a]
     @ le_bytes (au_budget a) @ le_bytes (au_spent a) @ le_bytes (au_max_per_tx a)
     @ le_bytes (au_max_total a) @ [au_category_count a] @ concat (au_categories a)
     @ [au_blocked_count a] @ concat (au_blocked_recipients a)
     @ le_bytes (au_require_min_reserve a) @ le_bytes (au_expiry_slot a) @ [au_status a]
     @ le_bytes (au_bond_amount a) @ [au_bump a]"

text \<open>\<^verbatim>\<open>Authority::INIT_SPACE\<close>, the size of that layout.\<close>

definition AUTHORITY_INIT_SPACE :: nat where
  "AUTHORITY_INIT_SPACE = 8 + 32 + 8 + 1 + 8 + 8 + 8 + 8 + 1 + 16 * MAX_CATEGORIES + 1
     + 32 * MAX_BLOCKED_RECIPIENTS + 8 + 8 + 1 + 8 + 1"

text \<open>The array lengths the Rust types fix.\<close>

definition authority_arrays :: "authority \<Rightarrow> bool" where
  "authority_arrays a = (length (au_agent a) = 32
     \<and> length (au_categories a) = MAX_CATEGORIES \<and> (\<forall>c \<in> set (au_categories a). length c = 16)
     \<and> length (au_blocked_recipients a) = MAX_BLOCKED_RECIPIENTS
     \<and> (\<forall>r \<in> set (au_blocked_recipients a). length r = 32))"

lemma length_concat_const:
  "\<forall>x \<in> set xs. length x = n \<Longrightarrow> length (concat xs) = n * length xs"
  by (induction xs) auto

lemma length_borsh_authority:
  "authority_arrays a \<Longrightarrow> length (borsh_authority a) = AUTHORITY_INIT_SPACE"
  using length_concat_const [of "au_categories a" 16]
    length_concat_const [of "au_blocked_recipients a" 32]
  by (simp add: authority_arrays_def borsh_authority_def AUTHORITY_INIT_SPACE_def)

lemma length_borsh_authority_status [simp]:
  "length (borsh_authority (a\<lparr>au_status := s\<rparr>)) = length (borsh_authority a)"
  by (simp add: borsh_authority_def)

end
