(* ===== verification/Aeon_Runtime.thy ===== *)
theory Aeon_Runtime
  imports Aeon_State
begin

text \<open>
  What surrounds the handlers: the accounts of the chain, the parameters that stand for code
  outside the repository (address derivation, SHA-256, the token programs, Anchor's account
  serialisation), and the meaning of the account declarations the source uses
  (\<^verbatim>\<open>Account\<close>, \<^verbatim>\<open>Signer\<close>, \<^verbatim>\<open>mut\<close>, \<^verbatim>\<open>seeds\<close>/\<^verbatim>\<open>bump\<close>, \<^verbatim>\<open>init\<close>).  A handler works on copies
  of the declared accounts; the copies of the mutable ones are stored at the end, in the
  order of declaration, so that two declarations naming one account behave as they do on
  chain.
\<close>

subsection \<open>Accounts of the chain\<close>

text \<open>The part of a token account and of a mint that the program reads.\<close>

record token_account =
  ta_owner :: pubkey
  ta_mint :: pubkey
  ta_amount :: u64

record mint =
  mint_decimals :: u8

type_synonym ledger = "pubkey \<rightharpoonup> token_account"
type_synonym mint_table = "pubkey \<rightharpoonup> mint"

text \<open>
  The accounts owned by the program, by type (\<open>raws\<close> holds accounts whose bytes are no
  valid account of any type), the token programs' accounts, and the event log.
\<close>

record world =
  configs :: "pubkey \<rightharpoonup> config"
  agents :: "pubkey \<rightharpoonup> agent_identity"
  cris :: "pubkey \<rightharpoonup> cri"
  authorities :: "pubkey \<rightharpoonup> authority"
  escrows :: "pubkey \<rightharpoonup> escrow"
  orgs :: "pubkey \<rightharpoonup> organization"
  members :: "pubkey \<rightharpoonup> org_member"
  receipts :: "pubkey \<rightharpoonup> receipt"
  bonds :: "pubkey \<rightharpoonup> authority_bond"
  raws :: "pubkey \<rightharpoonup> bytes"
  ledger :: ledger
  mints :: mint_table
  logs :: "event list"

definition owned :: "world \<Rightarrow> pubkey \<Rightarrow> bool" where
  "owned w k = (configs w k \<noteq> None \<or> agents w k \<noteq> None \<or> cris w k \<noteq> None
     \<or> authorities w k \<noteq> None \<or> escrows w k \<noteq> None \<or> orgs w k \<noteq> None
     \<or> members w k \<noteq> None \<or> receipts w k \<noteq> None \<or> bonds w k \<noteq> None \<or> raws w k \<noteq> None)"

definition in_use :: "world \<Rightarrow> pubkey \<Rightarrow> bool" where
  "in_use w k = (owned w k \<or> ledger w k \<noteq> None \<or> mints w k \<noteq> None)"

subsection \<open>Parameters: code outside the repository\<close>

text \<open>The accounts of a \<^verbatim>\<open>TransferChecked\<close> call.\<close>

record transfer_accs =
  tc_from :: pubkey
  tc_mint :: pubkey
  tc_to :: pubkey
  tc_authority :: pubkey

text \<open>
  \<open>rt_create_pda seeds\<close> is \<^verbatim>\<open>create_program_address\<close> and \<open>rt_find_pda\<close> is
  \<^verbatim>\<open>find_program_address\<close>, both for this program's id.  \<open>rt_tok_transfer prog accs signed
  amount decimals mints ledger\<close> is the effect of \<^verbatim>\<open>transfer_checked\<close> on the token accounts,
  \<open>sgnd\<close> telling whether the authority account signed; \<open>rt_tok_init prog account mint owner\<close>
  initialises a token account; \<open>rt_ata_create\<close> is the associated-token program's idempotent
  creation.  \<open>rt_ser_authority\<close> is what Anchor's \<^verbatim>\<open>try_serialize\<close> writes for an authority and
  \<open>rt_de_authority\<close> what \<^verbatim>\<open>try_deserialize\<close> reads.
\<close>

record runtime =
  rt_create_pda :: "bytes list \<Rightarrow> pubkey option"
  rt_find_pda :: "bytes list \<Rightarrow> pubkey \<times> u8"
  rt_sha256 :: "bytes \<Rightarrow> bytes"
  rt_ata_address :: "pubkey \<Rightarrow> pubkey \<Rightarrow> pubkey"
  rt_is_token_program :: "pubkey \<Rightarrow> bool"
  rt_is_ata_program :: "pubkey \<Rightarrow> bool"
  rt_tok_transfer :: "pubkey \<Rightarrow> transfer_accs \<Rightarrow> bool \<Rightarrow> u64 \<Rightarrow> u8 \<Rightarrow> mint_table \<Rightarrow> ledger
    \<Rightarrow> failure + ledger"
  rt_tok_init :: "pubkey \<Rightarrow> pubkey \<Rightarrow> pubkey \<Rightarrow> pubkey \<Rightarrow> mint_table \<Rightarrow> ledger \<Rightarrow> failure + ledger"
  rt_ata_create :: "pubkey \<Rightarrow> pubkey \<Rightarrow> pubkey \<Rightarrow> pubkey \<Rightarrow> mint_table \<Rightarrow> ledger \<Rightarrow> failure + ledger"
  rt_ser_authority :: "authority \<Rightarrow> bytes"
  rt_de_authority :: "bytes \<Rightarrow> authority option"

text \<open>What one transaction supplies: the slot, its signers and its writable accounts.\<close>

record tx =
  tx_slot :: u64
  tx_signer :: "pubkey \<Rightarrow> bool"
  tx_writable :: "pubkey \<Rightarrow> bool"

subsection \<open>Account declarations\<close>

abbreviation anchor_err :: "anchor_error \<Rightarrow> failure + 'a" where
  "anchor_err e \<equiv> Inl (Anchor e)"

text \<open>\<^verbatim>\<open>Account<'info, T>\<close>: the account exists, is the program's and carries T's discriminator.\<close>

definition load :: "(world \<Rightarrow> pubkey \<rightharpoonup> 'a) \<Rightarrow> world \<Rightarrow> pubkey \<Rightarrow> failure + 'a" where
  "load sel w k =
     (case sel w k of
        Some x \<Rightarrow> Inr x
      | None \<Rightarrow> Inl (Anchor (if owned w k then AccountDiscriminatorMismatch
                             else if in_use w k then AccountOwnedByWrongProgram
                             else AccountNotInitialized)))"

definition load_opt :: "(world \<Rightarrow> pubkey \<rightharpoonup> 'a) \<Rightarrow> world \<Rightarrow> pubkey option \<Rightarrow> failure + 'a option" where
  "load_opt sel w ko =
     (case ko of
        None \<Rightarrow> Inr None
      | Some k \<Rightarrow> (bindr (load sel w k) (\<lambda>x. Inr (Some x))))"

text \<open>
  \<^verbatim>\<open>InterfaceAccount<'info, T>\<close>: a token account or a mint, owned by a token program.
\<close>

definition load_ext :: "(world \<Rightarrow> pubkey \<rightharpoonup> 'a) \<Rightarrow> world \<Rightarrow> pubkey \<Rightarrow> failure + 'a" where
  "load_ext sel w k =
     (case sel w k of
        Some x \<Rightarrow> Inr x
      | None \<Rightarrow> Inl (Anchor (if in_use w k then AccountOwnedByWrongProgram
                             else AccountNotInitialized)))"

definition load_ext_opt :: "(world \<Rightarrow> pubkey \<rightharpoonup> 'a) \<Rightarrow> world \<Rightarrow> pubkey option \<Rightarrow> failure + 'a option" where
  "load_ext_opt sel w ko =
     (case ko of
        None \<Rightarrow> Inr None
      | Some k \<Rightarrow> (bindr (load_ext sel w k) (\<lambda>x. Inr (Some x))))"

text \<open>
  Writing an account back when the instruction ends (\<^verbatim>\<open>exit\<close>); an absent optional account
  is skipped.
\<close>

definition put :: "((('k \<rightharpoonup> 'a) \<Rightarrow> 'k \<rightharpoonup> 'a) \<Rightarrow> world \<Rightarrow> world) \<Rightarrow> 'k \<Rightarrow> 'a \<Rightarrow> world \<Rightarrow> world" where
  "put upd k x w = upd (\<lambda>m. m(k \<mapsto> x)) w"

definition put_opt :: "((('k \<rightharpoonup> 'a) \<Rightarrow> 'k \<rightharpoonup> 'a) \<Rightarrow> world \<Rightarrow> world) \<Rightarrow> 'k option \<Rightarrow> 'a option
    \<Rightarrow> world \<Rightarrow> world" where
  "put_opt upd ko xo w =
     (case ko of None \<Rightarrow> w | Some k \<Rightarrow> (case xo of None \<Rightarrow> w | Some x \<Rightarrow> put upd k x w))"

definition log_event :: "event \<Rightarrow> world \<Rightarrow> world" where
  "log_event e w = w\<lparr>logs := logs w @ [e]\<rparr>"

text \<open>
  \<^verbatim>\<open>seeds = [..], bump = b\<close>: the address derived from the seeds and the stored bump.  The same
  test decides whether \<^verbatim>\<open>invoke_signed\<close> lets the program sign for that address.
\<close>

definition pda_at :: "runtime \<Rightarrow> bytes list \<Rightarrow> u8 \<Rightarrow> pubkey \<Rightarrow> bool" where
  "pda_at rt seeds bump k = (rt_create_pda rt (seeds @ [[bump]]) = Some k)"

text \<open>
  \<^verbatim>\<open>init, seeds = [..], bump\<close>: the address is the canonical one of the seeds, writable, and not
  in use (nor created by an earlier \<^verbatim>\<open>init\<close> of the instruction); the canonical bump is returned.
\<close>

definition init_pda :: "runtime \<Rightarrow> tx \<Rightarrow> world \<Rightarrow> pubkey list \<Rightarrow> bytes list \<Rightarrow> pubkey \<Rightarrow> failure + u8" where
  "init_pda rt tx w created seeds k =
     (if k \<noteq> fst (rt_find_pda rt seeds) then Inl (Anchor ConstraintSeeds)
      else if \<not> tx_writable tx k then Inl (Anchor ConstraintMut)
      else if in_use w k \<or> k \<in> set created then Inl (Anchor AccountAlreadyInUse)
      else Inr (snd (rt_find_pda rt seeds)))"

text \<open>\<^verbatim>\<open>mut\<close> on an optional account.\<close>

definition opt_writable :: "tx \<Rightarrow> pubkey option \<Rightarrow> bool" where
  "opt_writable tx ko = (case ko of None \<Rightarrow> True | Some k \<Rightarrow> tx_writable tx k)"

text \<open>The seeds of the program's addresses.\<close>

abbreviation agent_seeds :: "pubkey \<Rightarrow> bytes list" where
  "agent_seeds k \<equiv> [SEED_AGENT, k]"
abbreviation cri_seeds :: "pubkey \<Rightarrow> bytes list" where
  "cri_seeds k \<equiv> [SEED_CRI, k]"
abbreviation authority_seeds :: "u64 \<Rightarrow> bytes list" where
  "authority_seeds i \<equiv> [SEED_AUTHORITY, le_bytes i]"
abbreviation bond_seeds :: "u64 \<Rightarrow> bytes list" where
  "bond_seeds i \<equiv> [SEED_AUTHORITY_BOND, le_bytes i]"
abbreviation escrow_seeds :: "u64 \<Rightarrow> bytes list" where
  "escrow_seeds i \<equiv> [SEED_ESCROW, le_bytes i]"
abbreviation escrow_vault_seeds :: "u64 \<Rightarrow> bytes list" where
  "escrow_vault_seeds i \<equiv> [SEED_ESCROW_VAULT, le_bytes i]"
abbreviation org_seeds :: "u64 \<Rightarrow> bytes list" where
  "org_seeds i \<equiv> [SEED_ORG, le_bytes i]"
abbreviation org_treasury_seeds :: "u64 \<Rightarrow> bytes list" where
  "org_treasury_seeds i \<equiv> [SEED_ORG_TREASURY, le_bytes i]"
abbreviation org_member_seeds :: "u64 \<Rightarrow> pubkey \<Rightarrow> bytes list" where
  "org_member_seeds i k \<equiv> [SEED_ORG_MEMBER, le_bytes i, k]"
abbreviation receipt_seeds :: "u64 \<Rightarrow> bytes list" where
  "receipt_seeds i \<equiv> [SEED_RECEIPT, le_bytes i]"

text \<open>A token transfer by CPI: it changes token accounts only.\<close>

definition cpi_transfer ::
    "runtime \<Rightarrow> pubkey \<Rightarrow> transfer_accs \<Rightarrow> bool \<Rightarrow> u64 \<Rightarrow> u8 \<Rightarrow> world \<Rightarrow> failure + world" where
  "cpi_transfer rt prog accs sgnd amount decimals w =
     (bindr (rt_tok_transfer rt prog accs sgnd amount decimals (mints w) (ledger w)) (\<lambda>l. Inr (w\<lparr>ledger := l\<rparr>)))"

text \<open>\<^verbatim>\<open>init, token::mint, token::authority\<close>: a new token account at a PDA.\<close>

definition init_token_pda ::
    "runtime \<Rightarrow> tx \<Rightarrow> pubkey list \<Rightarrow> bytes list \<Rightarrow> pubkey \<Rightarrow> pubkey \<Rightarrow> pubkey \<Rightarrow> pubkey \<Rightarrow> world
       \<Rightarrow> failure + u8 \<times> world" where
  "init_token_pda rt tx created seeds prog k m owner w =
     (bindr (init_pda rt tx w created seeds k) (\<lambda>b.
      bindr (rt_tok_init rt prog k m owner (mints w) (ledger w)) (\<lambda>l.
      Inr (b, w\<lparr>ledger := l\<rparr>))))"

subsection \<open>Rules for the declarations\<close>

lemma load_eq_Inr [ok_simps]: "(load sel w k = Inr x) = (sel w k = Some x)"
  by (simp add: load_def split: option.splits)

lemma load_ext_eq_Inr [ok_simps]: "(load_ext sel w k = Inr x) = (sel w k = Some x)"
  by (simp add: load_ext_def split: option.splits)

lemma load_ext_opt_None_eq_Inr [ok_simps]: "(load_ext_opt sel w None = Inr xo) = (xo = None)"
  by (auto simp: load_ext_opt_def)

lemma load_ext_opt_Some_eq_Inr [ok_simps]:
  "(load_ext_opt sel w (Some k) = Inr xo) = (\<exists>x. sel w k = Some x \<and> xo = Some x)"
  by (auto simp: load_ext_opt_def ok_simps)

lemma load_opt_None_eq_Inr [ok_simps]: "(load_opt sel w None = Inr xo) = (xo = None)"
  by (auto simp: load_opt_def)

lemma load_opt_Some_eq_Inr [ok_simps]:
  "(load_opt sel w (Some k) = Inr xo) = (\<exists>x. sel w k = Some x \<and> xo = Some x)"
  by (auto simp: load_opt_def ok_simps)

lemma load_opt_eq_Some [ok_simps]:
  "(load_opt sel w ko = Inr (Some x)) = (\<exists>k. ko = Some k \<and> sel w k = Some x)"
  by (cases ko) (auto simp: load_opt_None_eq_Inr load_opt_Some_eq_Inr)

lemma load_opt_eq_None [ok_simps]: "(load_opt sel w ko = Inr None) = (ko = None)"
  by (cases ko) (auto simp: load_opt_None_eq_Inr load_opt_Some_eq_Inr)

lemma load_ext_opt_eq_Some [ok_simps]:
  "(load_ext_opt sel w ko = Inr (Some x)) = (\<exists>k. ko = Some k \<and> sel w k = Some x)"
  by (cases ko) (auto simp: load_ext_opt_None_eq_Inr load_ext_opt_Some_eq_Inr)

lemma load_ext_opt_eq_None [ok_simps]: "(load_ext_opt sel w ko = Inr None) = (ko = None)"
  by (cases ko) (auto simp: load_ext_opt_None_eq_Inr load_ext_opt_Some_eq_Inr)

lemma init_pda_eq_Inr [ok_simps]:
  "(init_pda rt tx w created seeds k = Inr b)
     = (rt_find_pda rt seeds = (k, b) \<and> tx_writable tx k \<and> \<not> in_use w k \<and> k \<notin> set created)"
  by (auto simp: init_pda_def prod_eq_iff split: if_splits)

lemma cpi_transfer_eq_Inr [ok_simps]:
  "(cpi_transfer rt prog accs sgnd amount decimals w = Inr w')
     = (\<exists>l. rt_tok_transfer rt prog accs sgnd amount decimals (mints w) (ledger w) = Inr l
          \<and> w' = w\<lparr>ledger := l\<rparr>)"
  by (auto simp: cpi_transfer_def ok_simps)

lemma init_token_pda_eq_Inr [ok_simps]:
  "(init_token_pda rt tx created seeds prog k m owner w = Inr bw)
     = (\<exists>b l. init_pda rt tx w created seeds k = Inr b
          \<and> rt_tok_init rt prog k m owner (mints w) (ledger w) = Inr l
          \<and> bw = (b, w\<lparr>ledger := l\<rparr>))"
  by (auto simp: init_token_pda_def bindr_eq_Inr)

text \<open>
  \<open>handler_defs\<close> collects the definitions of the instructions and their validations;
  \<open>world_simps\<close> computes their effect on the maps of the world.
\<close>

named_theorems handler_defs "the definitions of the instructions"

lemmas world_simps = put_def put_opt_def log_event_def Let_def

named_theorems world_frame "what an update of one map leaves of the others"

lemma put_configs [world_frame]:
  "configs (put configs_update k x w) = (configs w)(k \<mapsto> x)"
  "agents (put configs_update k x w) = agents w"
  "cris (put configs_update k x w) = cris w"
  "authorities (put configs_update k x w) = authorities w"
  "escrows (put configs_update k x w) = escrows w"
  "orgs (put configs_update k x w) = orgs w"
  "members (put configs_update k x w) = members w"
  "receipts (put configs_update k x w) = receipts w"
  "bonds (put configs_update k x w) = bonds w"
  "raws (put configs_update k x w) = raws w"
  "ledger (put configs_update k x w) = ledger w"
  "mints (put configs_update k x w) = mints w"
  "logs (put configs_update k x w) = logs w"
  by (simp_all add: put_def)

lemma put_agents [world_frame]:
  "configs (put agents_update k x w) = configs w"
  "agents (put agents_update k x w) = (agents w)(k \<mapsto> x)"
  "cris (put agents_update k x w) = cris w"
  "authorities (put agents_update k x w) = authorities w"
  "escrows (put agents_update k x w) = escrows w"
  "orgs (put agents_update k x w) = orgs w"
  "members (put agents_update k x w) = members w"
  "receipts (put agents_update k x w) = receipts w"
  "bonds (put agents_update k x w) = bonds w"
  "raws (put agents_update k x w) = raws w"
  "ledger (put agents_update k x w) = ledger w"
  "mints (put agents_update k x w) = mints w"
  "logs (put agents_update k x w) = logs w"
  by (simp_all add: put_def)

lemma put_cris [world_frame]:
  "configs (put cris_update k x w) = configs w"
  "agents (put cris_update k x w) = agents w"
  "cris (put cris_update k x w) = (cris w)(k \<mapsto> x)"
  "authorities (put cris_update k x w) = authorities w"
  "escrows (put cris_update k x w) = escrows w"
  "orgs (put cris_update k x w) = orgs w"
  "members (put cris_update k x w) = members w"
  "receipts (put cris_update k x w) = receipts w"
  "bonds (put cris_update k x w) = bonds w"
  "raws (put cris_update k x w) = raws w"
  "ledger (put cris_update k x w) = ledger w"
  "mints (put cris_update k x w) = mints w"
  "logs (put cris_update k x w) = logs w"
  by (simp_all add: put_def)

lemma put_authorities [world_frame]:
  "configs (put authorities_update k x w) = configs w"
  "agents (put authorities_update k x w) = agents w"
  "cris (put authorities_update k x w) = cris w"
  "authorities (put authorities_update k x w) = (authorities w)(k \<mapsto> x)"
  "escrows (put authorities_update k x w) = escrows w"
  "orgs (put authorities_update k x w) = orgs w"
  "members (put authorities_update k x w) = members w"
  "receipts (put authorities_update k x w) = receipts w"
  "bonds (put authorities_update k x w) = bonds w"
  "raws (put authorities_update k x w) = raws w"
  "ledger (put authorities_update k x w) = ledger w"
  "mints (put authorities_update k x w) = mints w"
  "logs (put authorities_update k x w) = logs w"
  by (simp_all add: put_def)

lemma put_escrows [world_frame]:
  "configs (put escrows_update k x w) = configs w"
  "agents (put escrows_update k x w) = agents w"
  "cris (put escrows_update k x w) = cris w"
  "authorities (put escrows_update k x w) = authorities w"
  "escrows (put escrows_update k x w) = (escrows w)(k \<mapsto> x)"
  "orgs (put escrows_update k x w) = orgs w"
  "members (put escrows_update k x w) = members w"
  "receipts (put escrows_update k x w) = receipts w"
  "bonds (put escrows_update k x w) = bonds w"
  "raws (put escrows_update k x w) = raws w"
  "ledger (put escrows_update k x w) = ledger w"
  "mints (put escrows_update k x w) = mints w"
  "logs (put escrows_update k x w) = logs w"
  by (simp_all add: put_def)

lemma put_orgs [world_frame]:
  "configs (put orgs_update k x w) = configs w"
  "agents (put orgs_update k x w) = agents w"
  "cris (put orgs_update k x w) = cris w"
  "authorities (put orgs_update k x w) = authorities w"
  "escrows (put orgs_update k x w) = escrows w"
  "orgs (put orgs_update k x w) = (orgs w)(k \<mapsto> x)"
  "members (put orgs_update k x w) = members w"
  "receipts (put orgs_update k x w) = receipts w"
  "bonds (put orgs_update k x w) = bonds w"
  "raws (put orgs_update k x w) = raws w"
  "ledger (put orgs_update k x w) = ledger w"
  "mints (put orgs_update k x w) = mints w"
  "logs (put orgs_update k x w) = logs w"
  by (simp_all add: put_def)

lemma put_members [world_frame]:
  "configs (put members_update k x w) = configs w"
  "agents (put members_update k x w) = agents w"
  "cris (put members_update k x w) = cris w"
  "authorities (put members_update k x w) = authorities w"
  "escrows (put members_update k x w) = escrows w"
  "orgs (put members_update k x w) = orgs w"
  "members (put members_update k x w) = (members w)(k \<mapsto> x)"
  "receipts (put members_update k x w) = receipts w"
  "bonds (put members_update k x w) = bonds w"
  "raws (put members_update k x w) = raws w"
  "ledger (put members_update k x w) = ledger w"
  "mints (put members_update k x w) = mints w"
  "logs (put members_update k x w) = logs w"
  by (simp_all add: put_def)

lemma put_receipts [world_frame]:
  "configs (put receipts_update k x w) = configs w"
  "agents (put receipts_update k x w) = agents w"
  "cris (put receipts_update k x w) = cris w"
  "authorities (put receipts_update k x w) = authorities w"
  "escrows (put receipts_update k x w) = escrows w"
  "orgs (put receipts_update k x w) = orgs w"
  "members (put receipts_update k x w) = members w"
  "receipts (put receipts_update k x w) = (receipts w)(k \<mapsto> x)"
  "bonds (put receipts_update k x w) = bonds w"
  "raws (put receipts_update k x w) = raws w"
  "ledger (put receipts_update k x w) = ledger w"
  "mints (put receipts_update k x w) = mints w"
  "logs (put receipts_update k x w) = logs w"
  by (simp_all add: put_def)

lemma put_bonds [world_frame]:
  "configs (put bonds_update k x w) = configs w"
  "agents (put bonds_update k x w) = agents w"
  "cris (put bonds_update k x w) = cris w"
  "authorities (put bonds_update k x w) = authorities w"
  "escrows (put bonds_update k x w) = escrows w"
  "orgs (put bonds_update k x w) = orgs w"
  "members (put bonds_update k x w) = members w"
  "receipts (put bonds_update k x w) = receipts w"
  "bonds (put bonds_update k x w) = (bonds w)(k \<mapsto> x)"
  "raws (put bonds_update k x w) = raws w"
  "ledger (put bonds_update k x w) = ledger w"
  "mints (put bonds_update k x w) = mints w"
  "logs (put bonds_update k x w) = logs w"
  by (simp_all add: put_def)

lemma put_opt_cris [world_frame]:
  "configs (put_opt cris_update k x w) = configs w"
  "agents (put_opt cris_update k x w) = agents w"
  "authorities (put_opt cris_update k x w) = authorities w"
  "escrows (put_opt cris_update k x w) = escrows w"
  "orgs (put_opt cris_update k x w) = orgs w"
  "members (put_opt cris_update k x w) = members w"
  "receipts (put_opt cris_update k x w) = receipts w"
  "bonds (put_opt cris_update k x w) = bonds w"
  "raws (put_opt cris_update k x w) = raws w"
  "ledger (put_opt cris_update k x w) = ledger w"
  "mints (put_opt cris_update k x w) = mints w"
  "logs (put_opt cris_update k x w) = logs w"
  by (simp_all add: put_opt_def put_def split: option.splits)

lemma put_opt_authorities [world_frame]:
  "configs (put_opt authorities_update k x w) = configs w"
  "agents (put_opt authorities_update k x w) = agents w"
  "cris (put_opt authorities_update k x w) = cris w"
  "escrows (put_opt authorities_update k x w) = escrows w"
  "orgs (put_opt authorities_update k x w) = orgs w"
  "members (put_opt authorities_update k x w) = members w"
  "receipts (put_opt authorities_update k x w) = receipts w"
  "bonds (put_opt authorities_update k x w) = bonds w"
  "raws (put_opt authorities_update k x w) = raws w"
  "ledger (put_opt authorities_update k x w) = ledger w"
  "mints (put_opt authorities_update k x w) = mints w"
  "logs (put_opt authorities_update k x w) = logs w"
  by (simp_all add: put_opt_def put_def split: option.splits)

lemma put_opt_bonds [world_frame]:
  "configs (put_opt bonds_update k x w) = configs w"
  "agents (put_opt bonds_update k x w) = agents w"
  "cris (put_opt bonds_update k x w) = cris w"
  "authorities (put_opt bonds_update k x w) = authorities w"
  "escrows (put_opt bonds_update k x w) = escrows w"
  "orgs (put_opt bonds_update k x w) = orgs w"
  "members (put_opt bonds_update k x w) = members w"
  "receipts (put_opt bonds_update k x w) = receipts w"
  "raws (put_opt bonds_update k x w) = raws w"
  "ledger (put_opt bonds_update k x w) = ledger w"
  "mints (put_opt bonds_update k x w) = mints w"
  "logs (put_opt bonds_update k x w) = logs w"
  by (simp_all add: put_opt_def put_def split: option.splits)

lemma log_event_frame [world_frame]:
  "configs (log_event e w) = configs w"
  "agents (log_event e w) = agents w"
  "cris (log_event e w) = cris w"
  "authorities (log_event e w) = authorities w"
  "escrows (log_event e w) = escrows w"
  "orgs (log_event e w) = orgs w"
  "members (log_event e w) = members w"
  "receipts (log_event e w) = receipts w"
  "bonds (log_event e w) = bonds w"
  "raws (log_event e w) = raws w"
  "ledger (log_event e w) = ledger w"
  "mints (log_event e w) = mints w"
  by (simp_all add: log_event_def)

subsection \<open>The interface of a typed account store\<close>

text \<open>
  Every account type is kept in a map of its own.  A handler relies on the following of the
  pair of a map and its update: writing changes that map only at the given key, keeps every
  token account, and makes the address used.
\<close>

locale account_slot =
  fixes sel :: "world \<Rightarrow> pubkey \<rightharpoonup> 'a"
    and upd :: "((pubkey \<rightharpoonup> 'a) \<Rightarrow> pubkey \<rightharpoonup> 'a) \<Rightarrow> world \<Rightarrow> world"
  assumes sel_upd: "sel (upd f w) = f (sel w)"
    and ledger_upd: "ledger (upd f w) = ledger w"
    and sel_in_use: "sel w k \<noteq> None \<Longrightarrow> in_use w k"
    and in_use_put: "in_use (put upd k x w) k' = (k' = k \<or> in_use w k')"
begin

lemma load_put_same: "load sel (put upd k x w) k = Inr x"
  by (simp add: load_eq_Inr put_def sel_upd)

lemma sel_put: "sel (put upd k x w) k' = (if k' = k then Some x else sel w k')"
  by (simp add: put_def sel_upd)

lemma load_put_other: "k' \<noteq> k \<Longrightarrow> (load sel (put upd k x w) k' = Inr y) = (load sel w k' = Inr y)"
  by (simp add: load_eq_Inr sel_put)

lemma init_then_taken:
  "init_pda rt tx (put upd k x w) created seeds k = Inr b \<Longrightarrow> False"
  by (simp add: init_pda_eq_Inr in_use_put)

lemma init_fresh: "init_pda rt tx w created seeds k = Inr b \<Longrightarrow> sel w k = None"
  using sel_in_use [of w k] by (cases "sel w k") (auto simp: init_pda_eq_Inr)

end

interpretation config_slot: account_slot configs configs_update
  by unfold_locales (auto simp: put_def in_use_def owned_def)
interpretation agent_slot: account_slot agents agents_update
  by unfold_locales (auto simp: put_def in_use_def owned_def)
interpretation cri_slot: account_slot cris cris_update
  by unfold_locales (auto simp: put_def in_use_def owned_def)
interpretation authority_slot: account_slot authorities authorities_update
  by unfold_locales (auto simp: put_def in_use_def owned_def)
interpretation escrow_slot: account_slot escrows escrows_update
  by unfold_locales (auto simp: put_def in_use_def owned_def)
interpretation org_slot: account_slot orgs orgs_update
  by unfold_locales (auto simp: put_def in_use_def owned_def)
interpretation member_slot: account_slot members members_update
  by unfold_locales (auto simp: put_def in_use_def owned_def)
interpretation receipt_slot: account_slot receipts receipts_update
  by unfold_locales (auto simp: put_def in_use_def owned_def)
interpretation bond_slot: account_slot bonds bonds_update
  by unfold_locales (auto simp: put_def in_use_def owned_def)

lemmas slot_fresh = config_slot.init_fresh agent_slot.init_fresh cri_slot.init_fresh
  authority_slot.init_fresh escrow_slot.init_fresh org_slot.init_fresh member_slot.init_fresh
  receipt_slot.init_fresh bond_slot.init_fresh

lemma not_in_use_fresh:
  assumes "\<not> in_use w k"
  shows "configs w k = None" "agents w k = None" "cris w k = None" "authorities w k = None"
    "escrows w k = None" "orgs w k = None" "members w k = None" "receipts w k = None"
    "bonds w k = None" "ledger w k = None"
  using assms by (simp_all add: in_use_def owned_def)

end
