(* ===== verification/Aeon_Config.thy ===== *)
theory Aeon_Config
  imports Aeon_Runtime
begin

text \<open>
  Protocol configuration and agent identity: \<^verbatim>\<open>initialize_config.rs\<close>, \<^verbatim>\<open>set_paused.rs\<close> and
  \<^verbatim>\<open>register_agent.rs\<close>.  Each instruction has its accounts as a record, the validation of the
  \<^verbatim>\<open>#[derive(Accounts)]\<close> struct as one definition and the handler as another.
\<close>

subsection \<open>\<^verbatim>\<open>initialize_config\<close>\<close>

record initialize_config_ctx =
  ic_admin :: pubkey
  ic_config :: pubkey

definition initialize_config_accounts ::
    "runtime \<Rightarrow> tx \<Rightarrow> world \<Rightarrow> initialize_config_ctx \<Rightarrow> failure + u8" where
  "initialize_config_accounts rt tx w c =
     (if \<not> tx_signer tx (ic_admin c) then anchor_err AccountNotSigner
      else bindr (init_pda rt tx w [] [SEED_CONFIG] (ic_config c)) (\<lambda>bump.
      if \<not> tx_writable tx (ic_admin c) then anchor_err ConstraintMut
      else Inr bump))"

definition new_config :: "pubkey \<Rightarrow> pubkey \<Rightarrow> u8 \<Rightarrow> config" where
  "new_config admin aeon_mint bump =
     \<lparr>cfg_admin = admin,
      cfg_aeon_mint = aeon_mint,
      cfg_authority_counter = 0,
      cfg_escrow_counter = 0,
      cfg_org_counter = 0,
      cfg_receipt_counter = 0,
      cfg_min_solvency_bps = DEFAULT_MIN_SOLVENCY_BPS,
      cfg_paused = False,
      cfg_bump = bump\<rparr>"

definition initialize_config ::
    "runtime \<Rightarrow> tx \<Rightarrow> world \<Rightarrow> initialize_config_ctx \<Rightarrow> pubkey \<Rightarrow> failure + world" where
  "initialize_config rt tx w c aeon_mint =
     (bindr (initialize_config_accounts rt tx w c) (\<lambda>bump.
      Inr (put configs_update (ic_config c) (new_config (ic_admin c) aeon_mint bump) w)))"

subsection \<open>\<^verbatim>\<open>set_paused\<close>\<close>

record set_paused_ctx =
  sp_admin :: pubkey
  sp_config :: pubkey

definition set_paused_accounts ::
    "runtime \<Rightarrow> tx \<Rightarrow> world \<Rightarrow> set_paused_ctx \<Rightarrow> failure + config" where
  "set_paused_accounts rt tx w c =
     (if \<not> tx_signer tx (sp_admin c) then anchor_err AccountNotSigner
      else bindr (load configs w (sp_config c)) (\<lambda>cfg.
      if \<not> tx_writable tx (sp_admin c) then anchor_err ConstraintMut
      else if \<not> pda_at rt [SEED_CONFIG] (cfg_bump cfg) (sp_config c) then anchor_err ConstraintSeeds
      else if \<not> tx_writable tx (sp_config c) then anchor_err ConstraintMut
      else if cfg_admin cfg \<noteq> sp_admin c then err Unauthorized
      else Inr cfg))"

definition set_paused ::
    "runtime \<Rightarrow> tx \<Rightarrow> world \<Rightarrow> set_paused_ctx \<Rightarrow> bool \<Rightarrow> failure + world" where
  "set_paused rt tx w c paused =
     (bindr (set_paused_accounts rt tx w c) (\<lambda>cfg.
      let ev = (if paused then ConfigPausedEv (sp_admin c) else ConfigUnpausedEv (sp_admin c))
      in Inr (put configs_update (sp_config c) (cfg\<lparr>cfg_paused := paused\<rparr>) (log_event ev w))))"

subsection \<open>\<^verbatim>\<open>register_agent\<close>\<close>

record register_agent_ctx =
  ra_agent :: pubkey
  ra_config :: pubkey
  ra_agent_identity :: pubkey
  ra_cri :: pubkey

definition register_agent_accounts ::
    "runtime \<Rightarrow> tx \<Rightarrow> world \<Rightarrow> register_agent_ctx \<Rightarrow> failure + config \<times> u8 \<times> u8" where
  "register_agent_accounts rt tx w c =
     (if \<not> tx_signer tx (ra_agent c) then anchor_err AccountNotSigner
      else bindr (load configs w (ra_config c)) (\<lambda>cfg.
      bindr (init_pda rt tx w [] (agent_seeds (ra_agent c)) (ra_agent_identity c)) (\<lambda>ag_b.
      bindr (init_pda rt tx w [ra_agent_identity c] (cri_seeds (ra_agent c)) (ra_cri c)) (\<lambda>cri_b.
      if \<not> tx_writable tx (ra_agent c) then anchor_err ConstraintMut
      else if \<not> pda_at rt [SEED_CONFIG] (cfg_bump cfg) (ra_config c) then anchor_err ConstraintSeeds
      else Inr (cfg, ag_b, cri_b)))))"

definition new_identity :: "pubkey \<Rightarrow> u64 \<Rightarrow> u8 \<Rightarrow> agent_identity" where
  "new_identity agent_key slot bump =
     \<lparr>ag_agent = agent_key,
      ag_created_slot = slot,
      ag_active = True,
      ag_metadata_uri_hash = replicate 32 0,
      ag_bump = bump\<rparr>"

definition new_cri :: "pubkey \<Rightarrow> u64 \<Rightarrow> u8 \<Rightarrow> cri" where
  "new_cri agent_key slot bump =
     \<lparr>cri_agent = agent_key,
      cri_successful_settlements = 0,
      cri_failed_settlements = 0,
      cri_successful_commitments = 0,
      cri_failed_commitments = 0,
      cri_volume_settled = 0,
      cri_last_active_slot = slot,
      cri_created_slot = slot,
      cri_last_receipt_hash = replicate 32 0,
      cri_receipt_count = 0,
      cri_bump = bump\<rparr>"

definition register_agent ::
    "runtime \<Rightarrow> tx \<Rightarrow> world \<Rightarrow> register_agent_ctx \<Rightarrow> failure + world" where
  "register_agent rt tx w c =
     (bindr (register_agent_accounts rt tx w c) (\<lambda>(cfg, ag_b, cri_b).
      if cfg_paused cfg then err Paused
      else Inr (put cris_update (ra_cri c) (new_cri (ra_agent c) (tx_slot tx) cri_b)
                 (put agents_update (ra_agent_identity c)
                    (new_identity (ra_agent c) (tx_slot tx) ag_b)
                   (log_event (AgentRegisteredEv (ra_agent c)) w)))))"

subsection \<open>What a successful call establishes\<close>

declare initialize_config_def [handler_defs] initialize_config_accounts_def [handler_defs]
  set_paused_def [handler_defs] set_paused_accounts_def [handler_defs]
  register_agent_def [handler_defs] register_agent_accounts_def [handler_defs]

lemma initialize_config_ok:
  assumes "initialize_config rt tx w c m = Inr w'"
  obtains b where "rt_find_pda rt [SEED_CONFIG] = (ic_config c, b)"
    and "tx_signer tx (ic_admin c)" and "\<not> in_use w (ic_config c)"
    and "w' = put configs_update (ic_config c) (new_config (ic_admin c) m b) w"
  using assms by (auto simp: handler_defs ok_simps)

lemma set_paused_ok:
  assumes "set_paused rt tx w c b = Inr w'"
  obtains cfg where "configs w (sp_config c) = Some cfg" and "cfg_admin cfg = sp_admin c"
    and "tx_signer tx (sp_admin c)"
    and "w' = put configs_update (sp_config c) (cfg\<lparr>cfg_paused := b\<rparr>)
               (log_event (if b then ConfigPausedEv (sp_admin c) else ConfigUnpausedEv (sp_admin c)) w)"
  using assms by (auto simp: handler_defs ok_simps Let_def)

lemma register_agent_ok:
  assumes "register_agent rt tx w c = Inr w'"
  obtains cfg ab cb where "configs w (ra_config c) = Some cfg" and "\<not> cfg_paused cfg"
    and "tx_signer tx (ra_agent c)"
    and "rt_find_pda rt (agent_seeds (ra_agent c)) = (ra_agent_identity c, ab)"
    and "rt_find_pda rt (cri_seeds (ra_agent c)) = (ra_cri c, cb)"
    and "\<not> in_use w (ra_agent_identity c)" and "\<not> in_use w (ra_cri c)"
    and "w' = put cris_update (ra_cri c) (new_cri (ra_agent c) (tx_slot tx) cb)
               (put agents_update (ra_agent_identity c) (new_identity (ra_agent c) (tx_slot tx) ab)
                 (log_event (AgentRegisteredEv (ra_agent c)) w))"
  using assms by (auto simp: handler_defs ok_simps)

end
