(* ===== verification/Aeon_Lifecycle.thy ===== *)
theory Aeon_Lifecycle
  imports Aeon_Runtime
begin

text \<open>
  The abstract specification of spending authorities: the life of one authority as a state
  machine (spend, revoke, expire, all from the active state), the contract of a newly issued
  one, and the two combined into a step relation on the store of authorities.  The
  instructions are shown to refine this relation in the theories that model them; the
  invariants are proved here, once.
\<close>

subsection \<open>The life of one authority\<close>

text \<open>\<open>auth_step slot a a'\<close>: at that slot the authority \<open>a\<close> may become \<open>a'\<close>.\<close>

inductive auth_step :: "u64 \<Rightarrow> authority \<Rightarrow> authority \<Rightarrow> bool" for slot where
  spend: "\<lbrakk> au_status a = AUTH_STATUS_ACTIVE; au_expiry_slot a = 0 \<or> slot \<le> au_expiry_slot a;
     amount \<le> au_max_per_tx a; unat n = unat (au_spent a) + unat amount;
     n \<le> au_max_total a; n \<le> au_budget a;
     s = (if au_budget a \<le> n then AUTH_STATUS_EXHAUSTED else AUTH_STATUS_ACTIVE) \<rbrakk>
   \<Longrightarrow> auth_step slot a (a\<lparr>au_spent := n, au_status := s\<rparr>)"
| revoke: "au_status a = AUTH_STATUS_ACTIVE \<Longrightarrow>
     auth_step slot a (a\<lparr>au_status := AUTH_STATUS_REVOKED\<rparr>)"
| expire: "\<lbrakk> au_status a = AUTH_STATUS_ACTIVE; au_expiry_slot a \<noteq> 0; au_expiry_slot a < slot \<rbrakk>
   \<Longrightarrow> auth_step slot a (a\<lparr>au_status := AUTH_STATUS_EXPIRED\<rparr>)"

inductive_cases auth_step_elim: "auth_step slot a a'"

text \<open>The same rules with the status codes unfolded, as the simplifier leaves them.\<close>

lemmas auth_step_intros = auth_step.intros [simplified]

text \<open>The terms of an authority: everything but what it has spent and its status.\<close>

definition same_terms :: "authority \<Rightarrow> authority \<Rightarrow> bool" where
  "same_terms a a' = (a'\<lparr>au_spent := au_spent a, au_status := au_status a\<rparr> = a)"

lemma same_terms_fields:
  assumes "same_terms a a'"
  shows "au_authority_id a' = au_authority_id a" "au_agent a' = au_agent a"
    "au_parent_id a' = au_parent_id a" "au_depth a' = au_depth a" "au_budget a' = au_budget a"
    "au_max_per_tx a' = au_max_per_tx a" "au_max_total a' = au_max_total a"
    "au_category_count a' = au_category_count a" "au_categories a' = au_categories a"
    "au_blocked_count a' = au_blocked_count a" "au_expiry_slot a' = au_expiry_slot a"
    "au_bond_amount a' = au_bond_amount a" "au_bump a' = au_bump a"
  by (subst assms [unfolded same_terms_def, symmetric]; simp)+

lemma same_terms_refl [simp]: "same_terms a a"
  by (simp add: same_terms_def)

lemma same_terms_trans:
  assumes "same_terms a b" "same_terms b c"
  shows "same_terms a c"
proof -
  have "c\<lparr>au_spent := au_spent a, au_status := au_status a\<rparr>
      = (c\<lparr>au_spent := au_spent b, au_status := au_status b\<rparr>)
          \<lparr>au_spent := au_spent a, au_status := au_status a\<rparr>" by simp
  also have "\<dots> = a" using assms by (simp only: same_terms_def)
  finally show ?thesis by (simp only: same_terms_def)
qed

lemma auth_step_same_terms: "auth_step slot a a' \<Longrightarrow> same_terms a a'"
  by (erule auth_step_elim) (simp_all add: same_terms_def)

lemma auth_step_from_active: "auth_step slot a a' \<Longrightarrow> au_status a = AUTH_STATUS_ACTIVE"
  by (erule auth_step_elim) simp_all

lemma auth_step_spent_mono: "auth_step slot a a' \<Longrightarrow> au_spent a \<le> au_spent a'"
  by (erule auth_step_elim) (simp_all add: word_le_nat_alt)

subsection \<open>Well-formed authorities\<close>

text \<open>
  What holds of every authority account, at its address \<open>k\<close>: the budget chain
  \<open>spent \<le> max_total \<le> budget\<close>, the depth cap, a status of the four, active only while
  budget is left, the arrays within bounds, and the canonical address.
\<close>

definition authority_ok :: "runtime \<Rightarrow> pubkey \<Rightarrow> authority \<Rightarrow> bool" where
  "authority_ok rt k a =
     (rt_find_pda rt (authority_seeds (au_authority_id a)) = (k, au_bump a)
      \<and> au_authority_id a \<noteq> 0
      \<and> au_spent a \<le> au_max_total a \<and> au_max_total a \<le> au_budget a \<and> 0 < au_budget a
      \<and> au_depth a \<le> MAX_AUTHORITY_DEPTH
      \<and> (au_depth a = 0 \<longleftrightarrow> au_parent_id a = 0)
      \<and> au_status a \<le> AUTH_STATUS_EXHAUSTED
      \<and> (au_status a = AUTH_STATUS_ACTIVE \<longrightarrow> au_spent a < au_budget a)
      \<and> (au_status a = AUTH_STATUS_EXHAUSTED \<longrightarrow> au_spent a = au_budget a)
      \<and> length (au_categories a) = MAX_CATEGORIES
      \<and> unat (au_category_count a) \<le> MAX_CATEGORIES
      \<and> au_blocked_count a = 0 \<and> au_require_min_reserve a = 0)"

lemma auth_step_ok: "auth_step slot a a' \<Longrightarrow> authority_ok rt k a \<Longrightarrow> authority_ok rt k a'"
  by (erule auth_step_elim) (auto simp: authority_ok_def)

subsection \<open>Issuing\<close>

text \<open>
  The contract between a child and its parent: one level deeper, same agent, within the
  parent's remaining budget, its limits and its categories.
\<close>

definition attenuates :: "authority \<Rightarrow> authority \<Rightarrow> bool" where
  "attenuates p a =
     (au_parent_id a = au_authority_id p \<and> au_agent a = au_agent p
      \<and> unat (au_depth a) = unat (au_depth p) + 1
      \<and> au_budget a \<le> au_budget p
      \<and> au_max_per_tx a \<le> au_max_per_tx p \<and> au_max_total a \<le> au_max_total p
      \<and> (\<forall>cat. allows a cat \<longrightarrow> allows p cat))"

definition newly_issued :: "runtime \<Rightarrow> (pubkey \<rightharpoonup> authority) \<Rightarrow> pubkey \<Rightarrow> authority \<Rightarrow> bool" where
  "newly_issued rt S k a =
     (authority_ok rt k a \<and> au_spent a = 0 \<and> au_status a = AUTH_STATUS_ACTIVE
      \<and> (au_parent_id a \<noteq> 0 \<longrightarrow>
           (\<exists>kp p. S kp = Some p \<and> au_status p = AUTH_STATUS_ACTIVE \<and> attenuates p a
              \<and> unat (au_budget a) + unat (au_spent p) \<le> unat (au_budget p))))"

subsection \<open>The store of authorities\<close>

inductive auth_store_step ::
    "runtime \<Rightarrow> u64 \<Rightarrow> (pubkey \<rightharpoonup> authority) \<Rightarrow> (pubkey \<rightharpoonup> authority) \<Rightarrow> bool" for rt slot where
  idle: "auth_store_step rt slot S S"
| advance: "\<lbrakk> S k = Some a; auth_step slot a a' \<rbrakk> \<Longrightarrow> auth_store_step rt slot S (S(k \<mapsto> a'))"
| issue: "\<lbrakk> S k = None; newly_issued rt S k a \<rbrakk> \<Longrightarrow> auth_store_step rt slot S (S(k \<mapsto> a))"

inductive_cases auth_store_step_elim: "auth_store_step rt slot S S'"

text \<open>
  The invariant of the store: every authority is well-formed, and every child attenuates
  the authority stored at its parent's address.
\<close>

definition store_ok :: "runtime \<Rightarrow> (pubkey \<rightharpoonup> authority) \<Rightarrow> bool" where
  "store_ok rt S =
     (\<forall>k a. S k = Some a \<longrightarrow>
        authority_ok rt k a
        \<and> (au_parent_id a \<noteq> 0 \<longrightarrow>
             (\<exists>p. S (fst (rt_find_pda rt (authority_seeds (au_parent_id a)))) = Some p
                \<and> attenuates p a)))"

lemma store_ok_empty: "store_ok rt Map.empty"
  by (simp add: store_ok_def)

lemma store_okD:
  assumes "store_ok rt S" "S k = Some a"
  shows "authority_ok rt k a"
    and "au_parent_id a \<noteq> 0 \<Longrightarrow>
      \<exists>p. S (fst (rt_find_pda rt (authority_seeds (au_parent_id a)))) = Some p \<and> attenuates p a"
  using assms by (auto simp: store_ok_def)

lemma allows_same_terms: "same_terms a a' \<Longrightarrow> allows a' cat = allows a cat"
  by (simp add: allows_def same_terms_fields)

lemma attenuates_same_terms:
  "same_terms p p' \<Longrightarrow> same_terms a a' \<Longrightarrow> attenuates p a \<Longrightarrow> attenuates p' a'"
  by (simp add: attenuates_def same_terms_fields allows_same_terms)

text \<open>A store in which accounts keep their terms, or appear, keeps the tree.\<close>

lemma store_step_ok:
  assumes "auth_store_step rt slot S S'" and inv: "store_ok rt S"
  shows "store_ok rt S'"
  using assms(1)
proof (cases rule: auth_store_step.cases)
  case idle
  with inv show ?thesis by simp
next
  case (advance k a a')
  have terms: "same_terms a a'" using advance by (simp add: auth_step_same_terms)
  have parent: "\<exists>p'. S' kp = Some p' \<and> attenuates p' b'"
    if "S kp = Some p" "attenuates p b" "same_terms b b'" for kp p b b'
    using that advance(1,2) terms attenuates_same_terms [OF same_terms_refl]
    by (auto intro: attenuates_same_terms)
  show ?thesis
    unfolding store_ok_def
  proof (intro allI impI)
    fix k' b' assume "S' k' = Some b'"
    then obtain b where b: "S k' = Some b" "same_terms b b'" "b' = b \<or> auth_step slot b b'"
      using advance terms by (cases "k' = k") auto
    then have ok: "authority_ok rt k' b'" using store_okD(1) [OF inv b(1)] auth_step_ok by blast
    show "authority_ok rt k' b' \<and> (au_parent_id b' \<noteq> 0 \<longrightarrow>
      (\<exists>p. S' (fst (rt_find_pda rt (authority_seeds (au_parent_id b')))) = Some p \<and> attenuates p b'))"
      using ok store_okD(2) [OF inv b(1)] b(2) parent by (auto simp: same_terms_fields)
  qed
next
  case (issue k a)
  have kept: "S' kp = Some p" if "S kp = Some p" for kp p
    using that issue by auto
  have new: "\<exists>p. S' (fst (rt_find_pda rt (authority_seeds (au_parent_id a)))) = Some p
      \<and> attenuates p a" if "au_parent_id a \<noteq> 0"
  proof -
    from that issue(3) obtain kp p where p: "S kp = Some p" "attenuates p a"
      unfolding newly_issued_def by blast
    with store_okD(1) [OF inv p(1)]
    have "fst (rt_find_pda rt (authority_seeds (au_parent_id a))) = kp"
      by (simp add: attenuates_def authority_ok_def)
    with p kept show ?thesis by auto
  qed
  show ?thesis
    unfolding store_ok_def
  proof (intro allI impI)
    fix k' b assume b: "S' k' = Some b"
    show "authority_ok rt k' b \<and> (au_parent_id b \<noteq> 0 \<longrightarrow>
      (\<exists>p. S' (fst (rt_find_pda rt (authority_seeds (au_parent_id b)))) = Some p \<and> attenuates p b))"
    proof (cases "k' = k")
      case True
      with b issue have "b = a" by simp
      with True issue(3) new show ?thesis by (simp add: newly_issued_def)
    next
      case False
      with b issue have "S k' = Some b" by simp
      from store_okD [OF inv this] kept show ?thesis by blast
    qed
  qed
qed

text \<open>An authority that is no longer active never changes again.\<close>

lemma store_step_frozen:
  assumes "auth_store_step rt slot S S'" "S k = Some a" "au_status a \<noteq> AUTH_STATUS_ACTIVE"
  shows "S' k = Some a"
  using assms by (auto elim!: auth_store_step_elim dest!: auth_step_from_active split: if_splits)

lemma store_step_keeps_terms:
  assumes "auth_store_step rt slot S S'" "S k = Some a"
  shows "\<exists>a'. S' k = Some a' \<and> same_terms a a' \<and> au_spent a \<le> au_spent a'"
  using assms
  by (auto elim!: auth_store_step_elim
      simp: auth_step_same_terms auth_step_spent_mono)

end
