(* ===== verification/Aeon_Authority.thy ===== *)
theory Aeon_Authority
  imports Aeon_Lifecycle
begin

text \<open>
  Spending authorities: \<^verbatim>\<open>issue_authority.rs\<close>, \<^verbatim>\<open>expire_authority.rs\<close> and
  \<^verbatim>\<open>revoke_authority.rs\<close>, and the proof that each of them is a step of the authority store of
  \<open>Aeon_Lifecycle\<close>.
\<close>

subsection \<open>The category loops of \<^verbatim>\<open>issue_authority\<close>\<close>

text \<open>\<^verbatim>\<open>for (i, cat) in categories.iter().enumerate() { final_categories[i] = *cat; }\<close>\<close>

fun copy_from :: "nat \<Rightarrow> 'a list \<Rightarrow> 'a list \<Rightarrow> failure + 'a list" where
  "copy_from i [] arr = Inr arr"
| "copy_from i (x # xs) arr =
     (if \<not> i < length arr then Inl Panic else copy_from (Suc i) xs (arr[i := x]))"

text \<open>\<^verbatim>\<open>for i in 0..n { dst[i] = src[i]; }\<close>\<close>

function copy_prefix :: "nat \<Rightarrow> nat \<Rightarrow> 'a list \<Rightarrow> 'a list \<Rightarrow> failure + 'a list" where
  "copy_prefix i n src dst =
     (if n \<le> i then Inr dst
      else if \<not> i < length src \<or> \<not> i < length dst then Inl Panic
      else copy_prefix (Suc i) n src (dst[i := src ! i]))"
  by pat_completeness auto
termination
  by (relation "measure (\<lambda>(i, n, src, dst). n - i)") auto

text \<open>
  The nested loop: a requested category found among the parent's is appended to the
  intersection.  The inner loop with its \<^verbatim>\<open>break\<close> is a scan of the parent's categories.
\<close>

function intersect_loop ::
    "nat \<Rightarrow> nat \<Rightarrow> bytes list \<Rightarrow> bytes list \<Rightarrow> nat \<Rightarrow> bytes list \<Rightarrow> u8 \<Rightarrow> failure + bytes list \<times> u8" where
  "intersect_loop i n cats pcats pn acc count =
     (if n \<le> i then Inr (acc, count)
      else if \<not> i < length cats then Inl Panic
      else bindr (scan pcats (cats ! i) 0 pn) (\<lambda>found.
      if found
      then (if \<not> unat count < length acc then Inl Panic
            else intersect_loop (Suc i) n cats pcats pn (acc[unat count := cats ! i])
                   (saturating_add count 1))
      else intersect_loop (Suc i) n cats pcats pn acc count))"
  by pat_completeness auto
termination
  by (relation "measure (\<lambda>(i, n, _). n - i)") auto

declare copy_prefix.simps [simp del] intersect_loop.simps [simp del]

definition blank_categories :: "bytes list" where
  "blank_categories = replicate MAX_CATEGORIES (replicate 16 0)"

definition inherit_categories ::
    "authority \<Rightarrow> bytes list \<Rightarrow> bytes list \<Rightarrow> u8 \<Rightarrow> failure + bytes list \<times> u8" where
  "inherit_categories parent categories final_categories final_count =
     (if 0 < au_category_count parent then
        (bindr (if final_count = 0
               then (bindr (copy_prefix 0 (unat (au_category_count parent)) (au_categories parent)
                            blank_categories) (\<lambda>arr. Inr (arr, au_category_count parent)))
               else intersect_loop 0 (unat final_count) final_categories (au_categories parent)
                      (unat (au_category_count parent)) blank_categories 0) (\<lambda>(intersected, count).
         if 0 < au_category_count parent \<and> count = 0 \<and> 0 < length categories
         then err EmptyCategoryIntersection
         else Inr (intersected, count)))
      else Inr (final_categories, final_count))"

subsection \<open>\<^verbatim>\<open>issue_authority\<close>\<close>

text \<open>
  The terms of the new authority: depth, limits and categories, checked against the parent
  when there is one.
\<close>

definition issue_terms ::
    "authority option \<Rightarrow> pubkey \<Rightarrow> u64 \<Rightarrow> u64 \<Rightarrow> u64 \<Rightarrow> bytes list \<Rightarrow> u64
       \<Rightarrow> failure + u8 \<times> u64 \<times> u64 \<times> bytes list \<times> u8" where
  "issue_terms parent agent_key budget max_per_tx max_total categories parent_id =
     (bindr (copy_from 0 categories blank_categories) (\<lambda>final_categories.
      let final_count = of_nat (length categories) in
      if parent_id \<noteq> 0 then
        (bindr (ok_or parent (Aeon ParentRequired)) (\<lambda>p.
         if au_authority_id p \<noteq> parent_id then err ParentIdMismatch
         else if au_status p \<noteq> AUTH_STATUS_ACTIVE then err ParentNotActive
         else if au_agent p \<noteq> agent_key then err Unauthorized
         else bindr (ok_or (checked_add (au_depth p) 1) (Aeon MaxDelegationDepth)) (\<lambda>next_depth.
         if \<not> next_depth \<le> MAX_AUTHORITY_DEPTH then err MaxDelegationDepth
         else bindr (ok_or (checked_sub (au_budget p) (au_spent p)) (Aeon Overflow)) (\<lambda>parent_remaining.
         if \<not> budget \<le> parent_remaining then err ChildBudgetExceedsParent
         else bindr (inherit_categories p categories final_categories final_count) (\<lambda>(cats, count).
         Inr (next_depth, min max_per_tx (au_max_per_tx p), min max_total (au_max_total p),
              cats, count))))))
      else if parent \<noteq> None then err Unauthorized
      else Inr (0, max_per_tx, max_total, final_categories, final_count)))"

record issue_authority_ctx =
  ia_agent :: pubkey
  ia_config :: pubkey
  ia_agent_identity :: pubkey
  ia_parent_authority :: "pubkey option"
  ia_authority :: pubkey
  ia_bond :: "pubkey option"
  ia_agent_vault :: "pubkey option"
  ia_bond_vault :: "pubkey option"
  ia_aeon_mint :: "pubkey option"
  ia_token_program :: "pubkey option"
  ia_associated_token_program :: "pubkey option"

text \<open>The \<^verbatim>\<open>init\<close> of the optional bond account.\<close>

definition init_bond ::
    "runtime \<Rightarrow> tx \<Rightarrow> world \<Rightarrow> issue_authority_ctx \<Rightarrow> u64 \<Rightarrow> failure + u8 option" where
  "init_bond rt tx w c authority_id =
     (case ia_bond c of None \<Rightarrow> Inr None | Some k \<Rightarrow>
      bindr (init_pda rt tx w [ia_authority c] (bond_seeds authority_id) k) (\<lambda>b. Inr (Some b)))"

text \<open>The constraints of an optional token account: \<^verbatim>\<open>mut\<close>, its owner, its mint.\<close>

definition vault_ok ::
    "tx \<Rightarrow> pubkey option \<Rightarrow> token_account option \<Rightarrow> pubkey \<Rightarrow> pubkey \<Rightarrow> failure + unit" where
  "vault_ok tx ko t owner m =
     (case t of None \<Rightarrow> Inr () | Some t \<Rightarrow>
      if \<not> opt_writable tx ko then anchor_err ConstraintMut
      else if ta_owner t \<noteq> owner then err Unauthorized
      else if ta_mint t \<noteq> m then err InvalidMint
      else Inr ())"

definition issue_authority_accounts ::
    "runtime \<Rightarrow> tx \<Rightarrow> world \<Rightarrow> issue_authority_ctx \<Rightarrow> u64
       \<Rightarrow> failure + config \<times> authority option \<times> u8 \<times> u8 option \<times> mint option" where
  "issue_authority_accounts rt tx w c authority_id =
     (if \<not> tx_signer tx (ia_agent c) then anchor_err AccountNotSigner
      else bindr (load configs w (ia_config c)) (\<lambda>cfg.
      bindr (load agents w (ia_agent_identity c)) (\<lambda>ident.
      bindr (load_opt authorities w (ia_parent_authority c)) (\<lambda>parent.
      bindr (load_ext_opt ledger w (ia_agent_vault c)) (\<lambda>agent_vault.
      bindr (load_ext_opt ledger w (ia_bond_vault c)) (\<lambda>bond_vault.
      bindr (load_ext_opt mints w (ia_aeon_mint c)) (\<lambda>m.
      if \<not> (case ia_token_program c of None \<Rightarrow> True | Some p \<Rightarrow> rt_is_token_program rt p)
      then anchor_err InvalidProgramId
      else if \<not> (case ia_associated_token_program c of None \<Rightarrow> True | Some p \<Rightarrow> rt_is_ata_program rt p)
      then anchor_err InvalidProgramId
      else bindr (init_pda rt tx w [] (authority_seeds authority_id) (ia_authority c)) (\<lambda>au_b.
      bindr (init_bond rt tx w c authority_id) (\<lambda>bond_b.
      if \<not> tx_writable tx (ia_agent c) then anchor_err ConstraintMut
      else if \<not> pda_at rt [SEED_CONFIG] (cfg_bump cfg) (ia_config c) then anchor_err ConstraintSeeds
      else if \<not> tx_writable tx (ia_config c) then anchor_err ConstraintMut
      else if \<not> pda_at rt (agent_seeds (ia_agent c)) (ag_bump ident) (ia_agent_identity c)
      then anchor_err ConstraintSeeds
      else if ag_agent ident \<noteq> ia_agent c then err Unauthorized
      else if \<not> ag_active ident then err AgentNotActive
      else bindr (vault_ok tx (ia_agent_vault c) agent_vault (ia_agent c) (cfg_aeon_mint cfg)) (\<lambda>_.
      bindr (vault_ok tx (ia_bond_vault c) bond_vault
             (case ia_bond c of None \<Rightarrow> replicate 32 0 | Some k \<Rightarrow> k) (cfg_aeon_mint cfg)) (\<lambda>_.
      if \<not> (case ia_aeon_mint c of None \<Rightarrow> True | Some k \<Rightarrow> k = cfg_aeon_mint cfg)
      then err InvalidMint
      else Inr (cfg, parent, au_b, bond_b, m))))))))))))"

text \<open>
  The bond: with a positive amount every bond account must be given, the vault must be the
  bond's associated token account, and the amount moves from the agent; with amount zero no
  bond account may be given.
\<close>

definition issue_bond ::
    "runtime \<Rightarrow> tx \<Rightarrow> issue_authority_ctx \<Rightarrow> u64 \<Rightarrow> u64 \<Rightarrow> u8 option \<Rightarrow> mint option \<Rightarrow> world
       \<Rightarrow> failure + authority_bond option \<times> world" where
  "issue_bond rt tx c authority_id bond_amount bond_b m w =
     (if 0 < bond_amount then
        (bindr (ok_or (ia_bond c) (Aeon InsufficientBond)) (\<lambda>bond_pda.
         bindr (ok_or (ia_agent_vault c) (Aeon InsufficientBond)) (\<lambda>agent_vault.
         bindr (ok_or (ia_bond_vault c) (Aeon InsufficientBond)) (\<lambda>bond_vault.
         bindr (ok_or (ia_aeon_mint c) (Aeon InvalidMint)) (\<lambda>aeon_mint.
         bindr (ok_or m (Aeon InvalidMint)) (\<lambda>mint_data.
         bindr (ok_or (ia_token_program c) (Aeon InvalidMint)) (\<lambda>token_program.
         bindr (ok_or (ia_associated_token_program c) (Aeon InvalidMint)) (\<lambda>ata_program.
         let bond = \<lparr>bd_authority_id = authority_id, bd_agent = ia_agent c,
                     bd_amount = bond_amount, bd_status = BOND_STATUS_ACTIVE,
                     bd_bump = (case bond_b of None \<Rightarrow> 0 | Some b \<Rightarrow> b)\<rparr> in
         if bond_vault \<noteq> rt_ata_address rt bond_pda aeon_mint then err Unauthorized
         else bindr (rt_ata_create rt ata_program bond_vault bond_pda aeon_mint (mints w) (ledger w)) (\<lambda>l.
         bindr (cpi_transfer rt token_program
                \<lparr>tc_from = agent_vault, tc_mint = aeon_mint, tc_to = bond_vault,
                 tc_authority = ia_agent c\<rparr>
                (tx_signer tx (ia_agent c)) bond_amount (mint_decimals mint_data)
                (w\<lparr>ledger := l\<rparr>)) (\<lambda>w1.
         Inr (Some bond, w1)))))))))))
      else if ia_bond c \<noteq> None \<or> ia_agent_vault c \<noteq> None \<or> ia_bond_vault c \<noteq> None
            \<or> ia_aeon_mint c \<noteq> None \<or> ia_token_program c \<noteq> None
            \<or> ia_associated_token_program c \<noteq> None
      then err Unauthorized
      else Inr (None, w))"

definition new_authority ::
    "u64 \<Rightarrow> pubkey \<Rightarrow> u64 \<Rightarrow> u8 \<Rightarrow> u64 \<Rightarrow> u64 \<Rightarrow> u64 \<Rightarrow> u8 \<Rightarrow> bytes list \<Rightarrow> u64 \<Rightarrow> u64 \<Rightarrow> u8 \<Rightarrow> authority" where
  "new_authority authority_id agent_key parent_id depth budget max_per_tx max_total count cats
     expiry_slot bond_amount bump =
     \<lparr>au_authority_id = authority_id,
      au_agent = agent_key,
      au_parent_id = parent_id,
      au_depth = depth,
      au_budget = budget,
      au_spent = 0,
      au_max_per_tx = max_per_tx,
      au_max_total = max_total,
      au_category_count = count,
      au_categories = cats,
      au_blocked_count = 0,
      au_blocked_recipients = replicate MAX_BLOCKED_RECIPIENTS (replicate 32 0),
      au_require_min_reserve = 0,
      au_expiry_slot = expiry_slot,
      au_status = AUTH_STATUS_ACTIVE,
      au_bond_amount = bond_amount,
      au_bump = bump\<rparr>"

definition issue_authority ::
    "runtime \<Rightarrow> tx \<Rightarrow> world \<Rightarrow> issue_authority_ctx \<Rightarrow> u64 \<Rightarrow> u64 \<Rightarrow> u64 \<Rightarrow> u64 \<Rightarrow> bytes list \<Rightarrow> u64
       \<Rightarrow> u64 \<Rightarrow> u64 \<Rightarrow> failure + world" where
  "issue_authority rt tx w c authority_id budget max_per_tx max_total categories parent_id
     expiry_slot bond_amount =
     (bindr (issue_authority_accounts rt tx w c authority_id) (\<lambda>(cfg, parent, au_b, bond_b, m).
      if cfg_paused cfg then err Paused
      else if \<not> 0 < budget then err InvalidBudget
      else if \<not> length categories \<le> MAX_CATEGORIES then err InvalidCategoryCount
      else bindr (ok_or (checked_add (cfg_authority_counter cfg) 1) (Aeon Overflow)) (\<lambda>expected_id.
      if authority_id \<noteq> expected_id then err Unauthorized
      else bindr (issue_terms parent (ia_agent c) budget max_per_tx max_total categories parent_id) (\<lambda>(depth, final_max_per_tx, terms_max_total, cats, count).
      let final_max_total = (if budget < terms_max_total then budget else terms_max_total);
          au = new_authority authority_id (ia_agent c) parent_id depth budget final_max_per_tx
                 final_max_total count cats expiry_slot bond_amount au_b
      in bindr (issue_bond rt tx c authority_id bond_amount bond_b m w) (\<lambda>(bond, w1).
      Inr (put_opt bonds_update (ia_bond c) bond
            (put authorities_update (ia_authority c) au
              (put configs_update (ia_config c) (cfg\<lparr>cfg_authority_counter := authority_id\<rparr>)
                (log_event (AuthorityIssuedEv authority_id (ia_agent c) budget parent_id) w1)))))))))"

subsection \<open>What the category loops compute\<close>

lemma copy_from_eq:
  "i + length xs \<le> length arr \<Longrightarrow>
     copy_from i xs arr = Inr (take i arr @ xs @ drop (i + length xs) arr)"
proof (induction i xs arr rule: copy_from.induct)
  case (1 i arr)
  then show ?case by simp
next
  case (2 i x xs arr)
  then show ?case
    by (simp add: take_Suc_update)
qed

lemma copy_prefix_eq:
  "n \<le> length src \<Longrightarrow> n \<le> length dst \<Longrightarrow> i \<le> n \<Longrightarrow>
     copy_prefix i n src dst = Inr (take i dst @ drop i (take n src) @ drop n dst)"
proof (induction i n src dst rule: copy_prefix.induct)
  case (1 i n src dst)
  show ?case
  proof (cases "n \<le> i")
    case True
    with "1.prems" have "i = n" by simp
    with "1.prems" show ?thesis by (subst copy_prefix.simps) simp
  next
    case False
    with "1.prems" have i: "i < n" "i < length src" "i < length dst" by auto
    then have "copy_prefix i n src dst = copy_prefix (Suc i) n src (dst[i := src ! i])"
      by (subst copy_prefix.simps) simp
    also have "\<dots> = Inr (take (Suc i) (dst[i := src ! i]) @ drop (Suc i) (take n src)
        @ drop n (dst[i := src ! i]))"
      using i "1.prems" by (intro "1.IH") auto
    also have "\<dots> = Inr (take i dst @ drop i (take n src) @ drop n dst)"
      using i by (simp add: take_Suc_update drop_take_Cons)
    finally show ?thesis .
  qed
qed

text \<open>
  The intersection loop keeps the requested categories the parent has, in the requested
  order, and neither panics nor saturates its counter.
\<close>

lemma intersect_loop_eq:
  assumes "n \<le> length cats" "pn \<le> length pcats" "n \<le> length acc" "length acc < 256"
    "i \<le> n" "unat count \<le> i"
  shows "\<exists>acc' count'. intersect_loop i n cats pcats pn acc count = Inr (acc', count')
     \<and> length acc' = length acc \<and> unat count' \<le> n
     \<and> take (unat count') acc'
         = take (unat count) acc @ filter (\<lambda>c. c \<in> set (take pn pcats)) (drop i (take n cats))"
  using assms
proof (induction i n cats pcats pn acc count rule: intersect_loop.induct)
  case (1 i n cats pcats pn acc count)
  show ?case
  proof (cases "n \<le> i")
    case True
    with "1.prems" show ?thesis by (subst intersect_loop.simps) auto
  next
    case False
    with "1.prems" have i: "i < length cats" "i < n" by auto
    have found: "scan pcats (cats ! i) 0 pn = Inr (cats ! i \<in> set (take pn pcats))"
      using "1.prems"(2) by (rule scan_eq_prefix)
    note head = drop_take_Cons [OF i(2,1)]
    show ?thesis
    proof (cases "cats ! i \<in> set (take pn pcats)")
      case True
      have lt: "unat count < length acc" using "1.prems" i by simp
      have sat: "unat (saturating_add count 1) = unat count + 1"
        using lt "1.prems"(4) by (simp add: saturating_add_def unat_word_ariths)
      have "intersect_loop i n cats pcats pn acc count
          = intersect_loop (Suc i) n cats pcats pn (acc[unat count := cats ! i]) (saturating_add count 1)"
        using i True found lt by (subst intersect_loop.simps) simp
      moreover have "\<exists>acc' count'. intersect_loop (Suc i) n cats pcats pn (acc[unat count := cats ! i])
            (saturating_add count 1) = Inr (acc', count')
          \<and> length acc' = length (acc[unat count := cats ! i]) \<and> unat count' \<le> n
          \<and> take (unat count') acc'
              = take (unat (saturating_add count 1)) (acc[unat count := cats ! i])
                @ filter (\<lambda>c. c \<in> set (take pn pcats)) (drop (Suc i) (take n cats))"
        using i "1.prems" lt sat True by (intro "1.IH"(1) [OF _ _ found]) auto
      ultimately show ?thesis
        using True lt by (simp add: sat head take_Suc_update)
    next
      case False
      have "intersect_loop i n cats pcats pn acc count
          = intersect_loop (Suc i) n cats pcats pn acc count"
        using i False found by (subst intersect_loop.simps) simp
      moreover have "\<exists>acc' count'. intersect_loop (Suc i) n cats pcats pn acc count = Inr (acc', count')
          \<and> length acc' = length acc \<and> unat count' \<le> n
          \<and> take (unat count') acc' = take (unat count) acc
                @ filter (\<lambda>c. c \<in> set (take pn pcats)) (drop (Suc i) (take n cats))"
        using i "1.prems" False by (intro "1.IH"(2) [OF _ _ found]) auto
      ultimately show ?thesis
        using False by (simp add: head)
    qed
  qed
qed

text \<open>The categories of a child, as a function of the request and the parent.\<close>

definition child_categories :: "authority \<Rightarrow> bytes list \<Rightarrow> bytes list" where
  "child_categories p categories =
     (let parents = take (unat (au_category_count p)) (au_categories p) in
      if au_category_count p = 0 then categories
      else if categories = [] then parents
      else filter (\<lambda>c. c \<in> set parents) categories)"

lemma copy_categories:
  assumes "length categories \<le> MAX_CATEGORIES" "copy_from 0 categories blank_categories = Inr arr"
  shows "length arr = MAX_CATEGORIES" "take (length categories) arr = categories"
  using assms copy_from_eq [of 0 categories blank_categories]
  by (auto simp: blank_categories_def)

lemma unat_of_length:
  "length categories \<le> MAX_CATEGORIES \<Longrightarrow> unat (of_nat (length categories) :: u8) = length categories"
  by (simp add: unat_of_nat)

lemma inherit_categories_ok:
  assumes len: "length categories \<le> MAX_CATEGORIES"
    and arr: "copy_from 0 categories blank_categories = Inr arr"
    and wf: "length (au_categories p) = MAX_CATEGORIES" "unat (au_category_count p) \<le> MAX_CATEGORIES"
    and res: "inherit_categories p categories arr (of_nat (length categories)) = Inr (cats, count)"
  shows "length cats = MAX_CATEGORIES" "unat count \<le> MAX_CATEGORIES"
    "take (unat count) cats = child_categories p categories"
    "count = 0 \<Longrightarrow> au_category_count p = 0 \<and> categories = []"
proof -
  let ?n = "of_nat (length categories) :: u8"
  note arr' = copy_categories [OF len arr] and n = unat_of_length [OF len]
  have blank: "length blank_categories = MAX_CATEGORIES" by (simp add: blank_categories_def)
  have zero: "?n = 0 \<longleftrightarrow> categories = []" using n by (metis length_0_conv unat_0 unat_eq_zero)
  have "length cats = MAX_CATEGORIES \<and> unat count \<le> MAX_CATEGORIES
    \<and> take (unat count) cats = child_categories p categories
    \<and> (count = 0 \<longrightarrow> au_category_count p = 0 \<and> categories = [])"
  proof (cases "au_category_count p = 0")
    case True
    with res have "cats = arr" "count = ?n" by (auto simp: inherit_categories_def)
    with True arr' n len zero show ?thesis by (simp add: child_categories_def)
  next
    case parent: False
    then have pos: "0 < au_category_count p" by (simp add: word_neq_0_conv)
    show ?thesis
    proof (cases "categories = []")
      case True
      have "cats = take (unat (au_category_count p)) (au_categories p)
            @ drop (unat (au_category_count p)) blank_categories" "count = au_category_count p"
        using res True pos wf blank copy_prefix_eq [of "unat (au_category_count p)" "au_categories p"
            blank_categories 0]
        by (auto simp: inherit_categories_def ok_simps)
      with True parent wf blank show ?thesis by (simp add: child_categories_def)
    next
      case False
      with zero res pos have
        "intersect_loop 0 (unat ?n) arr (au_categories p) (unat (au_category_count p))
           blank_categories 0 = Inr (cats, count)" "count \<noteq> 0"
        by (auto simp: inherit_categories_def ok_simps split: if_splits)
      with False parent n arr' wf blank len
        intersect_loop_eq [of "length categories" arr "unat (au_category_count p)" "au_categories p"
          blank_categories 0 0]
      show ?thesis by (auto simp: child_categories_def Let_def)
    qed
  qed
  then show "length cats = MAX_CATEGORIES" "unat count \<le> MAX_CATEGORIES"
    "take (unat count) cats = child_categories p categories"
    "count = 0 \<Longrightarrow> au_category_count p = 0 \<and> categories = []" by simp_all
qed

text \<open>A child never allows a category its parent does not.\<close>

lemma child_categories_allowed:
  assumes "take (unat count) cats = child_categories p categories"
    and "count = 0 \<Longrightarrow> au_category_count p = 0 \<and> categories = []"
    and "au_category_count a = count" "au_categories a = cats" "allows a cat"
  shows "allows p cat"
  using assms by (auto simp: allows_def child_categories_def Let_def split: if_splits)

subsection \<open>What a successful issue establishes\<close>

lemma issue_terms_ok:
  assumes "issue_terms parent ag budget mpt mt categories pid = Inr (depth, fmpt, fmt, cats, count)"
    and len: "length categories \<le> MAX_CATEGORIES"
  shows "pid = 0 \<Longrightarrow> parent = None \<and> depth = 0 \<and> fmpt = mpt \<and> fmt = mt
            \<and> length cats = MAX_CATEGORIES \<and> unat count = length categories
            \<and> take (unat count) cats = categories"
    and "pid \<noteq> 0 \<Longrightarrow> \<exists>p arr. parent = Some p \<and> au_authority_id p = pid
            \<and> au_status p = AUTH_STATUS_ACTIVE \<and> au_agent p = ag
            \<and> unat depth = unat (au_depth p) + 1 \<and> depth \<le> MAX_AUTHORITY_DEPTH
            \<and> unat budget + unat (au_spent p) \<le> unat (au_budget p)
            \<and> fmpt = min mpt (au_max_per_tx p) \<and> fmt = min mt (au_max_total p)
            \<and> copy_from 0 categories blank_categories = Inr arr
            \<and> inherit_categories p categories arr (of_nat (length categories)) = Inr (cats, count)"
proof -
  assume "pid = 0"
  with assms show "parent = None \<and> depth = 0 \<and> fmpt = mpt \<and> fmt = mt
            \<and> length cats = MAX_CATEGORIES \<and> unat count = length categories
            \<and> take (unat count) cats = categories"
    using copy_categories [OF len] unat_of_length [OF len]
    by (auto simp: issue_terms_def ok_simps)
next
  assume "pid \<noteq> 0"
  with assms(1) show "\<exists>p arr. parent = Some p \<and> au_authority_id p = pid
            \<and> au_status p = AUTH_STATUS_ACTIVE \<and> au_agent p = ag
            \<and> unat depth = unat (au_depth p) + 1 \<and> depth \<le> MAX_AUTHORITY_DEPTH
            \<and> unat budget + unat (au_spent p) \<le> unat (au_budget p)
            \<and> fmpt = min mpt (au_max_per_tx p) \<and> fmt = min mt (au_max_total p)
            \<and> copy_from 0 categories blank_categories = Inr arr
            \<and> inherit_categories p categories arr (of_nat (length categories)) = Inr (cats, count)"
    by (auto simp: issue_terms_def ok_simps word_le_nat_alt)
qed

declare issue_authority_def [handler_defs] issue_authority_accounts_def [handler_defs]

lemma issue_bond_world:
  "issue_bond rt tx c i amt bond_b m w = Inr (bond, w1) \<Longrightarrow> \<exists>l. w1 = w\<lparr>ledger := l\<rparr>"
  by (auto simp: issue_bond_def ok_simps Let_def intro: exI [of _ "ledger w"] split: if_splits)

lemma issue_bond_Some:
  "issue_bond rt tx c i amt bond_b m w = Inr (Some bond, w1) \<Longrightarrow>
     0 < amt \<and> ia_bond c \<noteq> None \<and> bd_authority_id bond = i \<and> bd_agent bond = ia_agent c
     \<and> bd_amount bond = amt \<and> bd_status bond = BOND_STATUS_ACTIVE"
  by (auto simp: issue_bond_def ok_simps Let_def split: if_splits)

lemma issue_bond_None:
  "issue_bond rt tx c i amt bond_b m w = Inr (None, w1) \<Longrightarrow> amt = 0 \<and> ia_bond c = None \<and> w1 = w"
  by (auto simp: issue_bond_def ok_simps Let_def word_gt_0 split: if_splits)

text \<open>The state an issue builds, given what its stages returned.\<close>

definition issue_effect ::
    "issue_authority_ctx \<Rightarrow> config \<Rightarrow> authority \<Rightarrow> authority_bond option \<Rightarrow> world \<Rightarrow> world" where
  "issue_effect c cfg au bond w1 =
     put_opt bonds_update (ia_bond c) bond
       (put authorities_update (ia_authority c) au
         (put configs_update (ia_config c) (cfg\<lparr>cfg_authority_counter := au_authority_id au\<rparr>)
           (log_event (AuthorityIssuedEv (au_authority_id au) (ia_agent c) (au_budget au)
              (au_parent_id au)) w1)))"

lemma issue_authority_ok:
  assumes "issue_authority rt tx w c i budget mpt mt categories pid expiry amt = Inr w'"
  obtains cfg parent b bond_b m depth fmpt fmt cats count bond w1 where
    "configs w (ia_config c) = Some cfg" "\<not> cfg_paused cfg" "0 < budget"
    "tx_signer tx (ia_agent c)"
    "length categories \<le> MAX_CATEGORIES"
    "unat i = unat (cfg_authority_counter cfg) + 1"
    "rt_find_pda rt (authority_seeds i) = (ia_authority c, b)"
    "\<not> in_use w (ia_authority c)"
    "load_opt authorities w (ia_parent_authority c) = Inr parent"
    "issue_terms parent (ia_agent c) budget mpt mt categories pid
       = Inr (depth, fmpt, fmt, cats, count)"
    "init_bond rt tx w c i = Inr bond_b"
    "issue_bond rt tx c i amt bond_b m w = Inr (bond, w1)"
    "w' = issue_effect c cfg (new_authority i (ia_agent c) pid depth budget fmpt
            (if budget < fmt then budget else fmt) count cats expiry amt b) bond w1"
  using assms
    by (auto simp: handler_defs bindr_eq_Inr ok_or_eq_Inr if_Inl_eq_Inr load_eq_Inr case_prod_eq_Inr
        init_pda_eq_Inr checked_add_eq_Some Let_def
        intro!: that simp: issue_effect_def new_authority_def)

lemma issue_effect_sel [simp]:
  "authorities (issue_effect c cfg au bond w1) = (authorities w1)(ia_authority c \<mapsto> au)"
  "configs (issue_effect c cfg au bond w1)
     = (configs w1)(ia_config c \<mapsto> cfg\<lparr>cfg_authority_counter := au_authority_id au\<rparr>)"
  "agents (issue_effect c cfg au bond w1) = agents w1"
  "cris (issue_effect c cfg au bond w1) = cris w1"
  "escrows (issue_effect c cfg au bond w1) = escrows w1"
  "orgs (issue_effect c cfg au bond w1) = orgs w1"
  "members (issue_effect c cfg au bond w1) = members w1"
  "receipts (issue_effect c cfg au bond w1) = receipts w1"
  "ledger (issue_effect c cfg au bond w1) = ledger w1"
  by (auto simp: issue_effect_def world_simps split: option.splits)

text \<open>A new authority is well-formed and attenuates its parent.\<close>

lemma new_authority_issued:
  assumes ok: "store_ok rt S"
    and pda: "rt_find_pda rt (authority_seeds i) = (k, b)" and i: "unat i = n + 1"
    and len: "length categories \<le> MAX_CATEGORIES" and budget: "0 < budget"
    and parent: "\<And>p. parent = Some p \<Longrightarrow> \<exists>kp. S kp = Some p"
    and terms: "issue_terms parent ag budget mpt mt categories pid = Inr (depth, fmpt, fmt, cats, count)"
  shows "newly_issued rt S k (new_authority i ag pid depth budget fmpt
           (if budget < fmt then budget else fmt) count cats expiry amt b)"
    (is "newly_issued rt S k ?a")
proof (cases "pid = 0")
  case True
  from issue_terms_ok(1) [OF terms len True] True len pda i budget show ?thesis
    by (auto simp: newly_issued_def authority_ok_def new_authority_def word_gt_0)
next
  case False
  from issue_terms_ok(2) [OF terms len False] obtain p arr where p: "parent = Some p"
    "au_authority_id p = pid" "au_status p = AUTH_STATUS_ACTIVE" "au_agent p = ag"
    "unat depth = unat (au_depth p) + 1" "depth \<le> MAX_AUTHORITY_DEPTH"
    "unat budget + unat (au_spent p) \<le> unat (au_budget p)"
    "fmpt = min mpt (au_max_per_tx p)" "fmt = min mt (au_max_total p)"
    and arr: "copy_from 0 categories blank_categories = Inr arr"
    and inh: "inherit_categories p categories arr (of_nat (length categories)) = Inr (cats, count)"
    by auto
  obtain kp where kp: "S kp = Some p" using parent [OF p(1)] ..
  from store_okD(1) [OF ok kp] have wf: "length (au_categories p) = MAX_CATEGORIES"
    "unat (au_category_count p) \<le> MAX_CATEGORIES" by (simp_all add: authority_ok_def)
  note cats = inherit_categories_ok [OF len arr wf inh]
  have "attenuates p ?a"
    unfolding attenuates_def
  proof (intro conjI allI impI)
    show "allows p cat" if "allows ?a cat" for cat
      by (rule child_categories_allowed [OF cats(3,4) _ _ that]) (simp_all add: new_authority_def)
  qed (use p in \<open>auto simp: new_authority_def word_le_nat_alt word_less_nat_alt min_def\<close>)
  moreover have "authority_ok rt k ?a"
    using p(5,6) False pda i budget cats(1,2)
    by (auto simp: authority_ok_def new_authority_def word_gt_0 unat_eq_zero)
  moreover have "au_spent ?a = 0" "au_status ?a = AUTH_STATUS_ACTIVE" "au_budget ?a = budget"
    by (simp_all add: new_authority_def)
  ultimately show ?thesis
    unfolding newly_issued_def using kp p(3,7)
    by (intro conjI impI exI [of _ kp] exI [of _ p]) simp_all
qed

lemma issue_authority_store_step:
  assumes res: "issue_authority rt tx w c i budget mpt mt categories pid expiry amt = Inr w'"
    and ok: "store_ok rt (authorities w)"
  shows "auth_store_step rt (tx_slot tx) (authorities w) (authorities w')"
  using res
proof (rule issue_authority_ok)
  fix cfg parent b bond_b m depth fmpt fmt cats count bond w1
  assume h: "unat i = unat (cfg_authority_counter cfg) + 1" "length categories \<le> MAX_CATEGORIES"
    "rt_find_pda rt (authority_seeds i) = (ia_authority c, b)" "0 < budget"
    "\<not> in_use w (ia_authority c)"
    "load_opt authorities w (ia_parent_authority c) = Inr parent"
    "issue_terms parent (ia_agent c) budget mpt mt categories pid = Inr (depth, fmpt, fmt, cats, count)"
    "issue_bond rt tx c i amt bond_b m w = Inr (bond, w1)"
    "w' = issue_effect c cfg (new_authority i (ia_agent c) pid depth budget fmpt
            (if budget < fmt then budget else fmt) count cats expiry amt b) bond w1"
  have parent: "\<exists>kp. authorities w kp = Some p" if "parent = Some p" for p
    using h(6) that by (auto simp: ok_simps)
  from issue_bond_world [OF h(8)] have "authorities w1 = authorities w" by auto
  with h(9) show ?thesis
    using new_authority_issued [OF ok h(3,1,2,4) parent h(7)] not_in_use_fresh(4) [OF h(5)]
    by (auto intro: auth_store_step.issue)
qed

subsection \<open>\<^verbatim>\<open>expire_authority\<close>\<close>

record expire_authority_ctx =
  ex_agent :: pubkey
  ex_authority :: pubkey

definition expire_authority_accounts ::
    "runtime \<Rightarrow> tx \<Rightarrow> world \<Rightarrow> expire_authority_ctx \<Rightarrow> u64 \<Rightarrow> failure + authority" where
  "expire_authority_accounts rt tx w c authority_id =
     (if \<not> tx_signer tx (ex_agent c) then anchor_err AccountNotSigner
      else bindr (load authorities w (ex_authority c)) (\<lambda>au.
      if \<not> pda_at rt (authority_seeds authority_id) (au_bump au) (ex_authority c)
      then anchor_err ConstraintSeeds
      else if \<not> tx_writable tx (ex_authority c) then anchor_err ConstraintMut
      else if au_authority_id au \<noteq> authority_id then err ParentIdMismatch
      else if au_agent au \<noteq> ex_agent c then err Unauthorized
      else if au_status au \<noteq> AUTH_STATUS_ACTIVE then err AuthorityNotActive
      else Inr au))"

definition expire_authority ::
    "runtime \<Rightarrow> tx \<Rightarrow> world \<Rightarrow> expire_authority_ctx \<Rightarrow> u64 \<Rightarrow> failure + world" where
  "expire_authority rt tx w c authority_id =
     bindr (expire_authority_accounts rt tx w c authority_id) (\<lambda>au.
     if au_expiry_slot au = 0 then err AuthorityNotExpired
     else if \<not> au_expiry_slot au < tx_slot tx then err AuthorityNotExpired
     else Inr (put authorities_update (ex_authority c) (au\<lparr>au_status := AUTH_STATUS_EXPIRED\<rparr>)
            (log_event (AuthorityExpiredEv authority_id (ex_agent c) (au_expiry_slot au)) w)))"

declare expire_authority_def [handler_defs] expire_authority_accounts_def [handler_defs]

lemma expire_authority_ok:
  assumes "expire_authority rt tx w c i = Inr w'"
  obtains au where "authorities w (ex_authority c) = Some au" "tx_signer tx (ex_agent c)"
    "au_agent au = ex_agent c" "au_authority_id au = i" "au_status au = AUTH_STATUS_ACTIVE"
    "au_expiry_slot au \<noteq> 0" "au_expiry_slot au < tx_slot tx"
    "w' = put authorities_update (ex_authority c) (au\<lparr>au_status := AUTH_STATUS_EXPIRED\<rparr>)
            (log_event (AuthorityExpiredEv i (ex_agent c) (au_expiry_slot au)) w)"
  using assms by (auto simp: handler_defs ok_simps)

lemma expire_authority_store_step:
  assumes "expire_authority rt tx w c i = Inr w'"
  shows "auth_store_step rt (tx_slot tx) (authorities w) (authorities w')"
  using assms
  by (rule expire_authority_ok) (auto simp: world_simps intro!: auth_store_step.advance auth_step_intros)

subsection \<open>\<^verbatim>\<open>revoke_authority\<close>\<close>

record revoke_authority_ctx =
  rv_agent :: pubkey
  rv_config :: pubkey
  rv_authority :: pubkey
  rv_remaining :: "pubkey list"

definition revoke_authority_accounts ::
    "runtime \<Rightarrow> tx \<Rightarrow> world \<Rightarrow> revoke_authority_ctx \<Rightarrow> u64 \<Rightarrow> failure + authority" where
  "revoke_authority_accounts rt tx w c authority_id =
     (if \<not> tx_signer tx (rv_agent c) then anchor_err AccountNotSigner
      else bindr (load configs w (rv_config c)) (\<lambda>cfg.
      bindr (load authorities w (rv_authority c)) (\<lambda>au.
      if \<not> pda_at rt [SEED_CONFIG] (cfg_bump cfg) (rv_config c) then anchor_err ConstraintSeeds
      else if \<not> pda_at rt (authority_seeds authority_id) (au_bump au) (rv_authority c)
      then anchor_err ConstraintSeeds
      else if \<not> tx_writable tx (rv_authority c) then anchor_err ConstraintMut
      else if au_authority_id au \<noteq> authority_id then err Unauthorized
      else if au_agent au \<noteq> rv_agent c then err AuthorityAgentMismatch
      else Inr au)))"

text \<open>
  \<^verbatim>\<open>let mut cursor = Cursor::new(&mut data[8..]); child.try_serialize(&mut cursor)?\<close>: the bytes
  that \<^verbatim>\<open>try_serialize\<close> writes must fit into the account's data from offset 8 on, which they
  overwrite.  The account then holds whatever those bytes deserialise to.  The data of an
  authority account is what \<^verbatim>\<open>try_serialize\<close> wrote into it from offset 0.
\<close>

definition write_child :: "runtime \<Rightarrow> pubkey \<Rightarrow> authority \<Rightarrow> authority \<Rightarrow> world \<Rightarrow> failure + world" where
  "write_child rt k child child' w =
     (let data = rt_ser_authority rt child; out = rt_ser_authority rt child' in
      if length data < 8 then Inl Panic
      else if length (drop 8 data) < length out then anchor_err AccountDidNotSerialize
      else let data' = take 8 data @ out @ drop (8 + length out) data in
        case rt_de_authority rt data' of
          Some a \<Rightarrow> Inr (put authorities_update k a w)
        | None \<Rightarrow> Inr (put raws_update k data' (w\<lparr>authorities := (authorities w)(k := None)\<rparr>)))"

definition revoke_child ::
    "runtime \<Rightarrow> tx \<Rightarrow> u64 \<Rightarrow> pubkey \<Rightarrow> pubkey \<Rightarrow> world \<Rightarrow> failure + world" where
  "revoke_child rt tx authority_id agent_key k w =
     (if \<not> tx_writable tx k then err InvalidCascadeChild
      else if \<not> owned w k then err InvalidCascadeChild
      else bindr (ok_or (authorities w k) (Aeon InvalidCascadeChild)) (\<lambda>child.
      if au_parent_id child \<noteq> authority_id then err InvalidCascadeChild
      else if au_agent child \<noteq> agent_key then err InvalidCascadeChild
      else write_child rt k child
             (if au_status child = AUTH_STATUS_ACTIVE
              then child\<lparr>au_status := AUTH_STATUS_REVOKED\<rparr> else child) w))"

fun revoke_children ::
    "runtime \<Rightarrow> tx \<Rightarrow> u64 \<Rightarrow> pubkey \<Rightarrow> pubkey list \<Rightarrow> world \<Rightarrow> failure + world" where
  "revoke_children rt tx authority_id agent_key [] w = Inr w"
| "revoke_children rt tx authority_id agent_key (k # ks) w =
     bindr (revoke_child rt tx authority_id agent_key k w) (\<lambda>w1.
     revoke_children rt tx authority_id agent_key ks w1)"

definition revoke_authority ::
    "runtime \<Rightarrow> tx \<Rightarrow> world \<Rightarrow> revoke_authority_ctx \<Rightarrow> u64 \<Rightarrow> failure + world" where
  "revoke_authority rt tx w c authority_id =
     bindr (revoke_authority_accounts rt tx w c authority_id) (\<lambda>au.
     if au_status au \<noteq> AUTH_STATUS_ACTIVE then err AuthorityAlreadyRevoked
     else bindr (revoke_children rt tx authority_id (rv_agent c) (rv_remaining c) w) (\<lambda>w1.
     Inr (put authorities_update (rv_authority c) (au\<lparr>au_status := AUTH_STATUS_REVOKED\<rparr>)
           (log_event (AuthorityRevokedEv authority_id (rv_remaining c \<noteq> [])) w1))))"

declare revoke_authority_def [handler_defs] revoke_authority_accounts_def [handler_defs]

text \<open>
  Anchor's documented behaviour: \<^verbatim>\<open>AccountSerialize::try_serialize\<close> writes the eight-byte
  discriminator of the account type and then the Borsh encoding of its fields.
\<close>

definition anchor_serialization :: "runtime \<Rightarrow> bool" where
  "anchor_serialization rt =
     (\<exists>disc. length disc = 8 \<and> (\<forall>a. rt_ser_authority rt a = disc @ borsh_authority a))"

text \<open>
  Written from offset 8 on, discriminator and fields together are eight bytes too long for
  the account: the write fails for every child.
\<close>

lemma write_child_fails:
  assumes "anchor_serialization rt"
  shows "write_child rt k child child w = anchor_err AccountDidNotSerialize"
    and "write_child rt k child (child\<lparr>au_status := s\<rparr>) w = anchor_err AccountDidNotSerialize"
  using assms by (auto simp: write_child_def anchor_serialization_def Let_def)

lemma revoke_child_fails:
  assumes "anchor_serialization rt"
  shows "revoke_child rt tx i ag k w \<noteq> Inr w1"
  by (auto simp: revoke_child_def ok_simps write_child_fails [OF assms])

lemma revoke_authority_ok:
  assumes "anchor_serialization rt" "revoke_authority rt tx w c i = Inr w'"
  obtains au where "rv_remaining c = []" "authorities w (rv_authority c) = Some au"
    "tx_signer tx (rv_agent c)" "au_agent au = rv_agent c" "au_authority_id au = i"
    "au_status au = AUTH_STATUS_ACTIVE"
    "w' = put authorities_update (rv_authority c) (au\<lparr>au_status := AUTH_STATUS_REVOKED\<rparr>)
            (log_event (AuthorityRevokedEv i False) w)"
  using assms
  by (cases "rv_remaining c") (auto simp: handler_defs ok_simps revoke_child_fails)

lemma revoke_authority_store_step:
  assumes "anchor_serialization rt" "revoke_authority rt tx w c i = Inr w'"
  shows "auth_store_step rt (tx_slot tx) (authorities w) (authorities w')"
  using assms
  by (rule revoke_authority_ok) (auto simp: world_simps intro!: auth_store_step.advance auth_step_intros)

end
