(* ===== verification/Aeon_Spend.thy ===== *)
theory Aeon_Spend
  imports Aeon_Lifecycle
begin

text \<open>
  What the three spending instructions (\<^verbatim>\<open>pay\<close>, \<^verbatim>\<open>atomic_split\<close>, \<^verbatim>\<open>create_escrow\<close>) share.
  Each has its own copy of the authority gate; the locale \<open>spend_gate\<close> states what a gate
  promises, and the commit of the staged spend is proved against it once.  The interface to
  the token programs is stated here too, as the documented behaviour of
  \<^verbatim>\<open>transfer_checked\<close>.
\<close>

subsection \<open>The spending policy\<close>

text \<open>What the policy of an authority demands of one spend, whichever instruction makes it.\<close>

definition spend_allowed ::
    "authority \<Rightarrow> pubkey \<Rightarrow> u64 \<Rightarrow> bytes \<Rightarrow> u64 \<Rightarrow> u64 \<Rightarrow> bool" where
  "spend_allowed a payer slot category authority_id amount =
     (au_authority_id a = authority_id \<and> au_agent a = payer
      \<and> (au_expiry_slot a = 0 \<or> slot \<le> au_expiry_slot a)
      \<and> au_status a = AUTH_STATUS_ACTIVE
      \<and> amount \<le> au_max_per_tx a
      \<and> unat (au_spent a) + unat amount \<le> unat (au_max_total a)
      \<and> unat (au_spent a) + unat amount \<le> unat (au_budget a)
      \<and> allows a category)"

text \<open>
  The staged spend written after the transfer: \<^verbatim>\<open>authority.spent = new_spent; if exhaust
  { authority.status = AUTH_STATUS_EXHAUSTED; }\<close>.
\<close>

definition commit_spent ::
    "authority option \<Rightarrow> (u64 \<times> bool) option \<Rightarrow> failure + authority option" where
  "commit_spent au commit =
     (case commit of
        None \<Rightarrow> Inr au
      | Some (new_spent, exhaust) \<Rightarrow>
          bindr (ok_or au (Aeon AuthorityRequired)) (\<lambda>a.
          let a1 = a\<lparr>au_spent := new_spent\<rparr> in
          Inr (Some (if exhaust then a1\<lparr>au_status := AUTH_STATUS_EXHAUSTED\<rparr> else a1))))"

text \<open>
  A gate answers for an authority id and an amount; \<open>'x\<close> is whatever else it reads.  It lets
  a spend without authority through only for id zero, and one with authority only within
  the policy, staging the new total and whether the budget is used up.
\<close>

locale spend_gate =
  fixes gate :: "'x \<Rightarrow> authority option \<Rightarrow> u64 \<Rightarrow> u64 \<Rightarrow> failure + (u64 \<times> bool) option"
    and payer_of :: "'x \<Rightarrow> pubkey" and slot_of :: "'x \<Rightarrow> u64" and category_of :: "'x \<Rightarrow> bytes"
  assumes gate_None: "gate x au aid amount = Inr None \<Longrightarrow> aid = 0 \<and> au = None"
    and gate_Some: "gate x au aid amount = Inr (Some (n, exhaust)) \<Longrightarrow>
      \<exists>a. au = Some a \<and> aid \<noteq> 0
        \<and> spend_allowed a (payer_of x) (slot_of x) (category_of x) aid amount
        \<and> unat n = unat (au_spent a) + unat amount \<and> exhaust = (au_budget a \<le> n)"
begin

text \<open>A gated and committed spend is the \<open>spend\<close> step of the authority's life.\<close>

lemma gated_spend:
  assumes "gate x au aid amount = Inr commit" "commit_spent au commit = Inr au'"
  obtains (free) "aid = 0" "au = None" "au' = None"
  | (scoped) a n where "au = Some a" "aid \<noteq> 0"
      "spend_allowed a (payer_of x) (slot_of x) (category_of x) aid amount"
      "unat n = unat (au_spent a) + unat amount"
      "au' = Some (a\<lparr>au_spent := n, au_status :=
          (if au_budget a \<le> n then AUTH_STATUS_EXHAUSTED else AUTH_STATUS_ACTIVE)\<rparr>)"
proof (cases commit)
  case None
  with assms gate_None free show thesis by (auto simp: commit_spent_def)
next
  case (Some c)
  obtain n exhaust where c: "c = (n, exhaust)" by fastforce
  with Some assms(1) gate_Some obtain a where a: "au = Some a" "aid \<noteq> 0"
    "spend_allowed a (payer_of x) (slot_of x) (category_of x) aid amount"
    "unat n = unat (au_spent a) + unat amount" "exhaust = (au_budget a \<le> n)"
    by blast
  have "au' = Some (a\<lparr>au_spent := n, au_status :=
      (if au_budget a \<le> n then AUTH_STATUS_EXHAUSTED else AUTH_STATUS_ACTIVE)\<rparr>)"
    using assms(2) Some c a by (auto simp: commit_spent_def spend_allowed_def)
  with a scoped show thesis by blast
qed

lemma gated_spend_step:
  assumes "gate x (Some a) aid amount = Inr commit" "commit_spent (Some a) commit = Inr au'"
  obtains a' where "au' = Some a'" "auth_step (slot_of x) a a'"
    "unat (au_spent a') = unat (au_spent a) + unat amount"
    "spend_allowed a (payer_of x) (slot_of x) (category_of x) aid amount"
  using assms
proof (cases rule: gated_spend)
  case free
  then show thesis by simp
next
  case (scoped b n)
  then have "auth_step (slot_of x) b (b\<lparr>au_spent := n, au_status :=
      (if au_budget b \<le> n then AUTH_STATUS_EXHAUSTED else AUTH_STATUS_ACTIVE)\<rparr>)"
    by (intro auth_step.spend) (auto simp: spend_allowed_def word_le_nat_alt)
  with scoped that show thesis by auto
qed

text \<open>Stored back at the authority's address, it is a step of the store of authorities.\<close>

lemma gated_store_step:
  assumes "gate x au aid amount = Inr commit" "commit_spent au commit = Inr au'"
    and "\<And>a. au = Some a \<Longrightarrow> \<exists>k. ko = Some k \<and> authorities w k = Some a"
    and "authorities w1 = authorities w"
  shows "auth_store_step rt (slot_of x) (authorities w)
           (authorities (put_opt authorities_update ko au' w1))"
  using assms(1,2)
proof (cases rule: gated_spend)
  case free
  with assms(4) show ?thesis by (auto simp: world_simps auth_store_step.idle split: option.splits)
next
  case (scoped a n)
  with assms(3) obtain k where k: "ko = Some k" "authorities w k = Some a" by blast
  have "auth_step (slot_of x) a (a\<lparr>au_spent := n, au_status :=
      (if au_budget a \<le> n then AUTH_STATUS_EXHAUSTED else AUTH_STATUS_ACTIVE)\<rparr>)"
    using scoped by (intro auth_step.spend) (auto simp: spend_allowed_def word_le_nat_alt)
  with k scoped assms(4) show ?thesis
    by (auto simp: put_opt_def put_def intro: auth_store_step.advance)
qed

end

subsection \<open>Accounts the settling instructions declare alike\<close>

text \<open>
  \<^verbatim>\<open>mut, seeds = [SEED_CRI, agent], bump = cri.bump, constraint = cri.agent == agent\<close>, and
  \<^verbatim>\<open>mut\<close> with an owner and a mint for a token account.
\<close>

definition cri_account :: "runtime \<Rightarrow> tx \<Rightarrow> pubkey \<Rightarrow> cri \<Rightarrow> pubkey \<Rightarrow> failure + unit" where
  "cri_account rt tx k c agent_key =
     (if \<not> pda_at rt (cri_seeds agent_key) (cri_bump c) k then anchor_err ConstraintSeeds
      else if \<not> tx_writable tx k then anchor_err ConstraintMut
      else if cri_agent c \<noteq> agent_key then err Unauthorized
      else Inr ())"

definition wallet :: "tx \<Rightarrow> pubkey \<Rightarrow> token_account \<Rightarrow> pubkey \<Rightarrow> pubkey \<Rightarrow> failure + unit" where
  "wallet tx k t owner m =
     (if \<not> tx_writable tx k then anchor_err ConstraintMut
      else if ta_owner t \<noteq> owner then err Unauthorized
      else if ta_mint t \<noteq> m then err InvalidMint
      else Inr ())"

lemma cri_account_ok [ok_simps]:
  "(cri_account rt tx k c ag = Inr u)
     = (pda_at rt (cri_seeds ag) (cri_bump c) k \<and> tx_writable tx k \<and> cri_agent c = ag)"
  by (simp add: cri_account_def)

lemma wallet_ok [ok_simps]:
  "(wallet tx k t owner m = Inr u) = (tx_writable tx k \<and> ta_owner t = owner \<and> ta_mint t = m)"
  by (simp add: wallet_def)

subsection \<open>Reputation updates\<close>

text \<open>The payer's side of a settlement.\<close>

definition cri_commit :: "u64 \<Rightarrow> u64 \<Rightarrow> cri \<Rightarrow> failure + cri" where
  "cri_commit amount slot c =
     bindr (ok_or (checked_add (cri_successful_commitments c) 1) (Aeon Overflow)) (\<lambda>n.
     bindr (ok_or (checked_add (cri_volume_settled c) amount) (Aeon Overflow)) (\<lambda>v.
     Inr (c\<lparr>cri_successful_commitments := n, cri_volume_settled := v, cri_last_active_slot := slot\<rparr>)))"

text \<open>The payee's side.\<close>

definition cri_settle :: "u64 \<Rightarrow> u64 \<Rightarrow> cri \<Rightarrow> failure + cri" where
  "cri_settle amount slot c =
     bindr (ok_or (checked_add (cri_successful_settlements c) 1) (Aeon Overflow)) (\<lambda>n.
     bindr (ok_or (checked_add (cri_volume_settled c) amount) (Aeon Overflow)) (\<lambda>v.
     Inr (c\<lparr>cri_successful_settlements := n, cri_volume_settled := v, cri_last_active_slot := slot\<rparr>)))"

text \<open>\<^verbatim>\<open>emit!(CriUpdated { .. })\<close> for one side.\<close>

definition cri_event :: "pubkey \<Rightarrow> cri \<Rightarrow> event" where
  "cri_event k c = CriUpdatedEv k (cri_successful_settlements c) (cri_volume_settled c)"

lemma fold_log_event: "fold log_event es w = w\<lparr>logs := logs w @ es\<rparr>"
  by (induction es arbitrary: w) (simp_all add: log_event_def)

lemma fold_log_event_frame [world_frame]:
  "configs (fold log_event es w) = configs w"
  "agents (fold log_event es w) = agents w"
  "cris (fold log_event es w) = cris w"
  "authorities (fold log_event es w) = authorities w"
  "escrows (fold log_event es w) = escrows w"
  "orgs (fold log_event es w) = orgs w"
  "members (fold log_event es w) = members w"
  "receipts (fold log_event es w) = receipts w"
  "bonds (fold log_event es w) = bonds w"
  "raws (fold log_event es w) = raws w"
  "ledger (fold log_event es w) = ledger w"
  "mints (fold log_event es w) = mints w"
  by (simp_all add: fold_log_event)

lemma cri_commit_ok:
  assumes "cri_commit amount slot c = Inr c'"
  shows "unat (cri_volume_settled c') = unat (cri_volume_settled c) + unat amount"
    "unat (cri_successful_commitments c') = unat (cri_successful_commitments c) + 1"
    "cri_agent c' = cri_agent c" "cri_bump c' = cri_bump c"
    "cri_last_receipt_hash c' = cri_last_receipt_hash c"
    "cri_receipt_count c' = cri_receipt_count c"
    "cri_successful_settlements c' = cri_successful_settlements c"
    "cri_failed_commitments c' = cri_failed_commitments c"
  using assms by (auto simp: cri_commit_def ok_simps)

lemma cri_settle_ok:
  assumes "cri_settle amount slot c = Inr c'"
  shows "unat (cri_volume_settled c') = unat (cri_volume_settled c) + unat amount"
    "unat (cri_successful_settlements c') = unat (cri_successful_settlements c) + 1"
    "cri_agent c' = cri_agent c" "cri_bump c' = cri_bump c"
    "cri_last_receipt_hash c' = cri_last_receipt_hash c"
    "cri_receipt_count c' = cri_receipt_count c"
    "cri_successful_commitments c' = cri_successful_commitments c"
    "cri_failed_commitments c' = cri_failed_commitments c"
  using assms by (auto simp: cri_settle_def ok_simps)

subsection \<open>The token programs\<close>

text \<open>
  Moving \<open>amount\<close> from one token account to another of the same mint, as
  \<^verbatim>\<open>transfer_checked\<close> is documented to do for a mint without transfer fees and an account
  without delegate: the authority is the owner of the source, both accounts are of the mint,
  the source covers the amount, nothing else changes.
\<close>

definition transferred :: "transfer_accs \<Rightarrow> u64 \<Rightarrow> ledger \<Rightarrow> ledger \<Rightarrow> bool" where
  "transferred accs amount l l' =
     (\<exists>f t. l (tc_from accs) = Some f \<and> l (tc_to accs) = Some t
        \<and> ta_owner f = tc_authority accs
        \<and> ta_mint f = tc_mint accs \<and> ta_mint t = tc_mint accs \<and> amount \<le> ta_amount f
        \<and> (if tc_from accs = tc_to accs then l' = l
           else unat (ta_amount t) + unat amount < 2 ^ 64
             \<and> l' = l(tc_from accs \<mapsto> f\<lparr>ta_amount := ta_amount f - amount\<rparr>,
                      tc_to accs \<mapsto> t\<lparr>ta_amount := ta_amount t + amount\<rparr>)))"

definition token_transfer_spec :: "runtime \<Rightarrow> bool" where
  "token_transfer_spec rt =
     (\<forall>prog accs sgnd amount decimals ms l l'.
        rt_tok_transfer rt prog accs sgnd amount decimals ms l = Inr l' \<longrightarrow>
        sgnd \<and> transferred accs amount l l')"

text \<open>
  Initialising a token account, and the idempotent creation of an associated one: the
  account is new and empty, or (for the latter) already there for that owner and mint.
\<close>

definition token_init_spec :: "runtime \<Rightarrow> bool" where
  "token_init_spec rt =
     (\<forall>prog k m owner ms l l'. rt_tok_init rt prog k m owner ms l = Inr l' \<longrightarrow>
        l k = None \<and> l' = l(k \<mapsto> \<lparr>ta_owner = owner, ta_mint = m, ta_amount = 0\<rparr>))"

definition ata_create_spec :: "runtime \<Rightarrow> bool" where
  "ata_create_spec rt =
     (\<forall>prog k owner m ms l l'. rt_ata_create rt prog k owner m ms l = Inr l' \<longrightarrow>
        (l k = None \<and> l' = l(k \<mapsto> \<lparr>ta_owner = owner, ta_mint = m, ta_amount = 0\<rparr>))
        \<or> (l' = l \<and> (\<exists>t. l k = Some t \<and> ta_owner t = owner \<and> ta_mint t = m)))"

definition token_spec :: "runtime \<Rightarrow> bool" where
  "token_spec rt = (token_transfer_spec rt \<and> token_init_spec rt \<and> ata_create_spec rt)"

text \<open>
  That a transfer goes through when nothing is wrong with it: two different accounts of an
  existing mint that are not frozen, signed by the owner of the source, which covers the
  amount, and no overflow at the destination.
\<close>

definition token_transfer_live :: "runtime \<Rightarrow> bool" where
  "token_transfer_live rt =
     (\<forall>prog accs amount ms l f t m.
        rt_is_token_program rt prog \<and> ms (tc_mint accs) = Some m
        \<and> l (tc_from accs) = Some f \<and> l (tc_to accs) = Some t \<and> tc_from accs \<noteq> tc_to accs
        \<and> ta_owner f = tc_authority accs \<and> ta_mint f = tc_mint accs \<and> ta_mint t = tc_mint accs
        \<and> amount \<le> ta_amount f \<and> unat (ta_amount t) + unat amount < 2 ^ 64 \<longrightarrow>
        (\<exists>l'. rt_tok_transfer rt prog accs True amount (mint_decimals m) ms l = Inr l'))"

lemma token_spec_transfer: "token_spec rt \<Longrightarrow> token_transfer_spec rt"
  by (simp add: token_spec_def)

lemma transferredD:
  assumes "token_transfer_spec rt"
    and "rt_tok_transfer rt prog accs sgnd amount decimals ms l = Inr l'"
  shows "sgnd" "transferred accs amount l l'"
  using assms unfolding token_transfer_spec_def by blast+

text \<open>The balance of a token account, zero where there is none.\<close>

definition balance_of :: "ledger \<Rightarrow> pubkey \<Rightarrow> nat" where
  "balance_of l k = (case l k of None \<Rightarrow> 0 | Some t \<Rightarrow> unat (ta_amount t))"

lemma transferred_balance:
  assumes "transferred accs amount l l'" "tc_from accs \<noteq> tc_to accs"
  shows "balance_of l' (tc_from accs) + unat amount = balance_of l (tc_from accs)"
    "balance_of l' (tc_to accs) = balance_of l (tc_to accs) + unat amount"
    "\<lbrakk> k \<noteq> tc_from accs; k \<noteq> tc_to accs \<rbrakk> \<Longrightarrow> l' k = l k"
  using assms
  by (auto simp: transferred_def balance_of_def unat_sub word_le_nat_alt unat_word_ariths)

lemma transferred_keeps_owner:
  assumes "transferred accs amount l l'" "l k = Some t"
  shows "\<exists>t'. l' k = Some t' \<and> ta_owner t' = ta_owner t \<and> ta_mint t' = ta_mint t"
  using assms by (auto simp: transferred_def split: if_splits)

subsection \<open>Custody\<close>

text \<open>
  The token accounts of \<open>owner\<close> are kept: each stays, of the same owner and mint, with at
  least its balance.  Whatever is not signed by the owner has this effect.
\<close>

definition keeps :: "pubkey \<Rightarrow> ledger \<Rightarrow> ledger \<Rightarrow> bool" where
  "keeps owner l l' = (\<forall>k t. l k = Some t \<and> ta_owner t = owner \<longrightarrow>
     (\<exists>t'. l' k = Some t' \<and> ta_owner t' = owner \<and> ta_mint t' = ta_mint t
        \<and> ta_amount t \<le> ta_amount t'))"

lemma keepsD:
  assumes "keeps owner l l'" "l k = Some t" "ta_owner t = owner"
  obtains t' where "l' k = Some t'" "ta_owner t' = owner" "ta_mint t' = ta_mint t"
    "ta_amount t \<le> ta_amount t'"
  using assms unfolding keeps_def by blast

lemma keeps_refl [simp]: "keeps owner l l"
  by (simp add: keeps_def)

lemma keeps_trans:
  assumes "keeps owner l l'" "keeps owner l' l''"
  shows "keeps owner l l''"
  unfolding keeps_def
proof (intro allI impI, elim conjE)
  fix k t assume "l k = Some t" "ta_owner t = owner"
  from keepsD [OF assms(1) this] obtain t1 where 1: "l' k = Some t1" "ta_owner t1 = owner"
    "ta_mint t1 = ta_mint t" "ta_amount t \<le> ta_amount t1" .
  from keepsD [OF assms(2) 1(1,2)] obtain t2 where "l'' k = Some t2" "ta_owner t2 = owner"
    "ta_mint t2 = ta_mint t1" "ta_amount t1 \<le> ta_amount t2" .
  with 1 show "\<exists>t'. l'' k = Some t' \<and> ta_owner t' = owner \<and> ta_mint t' = ta_mint t
      \<and> ta_amount t \<le> ta_amount t'" by auto
qed

lemma keeps_transferred:
  assumes "transferred accs amount l l'" "owner \<noteq> tc_authority accs"
  shows "keeps owner l l'"
proof -
  have grow: "x \<le> x + amount" if "unat x + unat amount < 2 ^ 64" for x :: u64
    using that by (simp add: word_le_nat_alt unat_word_ariths)
  show ?thesis
    using assms grow by (auto simp: transferred_def keeps_def split: if_splits)
qed

lemma keeps_transfer:
  assumes "token_spec rt" "rt_tok_transfer rt prog accs sgnd amount decimals ms l = Inr l'"
    "owner \<noteq> tc_authority accs"
  shows "keeps owner l l'"
  using transferredD [OF token_spec_transfer [OF assms(1)] assms(2)] assms(3)
  by (auto intro: keeps_transferred)

lemma keeps_init:
  assumes "token_spec rt" "rt_tok_init rt prog k m o1 ms l = Inr l'"
  shows "keeps owner l l'" "l k = None"
    "l' = l(k \<mapsto> \<lparr>ta_owner = o1, ta_mint = m, ta_amount = 0\<rparr>)"
proof -
  from assms have h: "l k = None" "l' = l(k \<mapsto> \<lparr>ta_owner = o1, ta_mint = m, ta_amount = 0\<rparr>)"
    unfolding token_spec_def token_init_spec_def by blast+
  then show "l k = None" "l' = l(k \<mapsto> \<lparr>ta_owner = o1, ta_mint = m, ta_amount = 0\<rparr>)"
    "keeps owner l l'" by (auto simp: keeps_def)
qed

lemma keeps_ata_create:
  assumes "token_spec rt" "rt_ata_create rt prog k o1 m ms l = Inr l'"
  shows "keeps owner l l'" "\<exists>t. l' k = Some t \<and> ta_owner t = o1 \<and> ta_mint t = m"
proof -
  from assms have h: "(l k = None \<and> l' = l(k \<mapsto> \<lparr>ta_owner = o1, ta_mint = m, ta_amount = 0\<rparr>))
        \<or> (l' = l \<and> (\<exists>t. l k = Some t \<and> ta_owner t = o1 \<and> ta_mint t = m))"
    unfolding token_spec_def ata_create_spec_def by blast
  then show "keeps owner l l'" "\<exists>t. l' k = Some t \<and> ta_owner t = o1 \<and> ta_mint t = m"
    by (auto simp: keeps_def)
qed

text \<open>
  A deposit: the token account \<open>kv\<close> belongs to \<open>owner\<close> and holds at least \<open>n\<close>.  A store of
  accounts is funded when each account with something due has a deposit of its own at a vault
  of its.
\<close>

definition holds :: "ledger \<Rightarrow> pubkey \<Rightarrow> pubkey \<Rightarrow> nat \<Rightarrow> bool" where
  "holds l kv owner n = (\<exists>t. l kv = Some t \<and> ta_owner t = owner \<and> n \<le> unat (ta_amount t))"

definition funded ::
    "(pubkey \<Rightarrow> 'a \<Rightarrow> pubkey \<Rightarrow> bool) \<Rightarrow> ('a \<Rightarrow> nat) \<Rightarrow> (pubkey \<rightharpoonup> 'a) \<Rightarrow> ledger \<Rightarrow> bool" where
  "funded vault due S l =
     (\<forall>k x. S k = Some x \<and> 0 < due x \<longrightarrow> (\<exists>kv. vault k x kv \<and> holds l kv k (due x)))"

lemma funded_empty: "funded vault due Map.empty l"
  by (simp add: funded_def)

lemma fundedD:
  assumes "funded vault due S l" "S k = Some x" "0 < due x"
  obtains kv where "vault k x kv" "holds l kv k (due x)"
  using assms unfolding funded_def by blast

lemma holds_keeps: "holds l kv owner n \<Longrightarrow> keeps owner l l' \<Longrightarrow> holds l' kv owner n"
  unfolding holds_def by (elim exE conjE keepsD) (auto simp: word_le_nat_alt)

text \<open>
  The one account \<open>k\<close> of the store that an instruction writes is \<open>x\<close> afterwards, funded or
  with nothing due; the owners of all others keep their tokens.
\<close>

lemma funded_put:
  assumes "funded vault due S l"
    and keep: "\<And>k' x'. S k' = Some x' \<Longrightarrow> k' \<noteq> k \<Longrightarrow> keeps k' l l'"
    and x: "0 < due x \<Longrightarrow> vault k x kv \<and> holds l' kv k (due x)"
  shows "funded vault due (S(k \<mapsto> x)) l'"
  unfolding funded_def
proof (intro allI impI, elim conjE)
  fix k' x' assume x': "(S(k \<mapsto> x)) k' = Some x'" "0 < due x'"
  show "\<exists>kv. vault k' x' kv \<and> holds l' kv k' (due x')"
  proof (cases "k' = k")
    case True
    with x' x show ?thesis by auto
  next
    case False
    with x' have S: "S k' = Some x'" by simp
    from fundedD [OF assms(1) this x'(2)] obtain kv where kv: "vault k' x' kv" "holds l kv k' (due x')" .
    with holds_keeps [OF kv(2) keep [OF S False]] show ?thesis by blast
  qed
qed

lemma funded_keeps:
  assumes "funded vault due S l" "\<And>k x. S k = Some x \<Longrightarrow> keeps k l l'"
  shows "funded vault due S l'"
  unfolding funded_def
proof (intro allI impI, elim conjE)
  fix k x assume S: "S k = Some x" and "0 < due x"
  from fundedD [OF assms(1) this] obtain kv where kv: "vault k x kv" "holds l kv k (due x)" .
  with holds_keeps [OF kv(2) assms(2) [OF S]] show "\<exists>kv. vault k x kv \<and> holds l' kv k (due x)" by blast
qed

text \<open>A transfer into a vault raises its deposit by the amount.\<close>

lemma holds_deposit:
  assumes "transferred accs amount l l'" "l (tc_to accs) = Some t" "ta_owner t = owner"
    "tc_from accs \<noteq> tc_to accs"
  shows "holds l' (tc_to accs) owner (unat (ta_amount t) + unat amount)"
  using assms by (auto simp: transferred_def holds_def unat_word_ariths)

end
