(* ===== verification/Aeon_Pay.thy ===== *)
theory Aeon_Pay
  imports Aeon_Spend
begin

text \<open>
  \<^verbatim>\<open>pay.rs\<close>: a direct payment, optionally drawn on a spending authority.  The gate is the
  block of guards on the authority; the handler runs it, makes the transfer, commits the
  staged spend and updates both reputations.
\<close>

subsection \<open>Accounts\<close>

record pay_ctx =
  pay_payer :: pubkey
  pay_payee :: pubkey
  pay_config :: pubkey
  pay_authority :: "pubkey option"
  pay_payer_cri :: pubkey
  pay_payee_cri :: pubkey
  pay_payer_token :: pubkey
  pay_payee_token :: pubkey
  pay_aeon_mint :: pubkey
  pay_token_program :: pubkey

definition pay_accounts ::
    "runtime \<Rightarrow> tx \<Rightarrow> world \<Rightarrow> pay_ctx
       \<Rightarrow> failure + config \<times> authority option \<times> cri \<times> cri \<times> token_account \<times> mint" where
  "pay_accounts rt tx w c =
     (if \<not> tx_signer tx (pay_payer c) then anchor_err AccountNotSigner
      else bindr (load configs w (pay_config c)) (\<lambda>cfg.
      bindr (load_opt authorities w (pay_authority c)) (\<lambda>au.
      bindr (load cris w (pay_payer_cri c)) (\<lambda>payer_cri.
      bindr (load cris w (pay_payee_cri c)) (\<lambda>payee_cri.
      bindr (load_ext ledger w (pay_payer_token c)) (\<lambda>payer_token.
      bindr (load_ext ledger w (pay_payee_token c)) (\<lambda>payee_token.
      bindr (load_ext mints w (pay_aeon_mint c)) (\<lambda>m.
      if \<not> rt_is_token_program rt (pay_token_program c) then anchor_err InvalidProgramId
      else if \<not> pda_at rt [SEED_CONFIG] (cfg_bump cfg) (pay_config c) then anchor_err ConstraintSeeds
      else if \<not> opt_writable tx (pay_authority c) then anchor_err ConstraintMut
      else bindr (cri_account rt tx (pay_payer_cri c) payer_cri (pay_payer c)) (\<lambda>_.
      bindr (cri_account rt tx (pay_payee_cri c) payee_cri (pay_payee c)) (\<lambda>_.
      bindr (wallet tx (pay_payer_token c) payer_token (pay_payer c) (cfg_aeon_mint cfg)) (\<lambda>_.
      bindr (wallet tx (pay_payee_token c) payee_token (pay_payee c) (cfg_aeon_mint cfg)) (\<lambda>_.
      if pay_aeon_mint c \<noteq> cfg_aeon_mint cfg then err InvalidMint
      else Inr (cfg, au, payer_cri, payee_cri, payer_token, m)))))))))))))"

subsection \<open>The gate\<close>

text \<open>
  Lines 61 to 93: the staged spend \<^verbatim>\<open>Some((new_spent, exhaust))\<close> of a payment on an authority,
  or \<^verbatim>\<open>None\<close> for one without.  \<open>pre\<close> is the payer's balance before the transfer.
\<close>

definition pay_gate ::
    "runtime \<Rightarrow> u64 \<Rightarrow> pay_ctx \<Rightarrow> bytes \<Rightarrow> u64 \<Rightarrow> authority option \<Rightarrow> u64 \<Rightarrow> u64
       \<Rightarrow> failure + (u64 \<times> bool) option" where
  "pay_gate rt slot c category pre au authority_id amount =
     (if authority_id \<noteq> 0 then
        bindr (ok_or au (Aeon AuthorityRequired)) (\<lambda>a.
        if pay_authority c \<noteq> Some (fst (rt_find_pda rt (authority_seeds authority_id)))
        then err Unauthorized
        else if au_authority_id a \<noteq> authority_id then err Unauthorized
        else if au_agent a \<noteq> pay_payer c then err AuthorityAgentMismatch
        else if au_expiry_slot a \<noteq> 0 \<and> au_expiry_slot a < slot then err AuthorityExpired
        else if au_status a \<noteq> AUTH_STATUS_ACTIVE then err AuthorityNotActive
        else if \<not> amount \<le> au_max_per_tx a then err ExceedsMaxPerTx
        else bindr (ok_or (checked_add (au_spent a) amount) (Aeon Overflow)) (\<lambda>new_spent.
        if \<not> new_spent \<le> au_max_total a then err ExceedsMaxTotal
        else if \<not> new_spent \<le> au_budget a then err InsufficientBudget
        else bindr (category_allowed a category) (\<lambda>allowed.
        if \<not> allowed then err CategoryNotAllowed
        else bindr (recipient_blocked a (pay_payee c)) (\<lambda>blocked.
        if blocked then err RecipientBlocked
        else if \<not> amount \<le> pre then err InsufficientBudget
        else if \<not> au_require_min_reserve a \<le> saturating_sub pre amount
        then err InsufficientBudget
        else Inr (Some (new_spent, au_budget a \<le> new_spent))))))
      else if au \<noteq> None then err Unauthorized
      else Inr None)"

subsection \<open>The handler\<close>

definition pay ::
    "runtime \<Rightarrow> tx \<Rightarrow> world \<Rightarrow> pay_ctx \<Rightarrow> u64 \<Rightarrow> u64 \<Rightarrow> bytes \<Rightarrow> failure + world" where
  "pay rt tx w c amount authority_id category =
     bindr (pay_accounts rt tx w c) (\<lambda>(cfg, au, payer_cri, payee_cri, payer_token, m).
     if cfg_paused cfg then err Paused
     else if \<not> 0 < amount then err InvalidAmount
     else if pay_payer c = pay_payee c then err Unauthorized
     else bindr (pay_gate rt (tx_slot tx) c category (ta_amount payer_token) au authority_id amount)
       (\<lambda>commit.
     bindr (cpi_transfer rt (pay_token_program c)
              \<lparr>tc_from = pay_payer_token c, tc_mint = pay_aeon_mint c, tc_to = pay_payee_token c,
               tc_authority = pay_payer c\<rparr>
              (tx_signer tx (pay_payer c)) amount (mint_decimals m) w) (\<lambda>w1.
     bindr (commit_spent au commit) (\<lambda>au'.
     bindr (cri_commit amount (tx_slot tx) payer_cri) (\<lambda>payer_cri'.
     bindr (cri_settle amount (tx_slot tx) payee_cri) (\<lambda>payee_cri'.
     Inr (put cris_update (pay_payee_cri c) payee_cri'
           (put cris_update (pay_payer_cri c) payer_cri'
             (put_opt authorities_update (pay_authority c) au'
               (log_event (cri_event (pay_payee c) payee_cri')
                 (log_event (cri_event (pay_payer c) payer_cri')
                   (log_event (PaymentSettledEv (pay_payer c) (pay_payee c) amount authority_id
                      category) w1))))))))))))"

declare pay_def [handler_defs] pay_accounts_def [handler_defs]

subsection \<open>The gate is the policy\<close>

interpretation pay_gates: spend_gate
  "\<lambda>(rt, slot, c, category, pre). pay_gate rt slot c category pre"
  "\<lambda>(rt, slot, c, category, pre). pay_payer c"
  "\<lambda>(rt, slot, c, category, pre). slot"
  "\<lambda>(rt, slot, c, category, pre). category"
proof unfold_locales
  fix x :: "runtime \<times> u64 \<times> pay_ctx \<times> bytes \<times> u64" and au aid amount n exhaust
  obtain rt slot c category pre where x: "x = (rt, slot, c, category, pre)" by (cases x)
  show "aid = 0 \<and> au = None"
    if "(case x of (rt, slot, c, category, pre) \<Rightarrow> pay_gate rt slot c category pre) au aid amount
      = Inr None"
    using that by (auto simp: x pay_gate_def ok_simps split: if_splits)
  show "\<exists>a. au = Some a \<and> aid \<noteq> 0
      \<and> spend_allowed a (case x of (rt, slot, c, category, pre) \<Rightarrow> pay_payer c)
          (case x of (rt, slot, c, category, pre) \<Rightarrow> slot)
          (case x of (rt, slot, c, category, pre) \<Rightarrow> category) aid amount
      \<and> unat n = unat (au_spent a) + unat amount \<and> exhaust = (au_budget a \<le> n)"
    if "(case x of (rt, slot, c, category, pre) \<Rightarrow> pay_gate rt slot c category pre) au aid amount
      = Inr (Some (n, exhaust))"
    using that
    by (auto simp: x pay_gate_def ok_simps spend_allowed_def word_le_nat_alt not_less
        dest: category_allowed_True split: if_splits)
qed

subsection \<open>What a successful payment establishes\<close>

lemma pay_ok:
  assumes "pay rt tx w c amount aid category = Inr w'"
  obtains cfg au pc qc ft tt m commit l au' pc' qc' where
    "tx_signer tx (pay_payer c)" "configs w (pay_config c) = Some cfg" "\<not> cfg_paused cfg"
    "0 < amount" "pay_payer c \<noteq> pay_payee c"
    "load_opt authorities w (pay_authority c) = Inr au"
    "cris w (pay_payer_cri c) = Some pc" "cri_agent pc = pay_payer c"
    "cris w (pay_payee_cri c) = Some qc" "cri_agent qc = pay_payee c"
    "ledger w (pay_payer_token c) = Some ft" "ta_owner ft = pay_payer c"
    "ledger w (pay_payee_token c) = Some tt" "ta_owner tt = pay_payee c"
    "mints w (pay_aeon_mint c) = Some m" "pay_aeon_mint c = cfg_aeon_mint cfg"
    "pay_gate rt (tx_slot tx) c category (ta_amount ft) au aid amount = Inr commit"
    "rt_tok_transfer rt (pay_token_program c)
       \<lparr>tc_from = pay_payer_token c, tc_mint = pay_aeon_mint c, tc_to = pay_payee_token c,
        tc_authority = pay_payer c\<rparr> True amount (mint_decimals m) (mints w) (ledger w) = Inr l"
    "commit_spent au commit = Inr au'"
    "cri_commit amount (tx_slot tx) pc = Inr pc'" "cri_settle amount (tx_slot tx) qc = Inr qc'"
    "w' = put cris_update (pay_payee_cri c) qc' (put cris_update (pay_payer_cri c) pc'
       (put_opt authorities_update (pay_authority c) au'
         (log_event (cri_event (pay_payee c) qc') (log_event (cri_event (pay_payer c) pc')
           (log_event (PaymentSettledEv (pay_payer c) (pay_payee c) amount aid category)
             (w\<lparr>ledger := l\<rparr>))))))"
  using assms by (auto simp: handler_defs ok_simps intro!: that)

lemma pay_store_step:
  assumes "pay rt tx w c amount aid category = Inr w'"
  shows "auth_store_step rt (tx_slot tx) (authorities w) (authorities w')"
  using assms
proof (rule pay_ok)
  fix au ft commit au' l pc' qc'
  assume h: "load_opt authorities w (pay_authority c) = Inr au"
    "pay_gate rt (tx_slot tx) c category (ta_amount ft) au aid amount = Inr commit"
    "commit_spent au commit = Inr au'"
    "w' = put cris_update (pay_payee_cri c) qc' (put cris_update (pay_payer_cri c) pc'
       (put_opt authorities_update (pay_authority c) au'
         (log_event (cri_event (pay_payee c) qc') (log_event (cri_event (pay_payer c) pc')
           (log_event (PaymentSettledEv (pay_payer c) (pay_payee c) amount aid category)
             (w\<lparr>ledger := l\<rparr>))))))"
  let ?x = "(rt, tx_slot tx, c, category, ta_amount ft)"
  have "auth_store_step rt (case ?x of (rt, slot, c, category, pre) \<Rightarrow> slot) (authorities w)
      (authorities (put_opt authorities_update (pay_authority c) au'
         (log_event (cri_event (pay_payee c) qc') (log_event (cri_event (pay_payer c) pc')
           (log_event (PaymentSettledEv (pay_payer c) (pay_payee c) amount aid category)
             (w\<lparr>ledger := l\<rparr>))))))"
    by (rule pay_gates.gated_store_step [where x = ?x and au = au and aid = aid])
      (use h in \<open>auto simp: ok_simps log_event_def\<close>)
  with h(4) show ?thesis by (simp add: put_def)
qed

end
