(* ===== verification/Aeon_Split.thy ===== *)
theory Aeon_Split
  imports Aeon_Spend
begin

text \<open>
  \<^verbatim>\<open>atomic_split.rs\<close>: one authority-gated spend paid out to one or two payees.  The second
  payee's accounts are optional; their copies are written back last, whether or not the
  instruction has a second leg.
\<close>

subsection \<open>Accounts\<close>

record atomic_split_ctx =
  sl_payer :: pubkey
  sl_payee_a :: pubkey
  sl_payee_b :: "pubkey option"
  sl_config :: pubkey
  sl_authority :: "pubkey option"
  sl_payer_token :: pubkey
  sl_payee_a_token :: pubkey
  sl_payee_b_token :: "pubkey option"
  sl_payer_cri :: pubkey
  sl_payee_a_cri :: pubkey
  sl_payee_b_cri :: "pubkey option"
  sl_aeon_mint :: pubkey
  sl_token_program :: pubkey

definition atomic_split_accounts ::
    "runtime \<Rightarrow> tx \<Rightarrow> world \<Rightarrow> atomic_split_ctx
       \<Rightarrow> failure + config \<times> authority option \<times> token_account \<times> token_account option
            \<times> cri \<times> cri \<times> cri option \<times> mint" where
  "atomic_split_accounts rt tx w c =
     (if \<not> tx_signer tx (sl_payer c) then anchor_err AccountNotSigner
      else bindr (load configs w (sl_config c)) (\<lambda>cfg.
      bindr (load_opt authorities w (sl_authority c)) (\<lambda>au.
      bindr (load_ext ledger w (sl_payer_token c)) (\<lambda>payer_token.
      bindr (load_ext ledger w (sl_payee_a_token c)) (\<lambda>payee_a_token.
      bindr (load_ext_opt ledger w (sl_payee_b_token c)) (\<lambda>payee_b_token.
      bindr (load cris w (sl_payer_cri c)) (\<lambda>payer_cri.
      bindr (load cris w (sl_payee_a_cri c)) (\<lambda>payee_a_cri.
      bindr (load_opt cris w (sl_payee_b_cri c)) (\<lambda>payee_b_cri.
      bindr (load_ext mints w (sl_aeon_mint c)) (\<lambda>m.
      if \<not> rt_is_token_program rt (sl_token_program c) then anchor_err InvalidProgramId
      else if \<not> pda_at rt [SEED_CONFIG] (cfg_bump cfg) (sl_config c) then anchor_err ConstraintSeeds
      else if \<not> opt_writable tx (sl_authority c) then anchor_err ConstraintMut
      else bindr (wallet tx (sl_payer_token c) payer_token (sl_payer c) (cfg_aeon_mint cfg)) (\<lambda>_.
      bindr (wallet tx (sl_payee_a_token c) payee_a_token (sl_payee_a c) (cfg_aeon_mint cfg)) (\<lambda>_.
      if \<not> opt_writable tx (sl_payee_b_token c) then anchor_err ConstraintMut
      else bindr (cri_account rt tx (sl_payer_cri c) payer_cri (sl_payer c)) (\<lambda>_.
      bindr (cri_account rt tx (sl_payee_a_cri c) payee_a_cri (sl_payee_a c)) (\<lambda>_.
      if \<not> opt_writable tx (sl_payee_b_cri c) then anchor_err ConstraintMut
      else Inr (cfg, au, payer_token, payee_b_token, payer_cri, payee_a_cri, payee_b_cri, m)
      ))))))))))))))"

subsection \<open>The amounts and the gate\<close>

text \<open>\<^verbatim>\<open>for a in amounts.iter() { .. total = total.checked_add(*a)?; }\<close>\<close>

fun split_total :: "u64 list \<Rightarrow> u64 \<Rightarrow> failure + u64" where
  "split_total [] tot = Inr tot"
| "split_total (a # as) tot =
     (if \<not> 0 < a then err InvalidAmount
      else bindr (ok_or (checked_add tot a) (Aeon Overflow)) (\<lambda>t. split_total as t))"

text \<open>Lines 83 to 117.\<close>

definition split_gate ::
    "runtime \<Rightarrow> u64 \<Rightarrow> atomic_split_ctx \<Rightarrow> bytes \<Rightarrow> u64 \<Rightarrow> authority option \<Rightarrow> u64 \<Rightarrow> u64
       \<Rightarrow> failure + (u64 \<times> bool) option" where
  "split_gate rt slot c category pre au authority_id tot =
     (if authority_id \<noteq> 0 then
        bindr (ok_or au (Aeon AuthorityRequired)) (\<lambda>a.
        if sl_authority c \<noteq> Some (fst (rt_find_pda rt (authority_seeds authority_id)))
        then err Unauthorized
        else if au_authority_id a \<noteq> authority_id then err Unauthorized
        else if au_agent a \<noteq> sl_payer c then err AuthorityAgentMismatch
        else if au_expiry_slot a \<noteq> 0 \<and> au_expiry_slot a < slot then err AuthorityExpired
        else if au_status a \<noteq> AUTH_STATUS_ACTIVE then err AuthorityNotActive
        else if \<not> tot \<le> au_max_per_tx a then err ExceedsMaxPerTx
        else bindr (ok_or (checked_add (au_spent a) tot) (Aeon Overflow)) (\<lambda>new_spent.
        if \<not> new_spent \<le> au_max_total a then err ExceedsMaxTotal
        else if \<not> new_spent \<le> au_budget a then err InsufficientBudget
        else bindr (category_allowed a category) (\<lambda>allowed.
        if \<not> allowed then err CategoryNotAllowed
        else bindr (recipient_blocked a (sl_payee_a c)) (\<lambda>blocked_a.
        if blocked_a then err RecipientBlocked
        else bindr (case sl_payee_b c of None \<Rightarrow> Inr False | Some pb \<Rightarrow> recipient_blocked a pb)
          (\<lambda>blocked_b.
        if blocked_b then err RecipientBlocked
        else if \<not> tot \<le> pre then err InsufficientBudget
        else if \<not> au_require_min_reserve a \<le> saturating_sub pre tot
        then err InsufficientBudget
        else Inr (Some (new_spent, au_budget a \<le> new_spent)))))))
      else if au \<noteq> None then err Unauthorized
      else Inr None)"

subsection \<open>The second leg\<close>

text \<open>
  Lines 136 to 153: \<^verbatim>\<open>unwrap\<close> of an absent account would panic, and so would \<^verbatim>\<open>amounts[1]\<close> on a
  shorter vector.
\<close>

definition split_transfer_b ::
    "runtime \<Rightarrow> tx \<Rightarrow> atomic_split_ctx \<Rightarrow> u64 list \<Rightarrow> mint \<Rightarrow> token_account option \<Rightarrow> world
       \<Rightarrow> failure + world" where
  "split_transfer_b rt tx c amounts m payee_b_token w =
     (if length amounts = 2 then
        bindr (ok_or (sl_payee_b_token c) Panic) (\<lambda>kb.
        bindr (ok_or payee_b_token Panic) (\<lambda>token_b.
        bindr (ok_or (sl_payee_b c) Panic) (\<lambda>payee_b.
        if ta_owner token_b \<noteq> payee_b then err Unauthorized
        else bindr (index_at amounts 1) (\<lambda>amount_b.
             cpi_transfer rt (sl_token_program c)
               \<lparr>tc_from = sl_payer_token c, tc_mint = sl_aeon_mint c, tc_to = kb,
                tc_authority = sl_payer c\<rparr>
               (tx_signer tx (sl_payer c)) amount_b (mint_decimals m) w))))
      else Inr w)"

text \<open>Lines 185 to 207: the second payee's reputation, and the two events of that leg.\<close>

definition split_settle_b ::
    "u64 \<Rightarrow> atomic_split_ctx \<Rightarrow> u64 list \<Rightarrow> u64 \<Rightarrow> bytes \<Rightarrow> cri option
       \<Rightarrow> failure + cri option \<times> event list" where
  "split_settle_b slot c amounts authority_id category payee_b_cri =
     (if length amounts = 2 then
        (case (sl_payee_b c, payee_b_cri) of
           (Some pb, Some cri_b) \<Rightarrow>
             if cri_agent cri_b \<noteq> pb then err Unauthorized
             else bindr (index_at amounts 1) (\<lambda>amount_b.
             bindr (cri_settle amount_b slot cri_b) (\<lambda>cri_b'.
             Inr (Some cri_b',
               [PaymentSettledEv (sl_payer c) pb amount_b authority_id category,
                cri_event pb cri_b'])))
         | _ \<Rightarrow> Inr (payee_b_cri, []))
      else Inr (payee_b_cri, []))"

subsection \<open>The handler\<close>

definition atomic_split ::
    "runtime \<Rightarrow> tx \<Rightarrow> world \<Rightarrow> atomic_split_ctx \<Rightarrow> u64 \<Rightarrow> u64 list \<Rightarrow> bytes \<Rightarrow> failure + world" where
  "atomic_split rt tx w c authority_id amounts category =
     bindr (atomic_split_accounts rt tx w c)
       (\<lambda>(cfg, au, payer_token, payee_b_token, payer_cri, payee_a_cri, payee_b_cri, m).
     if cfg_paused cfg then err Paused
     else if amounts = [] \<or> \<not> length amounts \<le> 2 then err InvalidAmount
     else if length amounts = 2 \<and> sl_payee_b c = None then err InvalidRemainingAccounts
     else if length amounts = 2 \<and> sl_payee_b_token c = None then err InvalidRemainingAccounts
     else if length amounts = 2 \<and> sl_payee_b_cri c = None then err InvalidRemainingAccounts
     else bindr (split_total amounts 0) (\<lambda>tot.
     if sl_payer c = sl_payee_a c then err Unauthorized
     else bindr (split_gate rt (tx_slot tx) c category (ta_amount payer_token) au authority_id tot)
       (\<lambda>commit.
     bindr (index_at amounts 0) (\<lambda>amount_a.
     bindr (cpi_transfer rt (sl_token_program c)
              \<lparr>tc_from = sl_payer_token c, tc_mint = sl_aeon_mint c, tc_to = sl_payee_a_token c,
               tc_authority = sl_payer c\<rparr>
              (tx_signer tx (sl_payer c)) amount_a (mint_decimals m) w) (\<lambda>w1.
     bindr (split_transfer_b rt tx c amounts m payee_b_token w1) (\<lambda>w2.
     bindr (commit_spent au commit) (\<lambda>au'.
     bindr (cri_commit tot (tx_slot tx) payer_cri) (\<lambda>payer_cri'.
     bindr (index_at amounts 0) (\<lambda>settled_a.
     bindr (cri_settle settled_a (tx_slot tx) payee_a_cri) (\<lambda>payee_a_cri'.
     bindr (split_settle_b (tx_slot tx) c amounts authority_id category payee_b_cri)
       (\<lambda>(payee_b_cri', events_b).
     Inr (put_opt cris_update (sl_payee_b_cri c) payee_b_cri'
           (put cris_update (sl_payee_a_cri c) payee_a_cri'
             (put cris_update (sl_payer_cri c) payer_cri'
               (put_opt authorities_update (sl_authority c) au'
                 (fold log_event
                   (PaymentSettledEv (sl_payer c) (sl_payee_a c) settled_a authority_id category
                    # events_b @ [cri_event (sl_payee_a c) payee_a_cri']) w2))))))))))))))))"

declare atomic_split_def [handler_defs] atomic_split_accounts_def [handler_defs]

subsection \<open>The gate is the policy on the total\<close>

lemma split_gate_None: "split_gate rt slot c category pre au aid tot = Inr None \<Longrightarrow> aid = 0 \<and> au = None"
  by (auto simp: split_gate_def ok_simps split: if_splits)

lemma split_gate_Some:
  assumes "split_gate rt slot c category pre au aid tot = Inr (Some (n, exhaust))"
  shows "\<exists>a. au = Some a \<and> aid \<noteq> 0 \<and> spend_allowed a (sl_payer c) slot category aid tot
     \<and> unat n = unat (au_spent a) + unat tot \<and> exhaust = (au_budget a \<le> n)"
  using assms
  by (auto simp: split_gate_def ok_simps spend_allowed_def word_le_nat_alt not_less
      dest: category_allowed_True split: if_splits)

interpretation split_gates: spend_gate
  "\<lambda>(rt, slot, c, category, pre). split_gate rt slot c category pre"
  "\<lambda>(rt, slot, c, category, pre). sl_payer c"
  "\<lambda>(rt, slot, c, category, pre). slot"
  "\<lambda>(rt, slot, c, category, pre). category"
  by unfold_locales (auto dest: split_gate_None split_gate_Some)

lemma split_total_sum:
  "split_total as t = Inr tot \<Longrightarrow> unat tot = unat t + sum_list (map unat as)"
proof (induction as t rule: split_total.induct)
  case (2 a as tot')
  from "2.prems" obtain t where "checked_add tot' a = Some t" "split_total as t = Inr tot"
    by (auto simp: ok_simps)
  with "2.IH" show ?case using "2.prems" by (auto simp: ok_simps)
qed simp

lemma split_total_pos: "split_total as t = Inr tot \<Longrightarrow> \<forall>a \<in> set as. 0 < a"
  by (induction as t rule: split_total.induct) (auto simp: ok_simps)

subsection \<open>What a successful split establishes\<close>

lemma split_transfer_b_ok:
  assumes "split_transfer_b rt tx c amounts m tb w = Inr w'"
  obtains (one) "length amounts \<noteq> 2" "w' = w"
  | (two) kb t pb l where "length amounts = 2" "sl_payee_b_token c = Some kb" "tb = Some t"
      "sl_payee_b c = Some pb" "ta_owner t = pb"
      "rt_tok_transfer rt (sl_token_program c)
         \<lparr>tc_from = sl_payer_token c, tc_mint = sl_aeon_mint c, tc_to = kb,
          tc_authority = sl_payer c\<rparr> (tx_signer tx (sl_payer c)) (amounts ! 1) (mint_decimals m)
         (mints w) (ledger w) = Inr l" "w' = w\<lparr>ledger := l\<rparr>"
  using assms by (auto simp: split_transfer_b_def ok_simps split: if_splits)

lemma atomic_split_ok:
  assumes "atomic_split rt tx w c aid amounts category = Inr w'"
  obtains cfg au pt ta tb pc ac bc m tot commit l w2 au' pc' ac' bc' evs where
    "tx_signer tx (sl_payer c)" "configs w (sl_config c) = Some cfg" "\<not> cfg_paused cfg"
    "length amounts = 1 \<or> length amounts = 2" "sl_payer c \<noteq> sl_payee_a c"
    "split_total amounts 0 = Inr tot"
    "load_opt authorities w (sl_authority c) = Inr au"
    "ledger w (sl_payer_token c) = Some pt" "ta_owner pt = sl_payer c"
    "ledger w (sl_payee_a_token c) = Some ta" "ta_owner ta = sl_payee_a c"
    "load_ext_opt ledger w (sl_payee_b_token c) = Inr tb"
    "cris w (sl_payer_cri c) = Some pc" "cri_agent pc = sl_payer c"
    "cris w (sl_payee_a_cri c) = Some ac" "cri_agent ac = sl_payee_a c"
    "load_opt cris w (sl_payee_b_cri c) = Inr bc"
    "split_gate rt (tx_slot tx) c category (ta_amount pt) au aid tot = Inr commit"
    "rt_tok_transfer rt (sl_token_program c)
       \<lparr>tc_from = sl_payer_token c, tc_mint = sl_aeon_mint c, tc_to = sl_payee_a_token c,
        tc_authority = sl_payer c\<rparr> True (amounts ! 0) (mint_decimals m) (mints w) (ledger w) = Inr l"
    "split_transfer_b rt tx c amounts m tb (w\<lparr>ledger := l\<rparr>) = Inr w2"
    "commit_spent au commit = Inr au'"
    "cri_commit tot (tx_slot tx) pc = Inr pc'"
    "cri_settle (amounts ! 0) (tx_slot tx) ac = Inr ac'"
    "split_settle_b (tx_slot tx) c amounts aid category bc = Inr (bc', evs)"
    "w' = put_opt cris_update (sl_payee_b_cri c) bc' (put cris_update (sl_payee_a_cri c) ac'
       (put cris_update (sl_payer_cri c) pc' (put_opt authorities_update (sl_authority c) au'
         (fold log_event (PaymentSettledEv (sl_payer c) (sl_payee_a c) (amounts ! 0) aid category
           # evs @ [cri_event (sl_payee_a c) ac']) w2))))"
proof -
  have len: "as \<noteq> [] \<Longrightarrow> length as \<le> 2 \<Longrightarrow> length as = 1 \<or> length as = 2" for as :: "u64 list"
    by (cases as) (auto simp: le_Suc_eq)
  show thesis
    using assms len [of amounts]
    by (auto simp: handler_defs bindr_eq_Inr ok_or_eq_Inr if_Inl_eq_Inr load_eq_Inr load_ext_eq_Inr
        case_prod_eq_Inr cri_account_ok wallet_ok cpi_transfer_eq_Inr index_at_eq_Inr intro!: that)
qed

lemma atomic_split_store_step:
  assumes "atomic_split rt tx w c aid amounts category = Inr w'"
  shows "auth_store_step rt (tx_slot tx) (authorities w) (authorities w')"
  using assms
proof (rule atomic_split_ok)
  fix au pt commit au' l w2 pc' ac' bc' evs tb m tot
  assume h: "load_opt authorities w (sl_authority c) = Inr au"
    "split_gate rt (tx_slot tx) c category (ta_amount pt) au aid tot = Inr commit"
    "split_transfer_b rt tx c amounts m tb (w\<lparr>ledger := l\<rparr>) = Inr w2"
    "commit_spent au commit = Inr au'"
    "w' = put_opt cris_update (sl_payee_b_cri c) bc' (put cris_update (sl_payee_a_cri c) ac'
       (put cris_update (sl_payer_cri c) pc' (put_opt authorities_update (sl_authority c) au'
         (fold log_event (PaymentSettledEv (sl_payer c) (sl_payee_a c) (amounts ! 0) aid category
           # evs @ [cri_event (sl_payee_a c) ac']) w2))))"
  let ?x = "(rt, tx_slot tx, c, category, ta_amount pt)"
  have w2: "authorities w2 = authorities w"
    using h(3) by (auto elim: split_transfer_b_ok)
  have "auth_store_step rt (case ?x of (rt, slot, c, category, pre) \<Rightarrow> slot) (authorities w)
      (authorities (put_opt authorities_update (sl_authority c) au'
         (fold log_event (PaymentSettledEv (sl_payer c) (sl_payee_a c) (amounts ! 0) aid category
           # evs @ [cri_event (sl_payee_a c) ac']) w2)))"
    by (rule split_gates.gated_store_step [where x = ?x and au = au and aid = aid])
      (use h(1,2,4) w2 in \<open>auto simp: ok_simps fold_log_event log_event_def\<close>)
  with h(5) show ?thesis by (simp add: put_def put_opt_def split: option.splits)
qed

end
