(* ===== verification/Aeon_Store.thy ===== *)
theory Aeon_Store
  imports Aeon_Runtime
begin

text \<open>
  Stores of accounts that follow a life cycle: accounts appear in an initial form and then
  change only by the steps of a state machine.  The locale \<open>life_cycle\<close> states what such a
  machine promises; preservation of an invariant, immutability of terms and of terminal
  accounts are proved against it once, for one instruction and for any number of them.  Also
  here: what the program relies on of program-derived addresses.
\<close>

subsection \<open>Steps of a store\<close>

inductive store_step ::
    "(u64 \<Rightarrow> 'a \<Rightarrow> 'a \<Rightarrow> bool) \<Rightarrow> (pubkey \<Rightarrow> 'a \<Rightarrow> bool) \<Rightarrow> u64
       \<Rightarrow> (pubkey \<rightharpoonup> 'a) \<Rightarrow> (pubkey \<rightharpoonup> 'a) \<Rightarrow> bool" for step new slot where
  stay: "store_step step new slot S S"
| move: "\<lbrakk> S k = Some a; step slot a a' \<rbrakk> \<Longrightarrow> store_step step new slot S (S(k \<mapsto> a'))"
| create: "\<lbrakk> S k = None; new k a \<rbrakk> \<Longrightarrow> store_step step new slot S (S(k \<mapsto> a))"

inductive_cases store_step_elim: "store_step step new slot S S'"

definition some_step ::
    "(u64 \<Rightarrow> 'a \<Rightarrow> 'a \<Rightarrow> bool) \<Rightarrow> (pubkey \<Rightarrow> 'a \<Rightarrow> bool) \<Rightarrow> (pubkey \<rightharpoonup> 'a) \<Rightarrow> (pubkey \<rightharpoonup> 'a) \<Rightarrow> bool"
  where "some_step step new S S' = (\<exists>slot. store_step step new slot S S')"

text \<open>Every account of a store satisfies \<open>ok\<close>.\<close>

definition all_ok :: "(pubkey \<Rightarrow> 'a \<Rightarrow> bool) \<Rightarrow> (pubkey \<rightharpoonup> 'a) \<Rightarrow> bool" where
  "all_ok ok S = (\<forall>k a. S k = Some a \<longrightarrow> ok k a)"

lemma all_ok_empty: "all_ok ok Map.empty"
  by (simp add: all_ok_def)

lemma all_okD: "all_ok ok S \<Longrightarrow> S k = Some a \<Longrightarrow> ok k a"
  by (simp add: all_ok_def)

locale life_cycle =
  fixes step :: "u64 \<Rightarrow> 'a \<Rightarrow> 'a \<Rightarrow> bool" and new :: "pubkey \<Rightarrow> 'a \<Rightarrow> bool"
    and ok :: "pubkey \<Rightarrow> 'a \<Rightarrow> bool" and live :: "'a \<Rightarrow> bool" and same :: "'a \<Rightarrow> 'a \<Rightarrow> bool"
  assumes new_ok: "new k a \<Longrightarrow> ok k a"
    and step_ok: "step slot a a' \<Longrightarrow> ok k a \<Longrightarrow> ok k a'"
    and step_live: "step slot a a' \<Longrightarrow> live a"
    and step_same: "step slot a a' \<Longrightarrow> same a a'"
    and same_refl: "same a a"
    and same_trans: "same a b \<Longrightarrow> same b c \<Longrightarrow> same a c"
begin

lemma store_ok: "store_step step new slot S S' \<Longrightarrow> all_ok ok S \<Longrightarrow> all_ok ok S'"
  by (erule store_step_elim) (auto simp: all_ok_def dest: new_ok step_ok)

lemma store_frozen:
  "store_step step new slot S S' \<Longrightarrow> S k = Some a \<Longrightarrow> \<not> live a \<Longrightarrow> S' k = Some a"
  by (erule store_step_elim) (auto dest: step_live split: if_splits)

lemma store_same:
  "store_step step new slot S S' \<Longrightarrow> S k = Some a \<Longrightarrow> \<exists>a'. S' k = Some a' \<and> same a a'"
  by (erule store_step_elim) (auto simp: same_refl intro: step_same)

lemma run_frozen:
  assumes "(some_step step new)\<^sup>*\<^sup>* S S'" "S k = Some a" "\<not> live a"
  shows "S' k = Some a"
  using assms by (induction rule: rtranclp_induct) (auto simp: some_step_def dest: store_frozen)

lemma run_same:
  assumes "(some_step step new)\<^sup>*\<^sup>* S S'" "S k = Some a"
  shows "\<exists>a'. S' k = Some a' \<and> same a a'"
  using assms
proof (induction rule: rtranclp_induct)
  case base
  then show ?case using same_refl by blast
next
  case (step S1 S2)
  then obtain a1 where "S1 k = Some a1" "same a a1" by blast
  with step(2) show ?case using store_same same_trans unfolding some_step_def by blast
qed

end

subsection \<open>Program-derived addresses\<close>

text \<open>
  The documented behaviour of address derivation: \<^verbatim>\<open>find_program_address\<close> returns an address
  that \<^verbatim>\<open>create_program_address\<close> derives from the seeds and the bump returned, and addresses
  are a collision-resistant hash of the concatenated seeds.
\<close>

definition pda_spec :: "runtime \<Rightarrow> bool" where
  "pda_spec rt =
     ((\<forall>seeds. rt_create_pda rt (seeds @ [[snd (rt_find_pda rt seeds)]])
                 = Some (fst (rt_find_pda rt seeds)))
      \<and> (\<forall>s s' k. rt_create_pda rt s = Some k \<and> rt_create_pda rt s' = Some k
            \<longrightarrow> concat s = concat s'))"

lemma pda_canonical: "pda_spec rt \<Longrightarrow> rt_find_pda rt seeds = (k, b) \<Longrightarrow> pda_at rt seeds b k"
  unfolding pda_spec_def pda_at_def by (metis fst_conv snd_conv)

lemma pda_at_unique: "pda_at rt seeds b k \<Longrightarrow> pda_at rt seeds b k' \<Longrightarrow> k = k'"
  by (simp add: pda_at_def)

lemma pda_at_seeds:
  assumes "pda_spec rt" "pda_at rt s b k" "pda_at rt s' b' k"
  shows "concat s = concat s'"
proof -
  have "concat (s @ [[b]]) = concat (s' @ [[b']])"
    using assms unfolding pda_spec_def pda_at_def by blast
  then show ?thesis by simp
qed

text \<open>Accounts of different kinds never share an address.\<close>

lemma pda_kinds_distinct:
  assumes "pda_spec rt"
  shows "pda_at rt (escrow_seeds i) b k \<Longrightarrow> pda_at rt (org_seeds j) b' k \<Longrightarrow> False"
    and "pda_at rt (escrow_seeds i) b k \<Longrightarrow> pda_at rt (bond_seeds j) b' k \<Longrightarrow> False"
    and "pda_at rt (org_seeds i) b k \<Longrightarrow> pda_at rt (bond_seeds j) b' k \<Longrightarrow> False"
    and "pda_at rt (escrow_vault_seeds i) b k \<Longrightarrow> pda_at rt (org_treasury_seeds j) b' k \<Longrightarrow> False"
  by (drule (1) pda_at_seeds [OF assms], simp add: seed_defs le_bytes_def)+

lemma pda_id_unique:
  assumes "pda_spec rt"
  shows "pda_at rt [sd, le_bytes i] b k \<Longrightarrow> pda_at rt [sd, le_bytes j] b' k \<Longrightarrow> i = j"
  by (drule (1) pda_at_seeds [OF assms]) simp

text \<open>No program-derived address has a private key, so none of them signs a transaction.\<close>

definition pda_unsigned :: "runtime \<Rightarrow> tx \<Rightarrow> bool" where
  "pda_unsigned rt tx = (\<forall>s k. rt_create_pda rt s = Some k \<longrightarrow> \<not> tx_signer tx k)"

lemma pda_unsignedD: "pda_unsigned rt tx \<Longrightarrow> pda_at rt s b k \<Longrightarrow> \<not> tx_signer tx k"
  unfolding pda_unsigned_def pda_at_def by blast

end
