(* ===== verification/Aeon_Escrow.thy ===== *)
theory Aeon_Escrow
  imports Aeon_Spend Aeon_Store
begin

text \<open>
  Conditional escrows: \<^verbatim>\<open>create_escrow.rs\<close>, \<^verbatim>\<open>release_escrow.rs\<close> and
  \<^verbatim>\<open>cancel_escrow.rs\<close>, and the life of an escrow as an abstract state machine that they
  refine.
\<close>

subsection \<open>\<^verbatim>\<open>create_escrow\<close>\<close>

record create_escrow_ctx =
  ce_payer :: pubkey
  ce_payee :: pubkey
  ce_config :: pubkey
  ce_authority :: "pubkey option"
  ce_escrow :: pubkey
  ce_escrow_vault :: pubkey
  ce_payer_token :: pubkey
  ce_aeon_mint :: pubkey
  ce_token_program :: pubkey

definition create_escrow_accounts ::
    "runtime \<Rightarrow> tx \<Rightarrow> world \<Rightarrow> create_escrow_ctx \<Rightarrow> u64
       \<Rightarrow> failure + config \<times> authority option \<times> u8 \<times> u8 \<times> world \<times> token_account \<times> mint" where
  "create_escrow_accounts rt tx w c escrow_id =
     (if \<not> tx_signer tx (ce_payer c) then anchor_err AccountNotSigner
      else bindr (load configs w (ce_config c)) (\<lambda>cfg.
      bindr (load_opt authorities w (ce_authority c)) (\<lambda>au.
      bindr (load_ext ledger w (ce_payer_token c)) (\<lambda>payer_token.
      bindr (load_ext mints w (ce_aeon_mint c)) (\<lambda>m.
      if \<not> rt_is_token_program rt (ce_token_program c) then anchor_err InvalidProgramId
      else bindr (init_pda rt tx w [] (escrow_seeds escrow_id) (ce_escrow c)) (\<lambda>es_b.
      bindr (init_token_pda rt tx [ce_escrow c] (escrow_vault_seeds escrow_id) (ce_token_program c)
               (ce_escrow_vault c) (ce_aeon_mint c) (ce_escrow c) w) (\<lambda>(vault_b, w1).
      if \<not> tx_writable tx (ce_payer c) then anchor_err ConstraintMut
      else if \<not> pda_at rt [SEED_CONFIG] (cfg_bump cfg) (ce_config c) then anchor_err ConstraintSeeds
      else if \<not> tx_writable tx (ce_config c) then anchor_err ConstraintMut
      else if \<not> opt_writable tx (ce_authority c) then anchor_err ConstraintMut
      else bindr (wallet tx (ce_payer_token c) payer_token (ce_payer c) (cfg_aeon_mint cfg)) (\<lambda>_.
      if ce_aeon_mint c \<noteq> cfg_aeon_mint cfg then err InvalidMint
      else Inr (cfg, au, es_b, vault_b, w1, payer_token, m)))))))))"

text \<open>Lines 79 to 109 of the file.\<close>

definition escrow_gate ::
    "runtime \<Rightarrow> u64 \<Rightarrow> create_escrow_ctx \<Rightarrow> bytes \<Rightarrow> u64 \<Rightarrow> authority option \<Rightarrow> u64 \<Rightarrow> u64
       \<Rightarrow> failure + (u64 \<times> bool) option" where
  "escrow_gate rt slot c category pre au authority_id amount =
     (if authority_id \<noteq> 0 then
        bindr (ok_or au (Aeon AuthorityRequired)) (\<lambda>a.
        if ce_authority c \<noteq> Some (fst (rt_find_pda rt (authority_seeds authority_id)))
        then err Unauthorized
        else if au_authority_id a \<noteq> authority_id then err Unauthorized
        else if au_agent a \<noteq> ce_payer c then err AuthorityAgentMismatch
        else if au_expiry_slot a \<noteq> 0 \<and> au_expiry_slot a < slot then err AuthorityExpired
        else if au_status a \<noteq> AUTH_STATUS_ACTIVE then err AuthorityNotActive
        else if \<not> amount \<le> au_max_per_tx a then err ExceedsMaxPerTx
        else bindr (ok_or (checked_add (au_spent a) amount) (Aeon Overflow)) (\<lambda>new_spent.
        if \<not> new_spent \<le> au_max_total a then err ExceedsMaxTotal
        else if \<not> new_spent \<le> au_budget a then err InsufficientBudget
        else bindr (category_allowed a category) (\<lambda>allowed.
        if \<not> allowed then err CategoryNotAllowed
        else bindr (recipient_blocked a (ce_payee c)) (\<lambda>blocked.
        if blocked then err RecipientBlocked
        else if \<not> amount \<le> pre then err InsufficientBudget
        else if \<not> au_require_min_reserve a \<le> saturating_sub pre amount
        then err InsufficientBudget
        else Inr (Some (new_spent, au_budget a \<le> new_spent))))))
      else if au \<noteq> None then err Unauthorized
      else Inr None)"

definition new_escrow ::
    "u64 \<Rightarrow> pubkey \<Rightarrow> pubkey \<Rightarrow> u64 \<Rightarrow> u64 \<Rightarrow> bytes \<Rightarrow> u8 \<Rightarrow> bytes \<Rightarrow> u64 \<Rightarrow> u64 \<Rightarrow> u8 \<Rightarrow> u8 \<Rightarrow> escrow" where
  "new_escrow escrow_id payer payee amount authority_id category condition_type condition_data
     slot expiry_slot vault_bump bump =
     \<lparr>es_escrow_id = escrow_id,
      es_payer = payer,
      es_payee = payee,
      es_amount = amount,
      es_authority_id = authority_id,
      es_category = category,
      es_condition_type = condition_type,
      es_condition_data = condition_data,
      es_status = ESCROW_STATUS_OPEN,
      es_created_slot = slot,
      es_expiry_slot = expiry_slot,
      es_vault_bump = vault_bump,
      es_bump = bump\<rparr>"

definition create_escrow ::
    "runtime \<Rightarrow> tx \<Rightarrow> world \<Rightarrow> create_escrow_ctx \<Rightarrow> u64 \<Rightarrow> u64 \<Rightarrow> u64 \<Rightarrow> bytes \<Rightarrow> u8 \<Rightarrow> bytes \<Rightarrow> u64
       \<Rightarrow> failure + world" where
  "create_escrow rt tx w c escrow_id amount authority_id category condition_type condition_data
     expiry_slot =
     bindr (create_escrow_accounts rt tx w c escrow_id)
       (\<lambda>(cfg, au, es_b, vault_b, w1, payer_token, m).
     if cfg_paused cfg then err Paused
     else if \<not> 0 < amount then err InvalidAmount
     else bindr (ok_or (checked_add (cfg_escrow_counter cfg) 1) (Aeon Overflow)) (\<lambda>expected_id.
     if escrow_id \<noteq> expected_id then err EscrowIdMismatch
     else if \<not> condition_type \<le> CONDITION_TIMEOUT then err EscrowConditionFailed
     else if ce_payer c = ce_payee c then err Unauthorized
     else bindr (escrow_gate rt (tx_slot tx) c category (ta_amount payer_token) au authority_id amount)
       (\<lambda>commit.
     bindr (cpi_transfer rt (ce_token_program c)
              \<lparr>tc_from = ce_payer_token c, tc_mint = ce_aeon_mint c, tc_to = ce_escrow_vault c,
               tc_authority = ce_payer c\<rparr>
              (tx_signer tx (ce_payer c)) amount (mint_decimals m) w1) (\<lambda>w2.
     bindr (commit_spent au commit) (\<lambda>au'.
     Inr (put escrows_update (ce_escrow c)
            (new_escrow escrow_id (ce_payer c) (ce_payee c) amount authority_id category
               condition_type condition_data (tx_slot tx) expiry_slot vault_b es_b)
           (put_opt authorities_update (ce_authority c) au'
             (put configs_update (ce_config c) (cfg\<lparr>cfg_escrow_counter := escrow_id\<rparr>)
               (log_event (EscrowCreatedEv escrow_id (ce_payer c) (ce_payee c) amount) w2)))))))))"

subsection \<open>\<^verbatim>\<open>release_escrow\<close>\<close>

record release_escrow_ctx =
  re_releaser :: pubkey
  re_escrow :: pubkey
  re_escrow_vault :: pubkey
  re_payee_token :: pubkey
  re_payer_cri :: pubkey
  re_payee_cri :: pubkey
  re_aeon_mint :: pubkey
  re_token_program :: pubkey

text \<open>
  The accounts of an escrow and its vault, declared alike by release and cancel.
\<close>

definition escrow_accounts ::
    "runtime \<Rightarrow> tx \<Rightarrow> u64 \<Rightarrow> pubkey \<Rightarrow> escrow \<Rightarrow> pubkey \<Rightarrow> failure + unit" where
  "escrow_accounts rt tx escrow_id k es kv =
     (if \<not> pda_at rt (escrow_seeds escrow_id) (es_bump es) k then anchor_err ConstraintSeeds
      else if \<not> tx_writable tx k then anchor_err ConstraintMut
      else if es_escrow_id es \<noteq> escrow_id then err EscrowIdMismatch
      else if \<not> pda_at rt (escrow_vault_seeds escrow_id) (es_vault_bump es) kv
      then anchor_err ConstraintSeeds
      else if \<not> tx_writable tx kv then anchor_err ConstraintMut
      else Inr ())"

definition release_escrow_accounts ::
    "runtime \<Rightarrow> tx \<Rightarrow> world \<Rightarrow> release_escrow_ctx \<Rightarrow> u64
       \<Rightarrow> failure + escrow \<times> token_account \<times> cri \<times> cri \<times> mint" where
  "release_escrow_accounts rt tx w c escrow_id =
     (if \<not> tx_signer tx (re_releaser c) then anchor_err AccountNotSigner
      else bindr (load escrows w (re_escrow c)) (\<lambda>es.
      bindr (load_ext ledger w (re_escrow_vault c)) (\<lambda>vault.
      bindr (load_ext ledger w (re_payee_token c)) (\<lambda>payee_token.
      bindr (load cris w (re_payer_cri c)) (\<lambda>payer_cri.
      bindr (load cris w (re_payee_cri c)) (\<lambda>payee_cri.
      bindr (load_ext mints w (re_aeon_mint c)) (\<lambda>m.
      if \<not> rt_is_token_program rt (re_token_program c) then anchor_err InvalidProgramId
      else bindr (escrow_accounts rt tx escrow_id (re_escrow c) es (re_escrow_vault c)) (\<lambda>_.
      bindr (wallet tx (re_payee_token c) payee_token (es_payee es) (ta_mint vault)) (\<lambda>_.
      bindr (cri_account rt tx (re_payer_cri c) payer_cri (es_payer es)) (\<lambda>_.
      bindr (cri_account rt tx (re_payee_cri c) payee_cri (es_payee es)) (\<lambda>_.
      Inr (es, vault, payer_cri, payee_cri, m))))))))))))"

text \<open>Lines 57 to 76: the expiry guard and the \<^verbatim>\<open>match\<close> on the condition type.\<close>

definition release_condition :: "escrow \<Rightarrow> u64 \<Rightarrow> bytes \<Rightarrow> failure + unit" where
  "release_condition es slot witness =
     (if es_condition_type es \<noteq> CONDITION_TIMEOUT \<and> es_expiry_slot es \<noteq> 0 \<and> es_expiry_slot es < slot
      then err EscrowExpired
      else if es_condition_type es = CONDITION_IMMEDIATE then Inr ()
      else if es_condition_type es = CONDITION_TIMEOUT then
        (if es_expiry_slot es = 0 then err EscrowConditionFailed
         else if \<not> es_expiry_slot es \<le> slot then err EscrowConditionFailed
         else Inr ())
      else if es_condition_type es = CONDITION_RECEIPT then
        (if take 32 witness \<noteq> take 32 (es_condition_data es) then err EscrowConditionFailed
         else Inr ())
      else err EscrowConditionFailed)"

definition release_escrow ::
    "runtime \<Rightarrow> tx \<Rightarrow> world \<Rightarrow> release_escrow_ctx \<Rightarrow> u64 \<Rightarrow> bytes \<Rightarrow> failure + world" where
  "release_escrow rt tx w c escrow_id witness =
     bindr (release_escrow_accounts rt tx w c escrow_id) (\<lambda>(es, vault, payer_cri, payee_cri, m).
     if es_status es \<noteq> ESCROW_STATUS_OPEN then err EscrowNotOpen
     else bindr (release_condition es (tx_slot tx) witness) (\<lambda>_.
     if re_aeon_mint c \<noteq> ta_mint vault then err InvalidMint
     else bindr (cpi_transfer rt (re_token_program c)
              \<lparr>tc_from = re_escrow_vault c, tc_mint = re_aeon_mint c, tc_to = re_payee_token c,
               tc_authority = re_escrow c\<rparr>
              (tx_signer tx (re_escrow c) \<or> pda_at rt (escrow_seeds escrow_id) (es_bump es) (re_escrow c))
              (es_amount es) (mint_decimals m) w) (\<lambda>w1.
     bindr (cri_commit (es_amount es) (tx_slot tx) payer_cri) (\<lambda>payer_cri'.
     bindr (cri_settle (es_amount es) (tx_slot tx) payee_cri) (\<lambda>payee_cri'.
     Inr (put cris_update (re_payee_cri c) payee_cri'
           (put cris_update (re_payer_cri c) payer_cri'
             (put escrows_update (re_escrow c) (es\<lparr>es_status := ESCROW_STATUS_RELEASED\<rparr>)
               (fold log_event
                 [EscrowReleasedEv escrow_id (es_payee es) (es_amount es),
                  cri_event (es_payer es) payer_cri', cri_event (es_payee es) payee_cri'] w1)))))))))"

subsection \<open>\<^verbatim>\<open>cancel_escrow\<close>\<close>

record cancel_escrow_ctx =
  cx_canceller :: pubkey
  cx_escrow :: pubkey
  cx_escrow_vault :: pubkey
  cx_payer_token :: pubkey
  cx_payer_cri :: pubkey
  cx_aeon_mint :: pubkey
  cx_token_program :: pubkey

definition cancel_escrow_accounts ::
    "runtime \<Rightarrow> tx \<Rightarrow> world \<Rightarrow> cancel_escrow_ctx \<Rightarrow> u64
       \<Rightarrow> failure + escrow \<times> token_account \<times> cri \<times> mint" where
  "cancel_escrow_accounts rt tx w c escrow_id =
     (if \<not> tx_signer tx (cx_canceller c) then anchor_err AccountNotSigner
      else bindr (load escrows w (cx_escrow c)) (\<lambda>es.
      bindr (load_ext ledger w (cx_escrow_vault c)) (\<lambda>vault.
      bindr (load_ext ledger w (cx_payer_token c)) (\<lambda>payer_token.
      bindr (load cris w (cx_payer_cri c)) (\<lambda>payer_cri.
      bindr (load_ext mints w (cx_aeon_mint c)) (\<lambda>m.
      if \<not> rt_is_token_program rt (cx_token_program c) then anchor_err InvalidProgramId
      else bindr (escrow_accounts rt tx escrow_id (cx_escrow c) es (cx_escrow_vault c)) (\<lambda>_.
      bindr (wallet tx (cx_payer_token c) payer_token (es_payer es) (ta_mint vault)) (\<lambda>_.
      bindr (cri_account rt tx (cx_payer_cri c) payer_cri (es_payer es)) (\<lambda>_.
      Inr (es, vault, payer_cri, m))))))))))"

definition cancel_escrow ::
    "runtime \<Rightarrow> tx \<Rightarrow> world \<Rightarrow> cancel_escrow_ctx \<Rightarrow> u64 \<Rightarrow> failure + world" where
  "cancel_escrow rt tx w c escrow_id =
     bindr (cancel_escrow_accounts rt tx w c escrow_id) (\<lambda>(es, vault, payer_cri, m).
     if es_status es \<noteq> ESCROW_STATUS_OPEN then err EscrowNotOpen
     else let expired = (es_expiry_slot es \<noteq> 0 \<and> es_expiry_slot es < tx_slot tx);
              is_payer = (cx_canceller c = es_payer es) in
     if \<not> (is_payer \<or> expired) then err EscrowCancelUnauthorized
     else if cx_aeon_mint c \<noteq> ta_mint vault then err InvalidMint
     else bindr (cpi_transfer rt (cx_token_program c)
              \<lparr>tc_from = cx_escrow_vault c, tc_mint = cx_aeon_mint c, tc_to = cx_payer_token c,
               tc_authority = cx_escrow c\<rparr>
              (tx_signer tx (cx_escrow c) \<or> pda_at rt (escrow_seeds escrow_id) (es_bump es) (cx_escrow c))
              (es_amount es) (mint_decimals m) w) (\<lambda>w1.
     bindr (ok_or (checked_add (cri_failed_commitments payer_cri) 1) (Aeon Overflow)) (\<lambda>failed.
     Inr (put cris_update (cx_payer_cri c)
            (payer_cri\<lparr>cri_failed_commitments := failed, cri_last_active_slot := tx_slot tx\<rparr>)
           (put escrows_update (cx_escrow c)
              (es\<lparr>es_status := (if expired \<and> \<not> is_payer then ESCROW_STATUS_EXPIRED
                               else ESCROW_STATUS_CANCELLED)\<rparr>)
             (log_event (EscrowCancelledEv escrow_id (es_payer es) (es_amount es)) w1))))))"

declare create_escrow_def [handler_defs] create_escrow_accounts_def [handler_defs]
  release_escrow_def [handler_defs] release_escrow_accounts_def [handler_defs]
  cancel_escrow_def [handler_defs] cancel_escrow_accounts_def [handler_defs]
  escrow_accounts_def [handler_defs]

subsection \<open>The life of an escrow\<close>

text \<open>
  When an open escrow may be released: an immediate one until it expires, one bound to a
  receipt also only against the committed 32 bytes, and a timeout escrow from its slot on.
  The oracle and multisig conditions are never met.
\<close>

definition releasable :: "escrow \<Rightarrow> u64 \<Rightarrow> bytes \<Rightarrow> bool" where
  "releasable es slot witness =
     (if es_condition_type es = CONDITION_TIMEOUT
      then es_expiry_slot es \<noteq> 0 \<and> es_expiry_slot es \<le> slot
      else (es_expiry_slot es = 0 \<or> slot \<le> es_expiry_slot es)
        \<and> (es_condition_type es = CONDITION_IMMEDIATE
           \<or> es_condition_type es = CONDITION_RECEIPT
             \<and> take 32 witness = take 32 (es_condition_data es)))"

lemma release_condition_iff: "(release_condition es slot witness = Inr ()) = releasable es slot witness"
  by (auto simp: release_condition_def releasable_def not_less)

inductive escrow_step :: "u64 \<Rightarrow> escrow \<Rightarrow> escrow \<Rightarrow> bool" for slot where
  release: "\<lbrakk> es_status es = ESCROW_STATUS_OPEN; releasable es slot witness \<rbrakk> \<Longrightarrow>
     escrow_step slot es (es\<lparr>es_status := ESCROW_STATUS_RELEASED\<rparr>)"
| cancel: "es_status es = ESCROW_STATUS_OPEN \<Longrightarrow>
     escrow_step slot es (es\<lparr>es_status := ESCROW_STATUS_CANCELLED\<rparr>)"
| expire: "\<lbrakk> es_status es = ESCROW_STATUS_OPEN; es_expiry_slot es \<noteq> 0; es_expiry_slot es < slot \<rbrakk> \<Longrightarrow>
     escrow_step slot es (es\<lparr>es_status := ESCROW_STATUS_EXPIRED\<rparr>)"

inductive_cases escrow_step_elim: "escrow_step slot es es'"

lemmas escrow_step_intros = escrow_step.intros [simplified]

definition escrow_ok :: "runtime \<Rightarrow> pubkey \<Rightarrow> escrow \<Rightarrow> bool" where
  "escrow_ok rt k es =
     (rt_find_pda rt (escrow_seeds (es_escrow_id es)) = (k, es_bump es)
      \<and> snd (rt_find_pda rt (escrow_vault_seeds (es_escrow_id es))) = es_vault_bump es
      \<and> 0 < es_amount es \<and> es_payer es \<noteq> es_payee es
      \<and> es_condition_type es \<le> CONDITION_TIMEOUT \<and> es_status es \<le> ESCROW_STATUS_EXPIRED)"

definition escrow_opened :: "runtime \<Rightarrow> pubkey \<Rightarrow> escrow \<Rightarrow> bool" where
  "escrow_opened rt k es = (escrow_ok rt k es \<and> es_status es = ESCROW_STATUS_OPEN)"

definition same_deal :: "escrow \<Rightarrow> escrow \<Rightarrow> bool" where
  "same_deal es es' = (es'\<lparr>es_status := es_status es\<rparr> = es)"

lemma same_deal_fields:
  assumes "same_deal es es'"
  shows "es_escrow_id es' = es_escrow_id es" "es_payer es' = es_payer es"
    "es_payee es' = es_payee es" "es_amount es' = es_amount es"
    "es_condition_type es' = es_condition_type es" "es_condition_data es' = es_condition_data es"
    "es_expiry_slot es' = es_expiry_slot es" "es_bump es' = es_bump es"
    "es_vault_bump es' = es_vault_bump es"
  by (subst assms [unfolded same_deal_def, symmetric]; simp)+

abbreviation is_open :: "escrow \<Rightarrow> bool" where
  "is_open es \<equiv> es_status es = ESCROW_STATUS_OPEN"

interpretation escrow_life: life_cycle escrow_step "escrow_opened rt" "escrow_ok rt" is_open same_deal
  for rt
proof unfold_locales
  show "same_deal a c" if "same_deal a b" "same_deal b c" for a b c
    using that unfolding same_deal_def by (metis escrow.surjective escrow.update_convs(9))
qed (auto elim!: escrow_step_elim simp: escrow_opened_def escrow_ok_def same_deal_def)

subsection \<open>What a successful call establishes\<close>

lemma escrow_gate_None: "escrow_gate rt slot c category pre au aid amount = Inr None \<Longrightarrow> aid = 0 \<and> au = None"
  by (auto simp: escrow_gate_def ok_simps split: if_splits)

lemma escrow_gate_Some:
  assumes "escrow_gate rt slot c category pre au aid amount = Inr (Some (n, exhaust))"
  shows "\<exists>a. au = Some a \<and> aid \<noteq> 0 \<and> spend_allowed a (ce_payer c) slot category aid amount
     \<and> unat n = unat (au_spent a) + unat amount \<and> exhaust = (au_budget a \<le> n)"
  using assms
  by (auto simp: escrow_gate_def ok_simps spend_allowed_def word_le_nat_alt not_less
      dest: category_allowed_True split: if_splits)

interpretation escrow_gates: spend_gate
  "\<lambda>(rt, slot, c, category, pre). escrow_gate rt slot c category pre"
  "\<lambda>(rt, slot, c, category, pre). ce_payer c"
  "\<lambda>(rt, slot, c, category, pre). slot"
  "\<lambda>(rt, slot, c, category, pre). category"
  by unfold_locales (auto dest: escrow_gate_None escrow_gate_Some)

lemma create_escrow_ok:
  assumes "create_escrow rt tx w c i amount aid category ctype cdata expiry = Inr w'"
  obtains cfg au eb vb l1 pt m commit l2 au' where
    "tx_signer tx (ce_payer c)" "configs w (ce_config c) = Some cfg" "\<not> cfg_paused cfg"
    "0 < amount" "unat i = unat (cfg_escrow_counter cfg) + 1" "ctype \<le> CONDITION_TIMEOUT"
    "ce_payer c \<noteq> ce_payee c"
    "load_opt authorities w (ce_authority c) = Inr au"
    "ledger w (ce_payer_token c) = Some pt" "ta_owner pt = ce_payer c"
    "mints w (ce_aeon_mint c) = Some m" "ce_aeon_mint c = cfg_aeon_mint cfg"
    "rt_find_pda rt (escrow_seeds i) = (ce_escrow c, eb)"
    "rt_find_pda rt (escrow_vault_seeds i) = (ce_escrow_vault c, vb)"
    "\<not> in_use w (ce_escrow c)" "\<not> in_use w (ce_escrow_vault c)"
    "escrow_gate rt (tx_slot tx) c category (ta_amount pt) au aid amount = Inr commit"
    "rt_tok_init rt (ce_token_program c) (ce_escrow_vault c) (ce_aeon_mint c) (ce_escrow c)
       (mints w) (ledger w) = Inr l1"
    "rt_tok_transfer rt (ce_token_program c)
       \<lparr>tc_from = ce_payer_token c, tc_mint = ce_aeon_mint c, tc_to = ce_escrow_vault c,
        tc_authority = ce_payer c\<rparr> True amount (mint_decimals m) (mints w) l1 = Inr l2"
    "commit_spent au commit = Inr au'"
    "w' = put escrows_update (ce_escrow c)
            (new_escrow i (ce_payer c) (ce_payee c) amount aid category ctype cdata
               (tx_slot tx) expiry vb eb)
           (put_opt authorities_update (ce_authority c) au'
             (put configs_update (ce_config c) (cfg\<lparr>cfg_escrow_counter := i\<rparr>)
               (log_event (EscrowCreatedEv i (ce_payer c) (ce_payee c) amount)
                 (w\<lparr>ledger := l2\<rparr>))))"
  using assms by (auto simp: handler_defs ok_simps simp del: CONDITION_TIMEOUT_def intro!: that)

lemma release_escrow_ok:
  assumes "release_escrow rt tx w c i witness = Inr w'"
  obtains es vault pt pc qc m l pc' qc' where
    "escrows w (re_escrow c) = Some es" "es_status es = ESCROW_STATUS_OPEN" "es_escrow_id es = i"
    "releasable es (tx_slot tx) witness" "tx_signer tx (re_releaser c)"
    "pda_at rt (escrow_seeds i) (es_bump es) (re_escrow c)"
    "pda_at rt (escrow_vault_seeds i) (es_vault_bump es) (re_escrow_vault c)"
    "ledger w (re_escrow_vault c) = Some vault" "mints w (re_aeon_mint c) = Some m" "re_aeon_mint c = ta_mint vault"
    "ledger w (re_payee_token c) = Some pt" "ta_owner pt = es_payee es" "ta_mint pt = ta_mint vault"
    "cris w (re_payer_cri c) = Some pc" "cri_agent pc = es_payer es"
    "cris w (re_payee_cri c) = Some qc" "cri_agent qc = es_payee es"
    "rt_tok_transfer rt (re_token_program c)
       \<lparr>tc_from = re_escrow_vault c, tc_mint = re_aeon_mint c, tc_to = re_payee_token c,
        tc_authority = re_escrow c\<rparr> True (es_amount es) (mint_decimals m) (mints w) (ledger w) = Inr l"
    "cri_commit (es_amount es) (tx_slot tx) pc = Inr pc'"
    "cri_settle (es_amount es) (tx_slot tx) qc = Inr qc'"
    "w' = put cris_update (re_payee_cri c) qc' (put cris_update (re_payer_cri c) pc'
       (put escrows_update (re_escrow c) (es\<lparr>es_status := ESCROW_STATUS_RELEASED\<rparr>)
         (fold log_event [EscrowReleasedEv i (es_payee es) (es_amount es),
            cri_event (es_payer es) pc', cri_event (es_payee es) qc'] (w\<lparr>ledger := l\<rparr>))))"
  using assms by (auto simp: handler_defs ok_simps release_condition_iff intro!: that)

lemma cancel_escrow_ok:
  assumes "cancel_escrow rt tx w c i = Inr w'"
  obtains es vault pt pc n m l where
    "escrows w (cx_escrow c) = Some es" "es_status es = ESCROW_STATUS_OPEN" "es_escrow_id es = i"
    "tx_signer tx (cx_canceller c)"
    "cx_canceller c = es_payer es \<or> es_expiry_slot es \<noteq> 0 \<and> es_expiry_slot es < tx_slot tx"
    "pda_at rt (escrow_seeds i) (es_bump es) (cx_escrow c)"
    "pda_at rt (escrow_vault_seeds i) (es_vault_bump es) (cx_escrow_vault c)"
    "ledger w (cx_escrow_vault c) = Some vault" "mints w (cx_aeon_mint c) = Some m" "cx_aeon_mint c = ta_mint vault"
    "ledger w (cx_payer_token c) = Some pt" "ta_owner pt = es_payer es" "ta_mint pt = ta_mint vault"
    "cris w (cx_payer_cri c) = Some pc" "cri_agent pc = es_payer es"
    "rt_tok_transfer rt (cx_token_program c)
       \<lparr>tc_from = cx_escrow_vault c, tc_mint = cx_aeon_mint c, tc_to = cx_payer_token c,
        tc_authority = cx_escrow c\<rparr> True (es_amount es) (mint_decimals m) (mints w) (ledger w) = Inr l"
    "unat n = unat (cri_failed_commitments pc) + 1"
    "w' = put cris_update (cx_payer_cri c)
         (pc\<lparr>cri_failed_commitments := n, cri_last_active_slot := tx_slot tx\<rparr>)
       (put escrows_update (cx_escrow c) (es\<lparr>es_status := (if (es_expiry_slot es \<noteq> 0 \<and> es_expiry_slot es < tx_slot tx)
           \<and> cx_canceller c \<noteq> es_payer es then ESCROW_STATUS_EXPIRED else ESCROW_STATUS_CANCELLED)\<rparr>)
         (log_event (EscrowCancelledEv i (es_payer es) (es_amount es)) (w\<lparr>ledger := l\<rparr>)))"
  using assms by (auto simp: handler_defs ok_simps Let_def intro!: that)

subsection \<open>The instructions follow the machine\<close>

lemma create_escrow_store_step:
  assumes "create_escrow rt tx w c i amount aid category ctype cdata expiry = Inr w'"
  shows "store_step escrow_step (escrow_opened rt) (tx_slot tx) (escrows w) (escrows w')"
  using assms
proof (rule create_escrow_ok)
  fix eb vb cfg au' l2
  let ?es = "new_escrow i (ce_payer c) (ce_payee c) amount aid category ctype cdata (tx_slot tx)
      expiry vb eb"
  assume h: "0 < amount" "ctype \<le> CONDITION_TIMEOUT" "ce_payer c \<noteq> ce_payee c"
    "rt_find_pda rt (escrow_seeds i) = (ce_escrow c, eb)"
    "rt_find_pda rt (escrow_vault_seeds i) = (ce_escrow_vault c, vb)"
    "\<not> in_use w (ce_escrow c)"
    "w' = put escrows_update (ce_escrow c) ?es
           (put_opt authorities_update (ce_authority c) au'
             (put configs_update (ce_config c) (cfg\<lparr>cfg_escrow_counter := i\<rparr>)
               (log_event (EscrowCreatedEv i (ce_payer c) (ce_payee c) amount)
                 (w\<lparr>ledger := l2\<rparr>))))"
  have "escrows w' = (escrows w)(ce_escrow c \<mapsto> ?es)"
    using h(7) by (simp add: world_simps split: option.splits)
  moreover have "escrow_opened rt (ce_escrow c) ?es"
    using h(1-5) by (simp add: escrow_opened_def escrow_ok_def new_escrow_def)
  ultimately show ?thesis
    using not_in_use_fresh(5) [OF h(6)] by (simp add: store_step.create)
qed

lemma create_escrow_auth_step:
  assumes "create_escrow rt tx w c i amount aid category ctype cdata expiry = Inr w'"
  shows "auth_store_step rt (tx_slot tx) (authorities w) (authorities w')"
  using assms
proof (rule create_escrow_ok)
  fix au pt commit au' cfg l2 vb eb
  assume h: "load_opt authorities w (ce_authority c) = Inr au"
    "escrow_gate rt (tx_slot tx) c category (ta_amount pt) au aid amount = Inr commit"
    "commit_spent au commit = Inr au'"
    "w' = put escrows_update (ce_escrow c)
            (new_escrow i (ce_payer c) (ce_payee c) amount aid category ctype cdata
               (tx_slot tx) expiry vb eb)
           (put_opt authorities_update (ce_authority c) au'
             (put configs_update (ce_config c) (cfg\<lparr>cfg_escrow_counter := i\<rparr>)
               (log_event (EscrowCreatedEv i (ce_payer c) (ce_payee c) amount)
                 (w\<lparr>ledger := l2\<rparr>))))"
  let ?x = "(rt, tx_slot tx, c, category, ta_amount pt)"
  let ?w = "put configs_update (ce_config c) (cfg\<lparr>cfg_escrow_counter := i\<rparr>)
      (log_event (EscrowCreatedEv i (ce_payer c) (ce_payee c) amount) (w\<lparr>ledger := l2\<rparr>))"
  have "auth_store_step rt (case ?x of (rt, slot, c, category, pre) \<Rightarrow> slot) (authorities w)
      (authorities (put_opt authorities_update (ce_authority c) au' ?w))"
    by (rule escrow_gates.gated_store_step [where x = ?x and au = au and aid = aid])
      (use h(1-3) in \<open>auto simp: ok_simps log_event_def put_def\<close>)
  with h(4) show ?thesis by (simp add: put_def)
qed

lemma release_escrow_store_step:
  assumes "release_escrow rt tx w c i witness = Inr w'"
  shows "store_step escrow_step (escrow_opened rt) (tx_slot tx) (escrows w) (escrows w')"
  using assms
  by (rule release_escrow_ok)
    (auto simp: world_simps intro!: store_step.move escrow_step_intros)

lemma cancel_escrow_store_step:
  assumes "cancel_escrow rt tx w c i = Inr w'"
  shows "store_step escrow_step (escrow_opened rt) (tx_slot tx) (escrows w) (escrows w')"
  using assms
  by (rule cancel_escrow_ok)
    (auto simp: world_simps intro!: store_step.move escrow_step_intros)

subsection \<open>Every open escrow is covered by its vault\<close>

definition escrow_vault_at :: "runtime \<Rightarrow> pubkey \<Rightarrow> escrow \<Rightarrow> pubkey \<Rightarrow> bool" where
  "escrow_vault_at rt k es kv = (kv = fst (rt_find_pda rt (escrow_vault_seeds (es_escrow_id es))))"

definition escrow_due :: "escrow \<Rightarrow> nat" where
  "escrow_due es = (if es_status es = ESCROW_STATUS_OPEN then unat (es_amount es) else 0)"

abbreviation escrows_funded :: "runtime \<Rightarrow> world \<Rightarrow> bool" where
  "escrows_funded rt w \<equiv> funded (escrow_vault_at rt) escrow_due (escrows w) (ledger w)"

lemma create_escrow_ledger:
  assumes "token_spec rt" "create_escrow rt tx w c i amount aid category ctype cdata expiry = Inr w'"
  shows "owner \<noteq> ce_payer c \<Longrightarrow> keeps owner (ledger w) (ledger w')"
    and "holds (ledger w') (ce_escrow_vault c) (ce_escrow c) (unat amount)"
proof -
  from assms(2) obtain l1 l2 pt m where h: "ledger w' = l2" "ledger w (ce_payer_token c) = Some pt"
    "mints w (ce_aeon_mint c) = Some m"
    "rt_tok_init rt (ce_token_program c) (ce_escrow_vault c) (ce_aeon_mint c) (ce_escrow c)
       (mints w) (ledger w) = Inr l1"
    "rt_tok_transfer rt (ce_token_program c)
       \<lparr>tc_from = ce_payer_token c, tc_mint = ce_aeon_mint c, tc_to = ce_escrow_vault c,
        tc_authority = ce_payer c\<rparr> True amount (mint_decimals m) (mints w) l1 = Inr l2"
    by (rule create_escrow_ok) (auto simp: world_frame)
  note init = keeps_init [OF assms(1) h(4)]
  note moved = transferredD(2) [OF token_spec_transfer [OF assms(1)] h(5)]
  show "keeps owner (ledger w) (ledger w')" if "owner \<noteq> ce_payer c"
    using keeps_trans [OF init(1)] keeps_transferred [OF moved, of owner] that h(1) by simp
  have "ce_payer_token c \<noteq> ce_escrow_vault c" using h(2) init(2) by auto
  then show "holds (ledger w') (ce_escrow_vault c) (ce_escrow c) (unat amount)"
    using holds_deposit [OF moved, where owner = "ce_escrow c"] init(3) h(1) by simp
qed

lemma release_escrow_ledger:
  assumes "token_spec rt" "release_escrow rt tx w c i witness = Inr w'" "owner \<noteq> re_escrow c"
  shows "keeps owner (ledger w) (ledger w')"
  using assms(2)
  by (rule release_escrow_ok)
    (use assms(1,3) in \<open>auto simp: world_simps dest!: keeps_transfer [where owner = owner]\<close>)

lemma cancel_escrow_ledger:
  assumes "token_spec rt" "cancel_escrow rt tx w c i = Inr w'" "owner \<noteq> cx_escrow c"
  shows "keeps owner (ledger w) (ledger w')"
  using assms(2)
  by (rule cancel_escrow_ok)
    (use assms(1,3) in \<open>auto simp: world_simps dest!: keeps_transfer [where owner = owner]\<close>)

end
