(* ===== verification/Aeon_Org.thy ===== *)
theory Aeon_Org
  imports Aeon_Spend Aeon_Store
begin

text \<open>
  Organizations: \<^verbatim>\<open>create_org.rs\<close>, \<^verbatim>\<open>join_org.rs\<close>, \<^verbatim>\<open>set_member_share.rs\<close>,
  \<^verbatim>\<open>deposit_to_org.rs\<close>, \<^verbatim>\<open>org_split.rs\<close>, \<^verbatim>\<open>dissolve_org.rs\<close> and
  \<^verbatim>\<open>reclaim_org_residual.rs\<close>.
\<close>

subsection \<open>Accounts the instructions declare alike\<close>

text \<open>
  The organization (\<^verbatim>\<open>mut\<close>, its seeds, its id, a status with the error for any other), the
  membership of an admin, and the treasury.
\<close>

definition org_account ::
    "runtime \<Rightarrow> tx \<Rightarrow> u64 \<Rightarrow> pubkey \<Rightarrow> organization \<Rightarrow> u8 \<Rightarrow> aeon_error \<Rightarrow> failure + unit" where
  "org_account rt tx org_id k org status e =
     (if \<not> pda_at rt (org_seeds org_id) (org_bump org) k then anchor_err ConstraintSeeds
      else if \<not> tx_writable tx k then anchor_err ConstraintMut
      else if org_org_id org \<noteq> org_id then err Unauthorized
      else if org_status org \<noteq> status then err e
      else Inr ())"

definition admin_account ::
    "runtime \<Rightarrow> u64 \<Rightarrow> pubkey \<Rightarrow> org_member \<Rightarrow> pubkey \<Rightarrow> failure + unit" where
  "admin_account rt org_id k member admin =
     (if \<not> pda_at rt (org_member_seeds org_id admin) (om_bump member) k
      then anchor_err ConstraintSeeds
      else if om_agent member \<noteq> admin then err Unauthorized
      else if om_role member \<noteq> ROLE_ADMIN then err Unauthorized
      else Inr ())"

definition treasury_account ::
    "runtime \<Rightarrow> tx \<Rightarrow> u64 \<Rightarrow> organization \<Rightarrow> pubkey \<Rightarrow> failure + unit" where
  "treasury_account rt tx org_id org k =
     (if \<not> pda_at rt (org_treasury_seeds org_id) (org_treasury_bump org) k
      then anchor_err ConstraintSeeds
      else if \<not> tx_writable tx k then anchor_err ConstraintMut
      else Inr ())"

lemma org_account_ok [ok_simps]:
  "(org_account rt tx i k g st e = Inr u)
     = (pda_at rt (org_seeds i) (org_bump g) k \<and> tx_writable tx k \<and> org_org_id g = i
        \<and> org_status g = st)"
  by (simp add: org_account_def)

lemma admin_account_ok [ok_simps]:
  "(admin_account rt i k m admin = Inr u)
     = (pda_at rt (org_member_seeds i admin) (om_bump m) k \<and> om_agent m = admin
        \<and> om_role m = ROLE_ADMIN)"
  by (simp add: admin_account_def)

lemma treasury_account_ok [ok_simps]:
  "(treasury_account rt tx i g k = Inr u)
     = (pda_at rt (org_treasury_seeds i) (org_treasury_bump g) k \<and> tx_writable tx k)"
  by (simp add: treasury_account_def)

subsection \<open>\<^verbatim>\<open>create_org\<close>\<close>

record create_org_ctx =
  co_creator :: pubkey
  co_config :: pubkey
  co_creator_identity :: pubkey
  co_organization :: pubkey
  co_org_treasury :: pubkey
  co_creator_member :: pubkey
  co_aeon_mint :: pubkey
  co_token_program :: pubkey

definition create_org_accounts ::
    "runtime \<Rightarrow> tx \<Rightarrow> world \<Rightarrow> create_org_ctx \<Rightarrow> u64
       \<Rightarrow> failure + config \<times> u8 \<times> u8 \<times> u8 \<times> world" where
  "create_org_accounts rt tx w c org_id =
     (if \<not> tx_signer tx (co_creator c) then anchor_err AccountNotSigner
      else bindr (load configs w (co_config c)) (\<lambda>cfg.
      bindr (load agents w (co_creator_identity c)) (\<lambda>ident.
      bindr (load_ext mints w (co_aeon_mint c)) (\<lambda>m.
      if \<not> rt_is_token_program rt (co_token_program c) then anchor_err InvalidProgramId
      else bindr (init_pda rt tx w [] (org_seeds org_id) (co_organization c)) (\<lambda>org_b.
      bindr (init_token_pda rt tx [co_organization c] (org_treasury_seeds org_id)
               (co_token_program c) (co_org_treasury c) (co_aeon_mint c) (co_organization c) w)
        (\<lambda>(treasury_b, w1).
      bindr (init_pda rt tx w [co_organization c, co_org_treasury c]
               (org_member_seeds org_id (co_creator c)) (co_creator_member c)) (\<lambda>member_b.
      if \<not> tx_writable tx (co_creator c) then anchor_err ConstraintMut
      else if \<not> pda_at rt [SEED_CONFIG] (cfg_bump cfg) (co_config c) then anchor_err ConstraintSeeds
      else if \<not> tx_writable tx (co_config c) then anchor_err ConstraintMut
      else if \<not> pda_at rt (agent_seeds (co_creator c)) (ag_bump ident) (co_creator_identity c)
      then anchor_err ConstraintSeeds
      else if ag_agent ident \<noteq> co_creator c then err Unauthorized
      else if \<not> ag_active ident then err AgentNotActive
      else if co_aeon_mint c \<noteq> cfg_aeon_mint cfg then err InvalidMint
      else Inr (cfg, org_b, treasury_b, member_b, w1))))))))"

definition new_org :: "u64 \<Rightarrow> bytes \<Rightarrow> pubkey \<Rightarrow> u16 \<Rightarrow> u64 \<Rightarrow> u8 \<Rightarrow> u8 \<Rightarrow> organization" where
  "new_org org_id name_hash creator_key share slot treasury_bump bump =
     \<lparr>org_org_id = org_id,
      org_name_hash = name_hash,
      org_creator = creator_key,
      org_member_count = 1,
      org_total_share_bps = share,
      org_status = ORG_STATUS_ACTIVE,
      org_created_slot = slot,
      org_treasury_bump = treasury_bump,
      org_bump = bump\<rparr>"

definition new_member :: "u64 \<Rightarrow> pubkey \<Rightarrow> u8 \<Rightarrow> u16 \<Rightarrow> u8 \<Rightarrow> org_member" where
  "new_member org_id agent_key role share_bps bump =
     \<lparr>om_org_id = org_id,
      om_agent = agent_key,
      om_role = role,
      om_share_bps = share_bps,
      om_bump = bump\<rparr>"

definition create_org ::
    "runtime \<Rightarrow> tx \<Rightarrow> world \<Rightarrow> create_org_ctx \<Rightarrow> u64 \<Rightarrow> bytes \<Rightarrow> u16 \<Rightarrow> failure + world" where
  "create_org rt tx w c org_id name_hash creator_share_bps =
     bindr (create_org_accounts rt tx w c org_id) (\<lambda>(cfg, org_b, treasury_b, member_b, w1).
     if cfg_paused cfg then err Paused
     else if \<not> creator_share_bps \<le> 10000 then err InvalidShareBps
     else bindr (ok_or (checked_add (cfg_org_counter cfg) 1) (Aeon Overflow)) (\<lambda>expected_id.
     if org_id \<noteq> expected_id then err Unauthorized
     else let share = (if creator_share_bps = 0 then 10000 else creator_share_bps) in
     Inr (put members_update (co_creator_member c)
            (new_member org_id (co_creator c) ROLE_ADMIN share member_b)
           (put orgs_update (co_organization c)
              (new_org org_id name_hash (co_creator c) share (tx_slot tx) treasury_b org_b)
             (put configs_update (co_config c) (cfg\<lparr>cfg_org_counter := org_id\<rparr>)
               (log_event (OrgCreatedEv org_id (co_creator c)) w1))))))"

subsection \<open>\<^verbatim>\<open>join_org\<close>\<close>

record join_org_ctx =
  jo_admin :: pubkey
  jo_new_agent :: pubkey
  jo_organization :: pubkey
  jo_admin_member :: pubkey
  jo_agent_identity :: pubkey
  jo_new_member :: pubkey

definition join_org_accounts ::
    "runtime \<Rightarrow> tx \<Rightarrow> world \<Rightarrow> join_org_ctx \<Rightarrow> u64 \<Rightarrow> failure + organization \<times> u8" where
  "join_org_accounts rt tx w c org_id =
     (if \<not> tx_signer tx (jo_admin c) then anchor_err AccountNotSigner
      else bindr (load orgs w (jo_organization c)) (\<lambda>org.
      bindr (load members w (jo_admin_member c)) (\<lambda>admin_member.
      bindr (load agents w (jo_agent_identity c)) (\<lambda>ident.
      bindr (init_pda rt tx w [] (org_member_seeds org_id (jo_new_agent c)) (jo_new_member c))
        (\<lambda>member_b.
      if \<not> tx_writable tx (jo_admin c) then anchor_err ConstraintMut
      else bindr (org_account rt tx org_id (jo_organization c) org ORG_STATUS_ACTIVE OrgNotActive) (\<lambda>_.
      bindr (admin_account rt org_id (jo_admin_member c) admin_member (jo_admin c)) (\<lambda>_.
      if \<not> pda_at rt (agent_seeds (jo_new_agent c)) (ag_bump ident) (jo_agent_identity c)
      then anchor_err ConstraintSeeds
      else if ag_agent ident \<noteq> jo_new_agent c then err Unauthorized
      else if \<not> ag_active ident then err AgentNotActive
      else Inr (org, member_b))))))))"

definition join_org ::
    "runtime \<Rightarrow> tx \<Rightarrow> world \<Rightarrow> join_org_ctx \<Rightarrow> u64 \<Rightarrow> u8 \<Rightarrow> u16 \<Rightarrow> failure + world" where
  "join_org rt tx w c org_id role share_bps =
     bindr (join_org_accounts rt tx w c org_id) (\<lambda>(org, member_b).
     if \<not> (role = ROLE_ADMIN \<or> role = ROLE_MEMBER \<or> role = ROLE_VIEWER) then err Unauthorized
     else if \<not> share_bps \<le> 10000 then err InvalidShareBps
     else bindr (ok_or (checked_add (org_total_share_bps org) share_bps) (Aeon Overflow)) (\<lambda>new_total.
     if \<not> new_total \<le> 10000 then err ShareBpsExceedsMax
     else bindr (ok_or (checked_add (org_member_count org) 1) (Aeon Overflow)) (\<lambda>new_count.
     Inr (put members_update (jo_new_member c)
            (new_member org_id (jo_new_agent c) role share_bps member_b)
           (put orgs_update (jo_organization c)
              (org\<lparr>org_total_share_bps := new_total, org_member_count := new_count\<rparr>)
             (log_event (MemberJoinedEv org_id (jo_new_agent c) role share_bps) w))))))"

subsection \<open>\<^verbatim>\<open>set_member_share\<close>\<close>

record set_member_share_ctx =
  sm_admin :: pubkey
  sm_organization :: pubkey
  sm_admin_member :: pubkey
  sm_target_member :: pubkey

definition set_member_share_accounts ::
    "runtime \<Rightarrow> tx \<Rightarrow> world \<Rightarrow> set_member_share_ctx \<Rightarrow> u64 \<Rightarrow> failure + organization \<times> org_member" where
  "set_member_share_accounts rt tx w c org_id =
     (if \<not> tx_signer tx (sm_admin c) then anchor_err AccountNotSigner
      else bindr (load orgs w (sm_organization c)) (\<lambda>org.
      bindr (load members w (sm_admin_member c)) (\<lambda>admin_member.
      bindr (load members w (sm_target_member c)) (\<lambda>target.
      bindr (org_account rt tx org_id (sm_organization c) org ORG_STATUS_ACTIVE OrgNotActive) (\<lambda>_.
      bindr (admin_account rt org_id (sm_admin_member c) admin_member (sm_admin c)) (\<lambda>_.
      if \<not> pda_at rt (org_member_seeds org_id (om_agent target)) (om_bump target) (sm_target_member c)
      then anchor_err ConstraintSeeds
      else if \<not> tx_writable tx (sm_target_member c) then anchor_err ConstraintMut
      else if om_org_id target \<noteq> org_id then err Unauthorized
      else Inr (org, target)))))))"

definition set_member_share ::
    "runtime \<Rightarrow> tx \<Rightarrow> world \<Rightarrow> set_member_share_ctx \<Rightarrow> u64 \<Rightarrow> u16 \<Rightarrow> failure + world" where
  "set_member_share rt tx w c org_id new_share_bps =
     bindr (set_member_share_accounts rt tx w c org_id) (\<lambda>(org, target).
     if \<not> new_share_bps \<le> 10000 then err InvalidShareBps
     else bindr (ok_or (checked_sub (org_total_share_bps org) (om_share_bps target)) (Aeon Overflow))
       (\<lambda>without_old.
     bindr (ok_or (checked_add without_old new_share_bps) (Aeon Overflow)) (\<lambda>new_total.
     if \<not> new_total \<le> 10000 then err ShareBpsExceedsMax
     else Inr (put members_update (sm_target_member c) (target\<lparr>om_share_bps := new_share_bps\<rparr>)
           (put orgs_update (sm_organization c) (org\<lparr>org_total_share_bps := new_total\<rparr>)
             (log_event (MemberShareUpdatedEv org_id (om_agent target) (om_share_bps target)
                new_share_bps) w))))))"

subsection \<open>\<^verbatim>\<open>deposit_to_org\<close>\<close>

record deposit_to_org_ctx =
  do_member :: pubkey
  do_organization :: pubkey
  do_org_member :: pubkey
  do_org_treasury :: pubkey
  do_member_token :: pubkey
  do_aeon_mint :: pubkey
  do_token_program :: pubkey

definition deposit_to_org_accounts ::
    "runtime \<Rightarrow> tx \<Rightarrow> world \<Rightarrow> deposit_to_org_ctx \<Rightarrow> u64
       \<Rightarrow> failure + organization \<times> token_account \<times> mint" where
  "deposit_to_org_accounts rt tx w c org_id =
     (if \<not> tx_signer tx (do_member c) then anchor_err AccountNotSigner
      else bindr (load orgs w (do_organization c)) (\<lambda>org.
      bindr (load members w (do_org_member c)) (\<lambda>member.
      bindr (load_ext ledger w (do_org_treasury c)) (\<lambda>treasury.
      bindr (load_ext ledger w (do_member_token c)) (\<lambda>member_token.
      bindr (load_ext mints w (do_aeon_mint c)) (\<lambda>m.
      if \<not> rt_is_token_program rt (do_token_program c) then anchor_err InvalidProgramId
      else bindr (org_account rt tx org_id (do_organization c) org ORG_STATUS_ACTIVE OrgNotActive) (\<lambda>_.
      if \<not> pda_at rt (org_member_seeds org_id (do_member c)) (om_bump member) (do_org_member c)
      then anchor_err ConstraintSeeds
      else if om_agent member \<noteq> do_member c then err Unauthorized
      else if om_org_id member \<noteq> org_id then err Unauthorized
      else bindr (treasury_account rt tx org_id org (do_org_treasury c)) (\<lambda>_.
      bindr (wallet tx (do_member_token c) member_token (do_member c) (ta_mint treasury)) (\<lambda>_.
      Inr (org, treasury, m))))))))))"

definition deposit_to_org ::
    "runtime \<Rightarrow> tx \<Rightarrow> world \<Rightarrow> deposit_to_org_ctx \<Rightarrow> u64 \<Rightarrow> u64 \<Rightarrow> failure + world" where
  "deposit_to_org rt tx w c org_id amount =
     bindr (deposit_to_org_accounts rt tx w c org_id) (\<lambda>(org, treasury, m).
     if \<not> 0 < amount then err InvalidAmount
     else if do_aeon_mint c \<noteq> ta_mint treasury then err InvalidMint
     else bindr (cpi_transfer rt (do_token_program c)
              \<lparr>tc_from = do_member_token c, tc_mint = do_aeon_mint c, tc_to = do_org_treasury c,
               tc_authority = do_member c\<rparr>
              (tx_signer tx (do_member c)) amount (mint_decimals m) w) (\<lambda>w1.
     Inr (put orgs_update (do_organization c) org
           (log_event (OrgDepositedEv org_id (do_member c) amount) w1))))"

declare create_org_def [handler_defs] create_org_accounts_def [handler_defs]
  join_org_def [handler_defs] join_org_accounts_def [handler_defs]
  set_member_share_def [handler_defs] set_member_share_accounts_def [handler_defs]
  deposit_to_org_def [handler_defs] deposit_to_org_accounts_def [handler_defs]

subsection \<open>The directory of organizations and members\<close>

text \<open>
  The abstract specification of the share ledger.  An organization's \<^verbatim>\<open>total_share_bps\<close> is to
  be the sum of its members' shares, its \<^verbatim>\<open>member_count\<close> their number.
\<close>

type_synonym org_map = "pubkey \<rightharpoonup> organization"
type_synonym member_map = "pubkey \<rightharpoonup> org_member"

definition members_of :: "member_map \<Rightarrow> u64 \<Rightarrow> pubkey set" where
  "members_of M i = {k. \<exists>m. M k = Some m \<and> om_org_id m = i}"

definition org_shares :: "member_map \<Rightarrow> u64 \<Rightarrow> nat" where
  "org_shares M i = (\<Sum>k \<in> members_of M i. unat (om_share_bps (the (M k))))"

definition org_ok :: "runtime \<Rightarrow> pubkey \<Rightarrow> organization \<Rightarrow> bool" where
  "org_ok rt k g =
     (rt_find_pda rt (org_seeds (org_org_id g)) = (k, org_bump g)
      \<and> snd (rt_find_pda rt (org_treasury_seeds (org_org_id g))) = org_treasury_bump g
      \<and> org_total_share_bps g \<le> 10000 \<and> org_status g \<le> ORG_STATUS_CLOSED)"

definition member_ok :: "runtime \<Rightarrow> pubkey \<Rightarrow> org_member \<Rightarrow> bool" where
  "member_ok rt k m =
     (rt_find_pda rt (org_member_seeds (om_org_id m) (om_agent m)) = (k, om_bump m)
      \<and> om_share_bps m \<le> 10000 \<and> om_role m \<le> ROLE_VIEWER)"

definition directory_ok :: "runtime \<Rightarrow> org_map \<Rightarrow> member_map \<Rightarrow> bool" where
  "directory_ok rt G M =
     (finite (dom M)
      \<and> (\<forall>k g. G k = Some g \<longrightarrow> org_ok rt k g
           \<and> unat (org_total_share_bps g) = org_shares M (org_org_id g)
           \<and> unat (org_member_count g) = card (members_of M (org_org_id g)))
      \<and> (\<forall>k m. M k = Some m \<longrightarrow> member_ok rt k m
           \<and> G (fst (rt_find_pda rt (org_seeds (om_org_id m)))) \<noteq> None))"

inductive directory_step ::
    "runtime \<Rightarrow> org_map \<Rightarrow> member_map \<Rightarrow> org_map \<Rightarrow> member_map \<Rightarrow> bool" for rt where
  same: "directory_step rt G M G M"
| found: "\<lbrakk> G k = None; M km = None; org_ok rt k g; member_ok rt km m; om_org_id m = org_org_id g;
     org_total_share_bps g = om_share_bps m; org_member_count g = 1;
     org_status g = ORG_STATUS_ACTIVE; om_role m = ROLE_ADMIN \<rbrakk> \<Longrightarrow>
     directory_step rt G M (G(k \<mapsto> g)) (M(km \<mapsto> m))"
| join: "\<lbrakk> G k = Some g; org_status g = ORG_STATUS_ACTIVE; M km = None; member_ok rt km m;
     om_org_id m = org_org_id g; unat t = unat (org_total_share_bps g) + unat (om_share_bps m);
     t \<le> 10000; unat n = unat (org_member_count g) + 1 \<rbrakk> \<Longrightarrow>
     directory_step rt G M (G(k \<mapsto> g\<lparr>org_total_share_bps := t, org_member_count := n\<rparr>)) (M(km \<mapsto> m))"
| reshare: "\<lbrakk> G k = Some g; org_status g = ORG_STATUS_ACTIVE; M km = Some m;
     om_org_id m = org_org_id g; s \<le> 10000;
     unat t + unat (om_share_bps m) = unat (org_total_share_bps g) + unat s; t \<le> 10000 \<rbrakk> \<Longrightarrow>
     directory_step rt G M (G(k \<mapsto> g\<lparr>org_total_share_bps := t\<rparr>)) (M(km \<mapsto> m\<lparr>om_share_bps := s\<rparr>))"
| close: "\<lbrakk> G k = Some g; org_status g = ORG_STATUS_ACTIVE \<rbrakk> \<Longrightarrow>
     directory_step rt G M (G(k \<mapsto> g\<lparr>org_status := ORG_STATUS_CLOSED\<rparr>)) M"

inductive_cases directory_step_elim: "directory_step rt G M G' M'"

lemma members_of_dom: "members_of M i \<subseteq> dom M"
  by (auto simp: members_of_def)

lemma finite_members_of: "finite (dom M) \<Longrightarrow> finite (members_of M i)"
  using members_of_dom finite_subset by blast

lemma members_of_new:
  "M km = None \<Longrightarrow> members_of (M(km \<mapsto> m)) i
     = (if om_org_id m = i then insert km (members_of M i) else members_of M i)"
  by (auto simp: members_of_def)

lemma members_of_reshare:
  "M km = Some m \<Longrightarrow> members_of (M(km \<mapsto> m\<lparr>om_share_bps := s\<rparr>)) i = members_of M i"
  by (auto simp: members_of_def)

lemma org_shares_new:
  assumes "finite (dom M)" "M km = None"
  shows "org_shares (M(km \<mapsto> m)) i
     = org_shares M i + (if om_org_id m = i then unat (om_share_bps m) else 0)"
proof -
  have km: "km \<notin> members_of M i" using assms(2) by (auto simp: members_of_def)
  then have "(\<Sum>k \<in> members_of M i. unat (om_share_bps (the ((M(km \<mapsto> m)) k)))) = org_shares M i"
    unfolding org_shares_def by (intro sum.cong) auto
  then show ?thesis
    using km finite_members_of [OF assms(1)]
    by (simp add: org_shares_def members_of_new [of M, OF assms(2)] del: fun_upd_apply) simp
qed

lemma org_shares_reshare:
  assumes "finite (dom M)" "M km = Some m"
  shows "org_shares (M(km \<mapsto> m\<lparr>om_share_bps := s\<rparr>)) i
       + (if om_org_id m = i then unat (om_share_bps m) else 0)
     = org_shares M i + (if om_org_id m = i then unat s else 0)"
proof (cases "om_org_id m = i")
  case True
  let ?M' = "M(km \<mapsto> m\<lparr>om_share_bps := s\<rparr>)"
  have km: "km \<in> members_of M i" using True assms(2) by (auto simp: members_of_def)
  note fin = finite_members_of [OF assms(1), of i]
  have "(\<Sum>k \<in> members_of M i - {km}. unat (om_share_bps (the (?M' k))))
      = (\<Sum>k \<in> members_of M i - {km}. unat (om_share_bps (the (M k))))"
    by (intro sum.cong) auto
  then show ?thesis
    using sum.remove [OF fin km, of "\<lambda>k. unat (om_share_bps (the (?M' k)))"]
      sum.remove [OF fin km, of "\<lambda>k. unat (om_share_bps (the (M k)))"] True assms(2)
    by (simp add: org_shares_def members_of_reshare [of M, OF assms(2)])
next
  case False
  then have "km \<notin> members_of M i" using assms(2) by (auto simp: members_of_def)
  then have "(\<Sum>k \<in> members_of M i. unat (om_share_bps (the ((M(km \<mapsto> m\<lparr>om_share_bps := s\<rparr>)) k))))
      = (\<Sum>k \<in> members_of M i. unat (om_share_bps (the (M k))))"
    by (intro sum.cong) auto
  with False show ?thesis
    by (simp add: org_shares_def members_of_reshare [of M, OF assms(2)])
qed

lemma org_key_unique: "org_ok rt k g \<Longrightarrow> org_ok rt k' g' \<Longrightarrow> org_org_id g = org_org_id g' \<Longrightarrow> k = k'"
  by (simp add: org_ok_def)

lemma directory_okD:
  assumes "directory_ok rt G M"
  shows "finite (dom M)"
    and "G k = Some g \<Longrightarrow> org_ok rt k g"
    and "G k = Some g \<Longrightarrow> unat (org_total_share_bps g) = org_shares M (org_org_id g)"
    and "G k = Some g \<Longrightarrow> unat (org_member_count g) = card (members_of M (org_org_id g))"
    and "M km = Some m \<Longrightarrow> member_ok rt km m"
    and "M km = Some m \<Longrightarrow> G (fst (rt_find_pda rt (org_seeds (om_org_id m)))) \<noteq> None"
  using assms by (auto simp: directory_ok_def)

text \<open>An organization without an account has no members.\<close>

lemma no_org_no_members:
  assumes "directory_ok rt G M" "G k = None" "org_ok rt k g"
  shows "members_of M (org_org_id g) = {}" "org_shares M (org_org_id g) = 0"
proof -
  have "k' \<notin> members_of M (org_org_id g)" for k'
    using directory_okD(6) [OF assms(1), of k'] assms(2,3) by (auto simp: members_of_def org_ok_def)
  then show "members_of M (org_org_id g) = {}" by blast
  then show "org_shares M (org_org_id g) = 0" by (simp add: org_shares_def)
qed

lemma map_upd_new: "(M(k \<mapsto> x)) k' = Some x' \<Longrightarrow> M k' \<noteq> Some x' \<Longrightarrow> k' = k \<and> x' = x"
  by (auto split: if_splits)

text \<open>One organization written, and the members of no other one touched.\<close>

lemma directory_ok_update:
  assumes ok: "directory_ok rt G M" and g: "org_ok rt k g"
    and fin: "finite (dom M')"
    and total: "unat (org_total_share_bps g) = org_shares M' (org_org_id g)"
    and count: "unat (org_member_count g) = card (members_of M' (org_org_id g))"
    and other: "\<And>i. i \<noteq> org_org_id g \<Longrightarrow> org_shares M' i = org_shares M i \<and> members_of M' i = members_of M i"
    and new: "\<And>km m. M' km = Some m \<Longrightarrow> M km \<noteq> Some m \<Longrightarrow> member_ok rt km m \<and> om_org_id m = org_org_id g"
  shows "directory_ok rt (G(k \<mapsto> g)) M'"
proof -
  have gs: "org_ok rt k' g' \<and> unat (org_total_share_bps g') = org_shares M' (org_org_id g')
      \<and> unat (org_member_count g') = card (members_of M' (org_org_id g'))"
    if "(G(k \<mapsto> g)) k' = Some g'" for k' g'
  proof (cases "k' = k")
    case True
    with that g total count show ?thesis by simp
  next
    case False
    with that have G: "G k' = Some g'" by simp
    then have "org_org_id g' \<noteq> org_org_id g"
      using org_key_unique [OF directory_okD(2) [OF ok G] g] False by blast
    with other directory_okD(2,3,4) [OF ok G] show ?thesis by simp
  qed
  have ms: "member_ok rt km m \<and> (G(k \<mapsto> g)) (fst (rt_find_pda rt (org_seeds (om_org_id m)))) \<noteq> None"
    if "M' km = Some m" for km m
  proof (cases "M km = Some m")
    case True
    with directory_okD(5,6) [OF ok True] show ?thesis by simp
  next
    case False
    with new [OF that] g show ?thesis by (simp add: org_ok_def)
  qed
  from fin gs ms show ?thesis unfolding directory_ok_def by blast
qed

lemma directory_step_ok:
  assumes "directory_step rt G M G' M'" and ok: "directory_ok rt G M"
  shows "directory_ok rt G' M'"
  using assms(1)
proof (cases rule: directory_step.cases)
  case same
  with ok show ?thesis by simp
next
  case (found k km g m)
  note none = no_org_no_members [OF ok found(3,5)]
  show ?thesis
    unfolding found(1,2)
  proof (rule directory_ok_update [OF ok found(5)])
    show "finite (dom (M(km \<mapsto> m)))" using directory_okD(1) [OF ok] by simp
    show "unat (org_total_share_bps g) = org_shares (M(km \<mapsto> m)) (org_org_id g)"
      using none found by (simp add: org_shares_new [OF directory_okD(1) [OF ok] found(4)] del: fun_upd_apply)
    show "unat (org_member_count g) = card (members_of (M(km \<mapsto> m)) (org_org_id g))"
      using none found by (simp add: members_of_new [of M, OF found(4)] del: fun_upd_apply)
  qed (use found in \<open>auto simp: org_shares_new [OF directory_okD(1) [OF ok] found(4)]
      members_of_new [of M, OF found(4)] simp del: fun_upd_apply dest: map_upd_new\<close>)
next
  case (join k g km m t n)
  have km: "km \<notin> members_of M i" for i using join(5) by (auto simp: members_of_def)
  note fin = directory_okD(1) [OF ok]
  show ?thesis
    unfolding join(1,2)
  proof (rule directory_ok_update [OF ok])
    show "org_ok rt k (g\<lparr>org_total_share_bps := t, org_member_count := n\<rparr>)"
      using directory_okD(2) [OF ok join(3)] join(9) by (simp add: org_ok_def)
    show "finite (dom (M(km \<mapsto> m)))" using fin by simp
    show "unat (org_total_share_bps (g\<lparr>org_total_share_bps := t, org_member_count := n\<rparr>))
      = org_shares (M(km \<mapsto> m)) (org_org_id (g\<lparr>org_total_share_bps := t, org_member_count := n\<rparr>))"
      using join directory_okD(3) [OF ok join(3)]
      by (simp add: org_shares_new [OF fin join(5)] del: fun_upd_apply)
    show "unat (org_member_count (g\<lparr>org_total_share_bps := t, org_member_count := n\<rparr>))
      = card (members_of (M(km \<mapsto> m)) (org_org_id (g\<lparr>org_total_share_bps := t, org_member_count := n\<rparr>)))"
      using join directory_okD(4) [OF ok join(3)] km finite_members_of [OF fin]
      by (simp add: members_of_new [of M, OF join(5)] del: fun_upd_apply)
  qed (use join in \<open>auto simp: org_shares_new [OF fin join(5)] members_of_new [of M, OF join(5)]
      simp del: fun_upd_apply dest: map_upd_new\<close>)
next
  case (reshare k g km m s t)
  note fin = directory_okD(1) [OF ok]
  note share = org_shares_reshare [OF fin reshare(5), of s]
  note mem = members_of_reshare [of M, OF reshare(5)]
  show ?thesis
    unfolding reshare(1,2)
  proof (rule directory_ok_update [OF ok])
    show "org_ok rt k (g\<lparr>org_total_share_bps := t\<rparr>)"
      using directory_okD(2) [OF ok reshare(3)] reshare(9) by (simp add: org_ok_def)
    show "finite (dom (M(km \<mapsto> m\<lparr>om_share_bps := s\<rparr>)))" using fin by simp
    show "unat (org_total_share_bps (g\<lparr>org_total_share_bps := t\<rparr>))
      = org_shares (M(km \<mapsto> m\<lparr>om_share_bps := s\<rparr>)) (org_org_id (g\<lparr>org_total_share_bps := t\<rparr>))"
      using share [of "org_org_id g"] reshare(6,8) directory_okD(3) [OF ok reshare(3)]
      by (simp del: fun_upd_apply)
    show "unat (org_member_count (g\<lparr>org_total_share_bps := t\<rparr>))
      = card (members_of (M(km \<mapsto> m\<lparr>om_share_bps := s\<rparr>)) (org_org_id (g\<lparr>org_total_share_bps := t\<rparr>)))"
      using directory_okD(4) [OF ok reshare(3)] by (simp add: mem del: fun_upd_apply)
    show "org_shares (M(km \<mapsto> m\<lparr>om_share_bps := s\<rparr>)) i = org_shares M i
        \<and> members_of (M(km \<mapsto> m\<lparr>om_share_bps := s\<rparr>)) i = members_of M i"
      if "i \<noteq> org_org_id (g\<lparr>org_total_share_bps := t\<rparr>)" for i
      using share [of i] that reshare(6) by (simp add: mem del: fun_upd_apply)
    show "member_ok rt km' m' \<and> om_org_id m' = org_org_id (g\<lparr>org_total_share_bps := t\<rparr>)"
      if "(M(km \<mapsto> m\<lparr>om_share_bps := s\<rparr>)) km' = Some m'" "M km' \<noteq> Some m'" for km' m'
      using that directory_okD(5) [OF ok reshare(5)] reshare(6,7)
      by (auto simp: member_ok_def split: if_splits)
  qed
next
  case (close k g)
  show ?thesis
    unfolding close(1,2)
    by (rule directory_ok_update [OF ok])
      (use directory_okD [OF ok] close in \<open>auto simp: org_ok_def\<close>)
qed

text \<open>Members are never removed; a closed organization never changes; one not active stays so.\<close>

lemma directory_step_closed:
  assumes "directory_step rt G M G' M'" "G k = Some g" "org_status g \<noteq> ORG_STATUS_ACTIVE"
  shows "G' k = Some g"
  using assms by (auto elim!: directory_step_elim split: if_splits)

lemma directory_step_terms:
  assumes "directory_step rt G M G' M'" "G k = Some g"
  shows "\<exists>g'. G' k = Some g' \<and> org_org_id g' = org_org_id g \<and> org_creator g' = org_creator g
     \<and> org_treasury_bump g' = org_treasury_bump g \<and> org_bump g' = org_bump g"
  using assms by (auto elim!: directory_step_elim)

lemma directory_step_member:
  assumes "directory_step rt G M G' M'" "M k = Some m"
  shows "\<exists>m'. M' k = Some m' \<and> om_org_id m' = om_org_id m \<and> om_agent m' = om_agent m
     \<and> om_role m' = om_role m"
  using assms by (auto elim!: directory_step_elim)

subsection \<open>What a successful call establishes\<close>

lemma create_org_ok:
  assumes "create_org rt tx w c i name share0 = Inr w'"
  obtains cfg ident ob tb mb l share where
    "tx_signer tx (co_creator c)" "configs w (co_config c) = Some cfg" "\<not> cfg_paused cfg"
    "pda_at rt [SEED_CONFIG] (cfg_bump cfg) (co_config c)"
    "agents w (co_creator_identity c) = Some ident" "ag_agent ident = co_creator c" "ag_active ident"
    "rt_find_pda rt (org_seeds i) = (co_organization c, ob)" "\<not> in_use w (co_organization c)"
    "rt_find_pda rt (org_treasury_seeds i) = (co_org_treasury c, tb)"
    "rt_find_pda rt (org_member_seeds i (co_creator c)) = (co_creator_member c, mb)"
    "\<not> in_use w (co_creator_member c)"
    "unat i = unat (cfg_org_counter cfg) + 1"
    "share0 \<le> 10000" "share = (if share0 = 0 then 10000 else share0)"
    "rt_tok_init rt (co_token_program c) (co_org_treasury c) (co_aeon_mint c) (co_organization c)
       (mints w) (ledger w) = Inr l"
    "w' = put members_update (co_creator_member c) (new_member i (co_creator c) ROLE_ADMIN share mb)
           (put orgs_update (co_organization c)
              (new_org i name (co_creator c) share (tx_slot tx) tb ob)
             (put configs_update (co_config c) (cfg\<lparr>cfg_org_counter := i\<rparr>)
               (log_event (OrgCreatedEv i (co_creator c)) (w\<lparr>ledger := l\<rparr>))))"
  using assms by (auto simp: handler_defs ok_simps Let_def simp del: ROLE_ADMIN_def intro!: that)

lemma join_org_ok:
  assumes "join_org rt tx w c i role share = Inr w'"
  obtains g am ident mb t n where
    "tx_signer tx (jo_admin c)" "orgs w (jo_organization c) = Some g" "org_org_id g = i"
    "org_status g = ORG_STATUS_ACTIVE" "pda_at rt (org_seeds i) (org_bump g) (jo_organization c)"
    "members w (jo_admin_member c) = Some am" "om_agent am = jo_admin c" "om_role am = ROLE_ADMIN"
    "pda_at rt (org_member_seeds i (jo_admin c)) (om_bump am) (jo_admin_member c)"
    "agents w (jo_agent_identity c) = Some ident" "ag_agent ident = jo_new_agent c"
    "rt_find_pda rt (org_member_seeds i (jo_new_agent c)) = (jo_new_member c, mb)"
    "\<not> in_use w (jo_new_member c)" "role \<le> ROLE_VIEWER" "share \<le> 10000"
    "unat t = unat (org_total_share_bps g) + unat share" "t \<le> 10000"
    "unat n = unat (org_member_count g) + 1"
    "w' = put members_update (jo_new_member c) (new_member i (jo_new_agent c) role share mb)
           (put orgs_update (jo_organization c) (g\<lparr>org_total_share_bps := t, org_member_count := n\<rparr>)
             (log_event (MemberJoinedEv i (jo_new_agent c) role share) w))"
proof -
  have roles: "role = ROLE_ADMIN \<or> role = ROLE_MEMBER \<or> role = ROLE_VIEWER \<Longrightarrow> role \<le> ROLE_VIEWER" by auto
  show thesis
    using assms roles
    by (auto simp: handler_defs bindr_eq_Inr ok_or_eq_Inr if_Inl_eq_Inr load_eq_Inr case_prod_eq_Inr
        org_account_ok admin_account_ok init_pda_eq_Inr checked_add_eq_Some simp del: ROLE_VIEWER_def
        intro!: that)
qed

lemma set_member_share_ok:
  assumes "set_member_share rt tx w c i s = Inr w'"
  obtains g am m t where
    "tx_signer tx (sm_admin c)" "orgs w (sm_organization c) = Some g" "org_org_id g = i"
    "org_status g = ORG_STATUS_ACTIVE" "pda_at rt (org_seeds i) (org_bump g) (sm_organization c)"
    "members w (sm_admin_member c) = Some am" "om_agent am = sm_admin c" "om_role am = ROLE_ADMIN"
    "pda_at rt (org_member_seeds i (sm_admin c)) (om_bump am) (sm_admin_member c)"
    "members w (sm_target_member c) = Some m" "om_org_id m = i" "s \<le> 10000"
    "unat t + unat (om_share_bps m) = unat (org_total_share_bps g) + unat s" "t \<le> 10000"
    "w' = put members_update (sm_target_member c) (m\<lparr>om_share_bps := s\<rparr>)
           (put orgs_update (sm_organization c) (g\<lparr>org_total_share_bps := t\<rparr>)
             (log_event (MemberShareUpdatedEv i (om_agent m) (om_share_bps m) s) w))"
  using assms by (auto simp: handler_defs ok_simps intro!: that)

lemma deposit_to_org_ok:
  assumes "deposit_to_org rt tx w c i amount = Inr w'"
  obtains g om tr mt m l where
    "tx_signer tx (do_member c)" "orgs w (do_organization c) = Some g" "org_org_id g = i"
    "org_status g = ORG_STATUS_ACTIVE" "members w (do_org_member c) = Some om"
    "om_agent om = do_member c" "om_org_id om = i" "0 < amount"
    "ledger w (do_org_treasury c) = Some tr"
    "pda_at rt (org_treasury_seeds i) (org_treasury_bump g) (do_org_treasury c)"
    "ledger w (do_member_token c) = Some mt" "ta_owner mt = do_member c"
    "mints w (do_aeon_mint c) = Some m"
    "rt_tok_transfer rt (do_token_program c)
       \<lparr>tc_from = do_member_token c, tc_mint = do_aeon_mint c, tc_to = do_org_treasury c,
        tc_authority = do_member c\<rparr> True amount (mint_decimals m) (mints w) (ledger w) = Inr l"
    "w' = put orgs_update (do_organization c) g
            (log_event (OrgDepositedEv i (do_member c) amount) (w\<lparr>ledger := l\<rparr>))"
  using assms by (auto simp: handler_defs ok_simps intro!: that)

subsection \<open>The instructions follow the directory\<close>

lemma create_org_step:
  assumes "create_org rt tx w c i name share0 = Inr w'"
  shows "directory_step rt (orgs w) (members w) (orgs w') (members w')"
  using assms
proof (rule create_org_ok)
  fix ob tb mb l share cfg
  let ?g = "new_org i name (co_creator c) share (tx_slot tx) tb ob"
  let ?m = "new_member i (co_creator c) ROLE_ADMIN share mb"
  assume h: "rt_find_pda rt (org_seeds i) = (co_organization c, ob)" "\<not> in_use w (co_organization c)"
    "rt_find_pda rt (org_treasury_seeds i) = (co_org_treasury c, tb)"
    "rt_find_pda rt (org_member_seeds i (co_creator c)) = (co_creator_member c, mb)"
    "\<not> in_use w (co_creator_member c)"
    "share0 \<le> 10000" "share = (if share0 = 0 then 10000 else share0)"
    "w' = put members_update (co_creator_member c) ?m
           (put orgs_update (co_organization c) ?g
             (put configs_update (co_config c) (cfg\<lparr>cfg_org_counter := i\<rparr>)
               (log_event (OrgCreatedEv i (co_creator c)) (w\<lparr>ledger := l\<rparr>))))"
  have "share \<le> 10000" using h(6,7) by simp
  then have "directory_step rt (orgs w) (members w) ((orgs w)(co_organization c \<mapsto> ?g))
      ((members w)(co_creator_member c \<mapsto> ?m))"
    using h(1-5) not_in_use_fresh [OF h(2)] not_in_use_fresh [OF h(5)]
    by (intro directory_step.found) (simp_all add: new_org_def new_member_def org_ok_def member_ok_def)
  with h(8) show ?thesis by (simp add: world_frame)
qed

lemma join_org_step:
  assumes "join_org rt tx w c i role share = Inr w'"
  shows "directory_step rt (orgs w) (members w) (orgs w') (members w')"
  using assms
proof (rule join_org_ok)
  fix g mb t n
  let ?m = "new_member i (jo_new_agent c) role share mb"
  assume h: "orgs w (jo_organization c) = Some g" "org_org_id g = i" "org_status g = ORG_STATUS_ACTIVE"
    "rt_find_pda rt (org_member_seeds i (jo_new_agent c)) = (jo_new_member c, mb)"
    "\<not> in_use w (jo_new_member c)" "role \<le> ROLE_VIEWER" "share \<le> 10000"
    "unat t = unat (org_total_share_bps g) + unat share" "t \<le> 10000"
    "unat n = unat (org_member_count g) + 1"
    "w' = put members_update (jo_new_member c) ?m
           (put orgs_update (jo_organization c) (g\<lparr>org_total_share_bps := t, org_member_count := n\<rparr>)
             (log_event (MemberJoinedEv i (jo_new_agent c) role share) w))"
  have "directory_step rt (orgs w) (members w)
      ((orgs w)(jo_organization c \<mapsto> g\<lparr>org_total_share_bps := t, org_member_count := n\<rparr>))
      ((members w)(jo_new_member c \<mapsto> ?m))"
    using h(1-10) not_in_use_fresh [OF h(5)]
    by (intro directory_step.join) (simp_all add: new_member_def member_ok_def)
  with h(11) show ?thesis by (simp add: world_frame)
qed

lemma set_member_share_step:
  assumes "set_member_share rt tx w c i s = Inr w'"
  shows "directory_step rt (orgs w) (members w) (orgs w') (members w')"
  using assms
proof (rule set_member_share_ok)
  fix g m t
  assume h: "orgs w (sm_organization c) = Some g" "org_org_id g = i" "org_status g = ORG_STATUS_ACTIVE"
    "members w (sm_target_member c) = Some m" "om_org_id m = i" "s \<le> 10000"
    "unat t + unat (om_share_bps m) = unat (org_total_share_bps g) + unat s" "t \<le> 10000"
    "w' = put members_update (sm_target_member c) (m\<lparr>om_share_bps := s\<rparr>)
           (put orgs_update (sm_organization c) (g\<lparr>org_total_share_bps := t\<rparr>)
             (log_event (MemberShareUpdatedEv i (om_agent m) (om_share_bps m) s) w))"
  have "directory_step rt (orgs w) (members w)
      ((orgs w)(sm_organization c \<mapsto> g\<lparr>org_total_share_bps := t\<rparr>))
      ((members w)(sm_target_member c \<mapsto> m\<lparr>om_share_bps := s\<rparr>))"
    using h(1-8) by (intro directory_step.reshare) simp_all
  with h(9) show ?thesis by (simp add: world_frame)
qed

lemma deposit_to_org_step:
  assumes "deposit_to_org rt tx w c i amount = Inr w'"
  shows "directory_step rt (orgs w) (members w) (orgs w') (members w')"
  using assms
  by (rule deposit_to_org_ok) (simp add: world_frame map_upd_triv directory_step.same)

lemma create_org_ledger:
  assumes "token_spec rt" "create_org rt tx w c i name share = Inr w'"
  shows "keeps owner (ledger w) (ledger w')"
  using assms(2)
  by (rule create_org_ok) (simp add: world_frame keeps_init(1) [OF assms(1)])

lemma deposit_to_org_ledger:
  assumes "token_spec rt" "deposit_to_org rt tx w c i amount = Inr w'" "owner \<noteq> do_member c"
  shows "keeps owner (ledger w) (ledger w')"
  using assms(2)
  by (rule deposit_to_org_ok)
    (use assms(1,3) in \<open>auto simp: world_frame dest!: keeps_transfer [where owner = owner]\<close>)

end
