(* ===== verification/Aeon_Treasury.thy ===== *)
theory Aeon_Treasury
  imports Aeon_Org
begin

text \<open>
  What leaves an organization's treasury: \<^verbatim>\<open>org_split.rs\<close>, \<^verbatim>\<open>dissolve_org.rs\<close> and
  \<^verbatim>\<open>reclaim_org_residual.rs\<close>.  The treasury is a token account owned by the organization's
  address, which the program signs for.
\<close>

text \<open>A transfer out of the treasury, signed with the organization's seeds.\<close>

definition treasury_transfer ::
    "runtime \<Rightarrow> tx \<Rightarrow> u64 \<Rightarrow> pubkey \<Rightarrow> organization \<Rightarrow> pubkey \<Rightarrow> pubkey \<Rightarrow> pubkey \<Rightarrow> pubkey
       \<Rightarrow> u64 \<Rightarrow> u8 \<Rightarrow> world \<Rightarrow> failure + world" where
  "treasury_transfer rt tx org_id k org prog treasury m dest amount decimals w =
     cpi_transfer rt prog
       \<lparr>tc_from = treasury, tc_mint = m, tc_to = dest, tc_authority = k\<rparr>
       (tx_signer tx k \<or> pda_at rt (org_seeds org_id) (org_bump org) k) amount decimals w"

subsection \<open>\<^verbatim>\<open>org_split\<close>\<close>

record org_split_ctx =
  os_admin :: pubkey
  os_organization :: pubkey
  os_admin_member :: pubkey
  os_recipient_member :: pubkey
  os_recipient_token :: pubkey
  os_org_treasury :: pubkey
  os_aeon_mint :: pubkey
  os_token_program :: pubkey

definition org_split_accounts ::
    "runtime \<Rightarrow> tx \<Rightarrow> world \<Rightarrow> org_split_ctx \<Rightarrow> u64
       \<Rightarrow> failure + organization \<times> token_account \<times> mint" where
  "org_split_accounts rt tx w c org_id =
     (if \<not> tx_signer tx (os_admin c) then anchor_err AccountNotSigner
      else bindr (load orgs w (os_organization c)) (\<lambda>org.
      bindr (load members w (os_admin_member c)) (\<lambda>admin_member.
      bindr (load members w (os_recipient_member c)) (\<lambda>recipient.
      bindr (load_ext ledger w (os_recipient_token c)) (\<lambda>recipient_token.
      bindr (load_ext ledger w (os_org_treasury c)) (\<lambda>treasury.
      bindr (load_ext mints w (os_aeon_mint c)) (\<lambda>m.
      if \<not> rt_is_token_program rt (os_token_program c) then anchor_err InvalidProgramId
      else bindr (org_account rt tx org_id (os_organization c) org ORG_STATUS_ACTIVE OrgNotActive) (\<lambda>_.
      bindr (admin_account rt org_id (os_admin_member c) admin_member (os_admin c)) (\<lambda>_.
      if \<not> pda_at rt (org_member_seeds org_id (om_agent recipient)) (om_bump recipient)
             (os_recipient_member c)
      then anchor_err ConstraintSeeds
      else if om_org_id recipient \<noteq> org_id then err Unauthorized
      else if om_role recipient = ROLE_VIEWER then err Unauthorized
      else bindr (wallet tx (os_recipient_token c) recipient_token (om_agent recipient)
                    (ta_mint treasury)) (\<lambda>_.
      bindr (treasury_account rt tx org_id org (os_org_treasury c)) (\<lambda>_.
      Inr (org, treasury, m))))))))))))"

definition org_split ::
    "runtime \<Rightarrow> tx \<Rightarrow> world \<Rightarrow> org_split_ctx \<Rightarrow> u64 \<Rightarrow> u64 list \<Rightarrow> failure + world" where
  "org_split rt tx w c org_id amounts =
     bindr (org_split_accounts rt tx w c org_id) (\<lambda>(org, treasury, m).
     if length amounts \<noteq> 1 then err InvalidRemainingAccounts
     else bindr (index_at amounts 0) (\<lambda>amount.
     if \<not> 0 < amount then err InvalidAmount
     else if \<not> amount \<le> ta_amount treasury then err TreasuryConservation
     else bindr (treasury_transfer rt tx org_id (os_organization c) org (os_token_program c)
              (os_org_treasury c) (os_aeon_mint c) (os_recipient_token c) amount
              (mint_decimals m) w) (\<lambda>w1.
     Inr (put orgs_update (os_organization c) org (log_event (OrgSplitEv org_id amount 1) w1)))))"

subsection \<open>\<^verbatim>\<open>dissolve_org\<close>\<close>

record dissolve_org_ctx =
  di_admin :: pubkey
  di_organization :: pubkey
  di_admin_member :: pubkey
  di_admin_token :: pubkey
  di_member_b :: "pubkey option"
  di_member_b_token :: "pubkey option"
  di_org_treasury :: pubkey
  di_aeon_mint :: pubkey
  di_token_program :: pubkey

definition dissolve_org_accounts ::
    "runtime \<Rightarrow> tx \<Rightarrow> world \<Rightarrow> dissolve_org_ctx \<Rightarrow> u64
       \<Rightarrow> failure + organization \<times> org_member \<times> org_member option \<times> token_account option
            \<times> token_account \<times> mint" where
  "dissolve_org_accounts rt tx w c org_id =
     (if \<not> tx_signer tx (di_admin c) then anchor_err AccountNotSigner
      else bindr (load orgs w (di_organization c)) (\<lambda>org.
      bindr (load members w (di_admin_member c)) (\<lambda>admin_member.
      bindr (load_ext ledger w (di_admin_token c)) (\<lambda>admin_token.
      bindr (load_opt members w (di_member_b c)) (\<lambda>member_b.
      bindr (load_ext_opt ledger w (di_member_b_token c)) (\<lambda>token_b.
      bindr (load_ext ledger w (di_org_treasury c)) (\<lambda>treasury.
      bindr (load_ext mints w (di_aeon_mint c)) (\<lambda>m.
      if \<not> rt_is_token_program rt (di_token_program c) then anchor_err InvalidProgramId
      else bindr (org_account rt tx org_id (di_organization c) org ORG_STATUS_ACTIVE OrgNotActive) (\<lambda>_.
      bindr (admin_account rt org_id (di_admin_member c) admin_member (di_admin c)) (\<lambda>_.
      bindr (wallet tx (di_admin_token c) admin_token (om_agent admin_member) (ta_mint treasury)) (\<lambda>_.
      if \<not> opt_writable tx (di_member_b_token c) then anchor_err ConstraintMut
      else bindr (treasury_account rt tx org_id org (di_org_treasury c)) (\<lambda>_.
      Inr (org, admin_member, member_b, token_b, treasury, m)))))))))))))"

text \<open>
  \<^verbatim>\<open>payout_share\<close>: computed in \<^verbatim>\<open>u128\<close>, then cast down.
\<close>

definition payout_share :: "u64 \<Rightarrow> u16 \<Rightarrow> failure + u64" where
  "payout_share balance bps =
     (if bps = 0 then Inr 0
      else bindr (ok_or (checked_mul (ucast balance :: u128) (ucast bps)) (Aeon Overflow)) (\<lambda>p.
      bindr (ok_or (checked_div p 10000) (Aeon Overflow)) (\<lambda>q.
      Inr (ucast q))))"

text \<open>One payout: nothing is transferred for a share that rounds to zero.\<close>

definition pay_share ::
    "runtime \<Rightarrow> tx \<Rightarrow> u64 \<Rightarrow> dissolve_org_ctx \<Rightarrow> organization \<Rightarrow> mint \<Rightarrow> pubkey \<Rightarrow> u64 \<Rightarrow> u64 \<times> world
       \<Rightarrow> failure + u64 \<times> world" where
  "pay_share rt tx org_id c org m dest amount =
     (\<lambda>(total_paid, w).
     if 0 < amount then
       bindr (treasury_transfer rt tx org_id (di_organization c) org (di_token_program c)
                (di_org_treasury c) (di_aeon_mint c) dest amount (mint_decimals m) w) (\<lambda>w1.
       bindr (ok_or (checked_add total_paid amount) (Aeon Overflow)) (\<lambda>t.
       Inr (t, w1)))
     else Inr (total_paid, w))"

text \<open>Lines 95 to 121: the optional second member.\<close>

definition dissolve_member_b ::
    "runtime \<Rightarrow> tx \<Rightarrow> u64 \<Rightarrow> dissolve_org_ctx \<Rightarrow> organization \<Rightarrow> org_member option \<Rightarrow> token_account option
       \<Rightarrow> token_account \<Rightarrow> mint \<Rightarrow> u64 \<times> world \<Rightarrow> failure + u64 \<times> world" where
  "dissolve_member_b rt tx org_id c org member_b token_b treasury m tw =
     (case (member_b, token_b, di_member_b_token c) of
        (Some mb, Some tb, Some kb) \<Rightarrow>
          if om_org_id mb \<noteq> org_id then err Unauthorized
          else if ta_owner tb \<noteq> om_agent mb then err Unauthorized
          else if ta_mint tb \<noteq> ta_mint treasury then err InvalidMint
          else bindr (payout_share (ta_amount treasury) (om_share_bps mb)) (\<lambda>amount.
          pay_share rt tx org_id c org m kb amount tw)
      | _ \<Rightarrow> Inr tw)"

definition dissolve_org ::
    "runtime \<Rightarrow> tx \<Rightarrow> world \<Rightarrow> dissolve_org_ctx \<Rightarrow> u64 \<Rightarrow> failure + world" where
  "dissolve_org rt tx w c org_id =
     bindr (dissolve_org_accounts rt tx w c org_id)
       (\<lambda>(org0, admin_member, member_b, token_b, treasury, m).
     let org = org0\<lparr>org_status := ORG_STATUS_DISSOLVING\<rparr> in
     bindr (payout_share (ta_amount treasury) (om_share_bps admin_member)) (\<lambda>admin_amount.
     bindr (pay_share rt tx org_id c org m (di_admin_token c) admin_amount (0, w)) (\<lambda>tw.
     bindr (dissolve_member_b rt tx org_id c org member_b token_b treasury m tw) (\<lambda>(total_paid, w2).
     if \<not> total_paid \<le> ta_amount treasury then err TreasuryConservation
     else Inr (put orgs_update (di_organization c) (org\<lparr>org_status := ORG_STATUS_CLOSED\<rparr>)
           (log_event (OrgDissolvedEv org_id total_paid) w2))))))"

subsection \<open>\<^verbatim>\<open>reclaim_org_residual\<close>\<close>

record reclaim_org_residual_ctx =
  rr_authority :: pubkey
  rr_organization :: pubkey
  rr_authority_member :: pubkey
  rr_org_treasury :: pubkey
  rr_destination :: pubkey
  rr_aeon_mint :: pubkey
  rr_token_program :: pubkey

definition reclaim_org_residual_accounts ::
    "runtime \<Rightarrow> tx \<Rightarrow> world \<Rightarrow> reclaim_org_residual_ctx \<Rightarrow> u64
       \<Rightarrow> failure + organization \<times> org_member \<times> token_account \<times> mint" where
  "reclaim_org_residual_accounts rt tx w c org_id =
     (if \<not> tx_signer tx (rr_authority c) then anchor_err AccountNotSigner
      else bindr (load orgs w (rr_organization c)) (\<lambda>org.
      bindr (load members w (rr_authority_member c)) (\<lambda>member.
      bindr (load_ext ledger w (rr_org_treasury c)) (\<lambda>treasury.
      bindr (load_ext ledger w (rr_destination c)) (\<lambda>destination.
      bindr (load_ext mints w (rr_aeon_mint c)) (\<lambda>m.
      if \<not> rt_is_token_program rt (rr_token_program c) then anchor_err InvalidProgramId
      else bindr (org_account rt tx org_id (rr_organization c) org ORG_STATUS_CLOSED OrgNotClosed) (\<lambda>_.
      if \<not> pda_at rt (org_member_seeds org_id (rr_authority c)) (om_bump member) (rr_authority_member c)
      then anchor_err ConstraintSeeds
      else if om_agent member \<noteq> rr_authority c then err Unauthorized
      else if om_org_id member \<noteq> org_id then err Unauthorized
      else bindr (treasury_account rt tx org_id org (rr_org_treasury c)) (\<lambda>_.
      if \<not> tx_writable tx (rr_destination c) then anchor_err ConstraintMut
      else if ta_mint destination \<noteq> ta_mint treasury then err InvalidMint
      else Inr (org, member, treasury, m)))))))))"

definition reclaim_org_residual ::
    "runtime \<Rightarrow> tx \<Rightarrow> world \<Rightarrow> reclaim_org_residual_ctx \<Rightarrow> u64 \<Rightarrow> failure + world" where
  "reclaim_org_residual rt tx w c org_id =
     bindr (reclaim_org_residual_accounts rt tx w c org_id) (\<lambda>(org, member, treasury, m).
     if \<not> (rr_authority c = org_creator org \<or> om_role member = ROLE_ADMIN) then err Unauthorized
     else if \<not> 0 < ta_amount treasury then err InvalidAmount
     else bindr (treasury_transfer rt tx org_id (rr_organization c) org (rr_token_program c)
              (rr_org_treasury c) (rr_aeon_mint c) (rr_destination c) (ta_amount treasury)
              (mint_decimals m) w) (\<lambda>w1.
     Inr (put orgs_update (rr_organization c) org
           (log_event (OrgResidualReclaimedEv org_id (ta_amount treasury) (rr_destination c)) w1))))"

declare org_split_def [handler_defs] org_split_accounts_def [handler_defs]
  dissolve_org_def [handler_defs] dissolve_org_accounts_def [handler_defs]
  reclaim_org_residual_def [handler_defs] reclaim_org_residual_accounts_def [handler_defs]

subsection \<open>The payout arithmetic\<close>

text \<open>
  The product of a balance and a share fits \<^verbatim>\<open>u128\<close>, so a payout never fails; for a share
  within 10000 basis points the cast back to \<^verbatim>\<open>u64\<close> loses nothing.
\<close>

lemma unat_widen: "unat (ucast (b :: u64) :: u128) = unat b" "unat (ucast (s :: u16) :: u128) = unat s"
proof -
  have "unat b < 2 ^ LENGTH(64)" "unat s < 2 ^ LENGTH(16)" by (rule unsigned_less)+
  then show "unat (ucast b :: u128) = unat b" "unat (ucast s :: u128) = unat s"
    by (simp_all add: unsigned_ucast_eq take_bit_nat_eq_self)
qed

lemma payout_product: "unat (ucast (b :: u64) :: u128) * unat (ucast (s :: u16) :: u128) < 2 ^ LENGTH(128)"
proof -
  have "unat b < 2 ^ LENGTH(64)" "unat s < 2 ^ LENGTH(16)" by (rule unsigned_less)+
  then have "unat b * unat s \<le> 2 ^ 64 * 2 ^ 16" by (intro mult_le_mono) simp_all
  also have "\<dots> < (2 :: nat) ^ 128" by simp
  finally show ?thesis by (simp add: unat_widen)
qed

lemma payout_share_eq:
  "payout_share b s = Inr (of_nat (unat b * unat s div 10000))"
proof (cases "s = 0")
  case True
  then show ?thesis by (simp add: payout_share_def)
next
  case False
  let ?p = "(ucast b :: u128) * ucast s"
  have p: "unat ?p = unat b * unat s"
    using payout_product [of b s] by (simp add: unat_word_ariths unat_widen)
  have "(ucast (?p div 10000) :: u64) = of_nat (unat ?p div 10000)"
    by (simp add: word_unat_eq_iff unat_of_nat unsigned_ucast_eq take_bit_eq_mod unat_div)
  with False p payout_product [of b s] show ?thesis
    by (simp add: payout_share_def checked_mul_def checked_div_def)
qed

lemma payout_share_floor:
  assumes "payout_share b s = Inr r" "s \<le> 10000"
  shows "unat r = unat b * unat s div 10000" "r \<le> b"
proof -
  have s: "unat s \<le> 10000" using assms(2) by (simp add: word_le_nat_alt)
  have "unat b * unat s div 10000 \<le> unat b * 10000 div 10000"
    using s by (intro div_le_mono mult_le_mono2)
  then have le: "unat b * unat s div 10000 \<le> unat b" by simp
  also have "unat b < 2 ^ LENGTH(64)" by (rule unsigned_less)
  finally have "unat (of_nat (unat b * unat s div 10000) :: u64) = unat b * unat s div 10000"
    by (simp add: unat_of_nat)
  with assms(1) show r: "unat r = unat b * unat s div 10000" by (simp add: payout_share_eq)
  with le show "r \<le> b" by (simp add: word_le_nat_alt)
qed

text \<open>Two shares that add up to at most 10000 are never more than the balance.\<close>

lemma two_payouts:
  assumes "payout_share b s1 = Inr r1" "payout_share b s2 = Inr r2"
    and sum: "unat s1 + unat s2 \<le> 10000"
  shows "unat r1 + unat r2 \<le> unat b"
proof -
  have "s1 \<le> 10000" "s2 \<le> 10000" using sum by (simp_all add: word_le_nat_alt)
  then have r: "unat r1 = unat b * unat s1 div 10000" "unat r2 = unat b * unat s2 div 10000"
    using payout_share_floor(1) assms(1,2) by blast+
  have "unat b * unat s1 div 10000 + unat b * unat s2 div 10000
      \<le> (unat b * unat s1 + unat b * unat s2) div 10000"
    by (simp add: div_add1_eq [of "unat b * unat s1"])
  also have "\<dots> = unat b * (unat s1 + unat s2) div 10000" by (simp add: algebra_simps)
  also have "\<dots> \<le> unat b * 10000 div 10000" using sum by (intro div_le_mono mult_le_mono2)
  finally show ?thesis by (simp add: r)
qed

subsection \<open>What a successful call establishes\<close>

lemma treasury_transfer_ok [ok_simps]:
  "(treasury_transfer rt tx i k g prog tr mk dest amount d w = Inr w1)
     = (\<exists>l. rt_tok_transfer rt prog \<lparr>tc_from = tr, tc_mint = mk, tc_to = dest, tc_authority = k\<rparr>
              (tx_signer tx k \<or> pda_at rt (org_seeds i) (org_bump g) k) amount d (mints w) (ledger w)
              = Inr l \<and> w1 = w\<lparr>ledger := l\<rparr>)"
  by (auto simp: treasury_transfer_def cpi_transfer_eq_Inr)

lemma org_split_ok:
  assumes "org_split rt tx w c i amounts = Inr w'"
  obtains g am rm rtok tr m a l where
    "tx_signer tx (os_admin c)" "orgs w (os_organization c) = Some g" "org_org_id g = i"
    "org_status g = ORG_STATUS_ACTIVE" "pda_at rt (org_seeds i) (org_bump g) (os_organization c)"
    "members w (os_admin_member c) = Some am" "om_agent am = os_admin c" "om_role am = ROLE_ADMIN"
    "pda_at rt (org_member_seeds i (os_admin c)) (om_bump am) (os_admin_member c)"
    "members w (os_recipient_member c) = Some rm" "om_org_id rm = i" "om_role rm \<noteq> ROLE_VIEWER"
    "ledger w (os_recipient_token c) = Some rtok" "ta_owner rtok = om_agent rm"
    "ledger w (os_org_treasury c) = Some tr" "amounts = [a]" "0 < a" "a \<le> ta_amount tr"
    "pda_at rt (org_treasury_seeds i) (org_treasury_bump g) (os_org_treasury c)"
    "mints w (os_aeon_mint c) = Some m"
    "rt_tok_transfer rt (os_token_program c)
       \<lparr>tc_from = os_org_treasury c, tc_mint = os_aeon_mint c, tc_to = os_recipient_token c,
        tc_authority = os_organization c\<rparr> True a (mint_decimals m) (mints w) (ledger w) = Inr l"
    "w' = put orgs_update (os_organization c) g (log_event (OrgSplitEv i a 1) (w\<lparr>ledger := l\<rparr>))"
proof -
  have one: "length amounts = 1 \<Longrightarrow> amounts = [amounts ! 0]" by (cases amounts) auto
  show thesis
    using assms one
    by (auto simp: handler_defs bindr_eq_Inr ok_or_eq_Inr if_Inl_eq_Inr load_eq_Inr load_ext_eq_Inr
        case_prod_eq_Inr org_account_ok admin_account_ok treasury_account_ok wallet_ok
        treasury_transfer_ok index_at_eq_Inr intro!: that)
qed

lemma reclaim_org_residual_ok:
  assumes "reclaim_org_residual rt tx w c i = Inr w'"
  obtains g am dt tr m l where
    "tx_signer tx (rr_authority c)" "orgs w (rr_organization c) = Some g" "org_org_id g = i"
    "org_status g = ORG_STATUS_CLOSED" "pda_at rt (org_seeds i) (org_bump g) (rr_organization c)"
    "members w (rr_authority_member c) = Some am" "om_agent am = rr_authority c" "om_org_id am = i"
    "rr_authority c = org_creator g \<or> om_role am = ROLE_ADMIN"
    "ledger w (rr_org_treasury c) = Some tr" "0 < ta_amount tr"
    "pda_at rt (org_treasury_seeds i) (org_treasury_bump g) (rr_org_treasury c)"
    "ledger w (rr_destination c) = Some dt" "ta_mint dt = ta_mint tr"
    "mints w (rr_aeon_mint c) = Some m"
    "rt_tok_transfer rt (rr_token_program c)
       \<lparr>tc_from = rr_org_treasury c, tc_mint = rr_aeon_mint c, tc_to = rr_destination c,
        tc_authority = rr_organization c\<rparr> True (ta_amount tr) (mint_decimals m) (mints w) (ledger w)
       = Inr l"
    "w' = put orgs_update (rr_organization c) g
            (log_event (OrgResidualReclaimedEv i (ta_amount tr) (rr_destination c)) (w\<lparr>ledger := l\<rparr>))"
  using assms by (auto simp: handler_defs ok_simps intro!: that)

lemma pay_share_ok:
  assumes "pay_share rt tx i c g m dest amount (t, w) = Inr (t1, w1)"
  shows "unat t1 = unat t + unat amount"
    and "0 < amount \<Longrightarrow> \<exists>l. rt_tok_transfer rt (di_token_program c)
           \<lparr>tc_from = di_org_treasury c, tc_mint = di_aeon_mint c, tc_to = dest,
            tc_authority = di_organization c\<rparr>
           (tx_signer tx (di_organization c) \<or> pda_at rt (org_seeds i) (org_bump g) (di_organization c))
           amount (mint_decimals m) (mints w) (ledger w) = Inr l \<and> w1 = w\<lparr>ledger := l\<rparr>"
    and "amount = 0 \<Longrightarrow> w1 = w"
  using assms by (auto simp: pay_share_def ok_simps word_gt_0 split: if_splits)

lemma pay_share_frame:
  assumes "pay_share rt tx i c g m dest amount (t, w) = Inr (t1, w1)"
  shows "\<exists>l. w1 = w\<lparr>ledger := l\<rparr>"
    and "token_spec rt \<Longrightarrow> owner \<noteq> di_organization c \<Longrightarrow> keeps owner (ledger w) (ledger w1)"
proof -
  show "\<exists>l. w1 = w\<lparr>ledger := l\<rparr>"
    using pay_share_ok(2,3) [OF assms] by (cases "amount = 0") (auto simp: word_gt_0 intro: exI [of _ "ledger w"])
  show "keeps owner (ledger w) (ledger w1)" if "token_spec rt" "owner \<noteq> di_organization c"
    using pay_share_ok(2,3) [OF assms] keeps_transfer [OF that(1), where owner = owner] that(2)
    by (cases "amount = 0") (fastforce simp: word_gt_0)+
qed

lemma dissolve_member_b_ok:
  assumes "dissolve_member_b rt tx i c g mb tb tr m (t, w) = Inr (t1, w1)"
  obtains (skip) "mb = None \<or> tb = None \<or> di_member_b_token c = None" "t1 = t" "w1 = w"
  | (paid) x y kb a where "mb = Some x" "tb = Some y" "di_member_b_token c = Some kb"
      "om_org_id x = i" "ta_owner y = om_agent x" "ta_mint y = ta_mint tr"
      "payout_share (ta_amount tr) (om_share_bps x) = Inr a"
      "pay_share rt tx i c g m kb a (t, w) = Inr (t1, w1)"
  using assms by (auto simp: dissolve_member_b_def ok_simps split: option.splits)

lemma dissolve_org_ok:
  assumes "dissolve_org rt tx w c i = Inr w'"
  obtains g am mb tb at tr m a t1 w1 t2 w2 where
    "tx_signer tx (di_admin c)" "orgs w (di_organization c) = Some g" "org_org_id g = i"
    "org_status g = ORG_STATUS_ACTIVE" "pda_at rt (org_seeds i) (org_bump g) (di_organization c)"
    "members w (di_admin_member c) = Some am" "om_agent am = di_admin c" "om_role am = ROLE_ADMIN"
    "pda_at rt (org_member_seeds i (di_admin c)) (om_bump am) (di_admin_member c)"
    "ledger w (di_admin_token c) = Some at" "ta_owner at = di_admin c"
    "load_opt members w (di_member_b c) = Inr mb"
    "load_ext_opt ledger w (di_member_b_token c) = Inr tb"
    "ledger w (di_org_treasury c) = Some tr"
    "pda_at rt (org_treasury_seeds i) (org_treasury_bump g) (di_org_treasury c)"
    "payout_share (ta_amount tr) (om_share_bps am) = Inr a"
    "pay_share rt tx i c (g\<lparr>org_status := ORG_STATUS_DISSOLVING\<rparr>) m (di_admin_token c) a (0, w)
       = Inr (t1, w1)"
    "dissolve_member_b rt tx i c (g\<lparr>org_status := ORG_STATUS_DISSOLVING\<rparr>) mb tb tr m (t1, w1)
       = Inr (t2, w2)"
    "t2 \<le> ta_amount tr"
    "w' = put orgs_update (di_organization c) (g\<lparr>org_status := ORG_STATUS_CLOSED\<rparr>)
            (log_event (OrgDissolvedEv i t2) w2)"
  using assms by (auto simp: handler_defs ok_simps Let_def intro!: that)

text \<open>Dissolving touches token accounts, and only ones the organization's address signs for.\<close>

lemma dissolve_frame:
  assumes "pay_share rt tx i c g m k a (t, w) = Inr (t1, w1)"
    and "dissolve_member_b rt tx i c g mb tb tr m (t1, w1) = Inr (t2, w2)"
  shows "\<exists>l. w2 = w\<lparr>ledger := l\<rparr>"
    and "token_spec rt \<Longrightarrow> owner \<noteq> di_organization c \<Longrightarrow> keeps owner (ledger w) (ledger w2)"
proof -
  obtain l where l: "w1 = w\<lparr>ledger := l\<rparr>" using pay_share_frame(1) [OF assms(1)] by blast
  show "\<exists>l. w2 = w\<lparr>ledger := l\<rparr>"
    using assms(2)
  proof (cases rule: dissolve_member_b_ok)
    case skip
    with l show ?thesis by blast
  next
    case (paid x y kb a)
    from pay_share_frame(1) [OF paid(8)] l show ?thesis by auto
  qed
  assume "token_spec rt" "owner \<noteq> di_organization c"
  note first = pay_share_frame(2) [OF assms(1) this]
  show "keeps owner (ledger w) (ledger w2)"
    using assms(2)
  proof (cases rule: dissolve_member_b_ok)
    case skip
    with first show ?thesis by simp
  next
    case (paid x y kb a)
    from keeps_trans [OF first pay_share_frame(2) [OF paid(8) \<open>token_spec rt\<close> \<open>owner \<noteq> di_organization c\<close>]]
    show ?thesis .
  qed
qed

subsection \<open>The instructions follow the directory\<close>

lemma org_split_step:
  assumes "org_split rt tx w c i amounts = Inr w'"
  shows "directory_step rt (orgs w) (members w) (orgs w') (members w')"
  using assms by (rule org_split_ok) (simp add: world_frame map_upd_triv directory_step.same)

lemma reclaim_org_residual_step:
  assumes "reclaim_org_residual rt tx w c i = Inr w'"
  shows "directory_step rt (orgs w) (members w) (orgs w') (members w')"
  using assms by (rule reclaim_org_residual_ok) (simp add: world_frame map_upd_triv directory_step.same)

lemma dissolve_org_step:
  assumes "dissolve_org rt tx w c i = Inr w'"
  shows "directory_step rt (orgs w) (members w) (orgs w') (members w')"
  using assms
proof (rule dissolve_org_ok)
  fix g am mb tb tr m a t1 w1 t2 w2
  assume h: "orgs w (di_organization c) = Some g" "org_status g = ORG_STATUS_ACTIVE"
    "pay_share rt tx i c (g\<lparr>org_status := ORG_STATUS_DISSOLVING\<rparr>) m (di_admin_token c) a (0, w)
       = Inr (t1, w1)"
    "dissolve_member_b rt tx i c (g\<lparr>org_status := ORG_STATUS_DISSOLVING\<rparr>) mb tb tr m (t1, w1)
       = Inr (t2, w2)"
    "w' = put orgs_update (di_organization c) (g\<lparr>org_status := ORG_STATUS_CLOSED\<rparr>)
            (log_event (OrgDissolvedEv i t2) w2)"
  obtain l where "w2 = w\<lparr>ledger := l\<rparr>" using dissolve_frame(1) [OF h(3,4)] by blast
  then have "orgs w' = (orgs w)(di_organization c \<mapsto> g\<lparr>org_status := ORG_STATUS_CLOSED\<rparr>)"
    "members w' = members w" using h(5) by (simp_all add: world_frame)
  with directory_step.close [where G = "orgs w", OF h(1,2)] show ?thesis by simp
qed

lemma org_split_ledger:
  assumes "token_spec rt" "org_split rt tx w c i amounts = Inr w'" "owner \<noteq> os_organization c"
  shows "keeps owner (ledger w) (ledger w')"
  using assms(2)
  by (rule org_split_ok)
    (use assms(1,3) in \<open>auto simp: world_frame dest!: keeps_transfer [where owner = owner]\<close>)

lemma reclaim_org_residual_ledger:
  assumes "token_spec rt" "reclaim_org_residual rt tx w c i = Inr w'" "owner \<noteq> rr_organization c"
  shows "keeps owner (ledger w) (ledger w')"
  using assms(2)
  by (rule reclaim_org_residual_ok)
    (use assms(1,3) in \<open>auto simp: world_frame dest!: keeps_transfer [where owner = owner]\<close>)

lemma dissolve_org_ledger:
  assumes "token_spec rt" "dissolve_org rt tx w c i = Inr w'" "owner \<noteq> di_organization c"
  shows "keeps owner (ledger w) (ledger w')"
  using assms(2)
  by (rule dissolve_org_ok) (use dissolve_frame(2) assms(1,3) in \<open>simp add: world_frame\<close>)

end
