(* ===== verification/Aeon_Bond.thy ===== *)
theory Aeon_Bond
  imports Aeon_Authority Aeon_Spend Aeon_Store
begin

text \<open>
  Authority bonds: \<^verbatim>\<open>slash_bond.rs\<close>, and what \<^verbatim>\<open>issue_authority.rs\<close> does with a bond.
\<close>

subsection \<open>\<^verbatim>\<open>slash_bond\<close>\<close>

record slash_bond_ctx =
  sb_slasher :: pubkey
  sb_config :: pubkey
  sb_authority :: pubkey
  sb_bond :: pubkey
  sb_bond_vault :: pubkey
  sb_destination :: pubkey
  sb_aeon_mint :: pubkey
  sb_token_program :: pubkey

definition slash_bond_accounts ::
    "runtime \<Rightarrow> tx \<Rightarrow> world \<Rightarrow> slash_bond_ctx \<Rightarrow> u64 \<Rightarrow> failure + authority_bond \<times> mint" where
  "slash_bond_accounts rt tx w c authority_id =
     (if \<not> tx_signer tx (sb_slasher c) then anchor_err AccountNotSigner
      else bindr (load configs w (sb_config c)) (\<lambda>cfg.
      bindr (load authorities w (sb_authority c)) (\<lambda>au.
      bindr (load bonds w (sb_bond c)) (\<lambda>bond.
      bindr (load_ext ledger w (sb_bond_vault c)) (\<lambda>bond_vault.
      bindr (load_ext ledger w (sb_destination c)) (\<lambda>destination.
      bindr (load_ext mints w (sb_aeon_mint c)) (\<lambda>m.
      if \<not> rt_is_token_program rt (sb_token_program c) then anchor_err InvalidProgramId
      else if \<not> pda_at rt [SEED_CONFIG] (cfg_bump cfg) (sb_config c) then anchor_err ConstraintSeeds
      else if \<not> pda_at rt (authority_seeds authority_id) (au_bump au) (sb_authority c)
      then anchor_err ConstraintSeeds
      else if au_authority_id au \<noteq> authority_id then err ParentIdMismatch
      else if au_agent au \<noteq> sb_slasher c then err Unauthorized
      else if \<not> 0 < au_bond_amount au then err InsufficientBond
      else if \<not> pda_at rt (bond_seeds authority_id) (bd_bump bond) (sb_bond c)
      then anchor_err ConstraintSeeds
      else if \<not> tx_writable tx (sb_bond c) then anchor_err ConstraintMut
      else if bd_authority_id bond \<noteq> authority_id then err ParentIdMismatch
      else if bd_status bond \<noteq> BOND_STATUS_ACTIVE then err BondNotActive
      else bindr (wallet tx (sb_bond_vault c) bond_vault (sb_bond c) (cfg_aeon_mint cfg)) (\<lambda>_.
      if \<not> tx_writable tx (sb_destination c) then anchor_err ConstraintMut
      else if ta_mint destination \<noteq> cfg_aeon_mint cfg then err InvalidMint
      else if sb_aeon_mint c \<noteq> cfg_aeon_mint cfg then err InvalidMint
      else Inr (bond, m)))))))))"

definition slash_bond ::
    "runtime \<Rightarrow> tx \<Rightarrow> world \<Rightarrow> slash_bond_ctx \<Rightarrow> u64 \<Rightarrow> failure + world" where
  "slash_bond rt tx w c authority_id =
     bindr (slash_bond_accounts rt tx w c authority_id) (\<lambda>(bond0, m).
     if bd_status bond0 \<noteq> BOND_STATUS_ACTIVE then err BondNotActive
     else let bond = bond0\<lparr>bd_status := BOND_STATUS_SLASHED\<rparr> in
     bindr (cpi_transfer rt (sb_token_program c)
              \<lparr>tc_from = sb_bond_vault c, tc_mint = sb_aeon_mint c, tc_to = sb_destination c,
               tc_authority = sb_bond c\<rparr>
              (tx_signer tx (sb_bond c) \<or> pda_at rt (bond_seeds authority_id) (bd_bump bond) (sb_bond c))
              (bd_amount bond) (mint_decimals m) w) (\<lambda>w1.
     Inr (put bonds_update (sb_bond c) bond
           (log_event (BondSlashedEv authority_id (bd_amount bond) (sb_slasher c)) w1))))"

declare slash_bond_def [handler_defs] slash_bond_accounts_def [handler_defs]

lemma slash_bond_ok:
  assumes "slash_bond rt tx w c i = Inr w'"
  obtains cfg au bond bv m l where
    "tx_signer tx (sb_slasher c)" "configs w (sb_config c) = Some cfg"
    "authorities w (sb_authority c) = Some au" "au_agent au = sb_slasher c"
    "au_authority_id au = i" "0 < au_bond_amount au"
    "pda_at rt (authority_seeds i) (au_bump au) (sb_authority c)"
    "bonds w (sb_bond c) = Some bond" "bd_status bond = BOND_STATUS_ACTIVE"
    "bd_authority_id bond = i" "pda_at rt (bond_seeds i) (bd_bump bond) (sb_bond c)"
    "ledger w (sb_bond_vault c) = Some bv" "ta_owner bv = sb_bond c"
    "mints w (sb_aeon_mint c) = Some m" "sb_aeon_mint c = cfg_aeon_mint cfg"
    "rt_tok_transfer rt (sb_token_program c)
       \<lparr>tc_from = sb_bond_vault c, tc_mint = sb_aeon_mint c, tc_to = sb_destination c,
        tc_authority = sb_bond c\<rparr> True (bd_amount bond) (mint_decimals m) (mints w) (ledger w) = Inr l"
    "w' = put bonds_update (sb_bond c) (bond\<lparr>bd_status := BOND_STATUS_SLASHED\<rparr>)
            (log_event (BondSlashedEv i (bd_amount bond) (sb_slasher c)) (w\<lparr>ledger := l\<rparr>))"
  using assms by (auto simp: handler_defs ok_simps Let_def intro!: that)

subsection \<open>The life of a bond\<close>

inductive bond_step :: "u64 \<Rightarrow> authority_bond \<Rightarrow> authority_bond \<Rightarrow> bool" for slot where
  slash: "bd_status b = BOND_STATUS_ACTIVE \<Longrightarrow>
     bond_step slot b (b\<lparr>bd_status := BOND_STATUS_SLASHED\<rparr>)"

inductive_cases bond_step_elim: "bond_step slot b b'"

lemmas bond_step_intros = bond_step.intros [simplified]

definition bond_ok :: "runtime \<Rightarrow> pubkey \<Rightarrow> authority_bond \<Rightarrow> bool" where
  "bond_ok rt k b =
     (rt_find_pda rt (bond_seeds (bd_authority_id b)) = (k, bd_bump b) \<and> 0 < bd_amount b
      \<and> bd_status b \<le> BOND_STATUS_SLASHED)"

definition bond_posted :: "runtime \<Rightarrow> pubkey \<Rightarrow> authority_bond \<Rightarrow> bool" where
  "bond_posted rt k b = (bond_ok rt k b \<and> bd_status b = BOND_STATUS_ACTIVE)"

definition same_bond :: "authority_bond \<Rightarrow> authority_bond \<Rightarrow> bool" where
  "same_bond b b' = (b'\<lparr>bd_status := bd_status b\<rparr> = b)"

abbreviation bond_active :: "authority_bond \<Rightarrow> bool" where
  "bond_active b \<equiv> bd_status b = BOND_STATUS_ACTIVE"

interpretation bond_life: life_cycle bond_step "bond_posted rt" "bond_ok rt" bond_active same_bond
  for rt
proof unfold_locales
  show "same_bond a c" if "same_bond a b" "same_bond b c" for a b c
    using that unfolding same_bond_def by (metis authority_bond.surjective authority_bond.update_convs(4))
qed (auto elim!: bond_step_elim simp: bond_posted_def bond_ok_def same_bond_def)

lemma slash_bond_store_step:
  assumes "slash_bond rt tx w c i = Inr w'"
  shows "store_step bond_step (bond_posted rt) (tx_slot tx) (bonds w) (bonds w')"
  using assms
  by (rule slash_bond_ok) (auto simp: world_simps intro!: store_step.move bond_step_intros)

lemma slash_bond_ledger:
  assumes "token_spec rt" "slash_bond rt tx w c i = Inr w'" "owner \<noteq> sb_bond c"
  shows "keeps owner (ledger w) (ledger w')"
  using assms(2)
  by (rule slash_bond_ok)
    (use assms(1,3) in \<open>auto simp: world_frame dest!: keeps_transfer [where owner = owner]\<close>)

subsection \<open>Posting a bond\<close>

lemma issue_bond_posted:
  assumes "token_spec rt" "issue_bond rt tx c i amt bond_b m w = Inr (Some bond, w1)"
  obtains k kv where "ia_bond c = Some k" "0 < amt" "kv = rt_ata_address rt k (the (ia_aeon_mint c))"
    "bond = \<lparr>bd_authority_id = i, bd_agent = ia_agent c, bd_amount = amt,
             bd_status = BOND_STATUS_ACTIVE, bd_bump = (case bond_b of None \<Rightarrow> 0 | Some b \<Rightarrow> b)\<rparr>"
    "k \<noteq> ia_agent c \<Longrightarrow> holds (ledger w1) kv k (unat amt)"
    "\<And>owner. owner \<noteq> ia_agent c \<Longrightarrow> keeps owner (ledger w) (ledger w1)"
proof -
  from assms(2) obtain k av mk mint_data tp ap l l1 where h: "0 < amt" "ia_bond c = Some k"
    "ia_agent_vault c = Some av" "ia_aeon_mint c = Some mk"
    "bond = \<lparr>bd_authority_id = i, bd_agent = ia_agent c, bd_amount = amt,
             bd_status = BOND_STATUS_ACTIVE, bd_bump = (case bond_b of None \<Rightarrow> 0 | Some b \<Rightarrow> b)\<rparr>"
    "rt_ata_create rt ap (rt_ata_address rt k mk) k mk (mints w) (ledger w) = Inr l"
    "rt_tok_transfer rt tp
       \<lparr>tc_from = av, tc_mint = mk, tc_to = rt_ata_address rt k mk, tc_authority = ia_agent c\<rparr>
       (tx_signer tx (ia_agent c)) amt (mint_decimals mint_data) (mints w) l = Inr l1"
    "ledger w1 = l1" "m = Some mint_data"
    by (auto simp: issue_bond_def ok_simps Let_def split: if_splits)
  note ata = keeps_ata_create [OF assms(1) h(6)]
  note moved = transferredD(2) [OF token_spec_transfer [OF assms(1)] h(7)]
  from ata(2) obtain t where t: "l (rt_ata_address rt k mk) = Some t" "ta_owner t = k" by blast
  have "holds l1 (rt_ata_address rt k mk) k (unat amt)" if "k \<noteq> ia_agent c"
  proof -
    obtain f where "l av = Some f" "ta_owner f = ia_agent c"
      using moved unfolding transferred_def by auto
    with t that have "av \<noteq> rt_ata_address rt k mk" by (metis option.inject)
    with holds_deposit [OF moved, of t k] t
    have "holds l1 (rt_ata_address rt k mk) k (unat (ta_amount t) + unat amt)" by simp
    then show ?thesis unfolding holds_def by (elim exE conjE) (intro exI conjI, assumption+, simp)
  qed
  moreover have "keeps owner (ledger w) l1" if "owner \<noteq> ia_agent c" for owner
    using keeps_trans [OF ata(1) keeps_transferred [OF moved]] that by simp
  ultimately show thesis
    using that [of k "rt_ata_address rt k mk"] h by auto
qed

end
