(* ===== verification/Aeon_Receipt.thy ===== *)
theory Aeon_Receipt
  imports Aeon_Spend Aeon_Store
begin

text \<open>
  Receipts: \<^verbatim>\<open>create_receipt.rs\<close>.  Each receipt is hashed together with the hash of its
  actor's previous one, so that the receipts of an agent form a chain whose head is kept in
  the agent's reputation account.
\<close>

record create_receipt_ctx =
  cr_actor :: pubkey
  cr_config :: pubkey
  cr_cri :: pubkey
  cr_receipt :: pubkey

definition create_receipt_accounts ::
    "runtime \<Rightarrow> tx \<Rightarrow> world \<Rightarrow> create_receipt_ctx \<Rightarrow> u64 \<Rightarrow> failure + config \<times> cri \<times> u8" where
  "create_receipt_accounts rt tx w c receipt_id =
     (if \<not> tx_signer tx (cr_actor c) then anchor_err AccountNotSigner
      else bindr (load configs w (cr_config c)) (\<lambda>cfg.
      bindr (load cris w (cr_cri c)) (\<lambda>ci.
      bindr (init_pda rt tx w [] (receipt_seeds receipt_id) (cr_receipt c)) (\<lambda>b.
      if \<not> tx_writable tx (cr_actor c) then anchor_err ConstraintMut
      else if \<not> pda_at rt [SEED_CONFIG] (cfg_bump cfg) (cr_config c) then anchor_err ConstraintSeeds
      else if \<not> tx_writable tx (cr_config c) then anchor_err ConstraintMut
      else bindr (cri_account rt tx (cr_cri c) ci (cr_actor c)) (\<lambda>_.
      Inr (cfg, ci, b))))))"

text \<open>The bytes the hasher is fed, in the order of the calls (lines 58 to 65).\<close>

definition receipt_hash ::
    "runtime \<Rightarrow> u64 \<Rightarrow> u8 \<Rightarrow> pubkey \<Rightarrow> u64 \<Rightarrow> bytes \<Rightarrow> bytes \<Rightarrow> bytes" where
  "receipt_hash rt receipt_id receipt_type actor_key slot payload_hash prev_hash =
     rt_sha256 rt (RECEIPT_DOMAIN_SEPARATOR @ le_bytes receipt_id @ [receipt_type] @ actor_key
       @ le_bytes slot @ payload_hash @ prev_hash)"

definition new_receipt ::
    "runtime \<Rightarrow> u64 \<Rightarrow> u8 \<Rightarrow> pubkey \<Rightarrow> u64 \<Rightarrow> bytes \<Rightarrow> bytes \<Rightarrow> u8 \<Rightarrow> receipt" where
  "new_receipt rt receipt_id receipt_type actor_key slot payload prev_hash bump =
     \<lparr>rc_receipt_id = receipt_id,
      rc_receipt_type = receipt_type,
      rc_actor = actor_key,
      rc_slot = slot,
      rc_payload_hash = rt_sha256 rt payload,
      rc_prev_hash = prev_hash,
      rc_hash = receipt_hash rt receipt_id receipt_type actor_key slot (rt_sha256 rt payload) prev_hash,
      rc_bump = bump\<rparr>"

definition create_receipt ::
    "runtime \<Rightarrow> tx \<Rightarrow> world \<Rightarrow> create_receipt_ctx \<Rightarrow> u64 \<Rightarrow> u8 \<Rightarrow> bytes \<Rightarrow> failure + world" where
  "create_receipt rt tx w c receipt_id receipt_type payload =
     bindr (create_receipt_accounts rt tx w c receipt_id) (\<lambda>(cfg, ci, b).
     if cfg_paused cfg then err Paused
     else if payload = [] \<or> \<not> length payload \<le> 1024 then err InvalidPayload
     else bindr (ok_or (checked_add (cfg_receipt_counter cfg) 1) (Aeon Overflow)) (\<lambda>expected_id.
     if receipt_id \<noteq> expected_id then err ReceiptIdMismatch
     else let prev_hash = cri_last_receipt_hash ci;
              r = new_receipt rt receipt_id receipt_type (cr_actor c) (tx_slot tx) payload prev_hash b in
     if cri_last_receipt_hash ci \<noteq> prev_hash then err ReceiptChainMismatch
     else bindr (ok_or (checked_add (cri_receipt_count ci) 1) (Aeon Overflow)) (\<lambda>n.
     Inr (put receipts_update (cr_receipt c) r
           (put cris_update (cr_cri c)
              (ci\<lparr>cri_last_receipt_hash := rc_hash r, cri_receipt_count := n,
                  cri_last_active_slot := tx_slot tx\<rparr>)
             (put configs_update (cr_config c) (cfg\<lparr>cfg_receipt_counter := receipt_id\<rparr>)
               (log_event (ReceiptCreatedEv receipt_id (cr_actor c) receipt_type prev_hash
                  (rc_hash r) (tx_slot tx)) w)))))))"

declare create_receipt_def [handler_defs] create_receipt_accounts_def [handler_defs]

lemma create_receipt_ok:
  assumes "create_receipt rt tx w c i ty payload = Inr w'"
  obtains cfg ci b n where
    "tx_signer tx (cr_actor c)" "configs w (cr_config c) = Some cfg" "\<not> cfg_paused cfg"
    "cris w (cr_cri c) = Some ci" "cri_agent ci = cr_actor c"
    "pda_at rt [SEED_CONFIG] (cfg_bump cfg) (cr_config c)"
    "rt_find_pda rt (receipt_seeds i) = (cr_receipt c, b)" "\<not> in_use w (cr_receipt c)"
    "payload \<noteq> []" "length payload \<le> 1024" "unat i = unat (cfg_receipt_counter cfg) + 1"
    "unat n = unat (cri_receipt_count ci) + 1"
    "w' = put receipts_update (cr_receipt c)
            (new_receipt rt i ty (cr_actor c) (tx_slot tx) payload (cri_last_receipt_hash ci) b)
           (put cris_update (cr_cri c)
              (ci\<lparr>cri_last_receipt_hash := rc_hash (new_receipt rt i ty (cr_actor c) (tx_slot tx)
                     payload (cri_last_receipt_hash ci) b),
                  cri_receipt_count := n, cri_last_active_slot := tx_slot tx\<rparr>)
             (put configs_update (cr_config c) (cfg\<lparr>cfg_receipt_counter := i\<rparr>)
               (log_event (ReceiptCreatedEv i (cr_actor c) ty (cri_last_receipt_hash ci)
                  (rc_hash (new_receipt rt i ty (cr_actor c) (tx_slot tx) payload
                     (cri_last_receipt_hash ci) b)) (tx_slot tx)) w)))"
  using assms by (auto simp: handler_defs ok_simps Let_def intro!: that)

subsection \<open>The life of a receipt: it never changes\<close>

definition receipt_ok :: "runtime \<Rightarrow> pubkey \<Rightarrow> receipt \<Rightarrow> bool" where
  "receipt_ok rt k r =
     (rt_find_pda rt (receipt_seeds (rc_receipt_id r)) = (k, rc_bump r)
      \<and> rc_hash r = receipt_hash rt (rc_receipt_id r) (rc_receipt_type r) (rc_actor r) (rc_slot r)
          (rc_payload_hash r) (rc_prev_hash r))"

abbreviation no_step :: "u64 \<Rightarrow> 'a \<Rightarrow> 'a \<Rightarrow> bool" where
  "no_step \<equiv> (\<lambda>slot a a'. False)"

interpretation receipt_life:
  life_cycle no_step "receipt_ok rt" "receipt_ok rt" "\<lambda>_. False" "\<lambda>r r'. r' = r" for rt
  by unfold_locales auto

lemma create_receipt_store_step:
  assumes "create_receipt rt tx w c i ty payload = Inr w'"
  shows "store_step no_step (receipt_ok rt) (tx_slot tx) (receipts w) (receipts w')"
  using assms
  by (rule create_receipt_ok)
    (auto simp: world_frame new_receipt_def receipt_ok_def not_in_use_fresh intro!: store_step.create)

end
