(* ===== verification/Aeon_Frames.thy ===== *)
theory Aeon_Frames
  imports Aeon_Config Aeon_Authority Aeon_Pay Aeon_Split Aeon_Escrow Aeon_Treasury Aeon_Bond
    Aeon_Receipt
begin

text \<open>
  What each instruction leaves alone: the maps of the world it does not write.  The
  collection \<open>frames\<close> is what the proofs about the whole program use of the instructions a
  property is not about.
\<close>

named_theorems frames "the maps an instruction does not write"

lemma initialize_config_frame [frames]:
  assumes "initialize_config rt tx w c mk = Inr w'"
  shows "agents w' = agents w \<and> cris w' = cris w \<and> authorities w' = authorities w
     \<and> escrows w' = escrows w \<and> orgs w' = orgs w \<and> members w' = members w
     \<and> receipts w' = receipts w \<and> bonds w' = bonds w \<and> raws w' = raws w
     \<and> ledger w' = ledger w \<and> mints w' = mints w"
  using assms by (rule initialize_config_ok) (simp add: world_frame)

lemma set_paused_frame [frames]:
  assumes "set_paused rt tx w c b = Inr w'"
  shows "agents w' = agents w \<and> cris w' = cris w \<and> authorities w' = authorities w
     \<and> escrows w' = escrows w \<and> orgs w' = orgs w \<and> members w' = members w
     \<and> receipts w' = receipts w \<and> bonds w' = bonds w \<and> raws w' = raws w
     \<and> ledger w' = ledger w \<and> mints w' = mints w"
  using assms by (rule set_paused_ok) (simp add: world_frame)

lemma register_agent_frame [frames]:
  assumes "register_agent rt tx w c = Inr w'"
  shows "configs w' = configs w \<and> authorities w' = authorities w \<and> escrows w' = escrows w
     \<and> orgs w' = orgs w \<and> members w' = members w \<and> receipts w' = receipts w
     \<and> bonds w' = bonds w \<and> raws w' = raws w \<and> ledger w' = ledger w
     \<and> mints w' = mints w"
  using assms by (rule register_agent_ok) (simp add: world_frame)

lemma issue_authority_frame [frames]:
  assumes "issue_authority rt tx w c i b mpt mt cats pid ex amt = Inr w'"
  shows "agents w' = agents w \<and> cris w' = cris w \<and> escrows w' = escrows w
     \<and> orgs w' = orgs w \<and> members w' = members w \<and> receipts w' = receipts w
     \<and> raws w' = raws w \<and> mints w' = mints w"
  using assms
  by (rule issue_authority_ok) (auto simp: issue_effect_def world_frame dest!: issue_bond_world)

lemma expire_authority_frame [frames]:
  assumes "expire_authority rt tx w c i = Inr w'"
  shows "configs w' = configs w \<and> agents w' = agents w \<and> cris w' = cris w
     \<and> escrows w' = escrows w \<and> orgs w' = orgs w \<and> members w' = members w
     \<and> receipts w' = receipts w \<and> bonds w' = bonds w \<and> raws w' = raws w
     \<and> ledger w' = ledger w \<and> mints w' = mints w"
  using assms by (rule expire_authority_ok) (simp add: world_frame)

lemma revoke_authority_frame [frames]:
  assumes "anchor_serialization rt" "revoke_authority rt tx w c i = Inr w'"
  shows "configs w' = configs w \<and> agents w' = agents w \<and> cris w' = cris w
     \<and> escrows w' = escrows w \<and> orgs w' = orgs w \<and> members w' = members w
     \<and> receipts w' = receipts w \<and> bonds w' = bonds w \<and> raws w' = raws w
     \<and> ledger w' = ledger w \<and> mints w' = mints w"
  using assms by (rule revoke_authority_ok) (simp add: world_frame)

lemma pay_frame [frames]:
  assumes "pay rt tx w c amount aid cat = Inr w'"
  shows "configs w' = configs w \<and> agents w' = agents w \<and> escrows w' = escrows w
     \<and> orgs w' = orgs w \<and> members w' = members w \<and> receipts w' = receipts w
     \<and> bonds w' = bonds w \<and> raws w' = raws w \<and> mints w' = mints w"
  using assms by (rule pay_ok) (simp add: world_frame)

lemma atomic_split_frame [frames]:
  assumes "atomic_split rt tx w c aid amounts cat = Inr w'"
  shows "configs w' = configs w \<and> agents w' = agents w \<and> escrows w' = escrows w
     \<and> orgs w' = orgs w \<and> members w' = members w \<and> receipts w' = receipts w
     \<and> bonds w' = bonds w \<and> raws w' = raws w \<and> mints w' = mints w"
  using assms
  by (rule atomic_split_ok) (auto simp: world_frame elim: split_transfer_b_ok)

lemma create_escrow_frame [frames]:
  assumes "create_escrow rt tx w c i amount aid cat ct cd ex = Inr w'"
  shows "agents w' = agents w \<and> cris w' = cris w \<and> orgs w' = orgs w
     \<and> members w' = members w \<and> receipts w' = receipts w \<and> bonds w' = bonds w
     \<and> raws w' = raws w \<and> mints w' = mints w"
  using assms by (rule create_escrow_ok) (simp add: world_frame)

lemma release_escrow_frame [frames]:
  assumes "release_escrow rt tx w c i wit = Inr w'"
  shows "configs w' = configs w \<and> agents w' = agents w \<and> authorities w' = authorities w
     \<and> orgs w' = orgs w \<and> members w' = members w \<and> receipts w' = receipts w
     \<and> bonds w' = bonds w \<and> raws w' = raws w \<and> mints w' = mints w"
  using assms by (rule release_escrow_ok) (simp add: world_frame)

lemma cancel_escrow_frame [frames]:
  assumes "cancel_escrow rt tx w c i = Inr w'"
  shows "configs w' = configs w \<and> agents w' = agents w \<and> authorities w' = authorities w
     \<and> orgs w' = orgs w \<and> members w' = members w \<and> receipts w' = receipts w
     \<and> bonds w' = bonds w \<and> raws w' = raws w \<and> mints w' = mints w"
  using assms by (rule cancel_escrow_ok) (simp add: world_frame)

lemma create_org_frame [frames]:
  assumes "create_org rt tx w c i name sh = Inr w'"
  shows "agents w' = agents w \<and> cris w' = cris w \<and> authorities w' = authorities w
     \<and> escrows w' = escrows w \<and> receipts w' = receipts w \<and> bonds w' = bonds w
     \<and> raws w' = raws w \<and> mints w' = mints w"
  using assms by (rule create_org_ok) (simp add: world_frame)

lemma join_org_frame [frames]:
  assumes "join_org rt tx w c i role sh = Inr w'"
  shows "configs w' = configs w \<and> agents w' = agents w \<and> cris w' = cris w
     \<and> authorities w' = authorities w \<and> escrows w' = escrows w \<and> receipts w' = receipts w
     \<and> bonds w' = bonds w \<and> raws w' = raws w \<and> ledger w' = ledger w
     \<and> mints w' = mints w"
  using assms by (rule join_org_ok) (simp add: world_frame)

lemma set_member_share_frame [frames]:
  assumes "set_member_share rt tx w c i sh = Inr w'"
  shows "configs w' = configs w \<and> agents w' = agents w \<and> cris w' = cris w
     \<and> authorities w' = authorities w \<and> escrows w' = escrows w \<and> receipts w' = receipts w
     \<and> bonds w' = bonds w \<and> raws w' = raws w \<and> ledger w' = ledger w
     \<and> mints w' = mints w"
  using assms by (rule set_member_share_ok) (simp add: world_frame)

lemma deposit_to_org_frame [frames]:
  assumes "deposit_to_org rt tx w c i amount = Inr w'"
  shows "configs w' = configs w \<and> agents w' = agents w \<and> cris w' = cris w
     \<and> authorities w' = authorities w \<and> escrows w' = escrows w \<and> members w' = members w
     \<and> receipts w' = receipts w \<and> bonds w' = bonds w \<and> raws w' = raws w
     \<and> mints w' = mints w"
  using assms by (rule deposit_to_org_ok) (simp add: world_frame)

lemma org_split_frame [frames]:
  assumes "org_split rt tx w c i amounts = Inr w'"
  shows "configs w' = configs w \<and> agents w' = agents w \<and> cris w' = cris w
     \<and> authorities w' = authorities w \<and> escrows w' = escrows w \<and> members w' = members w
     \<and> receipts w' = receipts w \<and> bonds w' = bonds w \<and> raws w' = raws w
     \<and> mints w' = mints w"
  using assms by (rule org_split_ok) (simp add: world_frame)

lemma dissolve_org_frame [frames]:
  assumes "dissolve_org rt tx w c i = Inr w'"
  shows "configs w' = configs w \<and> agents w' = agents w \<and> cris w' = cris w
     \<and> authorities w' = authorities w \<and> escrows w' = escrows w \<and> members w' = members w
     \<and> receipts w' = receipts w \<and> bonds w' = bonds w \<and> raws w' = raws w
     \<and> mints w' = mints w"
  using assms
  by (rule dissolve_org_ok) (auto simp: world_frame dest!: dissolve_frame(1))

lemma reclaim_org_residual_frame [frames]:
  assumes "reclaim_org_residual rt tx w c i = Inr w'"
  shows "configs w' = configs w \<and> agents w' = agents w \<and> cris w' = cris w
     \<and> authorities w' = authorities w \<and> escrows w' = escrows w \<and> members w' = members w
     \<and> receipts w' = receipts w \<and> bonds w' = bonds w \<and> raws w' = raws w
     \<and> mints w' = mints w"
  using assms by (rule reclaim_org_residual_ok) (simp add: world_frame)

lemma slash_bond_frame [frames]:
  assumes "slash_bond rt tx w c i = Inr w'"
  shows "configs w' = configs w \<and> agents w' = agents w \<and> cris w' = cris w
     \<and> authorities w' = authorities w \<and> escrows w' = escrows w \<and> orgs w' = orgs w
     \<and> members w' = members w \<and> receipts w' = receipts w \<and> raws w' = raws w
     \<and> mints w' = mints w"
  using assms by (rule slash_bond_ok) (simp add: world_frame)

lemma create_receipt_frame [frames]:
  assumes "create_receipt rt tx w c i ty pl = Inr w'"
  shows "agents w' = agents w \<and> authorities w' = authorities w \<and> escrows w' = escrows w
     \<and> orgs w' = orgs w \<and> members w' = members w \<and> bonds w' = bonds w
     \<and> raws w' = raws w \<and> ledger w' = ledger w \<and> mints w' = mints w"
  using assms by (rule create_receipt_ok) (simp add: world_frame)

end
