(* ===== verification/Aeon_Program.thy ===== *)
theory Aeon_Program
  imports Aeon_Frames
begin

text \<open>
  The program as a whole: \<^verbatim>\<open>lib.rs\<close>'s instructions and their dispatch, the transition system
  of a chain on which they are called, and the invariants of its reachable states.  The
  locale \<open>program_invariant\<close> is the contract an invariant meets; it is interpreted for every
  component.
\<close>

subsection \<open>Instructions and dispatch\<close>

datatype instruction =
    InitializeConfig initialize_config_ctx pubkey
  | RegisterAgent register_agent_ctx
  | IssueAuthority issue_authority_ctx u64 u64 u64 u64 "bytes list" u64 u64 u64
  | RevokeAuthority revoke_authority_ctx u64
  | Pay pay_ctx u64 u64 bytes
  | CreateEscrow create_escrow_ctx u64 u64 u64 bytes u8 bytes u64
  | ReleaseEscrow release_escrow_ctx u64 bytes
  | CancelEscrow cancel_escrow_ctx u64
  | AtomicSplit atomic_split_ctx u64 "u64 list" bytes
  | CreateOrg create_org_ctx u64 bytes u16
  | DepositToOrg deposit_to_org_ctx u64 u64
  | OrgSplit org_split_ctx u64 "u64 list"
  | DissolveOrg dissolve_org_ctx u64
  | JoinOrg join_org_ctx u64 u8 u16
  | SetMemberShare set_member_share_ctx u64 u16
  | ReclaimOrgResidual reclaim_org_residual_ctx u64
  | CreateReceipt create_receipt_ctx u64 u8 bytes
  | ExpireAuthority expire_authority_ctx u64
  | SetPaused set_paused_ctx bool
  | SlashBond slash_bond_ctx u64

fun dispatch :: "runtime \<Rightarrow> tx \<Rightarrow> world \<Rightarrow> instruction \<Rightarrow> failure + world" where
  "dispatch rt tx w (InitializeConfig c aeon_mint) =
     initialize_config rt tx w c aeon_mint"
| "dispatch rt tx w (RegisterAgent c) =
     register_agent rt tx w c"
| "dispatch rt tx w (IssueAuthority c authority_id budget max_per_tx max_total categories parent_id expiry_slot bond_amount) =
     issue_authority rt tx w c authority_id budget max_per_tx max_total categories parent_id expiry_slot bond_amount"
| "dispatch rt tx w (RevokeAuthority c authority_id) =
     revoke_authority rt tx w c authority_id"
| "dispatch rt tx w (Pay c amount authority_id category) =
     pay rt tx w c amount authority_id category"
| "dispatch rt tx w (CreateEscrow c escrow_id amount authority_id category condition_type condition_data expiry_slot) =
     create_escrow rt tx w c escrow_id amount authority_id category condition_type condition_data expiry_slot"
| "dispatch rt tx w (ReleaseEscrow c escrow_id witness) =
     release_escrow rt tx w c escrow_id witness"
| "dispatch rt tx w (CancelEscrow c escrow_id) =
     cancel_escrow rt tx w c escrow_id"
| "dispatch rt tx w (AtomicSplit c authority_id amounts category) =
     atomic_split rt tx w c authority_id amounts category"
| "dispatch rt tx w (CreateOrg c org_id name_hash creator_share_bps) =
     create_org rt tx w c org_id name_hash creator_share_bps"
| "dispatch rt tx w (DepositToOrg c org_id amount) =
     deposit_to_org rt tx w c org_id amount"
| "dispatch rt tx w (OrgSplit c org_id amounts) =
     org_split rt tx w c org_id amounts"
| "dispatch rt tx w (DissolveOrg c org_id) =
     dissolve_org rt tx w c org_id"
| "dispatch rt tx w (JoinOrg c org_id role share_bps) =
     join_org rt tx w c org_id role share_bps"
| "dispatch rt tx w (SetMemberShare c org_id new_share_bps) =
     set_member_share rt tx w c org_id new_share_bps"
| "dispatch rt tx w (ReclaimOrgResidual c org_id) =
     reclaim_org_residual rt tx w c org_id"
| "dispatch rt tx w (CreateReceipt c receipt_id receipt_type payload) =
     create_receipt rt tx w c receipt_id receipt_type payload"
| "dispatch rt tx w (ExpireAuthority c authority_id) =
     expire_authority rt tx w c authority_id"
| "dispatch rt tx w (SetPaused c paused) =
     set_paused rt tx w c paused"
| "dispatch rt tx w (SlashBond c authority_id) =
     slash_bond rt tx w c authority_id"

text \<open>The owner of the tokens an instruction may move, if it moves any.\<close>

fun spender :: "instruction \<Rightarrow> pubkey option" where
  "spender (IssueAuthority c _ _ _ _ _ _ _ _) = Some (ia_agent c)"
| "spender (Pay c _ _ _) = Some (pay_payer c)"
| "spender (CreateEscrow c _ _ _ _ _ _ _) = Some (ce_payer c)"
| "spender (ReleaseEscrow c _ _) = Some (re_escrow c)"
| "spender (CancelEscrow c _) = Some (cx_escrow c)"
| "spender (AtomicSplit c _ _ _) = Some (sl_payer c)"
| "spender (DepositToOrg c _ _) = Some (do_member c)"
| "spender (OrgSplit c _ _) = Some (os_organization c)"
| "spender (DissolveOrg c _) = Some (di_organization c)"
| "spender (ReclaimOrgResidual c _) = Some (rr_organization c)"
| "spender (SlashBond c _) = Some (sb_bond c)"
| "spender _ = None"

text \<open>
  Where the right to spend comes from: an escrow's, an organization's or a bond's address,
  which the program signs for, or else a signer of the transaction.
\<close>

lemma spender_signs:
  assumes "dispatch rt tx w i = Inr w'" "spender i = Some k"
  shows "tx_signer tx k
    \<or> (\<exists>j b. pda_at rt (escrow_seeds j) b k \<and> ((\<exists>c. i = CancelEscrow c j) \<or> (\<exists>c wi. i = ReleaseEscrow c j wi)))
    \<or> (\<exists>j b. pda_at rt (org_seeds j) b k)
    \<or> (\<exists>j b c. pda_at rt (bond_seeds j) b k \<and> i = SlashBond c j)"
  using assms
  by (cases i)
    (auto elim!: issue_authority_ok pay_ok create_escrow_ok release_escrow_ok cancel_escrow_ok
      atomic_split_ok deposit_to_org_ok org_split_ok dissolve_org_ok reclaim_org_residual_ok
      slash_bond_ok)

lemma pay_ledger:
  assumes "token_spec rt" "pay rt tx w c amount aid cat = Inr w'" "owner \<noteq> pay_payer c"
  shows "keeps owner (ledger w) (ledger w')"
  using assms(2)
  by (rule pay_ok)
    (use assms(1,3) in \<open>auto simp: world_frame dest!: keeps_transfer [where owner = owner]\<close>)

lemma atomic_split_ledger:
  assumes "token_spec rt" "atomic_split rt tx w c aid amounts cat = Inr w'" "owner \<noteq> sl_payer c"
  shows "keeps owner (ledger w) (ledger w')"
  using assms(2)
proof (rule atomic_split_ok)
  fix m l tb w2 au' pc' ac' bc' evs
  assume h: "rt_tok_transfer rt (sl_token_program c)
       \<lparr>tc_from = sl_payer_token c, tc_mint = sl_aeon_mint c, tc_to = sl_payee_a_token c,
        tc_authority = sl_payer c\<rparr> True (amounts ! 0) (mint_decimals m) (mints w) (ledger w) = Inr l"
    "split_transfer_b rt tx c amounts m tb (w\<lparr>ledger := l\<rparr>) = Inr w2"
    "w' = put_opt cris_update (sl_payee_b_cri c) bc' (put cris_update (sl_payee_a_cri c) ac'
       (put cris_update (sl_payer_cri c) pc' (put_opt authorities_update (sl_authority c) au'
         (fold log_event (PaymentSettledEv (sl_payer c) (sl_payee_a c) (amounts ! 0) aid cat
           # evs @ [cri_event (sl_payee_a c) ac']) w2))))"
  have first: "keeps owner (ledger w) l" using keeps_transfer [OF assms(1) h(1)] assms(3) by simp
  have "keeps owner (ledger w) (ledger w2)"
    using h(2)
  proof (cases rule: split_transfer_b_ok)
    case one
    with first show ?thesis by simp
  next
    case (two kb t pb l2)
    then have "keeps owner l l2" using keeps_transfer [OF assms(1) two(6)] assms(3) by simp
    with keeps_trans [OF first] two show ?thesis by simp
  qed
  with h(3) show ?thesis by (simp add: world_frame del: fold_simps)
qed

lemma revoke_children_ledger:
  "revoke_children rt tx i ag ks w = Inr w' \<Longrightarrow> ledger w' = ledger w"
proof (induction ks arbitrary: w)
  case (Cons k ks)
  then obtain w1 where w1: "revoke_child rt tx i ag k w = Inr w1" "ledger w' = ledger w1"
    by (auto simp: ok_simps)
  then have "ledger w1 = ledger w"
    by (auto simp: revoke_child_def write_child_def ok_simps Let_def put_def split: option.splits if_splits)
  with w1 show ?case by simp
qed simp

lemma revoke_ledger: "revoke_authority rt tx w c i = Inr w' \<Longrightarrow> ledger w' = ledger w"
  by (auto simp: revoke_authority_def ok_simps world_frame dest: revoke_children_ledger)

lemma issue_bond_ledger:
  assumes "token_spec rt" "issue_bond rt tx c i amt bond_b m w = Inr (bond, w1)" "owner \<noteq> ia_agent c"
  shows "keeps owner (ledger w) (ledger w1)"
proof (cases bond)
  case None
  with assms(2) show ?thesis by (auto dest: issue_bond_None)
next
  case (Some b)
  from issue_bond_posted [OF assms(1) assms(2) [unfolded Some]] assms(3) show ?thesis by metis
qed

lemma issue_authority_ledger:
  assumes "token_spec rt" "issue_authority rt tx w c i b mpt mt cats pid ex amt = Inr w'"
    "owner \<noteq> ia_agent c"
  shows "keeps owner (ledger w) (ledger w')"
  using assms(2)
  by (rule issue_authority_ok) (simp add: issue_bond_ledger [OF assms(1) _ assms(3)])

text \<open>Nobody else's tokens move.\<close>

lemma dispatch_keeps:
  assumes "token_spec rt" "dispatch rt tx w i = Inr w'" "spender i \<noteq> Some owner"
  shows "keeps owner (ledger w) (ledger w')"
  using assms(2,3)
  by (cases i)
    (auto simp: create_org_ledger [OF assms(1)]
      intro: pay_ledger [OF assms(1)] atomic_split_ledger [OF assms(1)]
        issue_authority_ledger [OF assms(1)] create_escrow_ledger(1) [OF assms(1)]
        release_escrow_ledger [OF assms(1)] cancel_escrow_ledger [OF assms(1)]
        deposit_to_org_ledger [OF assms(1)] org_split_ledger [OF assms(1)]
        dissolve_org_ledger [OF assms(1)] reclaim_org_residual_ledger [OF assms(1)]
        slash_bond_ledger [OF assms(1)]
      dest: initialize_config_frame register_agent_frame join_org_frame set_member_share_frame
        create_receipt_frame expire_authority_frame set_paused_frame revoke_ledger)

subsection \<open>The life of the configuration\<close>

text \<open>Admin, mint and bump are fixed; the counters only grow.\<close>

definition config_keeps :: "config \<Rightarrow> config \<Rightarrow> bool" where
  "config_keeps c c' =
     (cfg_admin c' = cfg_admin c \<and> cfg_aeon_mint c' = cfg_aeon_mint c \<and> cfg_bump c' = cfg_bump c
      \<and> cfg_min_solvency_bps c' = cfg_min_solvency_bps c
      \<and> cfg_authority_counter c \<le> cfg_authority_counter c'
      \<and> cfg_escrow_counter c \<le> cfg_escrow_counter c' \<and> cfg_org_counter c \<le> cfg_org_counter c'
      \<and> cfg_receipt_counter c \<le> cfg_receipt_counter c')"

definition config_step :: "u64 \<Rightarrow> config \<Rightarrow> config \<Rightarrow> bool" where
  "config_step slot = config_keeps"

definition config_ok :: "runtime \<Rightarrow> pubkey \<Rightarrow> config \<Rightarrow> bool" where
  "config_ok rt k c = (rt_find_pda rt [SEED_CONFIG] = (k, cfg_bump c))"

interpretation config_life: life_cycle config_step "config_ok rt" "config_ok rt" "\<lambda>_. True" config_keeps
  for rt
  by unfold_locales (auto simp: config_step_def config_ok_def config_keeps_def)

subsection \<open>Every instruction follows the components' machines\<close>

lemma dispatch_authorities:
  assumes "anchor_serialization rt" "dispatch rt tx w i = Inr w'" "store_ok rt (authorities w)"
  shows "auth_store_step rt (tx_slot tx) (authorities w) (authorities w')"
  using assms(2)
  by (cases i)
    (auto simp: assms(1,3) auth_store_step.idle
      intro: issue_authority_store_step expire_authority_store_step
        revoke_authority_store_step pay_store_step atomic_split_store_step create_escrow_auth_step
      dest!: initialize_config_frame register_agent_frame set_paused_frame release_escrow_frame
        cancel_escrow_frame create_org_frame join_org_frame set_member_share_frame
        deposit_to_org_frame org_split_frame dissolve_org_frame reclaim_org_residual_frame
        slash_bond_frame create_receipt_frame)

lemma dispatch_escrows:
  assumes "anchor_serialization rt" "dispatch rt tx w i = Inr w'"
  shows "store_step escrow_step (escrow_opened rt) (tx_slot tx) (escrows w) (escrows w')"
  using assms(2)
  by (cases i)
    (auto simp: store_step.stay
      intro: create_escrow_store_step release_escrow_store_step cancel_escrow_store_step
      dest!: initialize_config_frame register_agent_frame set_paused_frame issue_authority_frame
        expire_authority_frame revoke_authority_frame [OF assms(1)] pay_frame atomic_split_frame
        create_org_frame join_org_frame set_member_share_frame
        deposit_to_org_frame org_split_frame dissolve_org_frame reclaim_org_residual_frame
        slash_bond_frame create_receipt_frame)

lemma dispatch_directory:
  assumes "anchor_serialization rt" "dispatch rt tx w i = Inr w'"
  shows "directory_step rt (orgs w) (members w) (orgs w') (members w')"
  using assms(2)
  by (cases i)
    (auto simp: directory_step.same
      intro: create_org_step join_org_step set_member_share_step deposit_to_org_step org_split_step
        dissolve_org_step reclaim_org_residual_step
      dest!: initialize_config_frame register_agent_frame set_paused_frame issue_authority_frame
        expire_authority_frame revoke_authority_frame [OF assms(1)] pay_frame atomic_split_frame
        create_escrow_frame release_escrow_frame cancel_escrow_frame slash_bond_frame
        create_receipt_frame)

lemma dispatch_receipts:
  assumes "anchor_serialization rt" "dispatch rt tx w i = Inr w'"
  shows "store_step no_step (receipt_ok rt) (tx_slot tx) (receipts w) (receipts w')"
  using assms(2)
  by (cases i)
    (auto simp: store_step.stay
      intro: create_receipt_store_step
      dest!: initialize_config_frame register_agent_frame set_paused_frame issue_authority_frame
        expire_authority_frame revoke_authority_frame [OF assms(1)] pay_frame atomic_split_frame
        create_escrow_frame release_escrow_frame cancel_escrow_frame
        create_org_frame join_org_frame set_member_share_frame
        deposit_to_org_frame org_split_frame dissolve_org_frame reclaim_org_residual_frame
        slash_bond_frame)

lemma issue_authority_bond_step:
  assumes "issue_authority rt tx w c i b mpt mt cats pid ex amt = Inr w'"
  shows "store_step bond_step (bond_posted rt) (tx_slot tx) (bonds w) (bonds w')"
  using assms
proof (rule issue_authority_ok)
  fix cfg depth fmpt fmt ct count au_b bond_b m bond w1
  assume h: "init_bond rt tx w c i = Inr bond_b" "issue_bond rt tx c i amt bond_b m w = Inr (bond, w1)"
    "w' = issue_effect c cfg (new_authority i (ia_agent c) pid depth b fmpt
            (if b < fmt then b else fmt) count ct ex amt au_b) bond w1"
  have w1: "bonds w1 = bonds w" using issue_bond_world [OF h(2)] by auto
  then have w': "bonds w' = bonds (put_opt bonds_update (ia_bond c) bond w)"
    using h(3) by (simp add: issue_effect_def put_opt_def put_def log_event_def split: option.splits)
  show ?thesis
  proof (cases bond)
    case None
    with w' show ?thesis by (simp add: put_opt_def store_step.stay split: option.splits)
  next
    case (Some bd)
    from h(2) Some obtain k where k: "ia_bond c = Some k" "0 < amt"
      "bd = \<lparr>bd_authority_id = i, bd_agent = ia_agent c, bd_amount = amt,
             bd_status = BOND_STATUS_ACTIVE, bd_bump = (case bond_b of None \<Rightarrow> 0 | Some b \<Rightarrow> b)\<rparr>"
      by (auto simp: issue_bond_def ok_simps Let_def split: if_splits)
    with h(1) obtain bb where "init_pda rt tx w [ia_authority c] (bond_seeds i) k = Inr bb"
      "bond_b = Some bb" by (auto simp: init_bond_def ok_simps)
    with k have "bonds w k = None" "bond_posted rt k bd"
      using slot_fresh(9) by (auto simp: bond_posted_def bond_ok_def ok_simps not_in_use_fresh)
    with w' Some k(1) show ?thesis by (simp add: put_opt_def put_def store_step.create)
  qed
qed

lemma dispatch_bonds:
  assumes "anchor_serialization rt" "dispatch rt tx w i = Inr w'"
  shows "store_step bond_step (bond_posted rt) (tx_slot tx) (bonds w) (bonds w')"
  using assms(2)
  by (cases i)
    (auto simp: store_step.stay
      intro: slash_bond_store_step issue_authority_bond_step
      dest!: initialize_config_frame register_agent_frame set_paused_frame
        expire_authority_frame revoke_authority_frame [OF assms(1)] pay_frame atomic_split_frame
        create_escrow_frame release_escrow_frame cancel_escrow_frame
        create_org_frame join_org_frame set_member_share_frame
        deposit_to_org_frame org_split_frame dissolve_org_frame reclaim_org_residual_frame
        create_receipt_frame)

text \<open>The configuration, moved one counter at a time.\<close>

lemma config_moves:
  assumes "S k = Some cfg"
  shows "store_step config_step (config_ok rt) slot S (S(k \<mapsto> cfg\<lparr>cfg_paused := p\<rparr>))"
    and "unat i = Suc (unat (cfg_authority_counter cfg)) \<Longrightarrow>
      store_step config_step (config_ok rt) slot S (S(k \<mapsto> cfg\<lparr>cfg_authority_counter := i\<rparr>))"
    and "unat i = Suc (unat (cfg_escrow_counter cfg)) \<Longrightarrow>
      store_step config_step (config_ok rt) slot S (S(k \<mapsto> cfg\<lparr>cfg_escrow_counter := i\<rparr>))"
    and "unat i = Suc (unat (cfg_org_counter cfg)) \<Longrightarrow>
      store_step config_step (config_ok rt) slot S (S(k \<mapsto> cfg\<lparr>cfg_org_counter := i\<rparr>))"
    and "unat i = Suc (unat (cfg_receipt_counter cfg)) \<Longrightarrow>
      store_step config_step (config_ok rt) slot S (S(k \<mapsto> cfg\<lparr>cfg_receipt_counter := i\<rparr>))"
  by (rule store_step.move [where S = S and k = k, OF assms],
      simp add: config_step_def config_keeps_def word_le_nat_alt)+

lemma config_instructions:
  shows "initialize_config rt tx w c1 mk = Inr w' \<Longrightarrow>
      store_step config_step (config_ok rt) slot (configs w) (configs w')"
    and "set_paused rt tx w c2 p = Inr w' \<Longrightarrow>
      store_step config_step (config_ok rt) slot (configs w) (configs w')"
    and "issue_authority rt tx w c3 i b mpt mt cats pid ex amt = Inr w' \<Longrightarrow>
      store_step config_step (config_ok rt) slot (configs w) (configs w')"
    and "create_escrow rt tx w c4 i amount aid cat ct cd ex = Inr w' \<Longrightarrow>
      store_step config_step (config_ok rt) slot (configs w) (configs w')"
    and "create_org rt tx w c5 i name sh = Inr w' \<Longrightarrow>
      store_step config_step (config_ok rt) slot (configs w) (configs w')"
    and "create_receipt rt tx w c6 i ty pl = Inr w' \<Longrightarrow>
      store_step config_step (config_ok rt) slot (configs w) (configs w')"
proof -
  let ?goal = "store_step config_step (config_ok rt) slot (configs w) (configs w')"
  show "initialize_config rt tx w c1 mk = Inr w' \<Longrightarrow> ?goal"
    by (erule initialize_config_ok)
      (auto simp: world_frame new_config_def config_ok_def not_in_use_fresh intro!: store_step.create)
  show "set_paused rt tx w c2 p = Inr w' \<Longrightarrow> ?goal"
    by (erule set_paused_ok) (auto simp: world_frame config_moves)
  show "issue_authority rt tx w c3 i b mpt mt cats pid ex amt = Inr w' \<Longrightarrow> ?goal"
    by (erule issue_authority_ok)
      (auto simp: new_authority_def config_moves dest!: issue_bond_world)
  show "create_escrow rt tx w c4 i amount aid cat ct cd ex = Inr w' \<Longrightarrow> ?goal"
    by (erule create_escrow_ok) (auto simp: world_frame config_moves)
  show "create_org rt tx w c5 i name sh = Inr w' \<Longrightarrow> ?goal"
    by (erule create_org_ok) (auto simp: world_frame config_moves)
  show "create_receipt rt tx w c6 i ty pl = Inr w' \<Longrightarrow> ?goal"
    by (erule create_receipt_ok) (auto simp: world_frame config_moves)
qed

lemma dispatch_configs:
  assumes "anchor_serialization rt" "dispatch rt tx w i = Inr w'"
  shows "store_step config_step (config_ok rt) (tx_slot tx) (configs w) (configs w')"
  using assms(2)
  by (cases i)
    (auto simp: store_step.stay intro: config_instructions
      dest!: register_agent_frame expire_authority_frame revoke_authority_frame [OF assms(1)]
        pay_frame atomic_split_frame release_escrow_frame cancel_escrow_frame join_org_frame
        set_member_share_frame deposit_to_org_frame org_split_frame dissolve_org_frame
        reclaim_org_residual_frame slash_bond_frame)

subsection \<open>Deposits survive every instruction\<close>

lemma escrow_not_spent:
  assumes "pda_spec rt" "pda_unsigned rt tx" "dispatch rt tx w i = Inr w'" "escrow_ok rt k es"
    and "\<And>c j. i \<noteq> CancelEscrow c j" "\<And>c j wi. i \<noteq> ReleaseEscrow c j wi"
  shows "spender i \<noteq> Some k"
proof
  assume "spender i = Some k"
  have k: "pda_at rt (escrow_seeds (es_escrow_id es)) (es_bump es) k"
    using assms(4) pda_canonical [OF assms(1)] by (simp add: escrow_ok_def)
  from spender_signs [OF assms(3) \<open>spender i = Some k\<close>] show False
    using pda_unsignedD [OF assms(2) k] pda_kinds_distinct(1,2) [OF assms(1) k] assms(5,6) by blast
qed

lemma bond_not_spent:
  assumes "pda_spec rt" "pda_unsigned rt tx" "dispatch rt tx w i = Inr w'" "bond_ok rt k b"
    and "\<And>c j. i \<noteq> SlashBond c j"
  shows "spender i \<noteq> Some k"
proof
  assume "spender i = Some k"
  have k: "pda_at rt (bond_seeds (bd_authority_id b)) (bd_bump b) k"
    using assms(4) pda_canonical [OF assms(1)] by (simp add: bond_ok_def)
  from spender_signs [OF assms(3) \<open>spender i = Some k\<close>] show False
    using pda_unsignedD [OF assms(2) k] pda_kinds_distinct(2,3) [OF assms(1) _ k] assms(5) by blast
qed

text \<open>An escrow or a bond is found at one address only, so spending from one leaves the others.\<close>

lemma create_escrow_escrows:
  assumes "create_escrow rt tx w c i amount aid cat ct cd ex = Inr w'"
  shows "\<exists>es. escrows w' = (escrows w)(ce_escrow c \<mapsto> es) \<and> escrow_due es = unat amount
    \<and> escrow_vault_at rt (ce_escrow c) es (ce_escrow_vault c)"
  using assms
  by (rule create_escrow_ok)
    (auto simp: world_frame new_escrow_def escrow_due_def escrow_vault_at_def)

lemma dispatch_escrows_funded:
  assumes spec: "token_spec rt" "pda_spec rt" "pda_unsigned rt tx" "anchor_serialization rt"
    and res: "dispatch rt tx w i = Inr w'"
    and ok: "all_ok (escrow_ok rt) (escrows w)" "escrows_funded rt w"
  shows "escrows_funded rt w'"
proof -
  have keep: "keeps k (ledger w) (ledger w')" if "spender i \<noteq> Some k" for k
    by (rule dispatch_keeps [OF spec(1) res that])
  show ?thesis
  proof (cases "\<exists>c j. i = CancelEscrow c j")
    case True
    then obtain c j where i: "i = CancelEscrow c j" by blast
    with res obtain es where "escrows w' = (escrows w)(cx_escrow c \<mapsto> es)" "escrow_due es = 0"
      by simp (erule cancel_escrow_ok, simp add: world_frame escrow_due_def)
    with keep i show ?thesis by (auto intro!: funded_put [OF ok(2)])
  next
    case cancel: False
    show ?thesis
    proof (cases "\<exists>c j wi. i = ReleaseEscrow c j wi")
      case True
      then obtain c j wi where i: "i = ReleaseEscrow c j wi" by blast
      with res obtain es where "escrows w' = (escrows w)(re_escrow c \<mapsto> es)" "escrow_due es = 0"
        by simp (erule release_escrow_ok, simp add: world_frame escrow_due_def)
      with keep i show ?thesis by (auto intro!: funded_put [OF ok(2)])
    next
      case False
      have others: "keeps k (ledger w) (ledger w')" if "escrows w k = Some es" for k es
        using keep escrow_not_spent [OF spec(2,3) res all_okD [OF ok(1) that]] cancel False by blast
      show ?thesis
      proof (cases "\<exists>c j amount aid cat ct cd ex. i = CreateEscrow c j amount aid cat ct cd ex")
        case True
        then obtain c j amount aid cat ct cd ex where
          ce: "create_escrow rt tx w c j amount aid cat ct cd ex = Inr w'" using res by auto
        from create_escrow_escrows [OF ce] obtain es where
          "escrows w' = (escrows w)(ce_escrow c \<mapsto> es)" "escrow_due es = unat amount"
          "escrow_vault_at rt (ce_escrow c) es (ce_escrow_vault c)" by blast
        with others create_escrow_ledger(2) [OF spec(1) ce] show ?thesis
          by (auto intro!: funded_put [OF ok(2), where kv = "ce_escrow_vault c"])
      next
        case new: False
        have "escrows w' = escrows w"
          using res cancel False new
          by (cases i) (auto dest!: frames revoke_authority_frame [OF spec(4)])
        with others funded_keeps [OF ok(2)] show ?thesis by auto
      qed
    qed
  qed
qed

definition bond_due :: "authority_bond \<Rightarrow> nat" where
  "bond_due b = (if bd_status b = BOND_STATUS_ACTIVE then unat (bd_amount b) else 0)"

definition bond_vault_at :: "runtime \<Rightarrow> pubkey \<Rightarrow> authority_bond \<Rightarrow> pubkey \<Rightarrow> bool" where
  "bond_vault_at rt k b kv = (\<exists>m. kv = rt_ata_address rt k m)"

abbreviation bonds_funded :: "runtime \<Rightarrow> world \<Rightarrow> bool" where
  "bonds_funded rt w \<equiv> funded (bond_vault_at rt) bond_due (bonds w) (ledger w)"

lemma issue_authority_bonds:
  assumes spec: "token_spec rt" "pda_spec rt" "pda_unsigned rt tx"
    and res: "issue_authority rt tx w c i b mpt mt cats pid ex amt = Inr w'"
  obtains (none) "bonds w' = bonds w"
  | (posted) k bd kv where "bonds w' = (bonds w)(k \<mapsto> bd)" "bond_due bd = unat amt"
      "bond_vault_at rt k bd kv" "holds (ledger w') kv k (unat amt)"
  using res
proof (rule issue_authority_ok)
  fix cfg depth fmpt fmt ct count au_b bond_b m bond w1
  assume h: "tx_signer tx (ia_agent c)"
    "init_bond rt tx w c i = Inr bond_b" "issue_bond rt tx c i amt bond_b m w = Inr (bond, w1)"
    "w' = issue_effect c cfg (new_authority i (ia_agent c) pid depth b fmpt
            (if b < fmt then b else fmt) count ct ex amt au_b) bond w1"
  have w1: "bonds w1 = bonds w" using issue_bond_world [OF h(3)] by auto
  have w': "bonds w' = bonds (put_opt bonds_update (ia_bond c) bond w)" "ledger w' = ledger w1"
    using h(4) w1 by (simp_all add: issue_effect_def put_opt_def put_def log_event_def split: option.splits)
  show thesis
  proof (cases bond)
    case None
    with w' have "bonds w' = bonds w" by (simp add: put_opt_def split: option.splits)
    with none show thesis .
  next
    case (Some bd)
    from issue_bond_posted [OF spec(1) h(3) [unfolded Some]] obtain k kv where k: "ia_bond c = Some k"
      "kv = rt_ata_address rt k (the (ia_aeon_mint c))" "bond_due bd = unat amt"
      "k \<noteq> ia_agent c \<Longrightarrow> holds (ledger w1) kv k (unat amt)"
      by (metis authority_bond.select_convs(3,4) bond_due_def)
    from h(2) k(1) obtain bb where "rt_find_pda rt (bond_seeds i) = (k, bb)"
      by (auto simp: init_bond_def ok_simps)
    then have "k \<noteq> ia_agent c"
      using pda_unsignedD [OF spec(3) pda_canonical [OF spec(2)]] h(1) by auto
    with k w' Some have "bonds w' = (bonds w)(k \<mapsto> bd)" "holds (ledger w') kv k (unat amt)"
      by (simp_all add: put_opt_def put_def)
    with k(2,3) posted show thesis by (auto simp: bond_vault_at_def)
  qed
qed

lemma slash_bond_bonds:
  assumes "slash_bond rt tx w c i = Inr w'"
  shows "\<exists>b. bonds w' = (bonds w)(sb_bond c \<mapsto> b) \<and> bond_due b = 0"
  using assms by (rule slash_bond_ok) (auto simp: world_frame bond_due_def)

lemma dispatch_bonds_funded:
  assumes spec: "token_spec rt" "pda_spec rt" "pda_unsigned rt tx" "anchor_serialization rt"
    and res: "dispatch rt tx w i = Inr w'"
    and ok: "all_ok (bond_ok rt) (bonds w)" "bonds_funded rt w"
  shows "bonds_funded rt w'"
proof -
  have keep: "keeps k (ledger w) (ledger w')" if "spender i \<noteq> Some k" for k
    by (rule dispatch_keeps [OF spec(1) res that])
  show ?thesis
  proof (cases "\<exists>c j. i = SlashBond c j")
    case True
    then obtain c j where i: "i = SlashBond c j" by blast
    with res slash_bond_bonds obtain b where "bonds w' = (bonds w)(sb_bond c \<mapsto> b)" "bond_due b = 0"
      by fastforce
    with keep i show ?thesis by (auto intro!: funded_put [OF ok(2)])
  next
    case slash: False
    have others: "keeps k (ledger w) (ledger w')" if "bonds w k = Some b" for k b
      using keep bond_not_spent [OF spec(2,3) res all_okD [OF ok(1) that]] slash by blast
    show ?thesis
    proof (cases "\<exists>c j b mpt mt cats pid ex amt. i = IssueAuthority c j b mpt mt cats pid ex amt")
      case True
      then obtain c j b mpt mt cats pid ex amt where
        "issue_authority rt tx w c j b mpt mt cats pid ex amt = Inr w'" using res by auto
      then show ?thesis
      proof (cases rule: issue_authority_bonds [OF spec(1-3), consumes 1, case_names none posted])
        case none
        with others funded_keeps [OF ok(2)] show ?thesis by auto
      next
        case (posted k bd kv)
        with others show ?thesis by (auto intro!: funded_put [OF ok(2), where kv = kv])
      qed
    next
      case False
      with res slash have "bonds w' = bonds w"
        by (cases i) (auto dest!: frames revoke_authority_frame [OF spec(4)])
      with others funded_keeps [OF ok(2)] show ?thesis by auto
    qed
  qed
qed

subsection \<open>The chain\<close>

text \<open>
  What the program relies on of the code outside the repository, and the two ways the world
  changes: an instruction of this program succeeds in a transaction (a failing one changes
  nothing), or other transactions use the token programs; those never move what the
  program's addresses own, since only this program signs for them.
\<close>

definition runtime_spec :: "runtime \<Rightarrow> bool" where
  "runtime_spec rt = (token_spec rt \<and> pda_spec rt \<and> anchor_serialization rt)"

definition others_keep :: "runtime \<Rightarrow> ledger \<Rightarrow> ledger \<Rightarrow> bool" where
  "others_keep rt l l' = (\<forall>s k. rt_create_pda rt s = Some k \<longrightarrow> keeps k l l')"

inductive chain_step :: "runtime \<Rightarrow> world \<Rightarrow> world \<Rightarrow> bool" for rt where
  call: "\<lbrakk> pda_unsigned rt tx; dispatch rt tx w i = Inr w' \<rbrakk> \<Longrightarrow> chain_step rt w w'"
| tokens: "others_keep rt (ledger w) l \<Longrightarrow> chain_step rt w (w\<lparr>ledger := l, mints := m\<rparr>)"

inductive_cases chain_step_elim: "chain_step rt w w'"

abbreviation chain_run :: "runtime \<Rightarrow> world \<Rightarrow> world \<Rightarrow> bool" where
  "chain_run rt \<equiv> (chain_step rt)\<^sup>*\<^sup>*"

text \<open>Before the program is deployed it owns no account.\<close>

definition genesis :: "world \<Rightarrow> bool" where
  "genesis w = (\<forall>k. \<not> owned w k)"

definition reachable :: "runtime \<Rightarrow> world \<Rightarrow> bool" where
  "reachable rt w = (\<exists>w0. genesis w0 \<and> chain_run rt w0 w)"

lemma genesis_empty:
  assumes "genesis w"
  shows "configs w = Map.empty" "authorities w = Map.empty" "escrows w = Map.empty"
    "orgs w = Map.empty" "members w = Map.empty" "receipts w = Map.empty" "bonds w = Map.empty"
  using assms by (auto simp: genesis_def owned_def fun_eq_iff)

lemma reachable_run: "reachable rt w \<Longrightarrow> chain_run rt w w' \<Longrightarrow> reachable rt w'"
  unfolding reachable_def by (meson rtranclp_trans)

text \<open>What every instruction does to a part of the state, a run of the chain does in steps.\<close>

lemma chain_projection:
  assumes "chain_run rt w w'"
    and "\<And>tx i v v'. dispatch rt tx v i = Inr v' \<Longrightarrow> R (proj v) (proj v')"
    and "\<And>v l m. proj (v\<lparr>ledger := l, mints := m\<rparr>) = proj v"
  shows "R\<^sup>*\<^sup>* (proj w) (proj w')"
  using assms(1)
proof (induction rule: rtranclp_induct)
  case (step v v')
  from step(2) step(3) show ?case
    by (cases rule: chain_step.cases) (auto simp: assms(3) dest: assms(2) intro: rtranclp.rtrancl_into_rtrancl)
qed simp

lemma chain_escrows:
  assumes "anchor_serialization rt" "chain_run rt w w'"
  shows "(some_step escrow_step (escrow_opened rt))\<^sup>*\<^sup>* (escrows w) (escrows w')"
  using assms(2)
  by (rule chain_projection) (auto simp: some_step_def dest: dispatch_escrows [OF assms(1)])

lemma chain_bonds:
  assumes "anchor_serialization rt" "chain_run rt w w'"
  shows "(some_step bond_step (bond_posted rt))\<^sup>*\<^sup>* (bonds w) (bonds w')"
  using assms(2)
  by (rule chain_projection) (auto simp: some_step_def dest: dispatch_bonds [OF assms(1)])

lemma chain_receipts:
  assumes "anchor_serialization rt" "chain_run rt w w'"
  shows "(some_step no_step (receipt_ok rt))\<^sup>*\<^sup>* (receipts w) (receipts w')"
  using assms(2)
  by (rule chain_projection) (auto simp: some_step_def dest: dispatch_receipts [OF assms(1)])

lemma chain_configs:
  assumes "anchor_serialization rt" "chain_run rt w w'"
  shows "(some_step config_step (config_ok rt))\<^sup>*\<^sup>* (configs w) (configs w')"
  using assms(2)
  by (rule chain_projection) (auto simp: some_step_def dest: dispatch_configs [OF assms(1)])

locale program_invariant =
  fixes inv :: "runtime \<Rightarrow> world \<Rightarrow> bool"
  assumes inv_genesis: "genesis w \<Longrightarrow> inv rt w"
    and inv_call: "\<lbrakk> runtime_spec rt; pda_unsigned rt tx; dispatch rt tx w i = Inr w'; inv rt w \<rbrakk>
      \<Longrightarrow> inv rt w'"
    and inv_tokens: "\<lbrakk> runtime_spec rt; others_keep rt (ledger w) l; inv rt w \<rbrakk>
      \<Longrightarrow> inv rt (w\<lparr>ledger := l, mints := m\<rparr>)"
begin

lemma inv_step: "runtime_spec rt \<Longrightarrow> chain_step rt w w' \<Longrightarrow> inv rt w \<Longrightarrow> inv rt w'"
  by (erule chain_step_elim) (auto intro: inv_call inv_tokens)

lemma inv_run: "chain_run rt w w' \<Longrightarrow> runtime_spec rt \<Longrightarrow> inv rt w \<Longrightarrow> inv rt w'"
  by (induction rule: rtranclp_induct) (auto intro: inv_step)

lemma inv_reachable: "runtime_spec rt \<Longrightarrow> reachable rt w \<Longrightarrow> inv rt w"
  unfolding reachable_def by (auto intro: inv_run inv_genesis)

end

interpretation authority_inv: program_invariant "\<lambda>rt w. store_ok rt (authorities w)"
  by unfold_locales
    (auto simp: genesis_empty store_ok_empty runtime_spec_def intro: store_step_ok dispatch_authorities)

interpretation directory_inv: program_invariant "\<lambda>rt w. directory_ok rt (orgs w) (members w)"
  by unfold_locales
    (auto simp: genesis_empty directory_ok_def [of _ Map.empty Map.empty] runtime_spec_def
      intro: directory_step_ok dispatch_directory)

interpretation receipt_inv: program_invariant "\<lambda>rt w. all_ok (receipt_ok rt) (receipts w)"
  by unfold_locales
    (auto simp: genesis_empty all_ok_empty runtime_spec_def
      intro: receipt_life.store_ok dispatch_receipts)

interpretation config_inv: program_invariant "\<lambda>rt w. all_ok (config_ok rt) (configs w)"
  by unfold_locales
    (auto simp: genesis_empty all_ok_empty runtime_spec_def
      intro: config_life.store_ok dispatch_configs)

lemma escrow_pda:
  "pda_spec rt \<Longrightarrow> escrow_ok rt k es \<Longrightarrow> \<exists>s. rt_create_pda rt s = Some k"
  using pda_canonical [of rt] by (fastforce simp: escrow_ok_def pda_at_def)

lemma bond_pda:
  "pda_spec rt \<Longrightarrow> bond_ok rt k b \<Longrightarrow> \<exists>s. rt_create_pda rt s = Some k"
  using pda_canonical [of rt] by (fastforce simp: bond_ok_def pda_at_def)

interpretation escrow_inv: program_invariant
  "\<lambda>rt w. all_ok (escrow_ok rt) (escrows w) \<and> escrows_funded rt w"
proof unfold_locales
  show "all_ok (escrow_ok rt) (escrows w) \<and> escrows_funded rt w" if "genesis w" for rt w
    using that by (simp add: genesis_empty all_ok_empty funded_empty)
  show "all_ok (escrow_ok rt) (escrows w') \<and> escrows_funded rt w'"
    if "runtime_spec rt" "pda_unsigned rt tx" "dispatch rt tx w i = Inr w'"
      "all_ok (escrow_ok rt) (escrows w) \<and> escrows_funded rt w" for rt tx w i w'
    using that dispatch_escrows_funded [of rt tx w i w']
    by (auto simp: runtime_spec_def intro: escrow_life.store_ok dispatch_escrows)
  show "all_ok (escrow_ok rt) (escrows (w\<lparr>ledger := l, mints := m\<rparr>))
      \<and> escrows_funded rt (w\<lparr>ledger := l, mints := m\<rparr>)"
    if "runtime_spec rt" "others_keep rt (ledger w) l"
      "all_ok (escrow_ok rt) (escrows w) \<and> escrows_funded rt w" for rt w l m
  proof -
    have "keeps k (ledger w) l" if "escrows w k = Some es" for k es
      using escrow_pda [of rt k es] \<open>runtime_spec rt\<close> \<open>others_keep rt (ledger w) l\<close> that
        \<open>all_ok (escrow_ok rt) (escrows w) \<and> escrows_funded rt w\<close>
      by (auto simp: runtime_spec_def others_keep_def dest: all_okD)
    with that(3) show ?thesis by (auto intro: funded_keeps)
  qed
qed

interpretation bond_inv: program_invariant
  "\<lambda>rt w. all_ok (bond_ok rt) (bonds w) \<and> bonds_funded rt w"
proof unfold_locales
  show "all_ok (bond_ok rt) (bonds w) \<and> bonds_funded rt w" if "genesis w" for rt w
    using that by (simp add: genesis_empty all_ok_empty funded_empty)
  show "all_ok (bond_ok rt) (bonds w') \<and> bonds_funded rt w'"
    if "runtime_spec rt" "pda_unsigned rt tx" "dispatch rt tx w i = Inr w'"
      "all_ok (bond_ok rt) (bonds w) \<and> bonds_funded rt w" for rt tx w i w'
    using that dispatch_bonds_funded [of rt tx w i w']
    by (auto simp: runtime_spec_def intro: bond_life.store_ok dispatch_bonds)
  show "all_ok (bond_ok rt) (bonds (w\<lparr>ledger := l, mints := m\<rparr>))
      \<and> bonds_funded rt (w\<lparr>ledger := l, mints := m\<rparr>)"
    if "runtime_spec rt" "others_keep rt (ledger w) l"
      "all_ok (bond_ok rt) (bonds w) \<and> bonds_funded rt w" for rt w l m
  proof -
    have "keeps k (ledger w) l" if "bonds w k = Some b" for k b
      using bond_pda [of rt k b] \<open>runtime_spec rt\<close> \<open>others_keep rt (ledger w) l\<close> that
        \<open>all_ok (bond_ok rt) (bonds w) \<and> bonds_funded rt w\<close>
      by (auto simp: runtime_spec_def others_keep_def dest: all_okD)
    with that(3) show ?thesis by (auto intro: funded_keeps)
  qed
qed

end
