(* ===== verification/Aeon_Example.thy ===== *)
theory Aeon_Example
  imports Aeon_Program
begin

text \<open>
  A small executable instance of the code outside the repository, and a chain that starts
  from nothing and runs the program's own instructions.  It shows that the hypotheses of the
  theorems can be met, and is where they are applied to concrete inputs.  Addresses are short
  byte strings; derived ones start with the byte 0, users' do not.
\<close>

subsection \<open>Scripts of instructions\<close>

fun run_script :: "runtime \<Rightarrow> world \<Rightarrow> (tx \<times> instruction) list \<Rightarrow> failure + world" where
  "run_script rt w [] = Inr w"
| "run_script rt w ((tx, i) # is) = bindr (dispatch rt tx w i) (\<lambda>w'. run_script rt w' is)"

lemma run_script_chain:
  "run_script rt w is = Inr w' \<Longrightarrow> \<forall>(tx, i) \<in> set is. pda_unsigned rt tx \<Longrightarrow> chain_run rt w w'"
proof (induction "is" arbitrary: w)
  case (Cons ti "is")
  obtain tx i where ti: "ti = (tx, i)" by fastforce
  with Cons.prems obtain w1 where w1: "dispatch rt tx w i = Inr w1" "run_script rt w1 is = Inr w'"
    by (auto simp: bindr_eq_Inr)
  from Cons.prems(2) ti have "chain_step rt w w1" using w1(1) by (auto intro: chain_step.call)
  moreover have "chain_run rt w1 w'" using Cons.IH [OF w1(2)] Cons.prems(2) by simp
  ultimately show ?case by (rule converse_rtranclp_into_rtranclp)
qed simp

subsection \<open>A runtime\<close>

definition ex_transfer ::
    "pubkey \<Rightarrow> transfer_accs \<Rightarrow> bool \<Rightarrow> u64 \<Rightarrow> u8 \<Rightarrow> mint_table \<Rightarrow> ledger \<Rightarrow> failure + ledger" where
  "ex_transfer prog accs sgnd amount decimals ms l =
     (if \<not> sgnd then Inl (Cpi 0)
      else bindr (ok_or (ms (tc_mint accs)) (Cpi 1)) (\<lambda>m.
      bindr (ok_or (l (tc_from accs)) (Cpi 1)) (\<lambda>f.
      bindr (ok_or (l (tc_to accs)) (Cpi 1)) (\<lambda>t.
      if mint_decimals m \<noteq> decimals then Inl (Cpi 2)
      else if ta_owner f \<noteq> tc_authority accs then Inl (Cpi 3)
      else if ta_mint f \<noteq> tc_mint accs \<or> ta_mint t \<noteq> tc_mint accs then Inl (Cpi 4)
      else if \<not> amount \<le> ta_amount f then Inl (Cpi 5)
      else if tc_from accs = tc_to accs then Inr l
      else if \<not> ta_amount t \<le> ta_amount t + amount then Inl (Cpi 6)
      else Inr (l(tc_from accs \<mapsto> f\<lparr>ta_amount := ta_amount f - amount\<rparr>,
                  tc_to accs \<mapsto> t\<lparr>ta_amount := ta_amount t + amount\<rparr>))))))"

definition ex_init ::
    "pubkey \<Rightarrow> pubkey \<Rightarrow> pubkey \<Rightarrow> pubkey \<Rightarrow> mint_table \<Rightarrow> ledger \<Rightarrow> failure + ledger" where
  "ex_init prog k m owner ms l =
     (if l k \<noteq> None then Inl (Cpi 7)
      else Inr (l(k \<mapsto> \<lparr>ta_owner = owner, ta_mint = m, ta_amount = 0\<rparr>)))"

definition ex_ata ::
    "pubkey \<Rightarrow> pubkey \<Rightarrow> pubkey \<Rightarrow> pubkey \<Rightarrow> mint_table \<Rightarrow> ledger \<Rightarrow> failure + ledger" where
  "ex_ata prog k owner m ms l =
     (case l k of
        None \<Rightarrow> Inr (l(k \<mapsto> \<lparr>ta_owner = owner, ta_mint = m, ta_amount = 0\<rparr>))
      | Some t \<Rightarrow> if ta_owner t = owner \<and> ta_mint t = m then Inr l else Inl (Cpi 8))"

definition ex_rt :: runtime where
  "ex_rt = \<lparr>rt_create_pda = (\<lambda>s. Some (0 # concat s)),
     rt_find_pda = (\<lambda>s. (0 # concat s @ [255], 255)),
     rt_sha256 = (\<lambda>b. rev b @ [of_nat (length b)]),
     rt_ata_address = (\<lambda>owner m. 1 # owner @ m),
     rt_is_token_program = (\<lambda>p. p = [9]),
     rt_is_ata_program = (\<lambda>p. p = [8]),
     rt_tok_transfer = ex_transfer,
     rt_tok_init = ex_init,
     rt_ata_create = ex_ata,
     rt_ser_authority = (\<lambda>a. replicate 8 7 @ borsh_authority a),
     rt_de_authority = (\<lambda>b. None)\<rparr>"

lemma ex_transfer_spec:
  "ex_transfer prog accs sgnd amount decimals ms l = Inr l' \<Longrightarrow> sgnd \<and> transferred accs amount l l'"
  by (auto simp: ex_transfer_def transferred_def bindr_eq_Inr ok_or_eq_Inr no_olen_add_nat
      split: if_splits)

lemma ex_token_spec: "token_spec ex_rt"
  by (auto simp: token_spec_def token_transfer_spec_def token_init_spec_def ata_create_spec_def
      ex_rt_def ex_init_def ex_ata_def dest: ex_transfer_spec split: option.splits if_splits)

lemma ex_token_live: "token_transfer_live ex_rt"
  by (auto simp: token_transfer_live_def ex_rt_def ex_transfer_def ok_simps no_olen_add_nat)

lemma ex_pda_spec: "pda_spec ex_rt"
  by (auto simp: pda_spec_def ex_rt_def)

lemma ex_serialization: "anchor_serialization ex_rt"
  by (auto simp: anchor_serialization_def ex_rt_def)

lemma ex_runtime_spec: "runtime_spec ex_rt"
  by (simp add: runtime_spec_def ex_token_spec ex_pda_spec ex_serialization)

subsection \<open>A chain\<close>

text \<open>Two users and an administrator, each with a wallet of one mint.\<close>

definition "ex_admin = ([3] :: pubkey)"
definition "ex_alice = ([1] :: pubkey)"
definition "ex_bob = ([2] :: pubkey)"
definition "ex_mint = ([4] :: pubkey)"
definition "ex_alice_wallet = ([5] :: pubkey)"
definition "ex_bob_wallet = ([6] :: pubkey)"

lemmas ex_keys = ex_admin_def ex_alice_def ex_bob_def ex_mint_def ex_alice_wallet_def ex_bob_wallet_def

definition ex_pda :: "bytes list \<Rightarrow> pubkey" where
  "ex_pda seeds = 0 # concat seeds @ [255]"

text \<open>The associated token account of a future bond: anyone may create it beforehand.\<close>

definition ex_bond_vault :: pubkey where
  "ex_bond_vault = 1 # ex_pda (bond_seeds 2) @ ex_mint"

definition ex_genesis :: world where
  "ex_genesis =
     \<lparr>configs = Map.empty, agents = Map.empty, cris = Map.empty, authorities = Map.empty,
      escrows = Map.empty, orgs = Map.empty, members = Map.empty, receipts = Map.empty,
      bonds = Map.empty, raws = Map.empty,
      ledger = [ex_alice_wallet \<mapsto> \<lparr>ta_owner = ex_alice, ta_mint = ex_mint, ta_amount = 1000\<rparr>,
                ex_bob_wallet \<mapsto> \<lparr>ta_owner = ex_bob, ta_mint = ex_mint, ta_amount = 50\<rparr>,
                ex_bond_vault \<mapsto> \<lparr>ta_owner = ex_pda (bond_seeds 2), ta_mint = ex_mint, ta_amount = 0\<rparr>],
      mints = [ex_mint \<mapsto> \<lparr>mint_decimals = 6\<rparr>],
      logs = []\<rparr>"

definition ex_tx :: "u64 \<Rightarrow> tx" where
  "ex_tx slot = \<lparr>tx_slot = slot, tx_signer = (\<lambda>k. k = ex_alice \<or> k = ex_bob \<or> k = ex_admin),
     tx_writable = (\<lambda>k. True)\<rparr>"

lemma ex_tx_unsigned: "pda_unsigned ex_rt (ex_tx slot)"
  by (auto simp: pda_unsigned_def ex_rt_def ex_tx_def ex_keys)

lemma ex_genesis_ok: "genesis ex_genesis"
  by (simp add: genesis_def ex_genesis_def owned_def)

definition ex_initialize :: instruction where
  "ex_initialize = InitializeConfig \<lparr>ic_admin = ex_admin, ic_config = ex_pda [SEED_CONFIG]\<rparr> ex_mint"

definition ex_register :: "pubkey \<Rightarrow> instruction" where
  "ex_register k = RegisterAgent \<lparr>ra_agent = k, ra_config = ex_pda [SEED_CONFIG],
     ra_agent_identity = ex_pda (agent_seeds k), ra_cri = ex_pda (cri_seeds k)\<rparr>"

text \<open>A root authority of alice: budget 100, 40 per payment, the single category \<open>[1]\<close>.\<close>

definition ex_category :: bytes where
  "ex_category = [1]"

definition ex_issue :: instruction where
  "ex_issue = IssueAuthority \<lparr>ia_agent = ex_alice, ia_config = ex_pda [SEED_CONFIG],
     ia_agent_identity = ex_pda (agent_seeds ex_alice), ia_parent_authority = None,
     ia_authority = ex_pda (authority_seeds 1), ia_bond = None, ia_agent_vault = None,
     ia_bond_vault = None, ia_aeon_mint = None, ia_token_program = None,
     ia_associated_token_program = None\<rparr> 1 100 40 100 [ex_category] 0 0 0"

definition ex_pay_ctx :: pay_ctx where
  "ex_pay_ctx = \<lparr>pay_payer = ex_alice, pay_payee = ex_bob, pay_config = ex_pda [SEED_CONFIG],
     pay_authority = Some (ex_pda (authority_seeds 1)), pay_payer_cri = ex_pda (cri_seeds ex_alice),
     pay_payee_cri = ex_pda (cri_seeds ex_bob), pay_payer_token = ex_alice_wallet,
     pay_payee_token = ex_bob_wallet, pay_aeon_mint = ex_mint, pay_token_program = [9]\<rparr>"

text \<open>A child of it, within 60 and inheriting the category.\<close>

definition ex_issue_child :: "u64 \<Rightarrow> u64 \<Rightarrow> instruction" where
  "ex_issue_child i budget = IssueAuthority \<lparr>ia_agent = ex_alice, ia_config = ex_pda [SEED_CONFIG],
     ia_agent_identity = ex_pda (agent_seeds ex_alice),
     ia_parent_authority = Some (ex_pda (authority_seeds 1)),
     ia_authority = ex_pda (authority_seeds i), ia_bond = None, ia_agent_vault = None,
     ia_bond_vault = None, ia_aeon_mint = None, ia_token_program = None,
     ia_associated_token_program = None\<rparr> i budget 50 budget [] 1 0 0"

text \<open>A bonded authority.\<close>

definition ex_issue_bonded :: instruction where
  "ex_issue_bonded = IssueAuthority \<lparr>ia_agent = ex_alice, ia_config = ex_pda [SEED_CONFIG],
     ia_agent_identity = ex_pda (agent_seeds ex_alice), ia_parent_authority = None,
     ia_authority = ex_pda (authority_seeds 2), ia_bond = Some (ex_pda (bond_seeds 2)),
     ia_agent_vault = Some ex_alice_wallet, ia_bond_vault = Some ex_bond_vault,
     ia_aeon_mint = Some ex_mint, ia_token_program = Some [9],
     ia_associated_token_program = Some [8]\<rparr> 2 100 40 100 [] 0 5 7"

definition ex_slash :: slash_bond_ctx where
  "ex_slash = \<lparr>sb_slasher = ex_alice, sb_config = ex_pda [SEED_CONFIG],
     sb_authority = ex_pda (authority_seeds 2), sb_bond = ex_pda (bond_seeds 2),
     sb_bond_vault = ex_bond_vault, sb_destination = ex_alice_wallet, sb_aeon_mint = ex_mint,
     sb_token_program = [9]\<rparr>"

definition ex_split_ctx :: "pubkey option \<Rightarrow> pubkey option \<Rightarrow> pubkey option \<Rightarrow> atomic_split_ctx" where
  "ex_split_ctx pb tb cb = \<lparr>sl_payer = ex_alice, sl_payee_a = ex_bob, sl_payee_b = pb,
     sl_config = ex_pda [SEED_CONFIG], sl_authority = Some (ex_pda (authority_seeds 1)),
     sl_payer_token = ex_alice_wallet, sl_payee_a_token = ex_bob_wallet, sl_payee_b_token = tb,
     sl_payer_cri = ex_pda (cri_seeds ex_alice), sl_payee_a_cri = ex_pda (cri_seeds ex_bob),
     sl_payee_b_cri = cb, sl_aeon_mint = ex_mint, sl_token_program = [9]\<rparr>"

definition ex_escrow_ctx :: create_escrow_ctx where
  "ex_escrow_ctx = \<lparr>ce_payer = ex_alice, ce_payee = ex_bob, ce_config = ex_pda [SEED_CONFIG],
     ce_authority = None, ce_escrow = ex_pda (escrow_seeds 1),
     ce_escrow_vault = ex_pda (escrow_vault_seeds 1), ce_payer_token = ex_alice_wallet,
     ce_aeon_mint = ex_mint, ce_token_program = [9]\<rparr>"

text \<open>An escrow of 30 from alice to bob, with a condition and an expiry slot.\<close>

definition ex_open :: "u8 \<Rightarrow> u64 \<Rightarrow> instruction" where
  "ex_open condition expiry = CreateEscrow ex_escrow_ctx 1 30 0 ex_category condition
     (replicate 64 5) expiry"

definition ex_release_ctx :: release_escrow_ctx where
  "ex_release_ctx = \<lparr>re_releaser = ex_bob, re_escrow = ex_pda (escrow_seeds 1),
     re_escrow_vault = ex_pda (escrow_vault_seeds 1), re_payee_token = ex_bob_wallet,
     re_payer_cri = ex_pda (cri_seeds ex_alice), re_payee_cri = ex_pda (cri_seeds ex_bob),
     re_aeon_mint = ex_mint, re_token_program = [9]\<rparr>"

definition ex_cancel_ctx :: cancel_escrow_ctx where
  "ex_cancel_ctx = \<lparr>cx_canceller = ex_alice, cx_escrow = ex_pda (escrow_seeds 1),
     cx_escrow_vault = ex_pda (escrow_vault_seeds 1), cx_payer_token = ex_alice_wallet,
     cx_payer_cri = ex_pda (cri_seeds ex_alice), cx_aeon_mint = ex_mint, cx_token_program = [9]\<rparr>"

text \<open>An organization of alice with 3000 basis points for her, and bob joining.\<close>

definition ex_create_org :: instruction where
  "ex_create_org = CreateOrg \<lparr>co_creator = ex_alice, co_config = ex_pda [SEED_CONFIG],
     co_creator_identity = ex_pda (agent_seeds ex_alice), co_organization = ex_pda (org_seeds 1),
     co_org_treasury = ex_pda (org_treasury_seeds 1),
     co_creator_member = ex_pda (org_member_seeds 1 ex_alice), co_aeon_mint = ex_mint,
     co_token_program = [9]\<rparr> 1 (replicate 32 0) 3000"

definition ex_join_ctx :: join_org_ctx where
  "ex_join_ctx = \<lparr>jo_admin = ex_alice, jo_new_agent = ex_bob, jo_organization = ex_pda (org_seeds 1),
     jo_admin_member = ex_pda (org_member_seeds 1 ex_alice),
     jo_agent_identity = ex_pda (agent_seeds ex_bob),
     jo_new_member = ex_pda (org_member_seeds 1 ex_bob)\<rparr>"

definition ex_share_ctx :: set_member_share_ctx where
  "ex_share_ctx = \<lparr>sm_admin = ex_alice, sm_organization = ex_pda (org_seeds 1),
     sm_admin_member = ex_pda (org_member_seeds 1 ex_alice),
     sm_target_member = ex_pda (org_member_seeds 1 ex_bob)\<rparr>"

definition ex_deposit :: "u64 \<Rightarrow> instruction" where
  "ex_deposit amount = DepositToOrg \<lparr>do_member = ex_alice, do_organization = ex_pda (org_seeds 1),
     do_org_member = ex_pda (org_member_seeds 1 ex_alice),
     do_org_treasury = ex_pda (org_treasury_seeds 1), do_member_token = ex_alice_wallet,
     do_aeon_mint = ex_mint, do_token_program = [9]\<rparr> 1 amount"

definition ex_org_split_ctx :: org_split_ctx where
  "ex_org_split_ctx = \<lparr>os_admin = ex_alice, os_organization = ex_pda (org_seeds 1),
     os_admin_member = ex_pda (org_member_seeds 1 ex_alice),
     os_recipient_member = ex_pda (org_member_seeds 1 ex_bob), os_recipient_token = ex_bob_wallet,
     os_org_treasury = ex_pda (org_treasury_seeds 1), os_aeon_mint = ex_mint,
     os_token_program = [9]\<rparr>"

definition ex_dissolve_ctx :: "pubkey option \<Rightarrow> pubkey option \<Rightarrow> dissolve_org_ctx" where
  "ex_dissolve_ctx mb tb = \<lparr>di_admin = ex_alice, di_organization = ex_pda (org_seeds 1),
     di_admin_member = ex_pda (org_member_seeds 1 ex_alice), di_admin_token = ex_alice_wallet,
     di_member_b = mb, di_member_b_token = tb, di_org_treasury = ex_pda (org_treasury_seeds 1),
     di_aeon_mint = ex_mint, di_token_program = [9]\<rparr>"

definition ex_reclaim_ctx :: reclaim_org_residual_ctx where
  "ex_reclaim_ctx = \<lparr>rr_authority = ex_alice, rr_organization = ex_pda (org_seeds 1),
     rr_authority_member = ex_pda (org_member_seeds 1 ex_alice),
     rr_org_treasury = ex_pda (org_treasury_seeds 1), rr_destination = ex_alice_wallet,
     rr_aeon_mint = ex_mint, rr_token_program = [9]\<rparr>"

definition ex_receipt_ctx :: "u64 \<Rightarrow> create_receipt_ctx" where
  "ex_receipt_ctx i = \<lparr>cr_actor = ex_alice, cr_config = ex_pda [SEED_CONFIG],
     cr_cri = ex_pda (cri_seeds ex_alice), cr_receipt = ex_pda (receipt_seeds i)\<rparr>"

definition ex_revoke_ctx :: "pubkey list \<Rightarrow> revoke_authority_ctx" where
  "ex_revoke_ctx ks = \<lparr>rv_agent = ex_alice, rv_config = ex_pda [SEED_CONFIG],
     rv_authority = ex_pda (authority_seeds 1), rv_remaining = ks\<rparr>"

definition ex_pause :: "bool \<Rightarrow> instruction" where
  "ex_pause b = SetPaused \<lparr>sp_admin = ex_admin, sp_config = ex_pda [SEED_CONFIG]\<rparr> b"

subsection \<open>Running it\<close>

text \<open>Everybody's registration, run at slot 1; and the world a script leads to.\<close>

definition ex_register_all :: "instruction list" where
  "ex_register_all = [ex_initialize, ex_register ex_alice, ex_register ex_bob]"

definition ex_script :: "u64 \<Rightarrow> instruction list \<Rightarrow> (tx \<times> instruction) list" where
  "ex_script slot is = map (\<lambda>i. (ex_tx slot, i)) is"

definition ex_run :: "u64 \<Rightarrow> instruction list \<Rightarrow> failure + world" where
  "ex_run slot is = run_script ex_rt ex_genesis (ex_script slot (ex_register_all @ is))"

definition ex_check :: "('a \<Rightarrow> bool) \<Rightarrow> failure + 'a \<Rightarrow> bool" where
  "ex_check P r = (case r of Inl e \<Rightarrow> False | Inr w \<Rightarrow> P w)"

lemma ex_checkE: "ex_check P r \<Longrightarrow> (\<And>w. r = Inr w \<Longrightarrow> P w \<Longrightarrow> thesis) \<Longrightarrow> thesis"
  by (cases r) (auto simp: ex_check_def)

lemma ex_run_reachable: "ex_run slot is = Inr w \<Longrightarrow> reachable ex_rt w"
  unfolding ex_run_def reachable_def
  by (intro exI conjI, rule ex_genesis_ok, erule run_script_chain)
    (auto simp: ex_script_def ex_tx_unsigned)

text \<open>A check that evaluates to true yields the state, or the outcome, it is about.\<close>

lemma ex_checkD: "ex_check P r \<Longrightarrow> \<exists>x. r = Inr x \<and> P x"
  by (erule ex_checkE) blast

lemma ex_runD: "ex_check P (ex_run slot is) \<Longrightarrow> \<exists>w. reachable ex_rt w \<and> P w"
  by (erule ex_checkE) (auto dest: ex_run_reachable)

end
