(* ===== verification/Authority_Properties.thy ===== *)
theory Authority_Properties
  imports Aeon_Example
begin

text \<open>
  What the development shows of every authority on a chain: it stays within its budgets, the
  limits and categories of a delegated one are within its parent's, and its life runs one way
  only.
  Each property with hypotheses is followed by its application to a run of the example chain.
\<close>

subsection \<open>Runs the witnesses use\<close>

definition ex_root :: pubkey where
  "ex_root = ex_pda (authority_seeds 1)"

definition ex_child :: pubkey where
  "ex_child = ex_pda (authority_seeds 2)"

text \<open>A root authority, its child, and a payment of 30 on the root.\<close>

definition ex_paid :: "instruction list" where
  "ex_paid = [ex_issue, ex_issue_child 2 60, Pay ex_pay_ctx 30 1 ex_category]"

lemma ex_paid_run:
  "ex_check (\<lambda>w. map_option au_spent (authorities w ex_root) = Some 30
      \<and> map_option au_parent_id (authorities w ex_child) = Some 1) (ex_run 1 ex_paid)"
  by code_simp

text \<open>The root authority used up: three payments of 40, 40 and 20.\<close>

lemma ex_exhausted_run:
  "ex_check (\<lambda>w. map_option au_status (authorities w ex_root) = Some AUTH_STATUS_EXHAUSTED)
     (ex_run 1 [ex_issue, Pay ex_pay_ctx 40 1 ex_category, Pay ex_pay_ctx 40 1 ex_category,
        Pay ex_pay_ctx 20 1 ex_category])"
  by code_simp

subsection \<open>Invariants of every authority\<close>

text \<open>
  C2: The budget chain.  Every authority ever stored has spent no more than its \<^verbatim>\<open>max_total\<close>,
  which is within its budget; it is at most three delegations deep, has one of the four
  statuses, is active only while budget is left and exhausted only when none is, and its
  category list fits the array.
\<close>

theorem authority_budgets:
  assumes "runtime_spec rt" "reachable rt w" "authorities w k = Some a"
  shows "au_spent a \<le> au_max_total a \<and> au_max_total a \<le> au_budget a \<and> au_depth a \<le> 3
    \<and> au_status a \<le> AUTH_STATUS_EXHAUSTED
    \<and> (au_status a = AUTH_STATUS_ACTIVE \<longrightarrow> au_spent a < au_budget a)
    \<and> (au_status a = AUTH_STATUS_EXHAUSTED \<longrightarrow> au_spent a = au_budget a)
    \<and> unat (au_category_count a) \<le> length (au_categories a)"
  using store_okD(1) [OF authority_inv.inv_reachable [OF assms(1,2)] assms(3)]
  by (simp add: authority_ok_def)

theorem authority_budgets_witness:
  "\<exists>w a. reachable ex_rt w \<and> authorities w ex_root = Some a \<and> au_spent a = 30
     \<and> au_spent a \<le> au_max_total a \<and> au_max_total a \<le> au_budget a"
proof (rule ex_checkE [OF ex_paid_run])
  fix w assume w: "ex_run 1 ex_paid = Inr w"
    "map_option au_spent (authorities w ex_root) = Some 30
     \<and> map_option au_parent_id (authorities w ex_child) = Some 1"
  then obtain a where "authorities w ex_root = Some a" "au_spent a = 30" by auto
  with authority_budgets [OF ex_runtime_spec ex_run_reachable [OF w(1)]] ex_run_reachable [OF w(1)]
  show ?thesis by blast
qed

text \<open>
  C3: Delegation attenuates limits and categories.  Every authority with a parent id has that
  parent stored at the parent's canonical address; it is one level deeper and of the same
  agent; its budget, its per-payment limit and its total limit are at most the parent's; and
  every category it allows its parent allows.  The expiry slot is not among these terms:
  \<^verbatim>\<open>issue_authority\<close> stores the requested one without looking at the parent's, so a child may
  outlive its parent, and be one that never expires under a parent that does.
\<close>

theorem delegation_attenuates:
  assumes "runtime_spec rt" "reachable rt w" "authorities w k = Some a" "au_parent_id a \<noteq> 0"
  shows "\<exists>p. authorities w (fst (rt_find_pda rt (authority_seeds (au_parent_id a)))) = Some p
     \<and> au_authority_id p = au_parent_id a \<and> au_agent p = au_agent a
     \<and> unat (au_depth a) = unat (au_depth p) + 1
     \<and> au_budget a \<le> au_budget p \<and> au_max_per_tx a \<le> au_max_per_tx p
     \<and> au_max_total a \<le> au_max_total p
     \<and> (\<forall>cat. allows a cat \<longrightarrow> allows p cat)"
  using store_okD(2) [OF authority_inv.inv_reachable [OF assms(1,2)] assms(3,4)]
  by (auto simp: attenuates_def)

theorem delegation_attenuates_witness:
  "\<exists>w a p. reachable ex_rt w \<and> authorities w ex_child = Some a \<and> au_parent_id a \<noteq> 0
     \<and> authorities w ex_root = Some p \<and> au_budget a \<le> au_budget p
     \<and> (\<forall>cat. allows a cat \<longrightarrow> allows p cat)"
proof (rule ex_checkE [OF ex_paid_run])
  fix w assume w: "ex_run 1 ex_paid = Inr w"
    "map_option au_spent (authorities w ex_root) = Some 30
     \<and> map_option au_parent_id (authorities w ex_child) = Some 1"
  then obtain a where a: "authorities w ex_child = Some a" "au_parent_id a = 1" by auto
  have "fst (rt_find_pda ex_rt (authority_seeds 1)) = ex_root"
    by (simp add: ex_rt_def ex_root_def ex_pda_def)
  with delegation_attenuates [OF ex_runtime_spec ex_run_reachable [OF w(1)] a(1)] a
    ex_run_reachable [OF w(1)]
  show ?thesis by fastforce
qed

subsection \<open>The life of an authority\<close>

lemma run_authorities:
  assumes "chain_run rt w w'" "runtime_spec rt" "reachable rt w" "authorities w k = Some a"
  shows "(au_status a \<noteq> AUTH_STATUS_ACTIVE \<longrightarrow> authorities w' k = Some a)
    \<and> (\<exists>a'. authorities w' k = Some a' \<and> same_terms a a' \<and> au_spent a \<le> au_spent a')"
  using assms(1)
proof (induction rule: rtranclp_induct)
  case base
  with assms(4) show ?case by auto
next
  case (step w1 w2)
  then obtain a1 where a1: "authorities w1 k = Some a1" "same_terms a a1" "au_spent a \<le> au_spent a1"
    "au_status a \<noteq> AUTH_STATUS_ACTIVE \<longrightarrow> a1 = a" by auto
  have ok: "store_ok rt (authorities w1)"
    using authority_inv.inv_reachable assms(2) reachable_run [OF assms(3) step(1)] by blast
  have trans: "same_terms a a2" if "same_terms a1 a2" for a2
    by (rule same_terms_trans [OF a1(2) that])
  from step(2) show ?case
  proof (cases rule: chain_step.cases)
    case (call tx i)
    then have s: "auth_store_step rt (tx_slot tx) (authorities w1) (authorities w2)"
      using dispatch_authorities ok assms(2) by (auto simp: runtime_spec_def)
    from store_step_keeps_terms [OF s a1(1)] store_step_frozen [OF s a1(1)] a1 trans
    show ?thesis by fastforce
  next
    case (tokens l m)
    with a1 show ?thesis by auto
  qed
qed

text \<open>
  C11: The life of an authority.  Whatever is executed later, an authority keeps its id,
  agent, parent, limits, categories and expiry, and its \<^verbatim>\<open>spent\<close> never falls; and once it is
  revoked, expired or exhausted nothing of it ever changes again, so it can neither be
  reactivated nor spent from.
\<close>

theorem authority_life:
  assumes "runtime_spec rt" "reachable rt w" "chain_run rt w w'" "authorities w k = Some a"
  shows "(\<exists>a'. authorities w' k = Some a' \<and> a'\<lparr>au_spent := au_spent a, au_status := au_status a\<rparr> = a
      \<and> au_spent a \<le> au_spent a')
    \<and> (au_status a \<noteq> AUTH_STATUS_ACTIVE \<longrightarrow> authorities w' k = Some a)"
  using run_authorities [OF assms(3,1,2,4)] by (auto simp: same_terms_def)

theorem authority_life_witness:
  "\<exists>w a. reachable ex_rt w \<and> authorities w ex_root = Some a \<and> au_status a = AUTH_STATUS_EXHAUSTED
     \<and> (\<forall>w'. chain_run ex_rt w w' \<longrightarrow> authorities w' ex_root = Some a)"
proof -
  obtain w a where w: "reachable ex_rt w" "authorities w ex_root = Some a" "au_status a = AUTH_STATUS_EXHAUSTED"
    using ex_runD [OF ex_exhausted_run] by auto
  from authority_life [OF ex_runtime_spec w(1) _ w(2)] w show ?thesis by auto
qed

end
