(* ===== verification/Payment_Properties.thy ===== *)
theory Payment_Properties
  imports Aeon_Example
begin

text \<open>
  What the development shows of payments: the gate of \<^verbatim>\<open>pay\<close> decides exactly the policy of
  the authority, a successful payment moves exactly the amount and charges exactly the
  authority, a failed transfer fails the payment, and the same for \<^verbatim>\<open>atomic_split\<close>.
\<close>

definition ex_pay_script :: "instruction list" where
  "ex_pay_script = [ex_issue]"

definition ex_root_key :: pubkey where
  "ex_root_key = ex_pda (authority_seeds 1)"

subsection \<open>The gate\<close>

text \<open>
  C6: The payment gate is the policy.  On a well-formed authority at its own address the
  block of guards stages a spend exactly when the authority is the payer's, active, not
  expired, the amount is within the per-payment limit, the new total within \<^verbatim>\<open>max_total\<close> and
  the budget, the category allowed, and the payer's balance covers the amount and the
  reserve; the staged total is the unwrapped sum, and exhaustion is flagged exactly when it
  reaches the budget.
\<close>

theorem pay_gate_exact:
  assumes "authority_ok rt k a" "pay_authority c = Some k" "authority_id \<noteq> 0"
  shows "(pay_gate rt slot c category pre (Some a) authority_id amount = Inr (Some (n, e)))
     = (spend_allowed a (pay_payer c) slot category authority_id amount
        \<and> amount \<le> pre \<and> unat (au_require_min_reserve a) + unat amount \<le> unat pre
        \<and> unat n = unat (au_spent a) + unat amount \<and> (e \<longleftrightarrow> au_budget a \<le> n))"
proof -
  have cats: "category_allowed a category = Inr (allows a category)"
    using assms(1) by (intro category_allowed_eq_allows) (simp add: authority_ok_def)
  have blocked: "recipient_blocked a r = Inr False" for r
    using assms(1) by (simp add: recipient_blocked_def authority_ok_def scan.simps)
  have reserve: "amount \<le> pre \<Longrightarrow> (au_require_min_reserve a \<le> saturating_sub pre amount)
     = (unat (au_require_min_reserve a) + unat amount \<le> unat pre)"
    by (auto simp: word_le_nat_alt unat_saturating_sub)
  have id: "au_authority_id a = authority_id \<Longrightarrow> fst (rt_find_pda rt (authority_seeds authority_id)) = k"
    using assms(1) by (auto simp: authority_ok_def)
  show ?thesis
    using assms(2,3) id reserve
    by (auto simp: pay_gate_def ok_simps cats blocked spend_allowed_def not_less word_le_nat_alt)
qed

definition ex_auth :: authority where
  "ex_auth = new_authority 1 ex_alice 0 0 100 40 100 1
     (ex_category # replicate 7 (replicate 16 0)) 0 0 255"

theorem pay_gate_exact_witness:
  "pay_gate ex_rt 1 ex_pay_ctx ex_category 1000 (Some ex_auth) 1 30 = Inr (Some (30, False))
   \<and> spend_allowed ex_auth ex_alice 1 ex_category 1 30"
proof -
  have ok: "authority_ok ex_rt ex_root_key ex_auth"
    by (simp add: authority_ok_def ex_auth_def new_authority_def ex_rt_def ex_root_key_def ex_pda_def)
  have k: "pay_authority ex_pay_ctx = Some ex_root_key"
    by (simp add: ex_pay_ctx_def ex_root_key_def)
  have payer: "pay_payer ex_pay_ctx = ex_alice" by (simp add: ex_pay_ctx_def)
  have allowed: "spend_allowed ex_auth ex_alice 1 ex_category 1 30"
    by (simp add: spend_allowed_def ex_auth_def new_authority_def allows_def)
  have fields: "au_require_min_reserve ex_auth = 0" "au_spent ex_auth = 0" "au_budget ex_auth = 100"
    by (simp_all add: ex_auth_def new_authority_def)
  show ?thesis
    using pay_gate_exact [OF ok k, of 1 1 ex_category 1000 30 30 False] allowed payer fields by simp
qed

subsection \<open>A successful payment\<close>

text \<open>What a committed gate did to the authority, in one form for every spending instruction.\<close>

lemma pay_effect:
  assumes "pay rt tx w c amount aid category = Inr w'"
  shows "aid = 0 \<Longrightarrow> authorities w' = authorities w"
    and "aid \<noteq> 0 \<Longrightarrow> \<exists>k a a'. pay_authority c = Some k \<and> authorities w k = Some a
      \<and> spend_allowed a (pay_payer c) (tx_slot tx) category aid amount
      \<and> authorities w' = (authorities w)(k \<mapsto> a')
      \<and> unat (au_spent a') = unat (au_spent a) + unat amount \<and> same_terms a a'"
proof -
  obtain au commit au' and ft :: token_account where h: "load_opt authorities w (pay_authority c) = Inr au"
    "pay_gate rt (tx_slot tx) c category (ta_amount ft) au aid amount = Inr commit"
    "commit_spent au commit = Inr au'"
    "authorities w' = authorities (put_opt authorities_update (pay_authority c) au' w)"
  proof (rule pay_ok [OF assms])
    fix au commit au' l pc' qc' and ft :: token_account
    assume h: "load_opt authorities w (pay_authority c) = Inr au"
      "pay_gate rt (tx_slot tx) c category (ta_amount ft) au aid amount = Inr commit"
      "commit_spent au commit = Inr au'"
      "w' = put cris_update (pay_payee_cri c) qc' (put cris_update (pay_payer_cri c) pc'
       (put_opt authorities_update (pay_authority c) au'
         (log_event (cri_event (pay_payee c) qc') (log_event (cri_event (pay_payer c) pc')
           (log_event (PaymentSettledEv (pay_payer c) (pay_payee c) amount aid category)
             (w\<lparr>ledger := l\<rparr>))))))"
    then have "authorities w' = authorities (put_opt authorities_update (pay_authority c) au' w)"
      by (simp add: put_opt_def put_def log_event_def split: option.splits)
    with h(1-3) show thesis by (rule that)
  qed
  let ?x = "(rt, tx_slot tx, c, category, ta_amount ft)"
  have gate: "(case ?x of (rt, slot, c, category, pre) \<Rightarrow> pay_gate rt slot c category pre) au aid amount
      = Inr commit" using h(2) by simp
  show "authorities w' = authorities w" if "aid = 0"
    using pay_gates.gated_spend [OF gate h(3)] that h(4)
    by (auto simp: put_opt_def split: option.splits)
  show "\<exists>k a a'. pay_authority c = Some k \<and> authorities w k = Some a
      \<and> spend_allowed a (pay_payer c) (tx_slot tx) category aid amount
      \<and> authorities w' = (authorities w)(k \<mapsto> a')
      \<and> unat (au_spent a') = unat (au_spent a) + unat amount \<and> same_terms a a'" if "aid \<noteq> 0"
    using gate h(3)
  proof (cases rule: pay_gates.gated_spend)
    case free
    with that show ?thesis by simp
  next
    case (scoped a n)
    with h(1) obtain k where k: "pay_authority c = Some k" "authorities w k = Some a"
      by (auto simp: ok_simps)
    with scoped h(4) have "authorities w' = (authorities w)(k \<mapsto> a\<lparr>au_spent := n, au_status :=
          (if au_budget a \<le> n then AUTH_STATUS_EXHAUSTED else AUTH_STATUS_ACTIVE)\<rparr>)"
      by (simp add: put_opt_def put_def)
    with k scoped show ?thesis by (auto simp: same_terms_def)
  qed
qed

text \<open>
  C7: A payment moves exactly its amount and charges exactly the authority.  When \<^verbatim>\<open>pay\<close>
  succeeds, the payer's token account has lost the amount, the payee's has gained it and no
  other token account has changed; without an authority id no authority changes, and with
  one the named authority's policy allowed the payment, its \<^verbatim>\<open>spent\<close> has grown by the amount,
  and no other authority has changed.
\<close>

theorem pay_settles:
  assumes "token_transfer_spec rt" "pay rt tx w c amount aid category = Inr w'"
  shows "balance_of (ledger w') (pay_payer_token c) + unat amount = balance_of (ledger w) (pay_payer_token c)
    \<and> balance_of (ledger w') (pay_payee_token c) = balance_of (ledger w) (pay_payee_token c) + unat amount
    \<and> (\<forall>k. k \<noteq> pay_payer_token c \<and> k \<noteq> pay_payee_token c \<longrightarrow> ledger w' k = ledger w k)
    \<and> (aid = 0 \<longrightarrow> authorities w' = authorities w)
    \<and> (aid \<noteq> 0 \<longrightarrow> (\<exists>k a a'. pay_authority c = Some k \<and> authorities w k = Some a
        \<and> spend_allowed a (pay_payer c) (tx_slot tx) category aid amount
        \<and> authorities w' = (authorities w)(k \<mapsto> a')
        \<and> unat (au_spent a') = unat (au_spent a) + unat amount))"
proof -
  obtain l and m :: mint where l: "ledger w' = l" "pay_payer_token c \<noteq> pay_payee_token c"
    "rt_tok_transfer rt (pay_token_program c)
       \<lparr>tc_from = pay_payer_token c, tc_mint = pay_aeon_mint c, tc_to = pay_payee_token c,
        tc_authority = pay_payer c\<rparr> True amount (mint_decimals m) (mints w) (ledger w) = Inr l"
  proof (rule pay_ok [OF assms(2)])
    fix ft tt l au' pc' qc' and m :: mint
    assume h: "ledger w (pay_payer_token c) = Some ft" "ta_owner ft = pay_payer c"
      "ledger w (pay_payee_token c) = Some tt" "ta_owner tt = pay_payee c" "pay_payer c \<noteq> pay_payee c"
      and t: "rt_tok_transfer rt (pay_token_program c)
       \<lparr>tc_from = pay_payer_token c, tc_mint = pay_aeon_mint c, tc_to = pay_payee_token c,
        tc_authority = pay_payer c\<rparr> True amount (mint_decimals m) (mints w) (ledger w) = Inr l"
      and w': "w' = put cris_update (pay_payee_cri c) qc' (put cris_update (pay_payer_cri c) pc'
       (put_opt authorities_update (pay_authority c) au'
         (log_event (cri_event (pay_payee c) qc') (log_event (cri_event (pay_payer c) pc')
           (log_event (PaymentSettledEv (pay_payer c) (pay_payee c) amount aid category)
             (w\<lparr>ledger := l\<rparr>))))))"
    have "pay_payer_token c \<noteq> pay_payee_token c" using h by auto
    moreover have "ledger w' = l" using w' by (simp add: world_frame)
    ultimately show thesis using t that by blast
  qed
  note moved = transferredD(2) [OF assms(1) l(3)]
  have "\<forall>k. k \<noteq> pay_payer_token c \<and> k \<noteq> pay_payee_token c \<longrightarrow> ledger w' k = ledger w k"
    using transferred_balance(3) [OF moved] l by auto
  moreover note transferred_balance(1,2) [OF moved]
  ultimately show ?thesis
    using l pay_effect [OF assms(2)] by auto
qed

lemma ex_pay_runs:
  "ex_check (\<lambda>w. ex_check (\<lambda>w'. True) (pay ex_rt (ex_tx 1) w ex_pay_ctx 30 1 ex_category)) (ex_run 1 ex_pay_script)"
  by code_simp

theorem pay_settles_witness:
  "\<exists>w w'. reachable ex_rt w \<and> pay ex_rt (ex_tx 1) w ex_pay_ctx 30 1 ex_category = Inr w'
     \<and> balance_of (ledger w') ex_bob_wallet = balance_of (ledger w) ex_bob_wallet + 30"
proof (rule ex_checkE [OF ex_pay_runs])
  fix w assume w: "ex_run 1 ex_pay_script = Inr w"
    "ex_check (\<lambda>w'. True) (pay ex_rt (ex_tx 1) w ex_pay_ctx 30 1 ex_category)"
  from w(2) obtain w' where w': "pay ex_rt (ex_tx 1) w ex_pay_ctx 30 1 ex_category = Inr w'"
    by (rule ex_checkE)
  have "pay_payee_token ex_pay_ctx = ex_bob_wallet" by (simp add: ex_pay_ctx_def)
  with pay_settles [OF token_spec_transfer [OF ex_token_spec] w'] w' ex_run_reachable [OF w(1)]
  show ?thesis by auto
qed

text \<open>
  A payment updates the two reputations and no other.  The payer has one more successful
  commitment, the payee one more successful settlement, the settled volume of both has grown
  by the amount without wrapping, and every other reputation account is unchanged.
\<close>

lemma pay_reputation:
  assumes "pay rt tx w c amount aid category = Inr w'"
  shows "\<exists>p p' q q'. cris w (pay_payer_cri c) = Some p \<and> cris w (pay_payee_cri c) = Some q
     \<and> cris w' = (cris w)(pay_payer_cri c \<mapsto> p', pay_payee_cri c \<mapsto> q')
     \<and> pay_payer_cri c \<noteq> pay_payee_cri c
     \<and> cri_agent p' = pay_payer c \<and> cri_agent q' = pay_payee c
     \<and> unat (cri_successful_commitments p') = unat (cri_successful_commitments p) + 1
     \<and> cri_successful_settlements p' = cri_successful_settlements p
     \<and> unat (cri_volume_settled p') = unat (cri_volume_settled p) + unat amount
     \<and> unat (cri_successful_settlements q') = unat (cri_successful_settlements q) + 1
     \<and> cri_successful_commitments q' = cri_successful_commitments q
     \<and> unat (cri_volume_settled q') = unat (cri_volume_settled q) + unat amount"
  using assms
proof (rule pay_ok)
  fix pc qc pc' qc' au' l
  assume h: "pay_payer c \<noteq> pay_payee c"
    "cris w (pay_payer_cri c) = Some pc" "cri_agent pc = pay_payer c"
    "cris w (pay_payee_cri c) = Some qc" "cri_agent qc = pay_payee c"
    "cri_commit amount (tx_slot tx) pc = Inr pc'" "cri_settle amount (tx_slot tx) qc = Inr qc'"
    "w' = put cris_update (pay_payee_cri c) qc' (put cris_update (pay_payer_cri c) pc'
       (put_opt authorities_update (pay_authority c) au'
         (log_event (cri_event (pay_payee c) qc') (log_event (cri_event (pay_payer c) pc')
           (log_event (PaymentSettledEv (pay_payer c) (pay_payee c) amount aid category)
             (w\<lparr>ledger := l\<rparr>))))))"
  have "cris w' = (cris w)(pay_payer_cri c \<mapsto> pc', pay_payee_cri c \<mapsto> qc')"
    using h(8) by (simp add: world_frame)
  moreover have "pay_payer_cri c \<noteq> pay_payee_cri c" using h(1-5) by auto
  ultimately show ?thesis
    using h cri_commit_ok [OF h(6)] cri_settle_ok [OF h(7)]
    by (intro exI [of _ pc] exI [of _ pc'] exI [of _ qc] exI [of _ qc']) simp
qed

text \<open>
  A transfer that fails fails the payment, with the token program's error: once the
  accounts and the guards have passed, \<^verbatim>\<open>pay\<close> returns the failure of the transfer whatever
  spend was staged, and since a failed instruction leaves no state, nothing is charged.
\<close>

lemma pay_transfer_error:
  assumes "pay_accounts rt tx w c = Inr (cfg, au, pc, qc, ft, m)"
    "\<not> cfg_paused cfg" "0 < amount" "pay_payer c \<noteq> pay_payee c"
    "pay_gate rt (tx_slot tx) c category (ta_amount ft) au aid amount = Inr commit"
    "rt_tok_transfer rt (pay_token_program c)
       \<lparr>tc_from = pay_payer_token c, tc_mint = pay_aeon_mint c, tc_to = pay_payee_token c,
        tc_authority = pay_payer c\<rparr> (tx_signer tx (pay_payer c)) amount (mint_decimals m)
       (mints w) (ledger w) = Inl e"
  shows "pay rt tx w c amount aid category = Inl e"
  using assms by (simp add: pay_def cpi_transfer_def)

subsection \<open>What a payment does not look at\<close>

text \<open>
  The accounts of a payment load the same after an update of an authority it does not name,
  and the rest of the instruction reads nothing else of the world.
\<close>

lemma pay_accounts_spared:
  assumes "authorities w k = Some a" "pay_authority c \<noteq> Some k"
    "w1 = put authorities_update k a' (log_event e w)"
  shows "pay_accounts rt tx w1 c = pay_accounts rt tx w c"
proof -
  have owned: "owned w1 x = owned w x" for x
    using assms(1) by (auto simp: assms(3) owned_def world_frame)
  have in_use: "in_use w1 x = in_use w x" for x
    by (simp add: in_use_def owned) (simp add: assms(3) world_frame)
  have frames: "configs w1 = configs w" "cris w1 = cris w" "ledger w1 = ledger w" "mints w1 = mints w"
    by (simp_all add: assms(3) world_frame)
  have "authorities w1 x = authorities w x" if "x \<noteq> k" for x
    using that by (simp add: assms(3) world_frame)
  then have "load_opt authorities w1 (pay_authority c) = load_opt authorities w (pay_authority c)"
    using assms(2) by (cases "pay_authority c") (auto simp: load_opt_def load_def owned in_use)
  then show ?thesis
    by (simp add: pay_accounts_def load_def load_ext_def frames owned in_use)
qed

lemma pay_success:
  "(\<exists>w'. pay rt tx w c amount aid category = Inr w')
   = (\<exists>cfg au pc qc ft m commit au' l pc' qc'. pay_accounts rt tx w c = Inr (cfg, au, pc, qc, ft, m)
      \<and> \<not> cfg_paused cfg \<and> 0 < amount \<and> pay_payer c \<noteq> pay_payee c
      \<and> pay_gate rt (tx_slot tx) c category (ta_amount ft) au aid amount = Inr commit
      \<and> rt_tok_transfer rt (pay_token_program c)
         \<lparr>tc_from = pay_payer_token c, tc_mint = pay_aeon_mint c, tc_to = pay_payee_token c,
          tc_authority = pay_payer c\<rparr> (tx_signer tx (pay_payer c)) amount (mint_decimals m)
         (mints w) (ledger w) = Inr l
      \<and> commit_spent au commit = Inr au' \<and> cri_commit amount (tx_slot tx) pc = Inr pc'
      \<and> cri_settle amount (tx_slot tx) qc = Inr qc')"
  by (simp add: pay_def ok_simps split: prod.splits) blast

text \<open>
  C36: Revoking a parent does not stop its children.  After any successful \<^verbatim>\<open>revoke_authority\<close>,
  a payment on any other authority (in particular on a child of the revoked one) succeeds
  exactly when it would have succeeded before: \<^verbatim>\<open>pay\<close> never reads a parent account.
\<close>

theorem revoke_spares_children:
  assumes "anchor_serialization rt" "revoke_authority rt tx w c i = Inr w1"
    "pay_authority pc \<noteq> Some (rv_authority c)"
  shows "(\<exists>w'. pay rt tx' w1 pc amount aid category = Inr w')
     \<longleftrightarrow> (\<exists>w'. pay rt tx' w pc amount aid category = Inr w')"
  using assms(1,2)
proof (rule revoke_authority_ok)
  fix au assume au: "authorities w (rv_authority c) = Some au"
    and w1: "w1 = put authorities_update (rv_authority c) (au\<lparr>au_status := AUTH_STATUS_REVOKED\<rparr>)
            (log_event (AuthorityRevokedEv i False) w)"
  have "ledger w1 = ledger w" "mints w1 = mints w" by (simp_all add: w1 world_frame)
  then show ?thesis
    unfolding pay_success pay_accounts_spared [OF au assms(3) w1] by simp
qed

text \<open>The child pays although its parent has been revoked.\<close>

definition ex_child_ctx :: pay_ctx where
  "ex_child_ctx = ex_pay_ctx\<lparr>pay_authority := Some (ex_pda (authority_seeds 2))\<rparr>"

lemma ex_child_pays:
  "ex_check (\<lambda>w. ex_check (\<lambda>w1. True) (revoke_authority ex_rt (ex_tx 2) w (ex_revoke_ctx []) 1)
      \<and> ex_check (\<lambda>w1. True) (pay ex_rt (ex_tx 3) w ex_child_ctx 20 2 ex_category))
     (ex_run 1 [ex_issue, ex_issue_child 2 60])"
  by code_simp

theorem revoke_spares_children_witness:
  "\<exists>w w1 w'. reachable ex_rt w \<and> revoke_authority ex_rt (ex_tx 2) w (ex_revoke_ctx []) 1 = Inr w1
     \<and> pay ex_rt (ex_tx 3) w1 ex_child_ctx 20 2 ex_category = Inr w'"
proof (rule ex_checkE [OF ex_child_pays], elim conjE)
  fix w assume w: "ex_run 1 [ex_issue, ex_issue_child 2 60] = Inr w"
    "ex_check (\<lambda>w1. True) (revoke_authority ex_rt (ex_tx 2) w (ex_revoke_ctx []) 1)"
    "ex_check (\<lambda>w1. True) (pay ex_rt (ex_tx 3) w ex_child_ctx 20 2 ex_category)"
  from w(2) obtain w1 where w1: "revoke_authority ex_rt (ex_tx 2) w (ex_revoke_ctx []) 1 = Inr w1"
    by (rule ex_checkE)
  from w(3) obtain w2 where w2: "pay ex_rt (ex_tx 3) w ex_child_ctx 20 2 ex_category = Inr w2"
    by (rule ex_checkE)
  have "pay_authority ex_child_ctx \<noteq> Some (rv_authority (ex_revoke_ctx []))"
    by (simp add: ex_child_ctx_def ex_revoke_ctx_def ex_pda_def le_bytes_def)
  from revoke_spares_children [OF ex_serialization w1 this] w2 w1 ex_run_reachable [OF w(1)]
  show ?thesis by blast
qed

subsection \<open>Splits\<close>

lemma unat_u64_less: "unat (t :: u64) < 2 ^ 64"
  using unsigned_less [of t] by simp

lemma split_total_iff:
  "(split_total as t0 = Inr t) = (0 \<notin> set as \<and> unat t = unat t0 + sum_list (map unat as))"
proof (induction as arbitrary: t0)
  case (Cons a as)
  have "(split_total (a # as) t0 = Inr t)
      = (a \<noteq> 0 \<and> (\<exists>x. unat x = unat t0 + unat a \<and> split_total as x = Inr t))"
    by (auto simp: ok_simps word_gt_0)
  also have "\<dots> = (a \<noteq> 0 \<and> 0 \<notin> set as \<and> unat t = unat t0 + unat a + sum_list (map unat as))"
  proof -
    have "\<exists>x :: u64. unat x = unat t0 + unat a" if "unat t = unat t0 + unat a + s" for s
      using that unat_u64_less [of t] by (intro exI [of _ "t0 + a"]) (simp add: unat_word_ariths)
    then show ?thesis unfolding Cons.IH by metis
  qed
  finally show ?case by auto
qed (auto simp: word_unat_eq_iff)

lemma split_total_errors: "split_total as t0 = Inl e \<Longrightarrow> e = Aeon InvalidAmount \<or> e = Aeon Overflow"
  by (induction as t0 rule: split_total.induct) (auto simp: bindr_def ok_or_def split: if_splits option.splits)

text \<open>
  The total of a split is the exact sum.  The accumulating loop returns \<open>t\<close> exactly when
  no amount is zero and \<open>t\<close> is the unwrapped sum of the amounts; so it succeeds exactly when
  that sum fits 64 bits, and otherwise it is \<^verbatim>\<open>InvalidAmount\<close> or \<^verbatim>\<open>Overflow\<close>.
\<close>

theorem split_total_exact:
  "(split_total amounts 0 = Inr t) = (0 \<notin> set amounts \<and> unat t = sum_list (map unat amounts))
   \<and> ((\<exists>t. split_total amounts 0 = Inr t) = (0 \<notin> set amounts \<and> sum_list (map unat amounts) < 2 ^ 64))
   \<and> split_total amounts 0 \<in> range Inr \<union> {err InvalidAmount, err Overflow}"
proof (intro conjI)
  show iff: "(split_total amounts 0 = Inr t) = (0 \<notin> set amounts \<and> unat t = sum_list (map unat amounts))"
    for t by (simp add: split_total_iff)
  have "(\<exists>t :: u64. unat t = n) = (n < 2 ^ 64)" for n
  proof
    assume "n < 2 ^ 64"
    then have "unat (of_nat n :: u64) = n" by (simp add: unat_of_nat)
    then show "\<exists>t :: u64. unat t = n" ..
  next
    assume "\<exists>t :: u64. unat t = n"
    then obtain t :: u64 where "unat t = n" ..
    with unat_u64_less [of t] show "n < 2 ^ 64" by simp
  qed
  then show "(\<exists>t. split_total amounts 0 = Inr t)
      = (0 \<notin> set amounts \<and> sum_list (map unat amounts) < 2 ^ 64)"
    by (simp add: iff)
  show "split_total amounts 0 \<in> range Inr \<union> {err InvalidAmount, err Overflow}"
    using split_total_errors [of amounts 0] by (cases "split_total amounts 0") auto
qed

text \<open>One leg of a split on the balances, and both legs together.\<close>

lemma transferred_balance_all:
  assumes "transferred \<lparr>tc_from = f, tc_mint = m, tc_to = t, tc_authority = p\<rparr> amount l l'" "f \<noteq> t"
  shows "balance_of l' f + unat amount = balance_of l f"
    "k \<noteq> f \<Longrightarrow> balance_of l' k = balance_of l k + (if k = t then unat amount else 0)"
  using transferred_balance [OF assms(1)] assms(2) by (auto simp: balance_of_def)

lemma split_legs:
  assumes "token_transfer_spec rt" "length amounts = 1 \<or> length amounts = 2"
    "rt_tok_transfer rt (sl_token_program c)
       \<lparr>tc_from = sl_payer_token c, tc_mint = sl_aeon_mint c, tc_to = sl_payee_a_token c,
        tc_authority = sl_payer c\<rparr> True (amounts ! 0) (mint_decimals m) (mints w) (ledger w) = Inr l"
    "split_transfer_b rt tx c amounts m tb (w\<lparr>ledger := l\<rparr>) = Inr w2"
    "sl_payer_token c \<noteq> sl_payee_a_token c" "sl_payee_b_token c \<noteq> Some (sl_payer_token c)"
  shows "balance_of (ledger w2) (sl_payer_token c) + sum_list (map unat amounts)
      = balance_of (ledger w) (sl_payer_token c)"
    "k \<noteq> sl_payer_token c \<Longrightarrow> balance_of (ledger w2) k = balance_of (ledger w) k
      + (if k = sl_payee_a_token c then unat (amounts ! 0) else 0)
      + (if length amounts = 2 \<and> sl_payee_b_token c = Some k then unat (amounts ! 1) else 0)"
proof -
  note a = transferred_balance_all [OF transferredD(2) [OF assms(1,3)] assms(5)]
  have "balance_of (ledger w2) (sl_payer_token c) + sum_list (map unat amounts)
      = balance_of (ledger w) (sl_payer_token c)
    \<and> (k \<noteq> sl_payer_token c \<longrightarrow> balance_of (ledger w2) k = balance_of (ledger w) k
      + (if k = sl_payee_a_token c then unat (amounts ! 0) else 0)
      + (if length amounts = 2 \<and> sl_payee_b_token c = Some k then unat (amounts ! 1) else 0))"
    using assms(4)
  proof (cases rule: split_transfer_b_ok)
    case one
    with assms(2) obtain x where "amounts = [x]" by (auto simp: length_Suc_conv)
    with one a(1) a(2) [of k] show ?thesis by simp
  next
    case (two kb t pb l2)
    then obtain x y where xy: "amounts = [x, y]" by (auto simp: length_Suc_conv numeral_2_eq_2)
    from two assms(6) have "sl_payer_token c \<noteq> kb" by auto
    note b = transferred_balance_all [OF transferredD(2) [OF assms(1) two(6)] this]
    from a(1) a(2) [of k] b(1) b(2) [of k] xy two show ?thesis by auto
  qed
  then show "balance_of (ledger w2) (sl_payer_token c) + sum_list (map unat amounts)
      = balance_of (ledger w) (sl_payer_token c)"
    "k \<noteq> sl_payer_token c \<Longrightarrow> balance_of (ledger w2) k = balance_of (ledger w) k
      + (if k = sl_payee_a_token c then unat (amounts ! 0) else 0)
      + (if length amounts = 2 \<and> sl_payee_b_token c = Some k then unat (amounts ! 1) else 0)"
    by auto
qed

lemma split_effect:
  assumes "atomic_split rt tx w c aid amounts category = Inr w'"
  shows "aid = 0 \<Longrightarrow> authorities w' = authorities w"
    and "aid \<noteq> 0 \<Longrightarrow> \<exists>k a a' tot. sl_authority c = Some k \<and> authorities w k = Some a
      \<and> unat tot = sum_list (map unat amounts)
      \<and> spend_allowed a (sl_payer c) (tx_slot tx) category aid tot
      \<and> authorities w' = (authorities w)(k \<mapsto> a')
      \<and> unat (au_spent a') = unat (au_spent a) + sum_list (map unat amounts) \<and> same_terms a a'"
proof -
  obtain au commit au' tot and pt :: token_account where h: "load_opt authorities w (sl_authority c) = Inr au"
    "split_gate rt (tx_slot tx) c category (ta_amount pt) au aid tot = Inr commit"
    "commit_spent au commit = Inr au'" "unat tot = sum_list (map unat amounts)"
    "authorities w' = authorities (put_opt authorities_update (sl_authority c) au' w)"
  proof (rule atomic_split_ok [OF assms])
    fix au commit au' tot l w2 pc' ac' bc' evs tb m and pt :: token_account
    assume h: "load_opt authorities w (sl_authority c) = Inr au"
      "split_gate rt (tx_slot tx) c category (ta_amount pt) au aid tot = Inr commit"
      "commit_spent au commit = Inr au'" "split_total amounts 0 = Inr tot"
      "split_transfer_b rt tx c amounts m tb (w\<lparr>ledger := l\<rparr>) = Inr w2"
      "w' = put_opt cris_update (sl_payee_b_cri c) bc' (put cris_update (sl_payee_a_cri c) ac'
       (put cris_update (sl_payer_cri c) pc' (put_opt authorities_update (sl_authority c) au'
         (fold log_event (PaymentSettledEv (sl_payer c) (sl_payee_a c) (amounts ! 0) aid category
           # evs @ [cri_event (sl_payee_a c) ac']) w2))))"
    from h(5) have "authorities w2 = authorities w" by (auto elim: split_transfer_b_ok)
    then have "authorities w' = authorities (put_opt authorities_update (sl_authority c) au' w)"
      by (simp add: h(6) world_frame put_opt_def split: option.splits)
    with h(1-4) split_total_iff show thesis by (intro that) auto
  qed
  let ?x = "(rt, tx_slot tx, c, category, ta_amount pt)"
  have gate: "(case ?x of (rt, slot, c, category, pre) \<Rightarrow> split_gate rt slot c category pre) au aid tot
      = Inr commit" using h(2) by simp
  show "authorities w' = authorities w" if "aid = 0"
    using split_gates.gated_spend [OF gate h(3)] that h(5)
    by (auto simp: put_opt_def split: option.splits)
  show "\<exists>k a a' tot. sl_authority c = Some k \<and> authorities w k = Some a
      \<and> unat tot = sum_list (map unat amounts)
      \<and> spend_allowed a (sl_payer c) (tx_slot tx) category aid tot
      \<and> authorities w' = (authorities w)(k \<mapsto> a')
      \<and> unat (au_spent a') = unat (au_spent a) + sum_list (map unat amounts) \<and> same_terms a a'"
    if "aid \<noteq> 0"
    using gate h(3)
  proof (cases rule: split_gates.gated_spend)
    case free
    with that show ?thesis by simp
  next
    case (scoped a n)
    with h(1) obtain k where k: "sl_authority c = Some k" "authorities w k = Some a"
      by (auto simp: ok_simps)
    with scoped h(5) have "authorities w' = (authorities w)(k \<mapsto> a\<lparr>au_spent := n, au_status :=
          (if au_budget a \<le> n then AUTH_STATUS_EXHAUSTED else AUTH_STATUS_ACTIVE)\<rparr>)"
      by (simp add: put_opt_def put_def)
    with k scoped(2-4) h(4) show ?thesis
      by (intro exI [of _ k] exI [of _ a] exI [of _ "a\<lparr>au_spent := n, au_status :=
          (if au_budget a \<le> n then AUTH_STATUS_EXHAUSTED else AUTH_STATUS_ACTIVE)\<rparr>"] exI [of _ tot])
        (auto simp: same_terms_def)
  qed
qed

text \<open>
  C17: A split moves each leg and charges the sum.  When \<^verbatim>\<open>atomic_split\<close> succeeds (the second
  token account not being the payer's own), the payer has lost exactly the sum of the
  amounts, every other token account has gained exactly the legs paid to it, and the named
  authority, whose policy allowed the sum as one spend, is charged the sum.
\<close>

theorem atomic_split_settles:
  assumes "token_transfer_spec rt" "atomic_split rt tx w c aid amounts category = Inr w'"
    "sl_payee_b_token c \<noteq> Some (sl_payer_token c)"
  shows "balance_of (ledger w') (sl_payer_token c) + sum_list (map unat amounts)
      = balance_of (ledger w) (sl_payer_token c)
    \<and> (\<forall>k. k \<noteq> sl_payer_token c \<longrightarrow> balance_of (ledger w') k = balance_of (ledger w) k
      + (if k = sl_payee_a_token c then unat (amounts ! 0) else 0)
      + (if length amounts = 2 \<and> sl_payee_b_token c = Some k then unat (amounts ! 1) else 0))
    \<and> (aid = 0 \<longrightarrow> authorities w' = authorities w)
    \<and> (aid \<noteq> 0 \<longrightarrow> (\<exists>k a a' tot. sl_authority c = Some k \<and> authorities w k = Some a
        \<and> unat tot = sum_list (map unat amounts)
        \<and> spend_allowed a (sl_payer c) (tx_slot tx) category aid tot
        \<and> authorities w' = (authorities w)(k \<mapsto> a')
        \<and> unat (au_spent a') = unat (au_spent a) + sum_list (map unat amounts)))"
proof -
  obtain l w2 tb and m :: mint where h: "length amounts = 1 \<or> length amounts = 2"
    "rt_tok_transfer rt (sl_token_program c)
       \<lparr>tc_from = sl_payer_token c, tc_mint = sl_aeon_mint c, tc_to = sl_payee_a_token c,
        tc_authority = sl_payer c\<rparr> True (amounts ! 0) (mint_decimals m) (mints w) (ledger w) = Inr l"
    "split_transfer_b rt tx c amounts m tb (w\<lparr>ledger := l\<rparr>) = Inr w2"
    "sl_payer_token c \<noteq> sl_payee_a_token c" "ledger w' = ledger w2"
  proof (rule atomic_split_ok [OF assms(2)])
    fix pt ta tb l w2 au' pc' ac' bc' evs and m :: mint
    assume h: "length amounts = 1 \<or> length amounts = 2" "sl_payer c \<noteq> sl_payee_a c"
      "ledger w (sl_payer_token c) = Some pt" "ta_owner pt = sl_payer c"
      "ledger w (sl_payee_a_token c) = Some ta" "ta_owner ta = sl_payee_a c"
      and t: "rt_tok_transfer rt (sl_token_program c)
       \<lparr>tc_from = sl_payer_token c, tc_mint = sl_aeon_mint c, tc_to = sl_payee_a_token c,
        tc_authority = sl_payer c\<rparr> True (amounts ! 0) (mint_decimals m) (mints w) (ledger w) = Inr l"
      "split_transfer_b rt tx c amounts m tb (w\<lparr>ledger := l\<rparr>) = Inr w2"
      and w': "w' = put_opt cris_update (sl_payee_b_cri c) bc' (put cris_update (sl_payee_a_cri c) ac'
       (put cris_update (sl_payer_cri c) pc' (put_opt authorities_update (sl_authority c) au'
         (fold log_event (PaymentSettledEv (sl_payer c) (sl_payee_a c) (amounts ! 0) aid category
           # evs @ [cri_event (sl_payee_a c) ac']) w2))))"
    have "ledger w' = ledger w2" by (simp add: w' world_frame)
    moreover have "sl_payer_token c \<noteq> sl_payee_a_token c" using h by auto
    ultimately show thesis using h(1) t that by blast
  qed
  from split_legs [OF assms(1) h(1-4) assms(3)] split_effect [OF assms(2)] h(5) show ?thesis by auto
qed

text \<open>Two legs of 10 and 20 on the root authority, both to bob.\<close>

definition ex_two_legs :: atomic_split_ctx where
  "ex_two_legs = ex_split_ctx (Some ex_bob) (Some ex_bob_wallet) (Some (ex_pda (cri_seeds ex_bob)))"

lemma ex_split_runs:
  "ex_check (\<lambda>w. ex_check (\<lambda>w'. True)
       (atomic_split ex_rt (ex_tx 1) w ex_two_legs 1 [10, 20] ex_category))
     (ex_run 1 [ex_issue])"
  by code_simp

theorem atomic_split_settles_witness:
  "\<exists>w w'. reachable ex_rt w
     \<and> atomic_split ex_rt (ex_tx 1) w ex_two_legs 1 [10, 20] ex_category = Inr w'
     \<and> balance_of (ledger w') ex_bob_wallet = balance_of (ledger w) ex_bob_wallet + 30"
proof -
  obtain w w' where w: "reachable ex_rt w"
    "atomic_split ex_rt (ex_tx 1) w ex_two_legs 1 [10, 20] ex_category = Inr w'"
    using ex_runD [OF ex_split_runs] by (blast dest: ex_checkD)
  have c: "sl_payee_b_token ex_two_legs \<noteq> Some (sl_payer_token ex_two_legs)"
    "ex_bob_wallet \<noteq> sl_payer_token ex_two_legs"
    "sl_payee_a_token ex_two_legs = ex_bob_wallet" "sl_payee_b_token ex_two_legs = Some ex_bob_wallet"
    by (simp_all add: ex_two_legs_def ex_split_ctx_def ex_keys)
  from atomic_split_settles [OF token_spec_transfer [OF ex_token_spec] w(2) c(1)] c(2-4)
  have "balance_of (ledger w') ex_bob_wallet = balance_of (ledger w) ex_bob_wallet + 30" by simp
  with w show ?thesis by blast
qed

text \<open>
  C38: A second reputation account that is the payer's own undoes the payer's update.  In a
  split with a single leg that nevertheless passes the payer's reputation account as
  \<^verbatim>\<open>payee_b_cri\<close>, the unchanged copy is written back last: the split succeeds, the payee is
  paid, and the payer's reputation is what it was before.
\<close>

theorem split_stale_cri:
  assumes "atomic_split rt tx w c aid [amount] category = Inr w'"
    "sl_payee_b_cri c = Some (sl_payer_cri c)"
  shows "cris w' (sl_payer_cri c) = cris w (sl_payer_cri c)"
  using assms(1)
proof (rule atomic_split_ok)
  fix bc bc' evs pc' ac' au' w2 l
  assume h: "load_opt cris w (sl_payee_b_cri c) = Inr bc"
    "split_settle_b (tx_slot tx) c [amount] aid category bc = Inr (bc', evs)"
    "w' = put_opt cris_update (sl_payee_b_cri c) bc' (put cris_update (sl_payee_a_cri c) ac'
       (put cris_update (sl_payer_cri c) pc' (put_opt authorities_update (sl_authority c) au'
         (fold log_event (PaymentSettledEv (sl_payer c) (sl_payee_a c) ([amount] ! 0) aid category
           # evs @ [cri_event (sl_payee_a c) ac']) w2))))"
  from h(2) have "bc' = bc" by (simp add: split_settle_b_def)
  with h(1,3) assms(2) show ?thesis by (auto simp: ok_simps put_opt_def world_frame)
qed

lemma ex_split_stale:
  "ex_check (\<lambda>w. ex_check (\<lambda>w'. True)
       (atomic_split ex_rt (ex_tx 1) w (ex_split_ctx None None (Some (ex_pda (cri_seeds ex_alice)))) 1
          [30] ex_category))
     (ex_run 1 [ex_issue])"
  by code_simp

theorem split_stale_cri_witness:
  "\<exists>w w' c. reachable ex_rt w \<and> atomic_split ex_rt (ex_tx 1) w c 1 [30] ex_category = Inr w'
     \<and> sl_payer_cri c = ex_pda (cri_seeds ex_alice)
     \<and> cris w' (ex_pda (cri_seeds ex_alice)) = cris w (ex_pda (cri_seeds ex_alice))"
proof -
  let ?c = "ex_split_ctx None None (Some (ex_pda (cri_seeds ex_alice)))"
  obtain w w' where w: "reachable ex_rt w"
    "atomic_split ex_rt (ex_tx 1) w ?c 1 [30] ex_category = Inr w'"
    using ex_runD [OF ex_split_stale] by (blast dest: ex_checkD)
  have c: "sl_payer_cri ?c = ex_pda (cri_seeds ex_alice)"
    "sl_payee_b_cri ?c = Some (sl_payer_cri ?c)" by (simp_all add: ex_split_ctx_def)
  from split_stale_cri [OF w(2) c(2)] c(1) w show ?thesis by auto
qed

end
