(* ===== verification/Delegation_Properties.thy ===== *)
theory Delegation_Properties
  imports Aeon_Example
begin

text \<open>
  What the development shows of issuing, revoking and expiring authorities: what exactly is
  granted, that the category loops compute the intersection, that ids name one authority,
  which revocations and expiries succeed, and what delegation does not guarantee.
\<close>

subsection \<open>What is granted\<close>

text \<open>
  C13: The terms of a new authority.  A successful \<^verbatim>\<open>issue_authority\<close> stores one new authority,
  at the canonical address of the next id of the counter, active and unspent, with the
  requested budget; as a root with the requested limits and categories, as a child with the
  parent's limits where they are lower, its own budget as the upper limit of the total,
  exactly the common categories, and a budget within what the parent has left.  Nothing else
  of the store changes, the parent's own record included.
\<close>

theorem issue_authority_grants:
  assumes "store_ok rt (authorities w)"
    "issue_authority rt tx w c i budget mpt mt categories pid expiry amt = Inr w'"
  shows "\<exists>cfg a. configs w (ia_config c) = Some cfg \<and> unat i = unat (cfg_authority_counter cfg) + 1
     \<and> authorities w (ia_authority c) = None \<and> authorities w' = (authorities w)(ia_authority c \<mapsto> a)
     \<and> ia_authority c = fst (rt_find_pda rt (authority_seeds i))
     \<and> au_authority_id a = i \<and> au_agent a = ia_agent c \<and> au_parent_id a = pid
     \<and> au_budget a = budget \<and> au_spent a = 0 \<and> au_status a = AUTH_STATUS_ACTIVE
     \<and> au_expiry_slot a = expiry \<and> au_bond_amount a = amt
     \<and> (pid = 0 \<longrightarrow> au_depth a = 0 \<and> au_max_per_tx a = mpt \<and> au_max_total a = min mt budget
         \<and> take (unat (au_category_count a)) (au_categories a) = categories)
     \<and> (pid \<noteq> 0 \<longrightarrow> (\<exists>kp p. ia_parent_authority c = Some kp \<and> authorities w kp = Some p
         \<and> au_authority_id p = pid \<and> au_agent p = ia_agent c \<and> au_status p = AUTH_STATUS_ACTIVE
         \<and> unat budget + unat (au_spent p) \<le> unat (au_budget p)
         \<and> unat (au_depth a) = unat (au_depth p) + 1 \<and> au_depth a \<le> MAX_AUTHORITY_DEPTH
         \<and> au_max_per_tx a = min mpt (au_max_per_tx p)
         \<and> au_max_total a = min (min mt (au_max_total p)) budget
         \<and> take (unat (au_category_count a)) (au_categories a) = child_categories p categories))"
  using assms(2)
proof (rule issue_authority_ok)
  fix cfg parent b bond_b m depth fmpt fmt cats count bond w1
  let ?a = "new_authority i (ia_agent c) pid depth budget fmpt
            (if budget < fmt then budget else fmt) count cats expiry amt b"
  assume h: "configs w (ia_config c) = Some cfg" "length categories \<le> MAX_CATEGORIES"
    "unat i = unat (cfg_authority_counter cfg) + 1"
    "rt_find_pda rt (authority_seeds i) = (ia_authority c, b)" "\<not> in_use w (ia_authority c)"
    "load_opt authorities w (ia_parent_authority c) = Inr parent"
    and t: "issue_terms parent (ia_agent c) budget mpt mt categories pid
       = Inr (depth, fmpt, fmt, cats, count)"
    and b: "issue_bond rt tx c i amt bond_b m w = Inr (bond, w1)"
    and w': "w' = issue_effect c cfg ?a bond w1"
  have auths: "authorities w' = (authorities w)(ia_authority c \<mapsto> ?a)"
    using issue_bond_world [OF b] by (auto simp: w')
  have mt: "(if budget < fmt then budget else fmt) = min fmt budget" by (auto simp: min_def)
  have root: "depth = 0 \<and> fmpt = mpt \<and> fmt = mt \<and> take (unat count) cats = categories" if "pid = 0"
    using issue_terms_ok(1) [OF t h(2) that] by blast
  have child: "\<exists>kp p. ia_parent_authority c = Some kp \<and> authorities w kp = Some p
         \<and> au_authority_id p = pid \<and> au_agent p = ia_agent c \<and> au_status p = AUTH_STATUS_ACTIVE
         \<and> unat budget + unat (au_spent p) \<le> unat (au_budget p)
         \<and> unat depth = unat (au_depth p) + 1 \<and> depth \<le> MAX_AUTHORITY_DEPTH
         \<and> fmpt = min mpt (au_max_per_tx p) \<and> fmt = min mt (au_max_total p)
         \<and> take (unat count) cats = child_categories p categories" if "pid \<noteq> 0"
  proof -
    from issue_terms_ok(2) [OF t h(2) that] obtain p arr where p: "parent = Some p"
      "au_authority_id p = pid" "au_status p = AUTH_STATUS_ACTIVE" "au_agent p = ia_agent c"
      "unat depth = unat (au_depth p) + 1" "depth \<le> MAX_AUTHORITY_DEPTH"
      "unat budget + unat (au_spent p) \<le> unat (au_budget p)"
      "fmpt = min mpt (au_max_per_tx p)" "fmt = min mt (au_max_total p)"
      and arr: "copy_from 0 categories blank_categories = Inr arr"
      and inh: "inherit_categories p categories arr (of_nat (length categories)) = Inr (cats, count)"
      by auto
    from h(6) p(1) obtain kp where kp: "ia_parent_authority c = Some kp" "authorities w kp = Some p"
      by (auto simp: ok_simps)
    from store_okD(1) [OF assms(1) kp(2)] have wf: "length (au_categories p) = MAX_CATEGORIES"
      "unat (au_category_count p) \<le> MAX_CATEGORIES" by (simp_all add: authority_ok_def)
    from inherit_categories_ok(3) [OF h(2) arr wf inh] kp p show ?thesis by blast
  qed
  show ?thesis
    using h(1,3,4) not_in_use_fresh(4) [OF h(5)] auths root child
    by (intro exI [of _ cfg] exI [of _ ?a]) (auto simp: new_authority_def mt)
qed

definition ex_issue_child_ctx :: issue_authority_ctx where
  "ex_issue_child_ctx = \<lparr>ia_agent = ex_alice, ia_config = ex_pda [SEED_CONFIG],
     ia_agent_identity = ex_pda (agent_seeds ex_alice),
     ia_parent_authority = Some (ex_pda (authority_seeds 1)),
     ia_authority = ex_pda (authority_seeds 2), ia_bond = None, ia_agent_vault = None,
     ia_bond_vault = None, ia_aeon_mint = None, ia_token_program = None,
     ia_associated_token_program = None\<rparr>"

lemma ex_issue_child_runs:
  "ex_check (\<lambda>w. ex_check (\<lambda>w'. True)
     (issue_authority ex_rt (ex_tx 1) w ex_issue_child_ctx 2 60 50 80 [ex_category, [2]] 1 0 0))
   (ex_run 1 [ex_issue])"
  by code_simp

theorem issue_authority_grants_witness:
  "\<exists>w w' a p. reachable ex_rt w
     \<and> issue_authority ex_rt (ex_tx 1) w ex_issue_child_ctx 2 60 50 80 [ex_category, [2]] 1 0 0 = Inr w'
     \<and> authorities w' (ia_authority ex_issue_child_ctx) = Some a \<and> au_budget a = 60
     \<and> au_authority_id p = 1
     \<and> take (unat (au_category_count a)) (au_categories a) = child_categories p [ex_category, [2]]"
proof -
  obtain w w' where w: "reachable ex_rt w"
    "issue_authority ex_rt (ex_tx 1) w ex_issue_child_ctx 2 60 50 80 [ex_category, [2]] 1 0 0 = Inr w'"
    using ex_runD [OF ex_issue_child_runs] by (blast dest: ex_checkD)
  have "(1 :: u64) \<noteq> 0" by simp
  with issue_authority_grants [OF authority_inv.inv_reachable [OF ex_runtime_spec w(1)] w(2)]
  obtain a p where "authorities w' = (authorities w)(ia_authority ex_issue_child_ctx \<mapsto> a)"
    "au_budget a = 60" "au_authority_id p = 1"
    "take (unat (au_category_count a)) (au_categories a) = child_categories p [ex_category, [2]]"
    by blast
  with w show ?thesis by (intro exI [of _ w] exI [of _ w'] exI [of _ a] exI [of _ p]) simp
qed

text \<open>The only failure of the category loops is an empty intersection.\<close>

lemma inherit_categories_err:
  assumes len: "length categories \<le> MAX_CATEGORIES"
    and arr: "copy_from 0 categories blank_categories = Inr arr"
    and wf: "length (au_categories p) = MAX_CATEGORIES" "unat (au_category_count p) \<le> MAX_CATEGORIES"
    and res: "inherit_categories p categories arr (of_nat (length categories)) = Inl e"
  shows "e = Aeon EmptyCategoryIntersection \<and> categories \<noteq> [] \<and> child_categories p categories = []"
proof -
  let ?n = "of_nat (length categories) :: u8"
  have blank: "length blank_categories = MAX_CATEGORIES" by (simp add: blank_categories_def)
  note arr' = copy_categories [OF len arr] and n = unat_of_length [OF len]
  have zero: "?n = 0 \<longleftrightarrow> categories = []" using n by (metis length_0_conv unat_0 unat_eq_zero)
  from res have pos: "0 < au_category_count p" by (auto simp: inherit_categories_def split: if_splits)
  have ne: "categories \<noteq> []"
    using res pos len wf blank zero copy_prefix_eq [of "unat (au_category_count p)" "au_categories p"
          blank_categories 0]
    by (auto simp: inherit_categories_def split: if_splits)
  obtain acc' count' where loop: "intersect_loop 0 (unat ?n) arr (au_categories p)
      (unat (au_category_count p)) blank_categories 0 = Inr (acc', count')"
    "take (unat count') acc' = filter (\<lambda>c. c \<in> set (take (unat (au_category_count p)) (au_categories p)))
       (take (unat ?n) arr)"
    using intersect_loop_eq [of "length categories" arr "unat (au_category_count p)" "au_categories p"
        blank_categories 0 0] len wf blank arr' n by (auto simp: take_Nil)
  with res pos ne zero arr' n show ?thesis
    by (auto simp: inherit_categories_def child_categories_def Let_def split: if_splits)
qed

text \<open>
  C14: The category loops compute the intersection.  For a parent with at most eight
  categories and a request of at most eight, the copy and intersection loops index only
  inside their arrays and return the parent's categories for an empty request, else exactly
  the requested categories the parent has, in order; only an empty intersection is an error.
\<close>

theorem inherit_categories_exact:
  assumes "length categories \<le> MAX_CATEGORIES" "length (au_categories p) = MAX_CATEGORIES"
    "unat (au_category_count p) \<le> MAX_CATEGORIES"
  shows "\<exists>arr. copy_from 0 categories blank_categories = Inr arr
     \<and> (case inherit_categories p categories arr (of_nat (length categories)) of
          Inl e \<Rightarrow> e = Aeon EmptyCategoryIntersection \<and> categories \<noteq> [] \<and> child_categories p categories = []
        | Inr (cats, count) \<Rightarrow> length cats = MAX_CATEGORIES
            \<and> take (unat count) cats = child_categories p categories
            \<and> (child_categories p categories = [] \<longrightarrow> categories = []))"
proof -
  obtain arr where arr: "copy_from 0 categories blank_categories = Inr arr"
    using copy_from_eq [of 0 categories blank_categories] assms(1) by (auto simp: blank_categories_def)
  have ok: "length cats = MAX_CATEGORIES \<and> take (unat count) cats = child_categories p categories
      \<and> (child_categories p categories = [] \<longrightarrow> categories = [])"
    if res: "inherit_categories p categories arr (of_nat (length categories)) = Inr (cats, count)"
    for cats count
  proof -
    note i = inherit_categories_ok [OF assms(1) arr assms(2,3) res]
    have "count = 0" if "child_categories p categories = []"
      using i(1-3) that by (auto simp: unat_eq_zero)
    with i show ?thesis by blast
  qed
  show ?thesis
    using arr ok inherit_categories_err [OF assms(1) arr assms(2,3)]
    by (intro exI [of _ arr]) (auto split: sum.splits prod.splits)
qed

theorem inherit_categories_exact_witness:
  "\<exists>arr. copy_from 0 [ex_category, [2]] blank_categories = Inr arr
     \<and> (case inherit_categories (new_authority 1 ex_alice 0 0 100 40 100 2
            ([2] # [3] # replicate 6 (replicate 16 0)) 0 0 255) [ex_category, [2]] arr 2 of
          Inl e \<Rightarrow> False | Inr (cats, count) \<Rightarrow> take (unat count) cats = [[2]])"
proof -
  let ?p = "new_authority 1 ex_alice 0 0 100 40 100 2 ([2] # [3] # replicate 6 (replicate 16 0)) 0 0 255"
  have c: "child_categories ?p [ex_category, [2]] = [[2]]"
    by (simp add: child_categories_def new_authority_def ex_category_def)
  have "length [ex_category, [2]] \<le> MAX_CATEGORIES" "length (au_categories ?p) = MAX_CATEGORIES"
    "unat (au_category_count ?p) \<le> MAX_CATEGORIES" by (simp_all add: new_authority_def)
  from inherit_categories_exact [OF this] obtain arr
    where arr: "copy_from 0 [ex_category, [2]] blank_categories = Inr arr"
      and "case inherit_categories ?p [ex_category, [2]] arr (of_nat (length [ex_category, [2]])) of
          Inl e \<Rightarrow> e = Aeon EmptyCategoryIntersection \<and> [ex_category, [2]] \<noteq> [] \<and> [[2]] = ([] :: bytes list)
        | Inr (cats, count) \<Rightarrow> length cats = MAX_CATEGORIES \<and> take (unat count) cats = [[2]]
            \<and> ([[2]] = ([] :: bytes list) \<longrightarrow> [ex_category, [2]] = [])"
    unfolding c by (elim exE conjE)
  then have "case inherit_categories ?p [ex_category, [2]] arr 2 of
      Inl e \<Rightarrow> False | Inr (cats, count) \<Rightarrow> take (unat count) cats = [[2]]"
    by (auto split: sum.splits)
  with arr show ?thesis by blast
qed

text \<open>
  One authority per id.  Two authorities of a reachable state with the same id are the
  same account: ids are never reused, and every authority lives at the address derived from
  its id.
\<close>

lemma authority_ids_unique:
  assumes "runtime_spec rt" "reachable rt w" "authorities w k = Some a" "authorities w k' = Some a'"
    "au_authority_id a = au_authority_id a'"
  shows "k = k' \<and> k = fst (rt_find_pda rt (authority_seeds (au_authority_id a)))"
proof -
  note ok = store_okD(1) [OF authority_inv.inv_reachable [OF assms(1,2)]]
  have "rt_find_pda rt (authority_seeds (au_authority_id a)) = (k, au_bump a)"
    "rt_find_pda rt (authority_seeds (au_authority_id a')) = (k', au_bump a')"
    using ok [OF assms(3)] ok [OF assms(4)] by (simp_all add: authority_ok_def)
  with assms(5) show ?thesis by simp
qed

text \<open>
  The accounts of an unbonded child are accepted for the next id as they were for the first,
  and what such a call establishes.
\<close>

lemma issue_unbonded_accounts:
  assumes "issue_authority_accounts rt tx w c i = Inr (cfg, parent, b, bond_b, m)"
    "ia_bond c = None" "ia_agent_vault c = None" "ia_bond_vault c = None" "ia_aeon_mint c = None"
    "ia_token_program c = None" "ia_associated_token_program c = None"
    and w1: "configs w1 (ia_config c) = Some cfg'" "cfg_bump cfg' = cfg_bump cfg"
      "cfg_aeon_mint cfg' = cfg_aeon_mint cfg" "agents w1 = agents w"
      "load_opt authorities w1 (ia_parent_authority c) = Inr parent"
    and k2: "k2 = fst (rt_find_pda rt (authority_seeds i2))" "\<not> in_use w1 k2"
    and tx': "tx_signer tx' (ia_agent c)" "tx_writable tx' (ia_agent c)" "tx_writable tx' (ia_config c)"
      "tx_writable tx' k2"
  shows "\<exists>b2. issue_authority_accounts rt tx' w1 (c\<lparr>ia_authority := k2\<rparr>) i2
    = Inr (cfg', parent, b2, None, None)"
  using assms
  by (auto simp: issue_authority_accounts_def ok_simps init_bond_def init_pda_def vault_ok_def
      load_def load_ext_opt_def load_opt_def split: option.splits)

lemma issue_child_run:
  assumes "issue_authority rt tx w c i budget mpt mt cats pid ex 0 = Inr w1" "pid \<noteq> 0"
  obtains cfg kp p b t m a where
    "issue_authority_accounts rt tx w c i = Inr (cfg, Some p, b, None, m)"
    "configs w (ia_config c) = Some cfg" "\<not> cfg_paused cfg" "0 < budget"
    "length cats \<le> MAX_CATEGORIES" "ia_bond c = None" "ia_agent_vault c = None"
    "ia_bond_vault c = None" "ia_aeon_mint c = None" "ia_token_program c = None"
    "ia_associated_token_program c = None"
    "ia_parent_authority c = Some kp" "authorities w kp = Some p" "kp \<noteq> ia_authority c"
    "issue_terms (Some p) (ia_agent c) budget mpt mt cats pid = Inr t"
    "w1 = issue_effect c cfg a None w" "au_authority_id a = i" "au_parent_id a = pid"
    "au_budget a = budget" "au_spent a = 0" "au_status a = AUTH_STATUS_ACTIVE"
  using assms(1)
proof (rule issue_authority_ok)
  fix cfg parent b bond_b m depth fmpt fmt ccs count bond w0
  let ?a = "new_authority i (ia_agent c) pid depth budget fmpt
            (if budget < fmt then budget else fmt) count ccs ex 0 b"
  assume h: "configs w (ia_config c) = Some cfg" "\<not> cfg_paused cfg" "0 < budget"
    "length cats \<le> MAX_CATEGORIES" "\<not> in_use w (ia_authority c)"
    "load_opt authorities w (ia_parent_authority c) = Inr parent"
    "issue_terms parent (ia_agent c) budget mpt mt cats pid = Inr (depth, fmpt, fmt, ccs, count)"
    "issue_bond rt tx c i 0 bond_b m w = Inr (bond, w0)" "w1 = issue_effect c cfg ?a bond w0"
  have none: "bond = None" "w0 = w" "ia_bond c = None" "ia_agent_vault c = None"
    "ia_bond_vault c = None" "ia_aeon_mint c = None" "ia_token_program c = None"
    "ia_associated_token_program c = None"
    using h(8) by (auto simp: issue_bond_def split: if_splits)
  from h(7) assms(2) obtain p where p: "parent = Some p" by (auto simp: issue_terms_def ok_simps)
  with h(6) obtain kp where kp: "ia_parent_authority c = Some kp" "authorities w kp = Some p"
    by (auto simp: ok_simps)
  have ne: "kp \<noteq> ia_authority c" using kp(2) not_in_use_fresh(4) [OF h(5)] by auto
  from assms(1) obtain r where r: "issue_authority_accounts rt tx w c i = Inr r"
    by (auto simp: issue_authority_def bindr_eq_Inr)
  then obtain b2 m2 where "r = (cfg, Some p, b2, None, m2)"
    using h(1) kp none
    by (auto simp: issue_authority_accounts_def bindr_eq_Inr if_Inl_eq_Inr load_eq_Inr load_opt_Some_eq_Inr
        init_bond_def)
  with r h none p kp ne that [of cfg p b2 m2 kp _ ?a] show thesis by (simp add: new_authority_def)
qed

text \<open>
  C37: Issuing reserves nothing, so siblings can be granted more than their parent has left.
  When a child of some budget has been issued (without a bond), the same request with the
  next id, at its unused address, signed by the same agent with the same accounts, succeeds as
  well, however much of the parent's budget the first child took: both
  children are stored, active, unspent and with the whole budget, which each on its own is
  within what the parent has left, and the parent's record is what it was.  With a budget of
  more than half of the remainder the two together exceed it.
\<close>

theorem overissue_accepted:
  assumes "issue_authority rt tx w c i budget mpt mt cats pid ex 0 = Inr w1" "pid \<noteq> 0"
    and k2: "unat i2 = unat i + 1" "k2 = fst (rt_find_pda rt (authority_seeds i2))" "\<not> in_use w1 k2"
    and tx': "tx_signer tx' (ia_agent c)" "tx_writable tx' (ia_agent c)" "tx_writable tx' (ia_config c)"
      "tx_writable tx' k2"
  shows "\<exists>w2 kp p a a2. issue_authority rt tx' w1 (c\<lparr>ia_authority := k2\<rparr>) i2 budget mpt mt cats pid ex 0 = Inr w2
     \<and> ia_parent_authority c = Some kp \<and> authorities w kp = Some p \<and> authorities w2 kp = Some p
     \<and> au_authority_id p = pid \<and> au_status p = AUTH_STATUS_ACTIVE
     \<and> unat budget + unat (au_spent p) \<le> unat (au_budget p)
     \<and> k2 \<noteq> ia_authority c \<and> authorities w2 (ia_authority c) = Some a \<and> authorities w2 k2 = Some a2
     \<and> au_parent_id a = pid \<and> au_budget a = budget \<and> au_spent a = 0 \<and> au_status a = AUTH_STATUS_ACTIVE
     \<and> au_parent_id a2 = pid \<and> au_budget a2 = budget \<and> au_spent a2 = 0
     \<and> au_status a2 = AUTH_STATUS_ACTIVE"
  using assms(1,2)
proof (rule issue_child_run)
  fix kp p b t m a and cfg :: config
  let ?cfg = "cfg\<lparr>cfg_authority_counter := i\<rparr>" and ?c = "c\<lparr>ia_authority := k2\<rparr>"
  assume acc: "issue_authority_accounts rt tx w c i = Inr (cfg, Some p, b, None, m)"
    and none: "ia_bond c = None" "ia_agent_vault c = None" "ia_bond_vault c = None"
      "ia_aeon_mint c = None" "ia_token_program c = None" "ia_associated_token_program c = None"
    and h: "configs w (ia_config c) = Some cfg" "\<not> cfg_paused cfg" "0 < budget" "length cats \<le> MAX_CATEGORIES"
    and kp: "ia_parent_authority c = Some kp" "authorities w kp = Some p" "kp \<noteq> ia_authority c"
    and t: "issue_terms (Some p) (ia_agent c) budget mpt mt cats pid = Inr t"
    and w1: "w1 = issue_effect c cfg a None w" and a: "au_authority_id a = i" "au_parent_id a = pid"
      "au_budget a = budget" "au_spent a = 0" "au_status a = AUTH_STATUS_ACTIVE"
  have new: "authorities w1 = (authorities w)(ia_authority c \<mapsto> a)" "agents w1 = agents w"
    "configs w1 (ia_config c) = Some ?cfg" by (simp_all add: w1 a)
  then have ne: "k2 \<noteq> ia_authority c" "kp \<noteq> k2"
    using not_in_use_fresh(4) [OF k2(3)] kp(2,3) by auto
  have "load_opt authorities w1 (ia_parent_authority c) = Inr (Some p)"
    using kp new(1) by (simp add: load_opt_Some_eq_Inr)
  from issue_unbonded_accounts [OF acc none new(3) _ _ new(2) this k2(2,3) tx'] obtain b2
    where acc2: "issue_authority_accounts rt tx' w1 ?c i2 = Inr (?cfg, Some p, b2, None, None)" by auto
  have i2: "checked_add i 1 = Some i2" using k2(1) by (simp add: checked_add_eq_Some)
  obtain depth fmpt fmt ccs count where t': "t = (depth, fmpt, fmt, ccs, count)" by (cases t)
  let ?a2 = "new_authority i2 (ia_agent c) pid depth budget fmpt
            (if budget < fmt then budget else fmt) count ccs ex 0 b2"
  let ?w2 = "put authorities_update k2 ?a2 (put configs_update (ia_config c) (?cfg\<lparr>cfg_authority_counter := i2\<rparr>)
      (log_event (AuthorityIssuedEv i2 (ia_agent c) budget pid) w1))"
  have "issue_authority rt tx' w1 ?c i2 budget mpt mt cats pid ex 0 = Inr ?w2"
    using h t none i2 by (simp add: issue_authority_def acc2 t' issue_bond_def put_opt_def)
  moreover have "authorities ?w2 = (authorities w1)(k2 \<mapsto> ?a2)" by (simp add: world_frame)
  moreover have "unat budget + unat (au_spent p) \<le> unat (au_budget p)" "au_authority_id p = pid"
    "au_status p = AUTH_STATUS_ACTIVE"
    using issue_terms_ok(2) [OF t [unfolded t'] h(4) assms(2)] by auto
  ultimately show ?thesis
    using kp ne new(1) a
    by (intro exI [of _ ?w2] exI [of _ kp] exI [of _ p] exI [of _ a] exI [of _ ?a2])
      (simp add: new_authority_def)
qed

text \<open>The root authority has 100 to give; its two children get 60 each.\<close>

lemma ex_overissue_run:
  "ex_check (\<lambda>w. map_option au_budget (authorities w (ex_pda (authority_seeds 1))) = Some 100
     \<and> ex_check (\<lambda>w1. \<not> in_use w1 (ex_pda (authority_seeds 3)))
         (issue_authority ex_rt (ex_tx 1) w ex_issue_child_ctx 2 60 50 80 [ex_category, [2]] 1 0 0))
   (ex_run 1 [ex_issue])"
  by code_simp

theorem overissue_accepted_witness:
  "\<exists>w w1 w2 k3 p a a2. reachable ex_rt w
     \<and> issue_authority ex_rt (ex_tx 1) w ex_issue_child_ctx 2 60 50 80 [ex_category, [2]] 1 0 0 = Inr w1
     \<and> issue_authority ex_rt (ex_tx 1) w1 (ex_issue_child_ctx\<lparr>ia_authority := k3\<rparr>) 3 60 50 80
         [ex_category, [2]] 1 0 0 = Inr w2
     \<and> authorities w2 (ex_pda (authority_seeds 1)) = Some p \<and> au_budget p = 100
     \<and> authorities w2 (ia_authority ex_issue_child_ctx) = Some a \<and> authorities w2 k3 = Some a2
     \<and> unat (au_budget p) < unat (au_budget a) + unat (au_budget a2)"
proof -
  let ?k = "ex_pda (authority_seeds 3)"
  obtain w w1 q where w: "reachable ex_rt w"
    "issue_authority ex_rt (ex_tx 1) w ex_issue_child_ctx 2 60 50 80 [ex_category, [2]] 1 0 0 = Inr w1"
    "\<not> in_use w1 ?k" "authorities w (ex_pda (authority_seeds 1)) = Some q" "au_budget q = 100"
    using ex_runD [OF ex_overissue_run] by (auto dest!: ex_checkD)
  have c: "(1 :: u64) \<noteq> 0" "unat (3 :: u64) = unat (2 :: u64) + 1"
    "?k = fst (rt_find_pda ex_rt (authority_seeds 3))"
    "tx_signer (ex_tx 1) (ia_agent ex_issue_child_ctx)" "tx_writable (ex_tx 1) k"
    "ia_parent_authority ex_issue_child_ctx = Some (ex_pda (authority_seeds 1))" for k
    by (simp_all add: ex_rt_def ex_pda_def ex_tx_def ex_issue_child_ctx_def)
  from overissue_accepted [OF w(2) c(1-3) w(3) c(4) c(5) c(5) c(5)] c(6) w
  obtain w2 a a2 where
    "issue_authority ex_rt (ex_tx 1) w1 (ex_issue_child_ctx\<lparr>ia_authority := ?k\<rparr>) 3 60 50 80
         [ex_category, [2]] 1 0 0 = Inr w2"
    "authorities w2 (ex_pda (authority_seeds 1)) = Some q"
    "authorities w2 (ia_authority ex_issue_child_ctx) = Some a" "authorities w2 ?k = Some a2"
    "au_budget a = 60" "au_budget a2 = 60" by auto
  moreover from this w(5) have "unat (au_budget q) < unat (au_budget a) + unat (au_budget a2)" by simp
  ultimately show ?thesis using w by blast
qed

subsection \<open>Revoking and expiring\<close>

text \<open>
  C31: A cascading revocation never succeeds.  With any remaining account,
  \<^verbatim>\<open>revoke_authority\<close> fails: \<^verbatim>\<open>try_serialize\<close> writes discriminator and fields, and the handler
  gives it the account's data from offset 8 on, eight bytes too few.
\<close>

theorem cascade_never_succeeds:
  assumes "anchor_serialization rt" "rv_remaining c \<noteq> []"
  shows "revoke_authority rt tx w c i \<noteq> Inr w'"
  using revoke_authority_ok [OF assms(1), of tx w c i w'] assms(2) by blast

lemma ex_cascade_run:
  "ex_check (\<lambda>w. ex_check (\<lambda>w'. True)
      (dispatch ex_rt (ex_tx 2) w (RevokeAuthority (ex_revoke_ctx []) 1)))
     (ex_run 1 [ex_issue])"
  by code_simp

theorem cascade_never_succeeds_witness:
  "\<exists>w. reachable ex_rt w
     \<and> (\<exists>w'. dispatch ex_rt (ex_tx 2) w (RevokeAuthority (ex_revoke_ctx []) 1) = Inr w')
     \<and> (\<forall>w'. revoke_authority ex_rt (ex_tx 2) w (ex_revoke_ctx [ex_pda (authority_seeds 2)]) 1 \<noteq> Inr w')"
proof -
  obtain w w' where w: "reachable ex_rt w"
    "dispatch ex_rt (ex_tx 2) w (RevokeAuthority (ex_revoke_ctx []) 1) = Inr w'"
    using ex_runD [OF ex_cascade_run] by (auto dest!: ex_checkD simp del: dispatch.simps)
  have "rv_remaining (ex_revoke_ctx [ex_pda (authority_seeds 2)]) \<noteq> []" by (simp add: ex_revoke_ctx_def)
  from cascade_never_succeeds [OF ex_serialization this] w show ?thesis by blast
qed

text \<open>
  What the two operations that end an authority's life need: the canonical address follows
  from the invariant, so signature, agent and status decide.
\<close>

lemma reachable_authority_pda:
  assumes "runtime_spec rt" "reachable rt w" "authorities w k = Some a"
  shows "pda_at rt (authority_seeds (au_authority_id a)) (au_bump a) k"
  using store_okD(1) [OF authority_inv.inv_reachable [OF assms(1,2)] assms(3)] assms(1)
  by (auto simp: authority_ok_def runtime_spec_def intro: pda_canonical)

lemma reachable_config_pda:
  assumes "runtime_spec rt" "reachable rt w" "configs w k = Some cfg"
  shows "pda_at rt [SEED_CONFIG] (cfg_bump cfg) k"
  using config_inv.inv_reachable [OF assms(1,2)] assms(1,3)
  by (auto simp: all_ok_def config_ok_def runtime_spec_def intro: pda_canonical)

text \<open>
  An agent can always revoke its active authority.  In every reachable state, paused or
  not, a revocation without remaining accounts that the authority's agent signs succeeds,
  and the authority is revoked with everything else of it, and every other authority, as
  before.
\<close>

theorem agent_can_always_revoke:
  assumes "runtime_spec rt" "reachable rt w"
    "authorities w (rv_authority c) = Some a" "au_status a = AUTH_STATUS_ACTIVE"
    "configs w (rv_config c) = Some cfg" "rv_agent c = au_agent a" "tx_signer tx (au_agent a)"
    "tx_writable tx (rv_authority c)" "rv_remaining c = []"
  shows "\<exists>w'. revoke_authority rt tx w c (au_authority_id a) = Inr w'
     \<and> authorities w' = (authorities w)(rv_authority c \<mapsto> a\<lparr>au_status := AUTH_STATUS_REVOKED\<rparr>)"
  using reachable_authority_pda [OF assms(1-3)] reachable_config_pda [OF assms(1,2,5)] assms(3-9)
  by (auto simp: revoke_authority_def revoke_authority_accounts_def ok_simps world_frame)

text \<open>A root authority, and the world after issuing it.\<close>

lemma ex_issued:
  "ex_check (\<lambda>w. map_option (\<lambda>a. (au_status a, au_agent a, au_authority_id a))
       (authorities w (ex_pda (authority_seeds 1))) = Some (AUTH_STATUS_ACTIVE, ex_alice, 1)
     \<and> configs w (ex_pda [SEED_CONFIG]) \<noteq> None) (ex_run 1 [ex_issue])"
  by code_simp

theorem agent_can_always_revoke_witness:
  "\<exists>w w' a. reachable ex_rt w \<and> authorities w (ex_pda (authority_seeds 1)) = Some a
     \<and> revoke_authority ex_rt (ex_tx 2) w (ex_revoke_ctx []) 1 = Inr w'
     \<and> authorities w' (ex_pda (authority_seeds 1)) = Some (a\<lparr>au_status := AUTH_STATUS_REVOKED\<rparr>)"
proof -
  obtain w a cfg where w: "reachable ex_rt w" and a: "authorities w (ex_pda (authority_seeds 1)) = Some a"
    "au_status a = AUTH_STATUS_ACTIVE" "au_agent a = ex_alice" "au_authority_id a = 1"
    and cfg: "configs w (ex_pda [SEED_CONFIG]) = Some cfg"
    using ex_runD [OF ex_issued] by auto
  have c: "rv_authority (ex_revoke_ctx []) = ex_pda (authority_seeds 1)"
    "rv_config (ex_revoke_ctx []) = ex_pda [SEED_CONFIG]" "rv_agent (ex_revoke_ctx []) = ex_alice"
    "rv_remaining (ex_revoke_ctx []) = []" "tx_signer (ex_tx 2) ex_alice" "tx_writable (ex_tx 2) k" for k
    by (simp_all add: ex_revoke_ctx_def ex_tx_def)
  from agent_can_always_revoke [OF ex_runtime_spec w, of "ex_revoke_ctx []" a cfg "ex_tx 2"] w a cfg c
  show ?thesis by auto
qed

text \<open>
  Expiry is exactly the passed slot.  In a reachable state \<^verbatim>\<open>expire_authority\<close>, signed by
  the agent of an active authority, succeeds exactly when the authority has an expiry slot
  and the current slot is later; it changes the status of that authority and nothing else of
  the store.
\<close>

theorem expire_exact:
  assumes "runtime_spec rt" "reachable rt w"
    "authorities w (ex_authority c) = Some a" "au_status a = AUTH_STATUS_ACTIVE"
    "ex_agent c = au_agent a" "tx_signer tx (au_agent a)" "tx_writable tx (ex_authority c)"
  shows "expire_authority rt tx w c (au_authority_id a)
     = (if au_expiry_slot a \<noteq> 0 \<and> au_expiry_slot a < tx_slot tx
        then Inr (w\<lparr>authorities := (authorities w)(ex_authority c \<mapsto> a\<lparr>au_status := AUTH_STATUS_EXPIRED\<rparr>),
                   logs := logs w @ [AuthorityExpiredEv (au_authority_id a) (au_agent a) (au_expiry_slot a)]\<rparr>)
        else err AuthorityNotExpired)"
  using reachable_authority_pda [OF assms(1-3)] assms(3-7)
  by (auto simp: expire_authority_def expire_authority_accounts_def load_def world_simps)

text \<open>An authority that expires at slot 5.\<close>

definition ex_expiring :: instruction where
  "ex_expiring = IssueAuthority \<lparr>ia_agent = ex_alice, ia_config = ex_pda [SEED_CONFIG],
     ia_agent_identity = ex_pda (agent_seeds ex_alice), ia_parent_authority = None,
     ia_authority = ex_pda (authority_seeds 1), ia_bond = None, ia_agent_vault = None,
     ia_bond_vault = None, ia_aeon_mint = None, ia_token_program = None,
     ia_associated_token_program = None\<rparr> 1 100 40 100 [ex_category] 0 5 0"

lemma ex_expiring_run:
  "ex_check (\<lambda>w. map_option (\<lambda>a. (au_status a, au_agent a, au_authority_id a, au_expiry_slot a))
       (authorities w (ex_pda (authority_seeds 1))) = Some (AUTH_STATUS_ACTIVE, ex_alice, 1, 5))
     (ex_run 1 [ex_expiring])"
  by code_simp

theorem expire_exact_witness:
  "\<exists>w w' c. reachable ex_rt w \<and> ex_authority c = ex_pda (authority_seeds 1)
     \<and> expire_authority ex_rt (ex_tx 5) w c 1 = err AuthorityNotExpired
     \<and> expire_authority ex_rt (ex_tx 6) w c 1 = Inr w'"
proof -
  let ?c = "\<lparr>ex_agent = ex_alice, ex_authority = ex_pda (authority_seeds 1)\<rparr>"
  obtain w a where w: "reachable ex_rt w" and a: "authorities w (ex_pda (authority_seeds 1)) = Some a"
    "au_status a = AUTH_STATUS_ACTIVE" "au_agent a = ex_alice" "au_authority_id a = 1"
    "au_expiry_slot a = 5"
    using ex_runD [OF ex_expiring_run] by auto
  have t: "tx_signer (ex_tx s) ex_alice" "tx_writable (ex_tx s) k" "tx_slot (ex_tx s) = s" for s k
    by (simp_all add: ex_tx_def)
  have "expire_authority ex_rt (ex_tx s) w ?c 1 = (if 5 < s then Inr (w\<lparr>authorities := (authorities w)
      (ex_pda (authority_seeds 1) \<mapsto> a\<lparr>au_status := AUTH_STATUS_EXPIRED\<rparr>),
      logs := logs w @ [AuthorityExpiredEv 1 ex_alice 5]\<rparr>) else err AuthorityNotExpired)" for s
    using expire_exact [OF ex_runtime_spec w, of ?c a "ex_tx s"] a t by simp
  from this [of 5] this [of 6] obtain w' where
    "expire_authority ex_rt (ex_tx 5) w ?c 1 = err AuthorityNotExpired"
    "expire_authority ex_rt (ex_tx 6) w ?c 1 = Inr w'" by simp
  with w show ?thesis by (intro exI [of _ w] exI [of _ w'] exI [of _ ?c]) simp
qed

end
