(* ===== verification/Escrow_Machine.thy ===== *)
theory Escrow_Machine
  imports Aeon_Program
begin

text \<open>
  The contract of the escrow component, apart from how it is programmed: a book of deals by
  number, in which every request of a run is decided by the slot, the signers, the proof shown
  and the caller, and nothing is left open.  The instructions are read as requests without
  looking at the state, and the store of escrow accounts as a book; a successful instruction
  then does to the book exactly what the contract does with its request.
\<close>

subsection \<open>The contract\<close>

datatype condition = Immediately | OnReceipt bytes | ByOracle | ByMultisig | AfterExpiry

datatype phase = Pending | Paid | Withdrawn | Lapsed

record deal =
  dl_payer :: pubkey
  dl_payee :: pubkey
  dl_amount :: nat
  dl_condition :: condition
  dl_expiry :: "u64 option"
  dl_phase :: phase

type_synonym book = "u64 \<rightharpoonup> deal"

datatype escrow_request =
    Open u64 deal
  | Release u64 bytes
  | Cancel u64 pubkey
  | Unrelated

definition lapsed :: "deal \<Rightarrow> u64 \<Rightarrow> bool" where
  "lapsed d slot = (case dl_expiry d of None \<Rightarrow> False | Some t \<Rightarrow> t < slot)"

text \<open>When a pending deal is due to the payee, given what the releaser shows.\<close>

definition due :: "deal \<Rightarrow> u64 \<Rightarrow> bytes \<Rightarrow> bool" where
  "due d slot evidence = (case dl_condition d of
       Immediately \<Rightarrow> \<not> lapsed d slot
     | OnReceipt h \<Rightarrow> \<not> lapsed d slot \<and> take 32 evidence = h
     | AfterExpiry \<Rightarrow> (case dl_expiry d of None \<Rightarrow> False | Some t \<Rightarrow> t \<le> slot)
     | _ \<Rightarrow> False)"

definition close :: "book \<Rightarrow> u64 \<Rightarrow> deal \<Rightarrow> phase \<Rightarrow> book" where
  "close B i d p = B(i \<mapsto> d\<lparr>dl_phase := p\<rparr>)"

text \<open>
  What the contract does with a request in a transaction; \<open>None\<close> where it refuses it.
\<close>

fun settle :: "tx \<Rightarrow> escrow_request \<Rightarrow> book \<Rightarrow> book option" where
  "settle tx (Open i d) B =
     (if B i = None \<and> dl_phase d = Pending \<and> 0 < dl_amount d \<and> dl_payer d \<noteq> dl_payee d
         \<and> tx_signer tx (dl_payer d)
      then Some (B(i \<mapsto> d)) else None)"
| "settle tx (Release i evidence) B =
     (case B i of None \<Rightarrow> None
      | Some d \<Rightarrow> if dl_phase d = Pending \<and> due d (tx_slot tx) evidence
          then Some (close B i d Paid) else None)"
| "settle tx (Cancel i who) B =
     (case B i of None \<Rightarrow> None
      | Some d \<Rightarrow> if dl_phase d \<noteq> Pending \<or> \<not> tx_signer tx who then None
          else if who = dl_payer d then Some (close B i d Withdrawn)
          else if lapsed d (tx_slot tx) then Some (close B i d Lapsed)
          else None)"
| "settle tx Unrelated B = Some B"

subsection \<open>Accounts and instructions, read as deals and requests\<close>

definition condition_of :: "u8 \<Rightarrow> bytes \<Rightarrow> condition" where
  "condition_of ctype cdata =
     (if ctype = CONDITION_IMMEDIATE then Immediately
      else if ctype = CONDITION_RECEIPT then OnReceipt (take 32 cdata)
      else if ctype = CONDITION_ORACLE then ByOracle
      else if ctype = CONDITION_MULTISIG then ByMultisig
      else AfterExpiry)"

definition expiry_of :: "u64 \<Rightarrow> u64 option" where
  "expiry_of slot = (if slot = 0 then None else Some slot)"

definition phase_of :: "u8 \<Rightarrow> phase" where
  "phase_of s =
     (if s = ESCROW_STATUS_OPEN then Pending
      else if s = ESCROW_STATUS_RELEASED then Paid
      else if s = ESCROW_STATUS_CANCELLED then Withdrawn
      else Lapsed)"

definition deal_of :: "escrow \<Rightarrow> deal" where
  "deal_of es =
     \<lparr>dl_payer = es_payer es,
      dl_payee = es_payee es,
      dl_amount = unat (es_amount es),
      dl_condition = condition_of (es_condition_type es) (es_condition_data es),
      dl_expiry = expiry_of (es_expiry_slot es),
      dl_phase = phase_of (es_status es)\<rparr>"

definition escrow_key :: "runtime \<Rightarrow> u64 \<Rightarrow> pubkey" where
  "escrow_key rt i = fst (rt_find_pda rt (escrow_seeds i))"

definition book_of :: "runtime \<Rightarrow> (pubkey \<rightharpoonup> escrow) \<Rightarrow> book" where
  "book_of rt S = (\<lambda>i. map_option deal_of (S (escrow_key rt i)))"

fun request_of :: "instruction \<Rightarrow> escrow_request" where
  "request_of (CreateEscrow c i amount aid category ctype cdata expiry) =
     Open i
       \<lparr>dl_payer = ce_payer c, dl_payee = ce_payee c, dl_amount = unat amount,
        dl_condition = condition_of ctype cdata, dl_expiry = expiry_of expiry, dl_phase = Pending\<rparr>"
| "request_of (ReleaseEscrow c i witness) = Release i witness"
| "request_of (CancelEscrow c i) = Cancel i (cx_canceller c)"
| "request_of _ = Unrelated"

text \<open>The contract over a sequence of calls.\<close>

fun settle_all :: "(tx \<times> instruction) list \<Rightarrow> book \<Rightarrow> book option" where
  "settle_all [] B = Some B"
| "settle_all ((tx, i) # calls) B =
     (case settle tx (request_of i) B of None \<Rightarrow> None | Some B' \<Rightarrow> settle_all calls B')"

subsection \<open>Runs with their calls\<close>

text \<open>The runs of the chain, with the calls that made them.\<close>

inductive chain_trace :: "runtime \<Rightarrow> world \<Rightarrow> (tx \<times> instruction) list \<Rightarrow> world \<Rightarrow> bool" for rt where
  start: "chain_trace rt w [] w"
| call: "\<lbrakk> pda_unsigned rt tx; dispatch rt tx w i = Inr w1; chain_trace rt w1 calls w' \<rbrakk>
    \<Longrightarrow> chain_trace rt w ((tx, i) # calls) w'"
| tokens: "\<lbrakk> others_keep rt (ledger w) l; chain_trace rt (w\<lparr>ledger := l, mints := m\<rparr>) calls w' \<rbrakk>
    \<Longrightarrow> chain_trace rt w calls w'"

lemma chain_run_trace: "chain_run rt w w' = (\<exists>calls. chain_trace rt w calls w')"
proof
  assume "chain_run rt w w'"
  then show "\<exists>calls. chain_trace rt w calls w'"
  proof (induction rule: converse_rtranclp_induct)
    case base
    show ?case by (blast intro: chain_trace.start)
  next
    case (step w v)
    then show ?case by (auto elim!: chain_step_elim intro: chain_trace.call chain_trace.tokens)
  qed
next
  assume "\<exists>calls. chain_trace rt w calls w'"
  then obtain calls where "chain_trace rt w calls w'" ..
  then show "chain_run rt w w'"
    by (induction rule: chain_trace.induct)
      (auto intro: chain_step.intros converse_rtranclp_into_rtranclp)
qed

subsection \<open>The instructions keep the contract\<close>

lemma deal_of_fields [simp]:
  "dl_payer (deal_of es) = es_payer es"
  "dl_condition (deal_of es) = condition_of (es_condition_type es) (es_condition_data es)"
  "dl_expiry (deal_of es) = expiry_of (es_expiry_slot es)"
  by (simp_all add: deal_of_def)

lemma lapsed_deal_of [simp]:
  "lapsed (deal_of es) slot = (es_expiry_slot es \<noteq> 0 \<and> es_expiry_slot es < slot)"
  by (simp add: lapsed_def expiry_of_def)

lemma pending_deal_of [simp]: "(dl_phase (deal_of es) = Pending) = (es_status es = ESCROW_STATUS_OPEN)"
  by (simp add: deal_of_def phase_of_def)

lemma condition_types:
  assumes "c \<le> CONDITION_TIMEOUT"
  shows "c = CONDITION_IMMEDIATE \<or> c = CONDITION_RECEIPT \<or> c = CONDITION_ORACLE
    \<or> c = CONDITION_MULTISIG \<or> c = CONDITION_TIMEOUT"
proof -
  have "unat c \<le> 4" using assms by (simp add: word_le_nat_alt)
  then have "unat c = 0 \<or> unat c = 1 \<or> unat c = 2 \<or> unat c = 3 \<or> unat c = 4" by arith
  then show ?thesis by (simp add: word_unat_eq_iff)
qed

lemma due_deal_of:
  assumes "es_condition_type es \<le> CONDITION_TIMEOUT"
  shows "due (deal_of es) slot evidence = releasable es slot evidence"
proof -
  consider "es_condition_type es = CONDITION_IMMEDIATE" | "es_condition_type es = CONDITION_RECEIPT"
    | "es_condition_type es = CONDITION_ORACLE" | "es_condition_type es = CONDITION_MULTISIG"
    | "es_condition_type es = CONDITION_TIMEOUT"
    using condition_types [OF assms] by blast
  then show ?thesis
    by cases (auto simp: due_def releasable_def condition_of_def expiry_of_def not_less)
qed

lemma deal_of_status:
  "deal_of (es\<lparr>es_status := s\<rparr>) = (deal_of es)\<lparr>dl_phase := phase_of s\<rparr>"
  by (simp add: deal_of_def)

lemma escrow_key_inject:
  assumes "pda_spec rt"
  shows "(escrow_key rt i = escrow_key rt j) = (i = j)"
proof
  assume eq: "escrow_key rt i = escrow_key rt j"
  have "pda_at rt (escrow_seeds n) (snd (rt_find_pda rt (escrow_seeds n))) (escrow_key rt n)" for n
    by (rule pda_canonical [OF assms]) (simp add: escrow_key_def)
  from this [of i] this [of j] show "i = j" unfolding eq by (rule pda_id_unique [OF assms])
qed simp

lemma book_of_upd:
  assumes "pda_spec rt" "k = escrow_key rt i"
  shows "book_of rt (S(k \<mapsto> es)) = (book_of rt S)(i \<mapsto> deal_of es)"
  by (auto simp: book_of_def assms(2) escrow_key_inject [OF assms(1)] fun_eq_iff)

lemmas book_of_key = book_of_upd [OF _ refl]

text \<open>An escrow of a well-formed store is in the book under its number.\<close>

lemma book_entry:
  assumes "all_ok (escrow_ok rt) S" "S k = Some es"
  shows "k = escrow_key rt (es_escrow_id es)" "book_of rt S (es_escrow_id es) = Some (deal_of es)"
    "es_condition_type es \<le> CONDITION_TIMEOUT"
proof -
  have "escrow_ok rt k es" by (rule all_okD [OF assms])
  then show k: "k = escrow_key rt (es_escrow_id es)" and "es_condition_type es \<le> CONDITION_TIMEOUT"
    by (simp_all add: escrow_ok_def escrow_key_def)
  with assms(2) show "book_of rt S (es_escrow_id es) = Some (deal_of es)" by (simp add: book_of_def)
qed

lemma create_settles:
  assumes "pda_spec rt" "create_escrow rt tx w c i amount aid category ctype cdata expiry = Inr w'"
  shows "settle tx (request_of (CreateEscrow c i amount aid category ctype cdata expiry))
    (book_of rt (escrows w)) = Some (book_of rt (escrows w'))"
  using assms(2)
proof (rule create_escrow_ok)
  fix cfg eb vb l2 au'
  let ?es = "new_escrow i (ce_payer c) (ce_payee c) amount aid category ctype cdata (tx_slot tx)
      expiry vb eb"
  assume h: "tx_signer tx (ce_payer c)" "0 < amount" "ce_payer c \<noteq> ce_payee c"
    "rt_find_pda rt (escrow_seeds i) = (ce_escrow c, eb)" "\<not> in_use w (ce_escrow c)"
    and w': "w' = put escrows_update (ce_escrow c) ?es
           (put_opt authorities_update (ce_authority c) au'
             (put configs_update (ce_config c) (cfg\<lparr>cfg_escrow_counter := i\<rparr>)
               (log_event (EscrowCreatedEv i (ce_payer c) (ce_payee c) amount)
                 (w\<lparr>ledger := l2\<rparr>))))"
  have k: "ce_escrow c = escrow_key rt i" using h(4) by (simp add: escrow_key_def)
  have "escrows w' = (escrows w)(ce_escrow c \<mapsto> ?es)"
    by (simp add: w' world_simps split: option.splits)
  then have "book_of rt (escrows w') = (book_of rt (escrows w))(i \<mapsto> deal_of ?es)"
    using book_of_upd [OF assms(1) k] by simp
  moreover have "book_of rt (escrows w) i = None"
    using not_in_use_fresh(5) [OF h(5)] k by (simp add: book_of_def)
  moreover have "deal_of ?es = \<lparr>dl_payer = ce_payer c, dl_payee = ce_payee c, dl_amount = unat amount,
      dl_condition = condition_of ctype cdata, dl_expiry = expiry_of expiry, dl_phase = Pending\<rparr>"
    by (simp add: deal_of_def new_escrow_def phase_of_def)
  ultimately show ?thesis using h(1-3) by (simp add: word_less_nat_alt)
qed

lemma release_settles:
  assumes "pda_spec rt" "all_ok (escrow_ok rt) (escrows w)"
    "release_escrow rt tx w c i witness = Inr w'"
  shows "settle tx (request_of (ReleaseEscrow c i witness)) (book_of rt (escrows w))
    = Some (book_of rt (escrows w'))"
  using assms(3)
proof (rule release_escrow_ok)
  fix es :: escrow and l pc' qc'
  assume h: "escrows w (re_escrow c) = Some es" "es_status es = ESCROW_STATUS_OPEN"
    "es_escrow_id es = i" "releasable es (tx_slot tx) witness"
    and w': "w' = put cris_update (re_payee_cri c) qc' (put cris_update (re_payer_cri c) pc'
       (put escrows_update (re_escrow c) (es\<lparr>es_status := ESCROW_STATUS_RELEASED\<rparr>)
         (fold log_event [EscrowReleasedEv i (es_payee es) (es_amount es),
            cri_event (es_payer es) pc', cri_event (es_payee es) qc'] (w\<lparr>ledger := l\<rparr>))))"
  note e = book_entry [OF assms(2) h(1), unfolded h(3)]
  have "escrows w' = (escrows w)(re_escrow c \<mapsto> es\<lparr>es_status := ESCROW_STATUS_RELEASED\<rparr>)"
    by (simp add: w' world_simps)
  with e h(2,4) show ?thesis
    by (simp add: book_of_key [OF assms(1)] due_deal_of deal_of_status close_def phase_of_def)
qed

lemma cancel_settles:
  assumes "pda_spec rt" "all_ok (escrow_ok rt) (escrows w)" "cancel_escrow rt tx w c i = Inr w'"
  shows "settle tx (request_of (CancelEscrow c i)) (book_of rt (escrows w))
    = Some (book_of rt (escrows w'))"
  using assms(3)
proof (rule cancel_escrow_ok)
  fix es :: escrow and l pc n
  let ?late = "es_expiry_slot es \<noteq> 0 \<and> es_expiry_slot es < tx_slot tx"
  let ?s = "if ?late \<and> cx_canceller c \<noteq> es_payer es then ESCROW_STATUS_EXPIRED
      else ESCROW_STATUS_CANCELLED"
  assume h: "escrows w (cx_escrow c) = Some es" "es_status es = ESCROW_STATUS_OPEN"
    "es_escrow_id es = i" "tx_signer tx (cx_canceller c)" "cx_canceller c = es_payer es \<or> ?late"
    and w': "w' = put cris_update (cx_payer_cri c)
         (pc\<lparr>cri_failed_commitments := n, cri_last_active_slot := tx_slot tx\<rparr>)
       (put escrows_update (cx_escrow c) (es\<lparr>es_status := ?s\<rparr>)
         (log_event (EscrowCancelledEv i (es_payer es) (es_amount es)) (w\<lparr>ledger := l\<rparr>)))"
  note e = book_entry [OF assms(2) h(1), unfolded h(3)]
  have "escrows w' = (escrows w)(cx_escrow c \<mapsto> es\<lparr>es_status := ?s\<rparr>)"
    by (simp add: w' world_simps)
  then show ?thesis
    using e h(2,4,5)
    by (auto simp: book_of_key [OF assms(1)] deal_of_status close_def phase_of_def)
qed

lemma dispatch_settles:
  assumes "runtime_spec rt" "all_ok (escrow_ok rt) (escrows w)" "dispatch rt tx w i = Inr w'"
  shows "settle tx (request_of i) (book_of rt (escrows w)) = Some (book_of rt (escrows w'))"
proof -
  have spec: "pda_spec rt" "anchor_serialization rt" using assms(1) by (simp_all add: runtime_spec_def)
  from assms(3) show ?thesis
    by (cases i)
      (auto simp del: settle.simps(1-3)
        dest: create_settles [OF spec(1)] release_settles [OF spec(1) assms(2)]
          cancel_settles [OF spec(1) assms(2)]
        dest!: initialize_config_frame register_agent_frame set_paused_frame issue_authority_frame
          expire_authority_frame revoke_authority_frame [OF spec(2)] pay_frame atomic_split_frame
          create_org_frame join_org_frame set_member_share_frame
          deposit_to_org_frame org_split_frame dissolve_org_frame reclaim_org_residual_frame
          slash_bond_frame create_receipt_frame)
qed

lemma trace_settles:
  assumes "chain_trace rt w calls w'" "runtime_spec rt"
    "all_ok (escrow_ok rt) (escrows w) \<and> escrows_funded rt w"
  shows "settle_all calls (book_of rt (escrows w)) = Some (book_of rt (escrows w'))"
  using assms
proof (induction rule: chain_trace.induct)
  case (call tx w i w1 calls w')
  then have "all_ok (escrow_ok rt) (escrows w1) \<and> escrows_funded rt w1"
    using escrow_inv.inv_call by blast
  with call dispatch_settles [of rt w tx i w1] show ?case by simp
next
  case (tokens w l m calls w')
  then have "all_ok (escrow_ok rt) (escrows (w\<lparr>ledger := l, mints := m\<rparr>))
      \<and> escrows_funded rt (w\<lparr>ledger := l, mints := m\<rparr>)"
    using escrow_inv.inv_tokens by blast
  with tokens show ?case by simp
qed simp

end
