(* ===== verification/Escrow_Properties.thy ===== *)
theory Escrow_Properties
  imports Aeon_Example Escrow_Machine
begin

text \<open>
  What the development shows of escrows: every open escrow is backed by its own vault, each
  settles at most once and only the way its condition allows, what a release and a
  cancellation move, and that the payer can always get an open escrow back.
\<close>

subsection \<open>Backing\<close>

lemma reachable_escrows:
  assumes "runtime_spec rt" "reachable rt w" "escrows w k = Some es"
  shows "escrow_ok rt k es"
  using escrow_inv.inv_reachable [OF assms(1,2)] assms(3) by (auto dest: all_okD)

definition vault_key :: "runtime \<Rightarrow> escrow \<Rightarrow> pubkey" where
  "vault_key rt es = fst (rt_find_pda rt (escrow_vault_seeds (es_escrow_id es)))"

lemma vault_pda:
  assumes "runtime_spec rt" "escrow_ok rt k es"
  shows "pda_at rt (escrow_vault_seeds (es_escrow_id es)) (es_vault_bump es) (vault_key rt es)"
    "pda_at rt (escrow_seeds (es_escrow_id es)) (es_bump es) k"
  using assms
  by (auto simp: escrow_ok_def vault_key_def runtime_spec_def intro!: pda_canonical prod_eqI)

lemma solvent:
  assumes "runtime_spec rt" "reachable rt w" "escrows w k = Some es" "es_status es = ESCROW_STATUS_OPEN"
  shows "\<exists>vault. ledger w (vault_key rt es) = Some vault \<and> ta_owner vault = k
      \<and> es_amount es \<le> ta_amount vault"
proof -
  have "escrow_ok rt k es" by (rule reachable_escrows [OF assms(1-3)])
  then have "0 < escrow_due es" using assms(4) by (simp add: escrow_ok_def escrow_due_def word_less_nat_alt)
  with fundedD [of "escrow_vault_at rt" escrow_due "escrows w" "ledger w" k es]
    escrow_inv.inv_reachable [OF assms(1,2)] assms(3)
  obtain kv where "escrow_vault_at rt k es kv" "holds (ledger w) kv k (escrow_due es)" by blast
  with assms(4) show ?thesis
    by (auto simp: escrow_vault_at_def holds_def escrow_due_def vault_key_def word_le_nat_alt)
qed

text \<open>
  C1: Solvency of escrows.  In every reachable state every open escrow has, at its own vault
  address, a token account owned by the escrow that holds at least its amount, and different
  escrows have different vaults.
\<close>

theorem escrow_solvency:
  assumes "runtime_spec rt" "reachable rt w" "escrows w k = Some es" "es_status es = ESCROW_STATUS_OPEN"
  shows "(\<exists>vault. ledger w (vault_key rt es) = Some vault \<and> ta_owner vault = k
      \<and> es_amount es \<le> ta_amount vault)
    \<and> (\<forall>k' es'. escrows w k' = Some es' \<and> k' \<noteq> k \<longrightarrow> vault_key rt es' \<noteq> vault_key rt es)"
proof
  have pda: "pda_spec rt" using assms(1) by (simp add: runtime_spec_def)
  have ok: "escrow_ok rt k es" by (rule reachable_escrows [OF assms(1-3)])
  show "\<exists>vault. ledger w (vault_key rt es) = Some vault \<and> ta_owner vault = k
      \<and> es_amount es \<le> ta_amount vault" by (rule solvent [OF assms])
  show "\<forall>k' es'. escrows w k' = Some es' \<and> k' \<noteq> k \<longrightarrow> vault_key rt es' \<noteq> vault_key rt es"
  proof (intro allI impI notI, elim conjE)
    fix k' es' assume e': "escrows w k' = Some es'" "k' \<noteq> k" "vault_key rt es' = vault_key rt es"
    have ok': "escrow_ok rt k' es'" by (rule reachable_escrows [OF assms(1,2) e'(1)])
    have "es_escrow_id es' = es_escrow_id es"
      using pda_id_unique [OF pda] vault_pda(1) [OF assms(1) ok] vault_pda(1) [OF assms(1) ok'] e'(3)
      by metis
    with ok ok' e'(2) show False by (simp add: escrow_ok_def)
  qed
qed

text \<open>An immediate escrow of 30 from alice to bob.\<close>

definition ex_deal :: pubkey where
  "ex_deal = ex_pda (escrow_seeds 1)"

lemma ex_opened:
  "ex_check (\<lambda>w. map_option (\<lambda>es. (es_status es, es_amount es, es_payer es, es_payee es, es_escrow_id es))
       (escrows w ex_deal) = Some (ESCROW_STATUS_OPEN, 30, ex_alice, ex_bob, 1))
     (ex_run 1 [ex_open CONDITION_IMMEDIATE 5])"
  by code_simp

lemma ex_vault_key: "es_escrow_id es = 1 \<Longrightarrow> vault_key ex_rt es = ex_pda (escrow_vault_seeds 1)"
  by (simp add: vault_key_def ex_rt_def ex_pda_def)

theorem escrow_solvency_witness:
  "\<exists>w vault. reachable ex_rt w \<and> ledger w (ex_pda (escrow_vault_seeds 1)) = Some vault
     \<and> ta_owner vault = ex_deal \<and> 30 \<le> ta_amount vault"
proof -
  obtain w es where w: "reachable ex_rt w" "escrows w ex_deal = Some es" "es_status es = ESCROW_STATUS_OPEN"
    "es_amount es = 30" "es_escrow_id es = 1"
    using ex_runD [OF ex_opened] by auto
  from escrow_solvency [OF ex_runtime_spec w(1-3)] w ex_vault_key [OF w(5)] show ?thesis by auto
qed

subsection \<open>The contract of escrows\<close>

text \<open>
  C8: The program implements the escrow contract.  Whatever calls a run of the chain is made
  of, carrying out their requests one after the other on the book of deals succeeds and ends
  in the book of the final state.  So an escrow is opened only under a fresh number, with the
  payer's signature, a positive amount and two parties; it is paid out only when it is pending
  and, at the slot of the call, due for what was shown: before its expiry and against the
  committed 32 bytes where it is bound to a receipt, from its expiry on where it is a timeout;
  and it is closed without payment only by its payer's signed cancellation (withdrawn) or by
  another signer's after the expiry slot (lapsed).  No other call changes the book.
\<close>

theorem escrows_keep_contract:
  assumes "runtime_spec rt" "reachable rt w" "chain_trace rt w calls w'"
  shows "settle_all calls (book_of rt (escrows w)) = Some (book_of rt (escrows w'))"
  by (rule trace_settles [OF assms(3,1) escrow_inv.inv_reachable [OF assms(1,2)]])

lemma ex_release_run:
  "ex_check (\<lambda>w. ex_check (\<lambda>w'. map_option es_status (escrows w' ex_deal) = Some ESCROW_STATUS_RELEASED)
      (dispatch ex_rt (ex_tx 2) w (ReleaseEscrow ex_release_ctx 1 [])))
     (ex_run 1 [ex_open CONDITION_IMMEDIATE 5])"
  by code_simp

theorem escrows_keep_contract_witness:
  "\<exists>w w' d. reachable ex_rt w \<and> dispatch ex_rt (ex_tx 2) w (ReleaseEscrow ex_release_ctx 1 []) = Inr w'
     \<and> settle_all [(ex_tx 2, ReleaseEscrow ex_release_ctx 1 [])] (book_of ex_rt (escrows w))
         = Some (book_of ex_rt (escrows w'))
     \<and> book_of ex_rt (escrows w') 1 = Some d \<and> dl_phase d = Paid"
proof -
  obtain w w' es where w: "reachable ex_rt w" "escrows w' ex_deal = Some es"
    "es_status es = ESCROW_STATUS_RELEASED"
    "dispatch ex_rt (ex_tx 2) w (ReleaseEscrow ex_release_ctx 1 []) = Inr w'"
    using ex_runD [OF ex_release_run] by (auto simp del: dispatch.simps dest!: ex_checkD)
  have t: "chain_trace ex_rt w [(ex_tx 2, ReleaseEscrow ex_release_ctx 1 [])] w'"
    by (rule chain_trace.call [OF ex_tx_unsigned w(4) chain_trace.start])
  have "escrow_key ex_rt 1 = ex_deal" by (simp add: escrow_key_def ex_rt_def ex_pda_def ex_deal_def)
  then have b: "book_of ex_rt (escrows w') 1 = Some (deal_of es)" "dl_phase (deal_of es) = Paid"
    using w(2,3) by (simp_all add: book_of_def deal_of_def phase_of_def)
  from escrows_keep_contract [OF ex_runtime_spec w(1) t] w(1,4) b show ?thesis by blast
qed

text \<open>
  C10: An escrow settles at most once.  Once it is released, cancelled or expired, nothing of
  it ever changes again; and whatever happens before, its parties, amount, condition and
  expiry stay what they were when it was opened.
\<close>

theorem escrow_settles_once:
  assumes "runtime_spec rt" "chain_run rt w w'" "escrows w k = Some es"
  shows "(es_status es \<noteq> ESCROW_STATUS_OPEN \<longrightarrow> escrows w' k = Some es)
    \<and> (\<exists>es'. escrows w' k = Some es' \<and> es'\<lparr>es_status := es_status es\<rparr> = es)"
proof -
  have run: "(some_step escrow_step (escrow_opened rt))\<^sup>*\<^sup>* (escrows w) (escrows w')"
    by (rule chain_escrows [OF _ assms(2)]) (use assms(1) in \<open>simp add: runtime_spec_def\<close>)
  show ?thesis
    using escrow_life.run_frozen [OF run assms(3)] escrow_life.run_same [OF run assms(3)]
    unfolding same_deal_def by blast
qed

lemma ex_released:
  "ex_check (\<lambda>w. map_option es_status (escrows w ex_deal) = Some ESCROW_STATUS_RELEASED)
     (ex_run 1 [ex_open CONDITION_IMMEDIATE 5, ReleaseEscrow ex_release_ctx 1 []])"
  by code_simp

theorem escrow_settles_once_witness:
  "\<exists>w es. reachable ex_rt w \<and> escrows w ex_deal = Some es \<and> es_status es = ESCROW_STATUS_RELEASED
     \<and> (\<forall>w'. chain_run ex_rt w w' \<longrightarrow> escrows w' ex_deal = Some es)"
proof -
  obtain w es where w: "reachable ex_rt w" "escrows w ex_deal = Some es" "es_status es = ESCROW_STATUS_RELEASED"
    using ex_runD [OF ex_released] by auto
  from escrow_settles_once [OF ex_runtime_spec _ w(2)] w show ?thesis by auto
qed

lemma unreleasable_run:
  assumes "(some_step escrow_step (escrow_opened rt))\<^sup>*\<^sup>* S S'" "S k = Some es"
    "es_condition_type es = CONDITION_ORACLE \<or> es_condition_type es = CONDITION_MULTISIG"
    "es_status es \<noteq> ESCROW_STATUS_RELEASED"
  shows "\<exists>es'. S' k = Some es' \<and> es_condition_type es' = es_condition_type es
    \<and> es_status es' \<noteq> ESCROW_STATUS_RELEASED"
  using assms(1)
proof (induction rule: rtranclp_induct)
  case base
  with assms show ?case by blast
next
  case (step S1 S2)
  then obtain e1 where e1: "S1 k = Some e1" "es_condition_type e1 = es_condition_type es"
    "es_status e1 \<noteq> ESCROW_STATUS_RELEASED" by blast
  from step(2) obtain slot where "store_step escrow_step (escrow_opened rt) slot S1 S2"
    unfolding some_step_def ..
  then show ?case
    using e1 assms(3)
    by (cases rule: store_step.cases)
      (auto elim!: escrow_step_elim simp: releasable_def split: if_splits)
qed

text \<open>
  C30: Oracle and multisig escrows are never released.  An unreleased escrow bound to an
  oracle or to a multisig stays unreleased whatever is executed: \<^verbatim>\<open>release_escrow\<close> has no
  way to satisfy those conditions, and only the payer's cancellation or the expiry ends it.
\<close>

theorem oracle_never_released:
  assumes "runtime_spec rt" "chain_run rt w w'" "escrows w k = Some es"
    "es_condition_type es = CONDITION_ORACLE \<or> es_condition_type es = CONDITION_MULTISIG"
    "es_status es = ESCROW_STATUS_OPEN"
  shows "\<exists>es'. escrows w' k = Some es' \<and> es_status es' \<noteq> ESCROW_STATUS_RELEASED"
proof -
  have run: "(some_step escrow_step (escrow_opened rt))\<^sup>*\<^sup>* (escrows w) (escrows w')"
    by (rule chain_escrows [OF _ assms(2)]) (use assms(1) in \<open>simp add: runtime_spec_def\<close>)
  have "es_status es \<noteq> ESCROW_STATUS_RELEASED" using assms(5) by simp
  from unreleasable_run [OF run assms(3,4) this] show ?thesis by blast
qed

lemma ex_oracle:
  "ex_check (\<lambda>w. map_option (\<lambda>es. (es_status es, es_condition_type es)) (escrows w ex_deal)
       = Some (ESCROW_STATUS_OPEN, CONDITION_ORACLE)) (ex_run 1 [ex_open CONDITION_ORACLE 0])"
  by code_simp

theorem oracle_never_released_witness:
  "\<exists>w es. reachable ex_rt w \<and> escrows w ex_deal = Some es \<and> es_condition_type es = CONDITION_ORACLE
     \<and> (\<forall>w'. chain_run ex_rt w w' \<longrightarrow>
          (\<exists>es'. escrows w' ex_deal = Some es' \<and> es_status es' \<noteq> ESCROW_STATUS_RELEASED))"
proof -
  obtain w es where w: "reachable ex_rt w" "escrows w ex_deal = Some es" "es_status es = ESCROW_STATUS_OPEN"
    "es_condition_type es = CONDITION_ORACLE"
    using ex_runD [OF ex_oracle] by auto
  from oracle_never_released [OF ex_runtime_spec _ w(2)] w show ?thesis by blast
qed

subsection \<open>Release and cancellation\<close>

text \<open>
  The release condition, with its errors.  The expiry guard and the match on the
  condition type accept exactly the releasable escrows; otherwise the error is
  \<^verbatim>\<open>EscrowExpired\<close> for an escrow past its expiry that is not a timeout escrow, and
  \<^verbatim>\<open>EscrowConditionFailed\<close> in every other case.
\<close>

lemma release_condition_exact:
  "release_condition es slot witness =
     (if releasable es slot witness then Inr ()
      else if es_condition_type es \<noteq> CONDITION_TIMEOUT \<and> es_expiry_slot es \<noteq> 0 \<and> es_expiry_slot es < slot
      then err EscrowExpired else err EscrowConditionFailed)"
  by (auto simp: release_condition_def releasable_def not_less)

text \<open>
  C18: A release pays the payee exactly the amount, out of the escrow's vault.  On success the
  escrow was open and releasable and is now released; its vault has lost the amount, the
  payee's token account has gained it, no other token account and no other escrow has
  changed, and both reputations count the settlement.
\<close>

theorem release_pays_payee:
  assumes "token_transfer_spec rt" "release_escrow rt tx w c i witness = Inr w'"
    "re_escrow_vault c \<noteq> re_payee_token c"
  shows "\<exists>es vault tok p p' q q'. escrows w (re_escrow c) = Some es \<and> es_escrow_id es = i
     \<and> es_status es = ESCROW_STATUS_OPEN \<and> releasable es (tx_slot tx) witness
     \<and> escrows w' = (escrows w)(re_escrow c \<mapsto> es\<lparr>es_status := ESCROW_STATUS_RELEASED\<rparr>)
     \<and> ledger w (re_escrow_vault c) = Some vault \<and> ta_owner vault = re_escrow c
     \<and> ledger w (re_payee_token c) = Some tok \<and> ta_owner tok = es_payee es
     \<and> balance_of (ledger w') (re_escrow_vault c) + unat (es_amount es)
         = balance_of (ledger w) (re_escrow_vault c)
     \<and> balance_of (ledger w') (re_payee_token c)
         = balance_of (ledger w) (re_payee_token c) + unat (es_amount es)
     \<and> (\<forall>k. k \<noteq> re_escrow_vault c \<and> k \<noteq> re_payee_token c \<longrightarrow> ledger w' k = ledger w k)
     \<and> cris w (re_payer_cri c) = Some p \<and> cris w (re_payee_cri c) = Some q
     \<and> cris w' = (cris w)(re_payer_cri c \<mapsto> p', re_payee_cri c \<mapsto> q')
     \<and> unat (cri_successful_commitments p') = unat (cri_successful_commitments p) + 1
     \<and> unat (cri_successful_settlements q') = unat (cri_successful_settlements q) + 1"
  using assms(2)
proof (rule release_escrow_ok)
  fix es vault tok pc qc l pc' qc' and m :: mint
  assume h: "escrows w (re_escrow c) = Some es" "es_status es = ESCROW_STATUS_OPEN" "es_escrow_id es = i"
    "releasable es (tx_slot tx) witness"
    "ledger w (re_escrow_vault c) = Some vault" "ledger w (re_payee_token c) = Some tok"
    "ta_owner tok = es_payee es"
    "cris w (re_payer_cri c) = Some pc" "cris w (re_payee_cri c) = Some qc"
    and t: "rt_tok_transfer rt (re_token_program c)
       \<lparr>tc_from = re_escrow_vault c, tc_mint = re_aeon_mint c, tc_to = re_payee_token c,
        tc_authority = re_escrow c\<rparr> True (es_amount es) (mint_decimals m) (mints w) (ledger w) = Inr l"
    and cri: "cri_commit (es_amount es) (tx_slot tx) pc = Inr pc'"
      "cri_settle (es_amount es) (tx_slot tx) qc = Inr qc'"
    and w': "w' = put cris_update (re_payee_cri c) qc' (put cris_update (re_payer_cri c) pc'
       (put escrows_update (re_escrow c) (es\<lparr>es_status := ESCROW_STATUS_RELEASED\<rparr>)
         (fold log_event [EscrowReleasedEv i (es_payee es) (es_amount es),
            cri_event (es_payer es) pc', cri_event (es_payee es) qc'] (w\<lparr>ledger := l\<rparr>))))"
  note moved = transferredD(2) [OF assms(1) t]
  have owner: "ta_owner vault = re_escrow c" using moved h(5) by (auto simp: transferred_def)
  have others: "\<forall>k. k \<noteq> re_escrow_vault c \<and> k \<noteq> re_payee_token c \<longrightarrow> l k = ledger w k"
    using transferred_balance(3) [OF moved] assms(3) by auto
  have fields: "ledger w' = l" "escrows w' = (escrows w)(re_escrow c \<mapsto> es\<lparr>es_status := ESCROW_STATUS_RELEASED\<rparr>)"
    "cris w' = (cris w)(re_payer_cri c \<mapsto> pc', re_payee_cri c \<mapsto> qc')"
    unfolding w' by (simp_all only: world_frame fold_log_event_frame) simp_all
  show ?thesis
    using h owner others fields transferred_balance(1,2) [OF moved] assms(3)
      cri_commit_ok(2) [OF cri(1)] cri_settle_ok(2) [OF cri(2)]
    by (intro exI [of _ es] exI [of _ vault] exI [of _ tok] exI [of _ pc] exI [of _ pc']
        exI [of _ qc] exI [of _ qc']) simp
qed

theorem release_pays_payee_witness:
  "\<exists>w w'. reachable ex_rt w \<and> release_escrow ex_rt (ex_tx 2) w ex_release_ctx 1 [] = Inr w'
     \<and> balance_of (ledger w') ex_bob_wallet > balance_of (ledger w) ex_bob_wallet
     \<and> map_option es_status (escrows w' ex_deal) = Some ESCROW_STATUS_RELEASED"
proof -
  obtain w w' where w: "reachable ex_rt w" "release_escrow ex_rt (ex_tx 2) w ex_release_ctx 1 [] = Inr w'"
    using ex_runD [OF ex_release_run] by (auto dest!: ex_checkD)
  have c: "re_escrow_vault ex_release_ctx \<noteq> re_payee_token ex_release_ctx"
    "re_payee_token ex_release_ctx = ex_bob_wallet" "re_escrow ex_release_ctx = ex_deal"
    by (simp_all add: ex_release_ctx_def ex_pda_def ex_keys ex_deal_def)
  from release_pays_payee [OF token_spec_transfer [OF ex_token_spec] w(2) c(1)]
  obtain es where es: "escrows w ex_deal = Some es"
    "escrows w' = (escrows w)(ex_deal \<mapsto> es\<lparr>es_status := ESCROW_STATUS_RELEASED\<rparr>)"
    "balance_of (ledger w') ex_bob_wallet = balance_of (ledger w) ex_bob_wallet + unat (es_amount es)"
    unfolding c by blast
  have "0 < unat (es_amount es)"
    using reachable_escrows [OF ex_runtime_spec w(1) es(1)] by (simp add: escrow_ok_def word_less_nat_alt)
  with es w show ?thesis by (intro exI [of _ w] exI [of _ w']) simp
qed

text \<open>What a cancellation does to the escrow, the balances and the reputation.\<close>

lemma cancel_effect:
  assumes "token_transfer_spec rt" "cancel_escrow rt tx w c i = Inr w'"
    "cx_escrow_vault c \<noteq> cx_payer_token c"
  shows "\<exists>es tok p p'. escrows w (cx_escrow c) = Some es \<and> es_status es = ESCROW_STATUS_OPEN
     \<and> tx_signer tx (cx_canceller c)
     \<and> (cx_canceller c = es_payer es \<or> es_expiry_slot es \<noteq> 0 \<and> es_expiry_slot es < tx_slot tx)
     \<and> escrows w' = (escrows w)(cx_escrow c \<mapsto> es\<lparr>es_status :=
         (if cx_canceller c = es_payer es then ESCROW_STATUS_CANCELLED else ESCROW_STATUS_EXPIRED)\<rparr>)
     \<and> ledger w (cx_payer_token c) = Some tok \<and> ta_owner tok = es_payer es
     \<and> balance_of (ledger w') (cx_escrow_vault c) + unat (es_amount es)
         = balance_of (ledger w) (cx_escrow_vault c)
     \<and> balance_of (ledger w') (cx_payer_token c)
         = balance_of (ledger w) (cx_payer_token c) + unat (es_amount es)
     \<and> (\<forall>k. k \<noteq> cx_escrow_vault c \<and> k \<noteq> cx_payer_token c \<longrightarrow> ledger w' k = ledger w k)
     \<and> cris w (cx_payer_cri c) = Some p \<and> cris w' = (cris w)(cx_payer_cri c \<mapsto> p')
     \<and> unat (cri_failed_commitments p') = unat (cri_failed_commitments p) + 1"
  using assms(2)
proof (rule cancel_escrow_ok)
  fix es tok pc n l and m :: mint
  assume h: "escrows w (cx_escrow c) = Some es" "es_status es = ESCROW_STATUS_OPEN"
    "tx_signer tx (cx_canceller c)"
    "cx_canceller c = es_payer es \<or> es_expiry_slot es \<noteq> 0 \<and> es_expiry_slot es < tx_slot tx"
    "ledger w (cx_payer_token c) = Some tok" "ta_owner tok = es_payer es"
    "cris w (cx_payer_cri c) = Some pc" "unat n = unat (cri_failed_commitments pc) + 1"
    and t: "rt_tok_transfer rt (cx_token_program c)
       \<lparr>tc_from = cx_escrow_vault c, tc_mint = cx_aeon_mint c, tc_to = cx_payer_token c,
        tc_authority = cx_escrow c\<rparr> True (es_amount es) (mint_decimals m) (mints w) (ledger w) = Inr l"
    and w': "w' = put cris_update (cx_payer_cri c)
         (pc\<lparr>cri_failed_commitments := n, cri_last_active_slot := tx_slot tx\<rparr>)
       (put escrows_update (cx_escrow c) (es\<lparr>es_status := (if (es_expiry_slot es \<noteq> 0 \<and> es_expiry_slot es < tx_slot tx)
           \<and> cx_canceller c \<noteq> es_payer es then ESCROW_STATUS_EXPIRED else ESCROW_STATUS_CANCELLED)\<rparr>)
         (log_event (EscrowCancelledEv i (es_payer es) (es_amount es)) (w\<lparr>ledger := l\<rparr>)))"
  note moved = transferredD(2) [OF assms(1) t]
  have others: "\<forall>k. k \<noteq> cx_escrow_vault c \<and> k \<noteq> cx_payer_token c \<longrightarrow> l k = ledger w k"
    using transferred_balance(3) [OF moved] assms(3) by auto
  have fields: "ledger w' = l" "cris w' = (cris w)(cx_payer_cri c \<mapsto>
      pc\<lparr>cri_failed_commitments := n, cri_last_active_slot := tx_slot tx\<rparr>)"
    "escrows w' = (escrows w)(cx_escrow c \<mapsto> es\<lparr>es_status :=
         (if cx_canceller c = es_payer es then ESCROW_STATUS_CANCELLED else ESCROW_STATUS_EXPIRED)\<rparr>)"
    using h(4) by (auto simp: w' world_frame)
  show ?thesis
    using h others fields transferred_balance(1,2) [OF moved] assms(3)
    by (intro exI [of _ es] exI [of _ tok] exI [of _ pc]
        exI [of _ "pc\<lparr>cri_failed_commitments := n, cri_last_active_slot := tx_slot tx\<rparr>"]) simp
qed

text \<open>
  C19: Only the payer or the passed expiry cancels, and the payer is repaid exactly.  On
  success the escrow was open, its vault has lost the amount and the payer's token account
  has gained it, nobody else's has changed; the escrow is cancelled, or expired when someone
  else than the payer closed it, and the payer's record shows one more failed commitment.
\<close>

theorem cancel_repays_payer:
  assumes "token_transfer_spec rt" "cancel_escrow rt tx w c i = Inr w'"
    "cx_escrow_vault c \<noteq> cx_payer_token c"
  shows "\<exists>es tok p p'. escrows w (cx_escrow c) = Some es \<and> es_status es = ESCROW_STATUS_OPEN
     \<and> tx_signer tx (cx_canceller c)
     \<and> (cx_canceller c = es_payer es \<or> es_expiry_slot es \<noteq> 0 \<and> es_expiry_slot es < tx_slot tx)
     \<and> escrows w' = (escrows w)(cx_escrow c \<mapsto> es\<lparr>es_status :=
         (if cx_canceller c = es_payer es then ESCROW_STATUS_CANCELLED else ESCROW_STATUS_EXPIRED)\<rparr>)
     \<and> ledger w (cx_payer_token c) = Some tok \<and> ta_owner tok = es_payer es
     \<and> balance_of (ledger w') (cx_escrow_vault c) + unat (es_amount es)
         = balance_of (ledger w) (cx_escrow_vault c)
     \<and> balance_of (ledger w') (cx_payer_token c)
         = balance_of (ledger w) (cx_payer_token c) + unat (es_amount es)
     \<and> (\<forall>k. k \<noteq> cx_escrow_vault c \<and> k \<noteq> cx_payer_token c \<longrightarrow> ledger w' k = ledger w k)
     \<and> cris w (cx_payer_cri c) = Some p \<and> cris w' = (cris w)(cx_payer_cri c \<mapsto> p')
     \<and> unat (cri_failed_commitments p') = unat (cri_failed_commitments p) + 1"
  by (rule cancel_effect [OF assms])

lemma ex_cancel_run:
  "ex_check (\<lambda>w. ex_check (\<lambda>w'. True) (cancel_escrow ex_rt (ex_tx 2) w ex_cancel_ctx 1))
     (ex_run 1 [ex_open CONDITION_RECEIPT 5])"
  by code_simp

theorem cancel_repays_payer_witness:
  "\<exists>w w' es. reachable ex_rt w \<and> cancel_escrow ex_rt (ex_tx 2) w ex_cancel_ctx 1 = Inr w'
     \<and> escrows w ex_deal = Some es
     \<and> balance_of (ledger w') ex_alice_wallet
         = balance_of (ledger w) ex_alice_wallet + unat (es_amount es)"
proof -
  obtain w w' where w: "reachable ex_rt w" "cancel_escrow ex_rt (ex_tx 2) w ex_cancel_ctx 1 = Inr w'"
    using ex_runD [OF ex_cancel_run] by (auto dest!: ex_checkD)
  have c: "cx_escrow_vault ex_cancel_ctx \<noteq> cx_payer_token ex_cancel_ctx"
    "cx_payer_token ex_cancel_ctx = ex_alice_wallet" "cx_escrow ex_cancel_ctx = ex_deal"
    by (simp_all add: ex_cancel_ctx_def ex_pda_def ex_keys ex_deal_def)
  from cancel_repays_payer [OF token_spec_transfer [OF ex_token_spec] w(2) c(1)] w
  show ?thesis unfolding c by blast
qed

text \<open>
  C9: The payer can always get an open escrow back.  In every reachable state, paused or
  not, whatever the condition and before or after the expiry, a cancellation signed by the
  payer of an open escrow, with a token account of the payer of the vault's mint that can
  take the amount and the payer's reputation account, succeeds, provided only that the token
  program executes valid transfers and the count of failed commitments is not at its
  maximum.  It repays the whole amount: that token account gains it, the vault loses it, no
  other token account changes, and the escrow is cancelled.
\<close>

theorem payer_can_always_cancel:
  assumes "runtime_spec rt" "token_transfer_live rt" "reachable rt w"
    and es: "escrows w (cx_escrow c) = Some es" "es_status es = ESCROW_STATUS_OPEN"
    and signed: "cx_canceller c = es_payer es" "tx_signer tx (es_payer es)"
    and vault: "cx_escrow_vault c = vault_key rt es" "ledger w (vault_key rt es) = Some vault"
      "ta_mint vault = cx_aeon_mint c" "mints w (cx_aeon_mint c) = Some m"
      "rt_is_token_program rt (cx_token_program c)"
    and tok: "ledger w (cx_payer_token c) = Some tok" "ta_owner tok = es_payer es"
      "ta_mint tok = cx_aeon_mint c" "cx_payer_token c \<noteq> vault_key rt es"
      "unat (ta_amount tok) + unat (es_amount es) < 2 ^ 64"
    and cri: "cris w (cx_payer_cri c) = Some p" "cri_account rt tx (cx_payer_cri c) p (es_payer es) = Inr ()"
      "unat (cri_failed_commitments p) + 1 < 2 ^ 64"
    and writable: "tx_writable tx (cx_escrow c)" "tx_writable tx (vault_key rt es)"
      "tx_writable tx (cx_payer_token c)"
  shows "\<exists>w'. cancel_escrow rt tx w c (es_escrow_id es) = Inr w'
     \<and> escrows w' = (escrows w)(cx_escrow c \<mapsto> es\<lparr>es_status := ESCROW_STATUS_CANCELLED\<rparr>)
     \<and> balance_of (ledger w') (cx_payer_token c)
         = balance_of (ledger w) (cx_payer_token c) + unat (es_amount es)
     \<and> balance_of (ledger w') (vault_key rt es) + unat (es_amount es)
         = balance_of (ledger w) (vault_key rt es)
     \<and> (\<forall>k. k \<noteq> vault_key rt es \<and> k \<noteq> cx_payer_token c \<longrightarrow> ledger w' k = ledger w k)"
proof -
  have ok: "escrow_ok rt (cx_escrow c) es" by (rule reachable_escrows [OF assms(1,3) es(1)])
  note pda = vault_pda [OF assms(1) ok]
  from solvent [OF assms(1,3) es] vault(2) have v: "ta_owner vault = cx_escrow c" "es_amount es \<le> ta_amount vault"
    by auto
  let ?accs = "\<lparr>tc_from = vault_key rt es, tc_mint = cx_aeon_mint c, tc_to = cx_payer_token c,
        tc_authority = cx_escrow c\<rparr>"
  obtain l where l: "rt_tok_transfer rt (cx_token_program c) ?accs True (es_amount es) (mint_decimals m)
      (mints w) (ledger w) = Inr l"
    using assms(2) vault(2-5) tok v unfolding token_transfer_live_def
    by (metis (no_types, lifting) transfer_accs.select_convs)
  obtain n where n: "checked_add (cri_failed_commitments p) 1 = Some n"
    using cri(3) by (simp add: checked_add_def)
  have accounts: "cancel_escrow_accounts rt tx w c (es_escrow_id es) = Inr (es, vault, p, m)"
    using es signed vault tok cri writable pda
    by (simp add: cancel_escrow_accounts_def load_def load_ext_def escrow_accounts_def wallet_def)
  have "cpi_transfer rt (cx_token_program c) ?accs True (es_amount es) (mint_decimals m) w = Inr (w\<lparr>ledger := l\<rparr>)"
    using l by (simp add: cpi_transfer_def)
  with accounts es(2) signed(1) vault(1,3) n pda
  have "\<exists>w'. cancel_escrow rt tx w c (es_escrow_id es) = Inr w'" by (simp add: cancel_escrow_def Let_def)
  then obtain w' where w': "cancel_escrow rt tx w c (es_escrow_id es) = Inr w'" ..
  have spec: "token_transfer_spec rt" and ne: "cx_escrow_vault c \<noteq> cx_payer_token c"
    using assms(1) vault(1) tok(4) by (auto simp: runtime_spec_def intro: token_spec_transfer)
  from cancel_effect [OF spec w' ne] es(1) signed(1) vault(1) w' show ?thesis by auto
qed

text \<open>A receipt escrow, cancelled by its payer without the receipt.\<close>

lemma ex_cancellable:
  "ex_check (\<lambda>w. map_option (\<lambda>es. (es_status es, es_payer es, es_escrow_id es, es_amount es)) (escrows w ex_deal)
       = Some (ESCROW_STATUS_OPEN, ex_alice, 1, 30)
     \<and> map_option ta_mint (ledger w (ex_pda (escrow_vault_seeds 1))) = Some ex_mint
     \<and> mints w ex_mint \<noteq> None
     \<and> ledger w ex_alice_wallet = Some \<lparr>ta_owner = ex_alice, ta_mint = ex_mint, ta_amount = 970\<rparr>
     \<and> map_option (\<lambda>p. (cri_agent p, cri_bump p, cri_failed_commitments p))
         (cris w (ex_pda (cri_seeds ex_alice))) = Some (ex_alice, 255, 0))
     (ex_run 1 [ex_open CONDITION_RECEIPT 5])"
  by code_simp

theorem payer_can_always_cancel_witness:
  "\<exists>w w' es. reachable ex_rt w \<and> escrows w ex_deal = Some es \<and> es_status es = ESCROW_STATUS_OPEN
     \<and> cancel_escrow ex_rt (ex_tx 2) w ex_cancel_ctx 1 = Inr w'
     \<and> balance_of (ledger w') ex_alice_wallet = balance_of (ledger w) ex_alice_wallet + 30
     \<and> map_option es_status (escrows w' ex_deal) = Some ESCROW_STATUS_CANCELLED"
proof -
  obtain w es vault m p where w: "reachable ex_rt w" and es: "escrows w ex_deal = Some es"
    "es_status es = ESCROW_STATUS_OPEN" "es_payer es = ex_alice" "es_escrow_id es = 1" "es_amount es = 30"
    and v: "ledger w (ex_pda (escrow_vault_seeds 1)) = Some vault" "ta_mint vault = ex_mint" "mints w ex_mint = Some m"
    and tok: "ledger w ex_alice_wallet = Some \<lparr>ta_owner = ex_alice, ta_mint = ex_mint, ta_amount = 970\<rparr>"
    and p: "cris w (ex_pda (cri_seeds ex_alice)) = Some p" "cri_agent p = ex_alice" "cri_bump p = 255"
      "cri_failed_commitments p = 0"
    using ex_runD [OF ex_cancellable] by auto
  note key = ex_vault_key [OF es(4)]
  have c: "cx_escrow ex_cancel_ctx = ex_deal" "cx_canceller ex_cancel_ctx = ex_alice"
    "cx_escrow_vault ex_cancel_ctx = ex_pda (escrow_vault_seeds 1)" "cx_aeon_mint ex_cancel_ctx = ex_mint"
    "cx_token_program ex_cancel_ctx = [9]" "cx_payer_token ex_cancel_ctx = ex_alice_wallet"
    "cx_payer_cri ex_cancel_ctx = ex_pda (cri_seeds ex_alice)" "tx_signer (ex_tx 2) ex_alice"
    "tx_writable (ex_tx 2) k" "rt_is_token_program ex_rt [9]"
    "ex_alice_wallet \<noteq> ex_pda (escrow_vault_seeds 1)" for k
    by (simp_all add: ex_cancel_ctx_def ex_deal_def ex_tx_def ex_rt_def ex_pda_def ex_keys)
  have a: "cri_account ex_rt (ex_tx 2) (ex_pda (cri_seeds ex_alice)) p ex_alice = Inr ()"
    using p c by (simp add: cri_account_def pda_at_def ex_rt_def ex_pda_def)
  have "\<exists>w'. cancel_escrow ex_rt (ex_tx 2) w ex_cancel_ctx (es_escrow_id es) = Inr w'
     \<and> escrows w' = (escrows w)(cx_escrow ex_cancel_ctx \<mapsto> es\<lparr>es_status := ESCROW_STATUS_CANCELLED\<rparr>)
     \<and> balance_of (ledger w') (cx_payer_token ex_cancel_ctx)
         = balance_of (ledger w) (cx_payer_token ex_cancel_ctx) + unat (es_amount es)
     \<and> balance_of (ledger w') (vault_key ex_rt es) + unat (es_amount es)
         = balance_of (ledger w) (vault_key ex_rt es)
     \<and> (\<forall>k. k \<noteq> vault_key ex_rt es \<and> k \<noteq> cx_payer_token ex_cancel_ctx \<longrightarrow> ledger w' k = ledger w k)"
    by (rule payer_can_always_cancel [OF ex_runtime_spec ex_token_live w, where vault = vault and m = m
        and p = p and tok = "\<lparr>ta_owner = ex_alice, ta_mint = ex_mint, ta_amount = 970\<rparr>"])
      (use es v tok p a c key in simp_all)
  then obtain w' where "cancel_escrow ex_rt (ex_tx 2) w ex_cancel_ctx 1 = Inr w'"
    "escrows w' = (escrows w)(ex_deal \<mapsto> es\<lparr>es_status := ESCROW_STATUS_CANCELLED\<rparr>)"
    "balance_of (ledger w') ex_alice_wallet = balance_of (ledger w) ex_alice_wallet + 30"
    unfolding c es(4) by (auto simp: es(5))
  with w es show ?thesis by auto
qed

text \<open>What opening an escrow does to the balances and to the authority.\<close>

lemma create_effect:
  assumes "token_spec rt" "create_escrow rt tx w c i amount aid category ctype cdata expiry = Inr w1"
  shows "ce_payer_token c \<noteq> ce_escrow_vault c \<and> ledger w (ce_escrow_vault c) = None
    \<and> balance_of (ledger w1) (ce_payer_token c) + unat amount = balance_of (ledger w) (ce_payer_token c)
    \<and> balance_of (ledger w1) (ce_escrow_vault c) = unat amount
    \<and> (\<forall>k. k \<noteq> ce_payer_token c \<and> k \<noteq> ce_escrow_vault c \<longrightarrow> ledger w1 k = ledger w k)
    \<and> map_option es_amount (escrows w1 (ce_escrow c)) = Some amount
    \<and> (aid \<noteq> 0 \<longrightarrow> (\<exists>k a a'. ce_authority c = Some k \<and> authorities w k = Some a
         \<and> authorities w1 = (authorities w)(k \<mapsto> a')
         \<and> unat (au_spent a') = unat (au_spent a) + unat amount))"
  using assms(2)
proof (rule create_escrow_ok)
  fix cfg au eb vb l1 pt commit l2 au' and m :: mint
  assume h: "load_opt authorities w (ce_authority c) = Inr au" "ledger w (ce_payer_token c) = Some pt"
    "escrow_gate rt (tx_slot tx) c category (ta_amount pt) au aid amount = Inr commit"
    "commit_spent au commit = Inr au'"
    and init: "rt_tok_init rt (ce_token_program c) (ce_escrow_vault c) (ce_aeon_mint c) (ce_escrow c)
       (mints w) (ledger w) = Inr l1"
    and t: "rt_tok_transfer rt (ce_token_program c)
       \<lparr>tc_from = ce_payer_token c, tc_mint = ce_aeon_mint c, tc_to = ce_escrow_vault c,
        tc_authority = ce_payer c\<rparr> True amount (mint_decimals m) (mints w) l1 = Inr l2"
    and w1: "w1 = put escrows_update (ce_escrow c)
            (new_escrow i (ce_payer c) (ce_payee c) amount aid category ctype cdata
               (tx_slot tx) expiry vb eb)
           (put_opt authorities_update (ce_authority c) au'
             (put configs_update (ce_config c) (cfg\<lparr>cfg_escrow_counter := i\<rparr>)
               (log_event (EscrowCreatedEv i (ce_payer c) (ce_payee c) amount)
                 (w\<lparr>ledger := l2\<rparr>))))"
  note new = keeps_init(2,3) [OF assms(1) init]
  note moved = transferredD(2) [OF token_spec_transfer [OF assms(1)] t]
  have ne: "ce_payer_token c \<noteq> ce_escrow_vault c" using h(2) new(1) by auto
  have fields: "ledger w1 = l2" "escrows w1 (ce_escrow c) = Some (new_escrow i (ce_payer c) (ce_payee c) amount aid
      category ctype cdata (tx_slot tx) expiry vb eb)"
    "authorities w1 = authorities (put_opt authorities_update (ce_authority c) au' w)"
    by (auto simp: w1 world_frame put_opt_def split: option.splits)
  let ?x = "(rt, tx_slot tx, c, category, ta_amount pt)"
  have gate: "(case ?x of (rt, slot, c, category, pre) \<Rightarrow> escrow_gate rt slot c category pre) au aid amount
      = Inr commit" using h(3) by simp
  have charged: "\<exists>k a a'. ce_authority c = Some k \<and> authorities w k = Some a
         \<and> authorities w1 = (authorities w)(k \<mapsto> a')
         \<and> unat (au_spent a') = unat (au_spent a) + unat amount" if "aid \<noteq> 0"
    using gate h(4)
  proof (cases rule: escrow_gates.gated_spend)
    case free
    with that show ?thesis by simp
  next
    case (scoped a n)
    with h(1) obtain k where "ce_authority c = Some k" "authorities w k = Some a" by (auto simp: ok_simps)
    with scoped fields(3) show ?thesis by (auto simp: put_opt_def put_def)
  qed
  have "l2 k = ledger w k" if "k \<noteq> ce_payer_token c" "k \<noteq> ce_escrow_vault c" for k
    using transferred_balance(3) [OF moved] ne that new(2) by simp
  with fields(1,2) charged ne new transferred_balance(1,2) [OF moved] show ?thesis
    by (auto simp: new_escrow_def balance_of_def)
qed

text \<open>
  C20: Opening an escrow and cancelling it is a round trip for tokens, not for the authority.
  If an escrow is created and then cancelled into the token account it was paid from, every
  token account is back at its balance and the vault is empty; but the authority it was
  created under stays charged with the amount.
\<close>

theorem escrow_cancel_roundtrip:
  assumes "token_spec rt" "create_escrow rt tx w c i amount aid category ctype cdata expiry = Inr w1"
    "cancel_escrow rt tx' w1 d i = Inr w2" "cx_escrow d = ce_escrow c"
    "cx_escrow_vault d = ce_escrow_vault c" "cx_payer_token d = ce_payer_token c"
  shows "(\<forall>k. balance_of (ledger w2) k = balance_of (ledger w) k)
    \<and> (aid \<noteq> 0 \<longrightarrow> (\<exists>k a a'. ce_authority c = Some k \<and> authorities w k = Some a
         \<and> authorities w2 k = Some a' \<and> unat (au_spent a') = unat (au_spent a) + unat amount))"
proof -
  note c = create_effect [OF assms(1,2)]
  then have "cx_escrow_vault d \<noteq> cx_payer_token d" unfolding assms(5,6) by metis
  from cancel_effect [OF token_spec_transfer [OF assms(1)] assms(3) this] c
  have "balance_of (ledger w2) (ce_escrow_vault c) + unat amount = balance_of (ledger w1) (ce_escrow_vault c)"
    "balance_of (ledger w2) (ce_payer_token c) = balance_of (ledger w1) (ce_payer_token c) + unat amount"
    "\<And>k. k \<noteq> ce_escrow_vault c \<Longrightarrow> k \<noteq> ce_payer_token c \<Longrightarrow> ledger w2 k = ledger w1 k"
    unfolding assms(4-6) by auto
  with c have bal: "balance_of (ledger w2) k = balance_of (ledger w) k" for k
    by (cases "k = ce_escrow_vault c"; cases "k = ce_payer_token c") (auto simp: balance_of_def)
  have "authorities w2 = authorities w1" using cancel_escrow_frame [OF assms(3)] by simp
  with bal c show ?thesis by auto
qed

definition ex_scoped_ctx :: create_escrow_ctx where
  "ex_scoped_ctx = ex_escrow_ctx\<lparr>ce_authority := Some (ex_pda (authority_seeds 1))\<rparr>"

lemma ex_roundtrip_run:
  "ex_check (\<lambda>w. ex_check (\<lambda>w1. ex_check (\<lambda>w2. True) (cancel_escrow ex_rt (ex_tx 3) w1 ex_cancel_ctx 1))
       (create_escrow ex_rt (ex_tx 2) w ex_scoped_ctx 1 30 1 ex_category CONDITION_TIMEOUT [] 9))
     (ex_run 1 [ex_issue])"
  by code_simp

theorem escrow_cancel_roundtrip_witness:
  "\<exists>w w1 w2 a a'. reachable ex_rt w
     \<and> create_escrow ex_rt (ex_tx 2) w ex_scoped_ctx 1 30 1 ex_category CONDITION_TIMEOUT [] 9 = Inr w1
     \<and> cancel_escrow ex_rt (ex_tx 3) w1 ex_cancel_ctx 1 = Inr w2
     \<and> balance_of (ledger w2) ex_alice_wallet = balance_of (ledger w) ex_alice_wallet
     \<and> authorities w (ex_pda (authority_seeds 1)) = Some a
     \<and> authorities w2 (ex_pda (authority_seeds 1)) = Some a'
     \<and> unat (au_spent a') = unat (au_spent a) + 30"
proof -
  obtain w w1 w2 where w: "reachable ex_rt w"
    "create_escrow ex_rt (ex_tx 2) w ex_scoped_ctx 1 30 1 ex_category CONDITION_TIMEOUT [] 9 = Inr w1"
    "cancel_escrow ex_rt (ex_tx 3) w1 ex_cancel_ctx 1 = Inr w2"
    using ex_runD [OF ex_roundtrip_run] by (blast dest: ex_checkD)
  have c: "cx_escrow ex_cancel_ctx = ce_escrow ex_scoped_ctx"
    "cx_escrow_vault ex_cancel_ctx = ce_escrow_vault ex_scoped_ctx"
    "cx_payer_token ex_cancel_ctx = ce_payer_token ex_scoped_ctx"
    "ce_authority ex_scoped_ctx = Some (ex_pda (authority_seeds 1))"
    by (simp_all add: ex_cancel_ctx_def ex_scoped_ctx_def ex_escrow_ctx_def)
  have "(1 :: u64) \<noteq> 0" "unat (30 :: u64) = 30" by simp_all
  with escrow_cancel_roundtrip [OF ex_token_spec w(2,3) c(1-3)] c(4) w show ?thesis by fastforce
qed

end
