(* ===== verification/Org_Properties.thy ===== *)
theory Org_Properties
  imports Aeon_Example
begin

text \<open>
  What the development shows of organizations: the share ledger is the sum of the members'
  shares, only an admin of the same organization acts for it, a closed organization stays
  closed, payouts are rounded down and never exceed the treasury, and what dissolving does
  and does not guarantee to the members.
\<close>

subsection \<open>The share ledger\<close>

text \<open>
  C5: The share ledger is exact.  In every reachable state an organization's
  \<^verbatim>\<open>total_share_bps\<close> is the sum of the shares of its member accounts, at most 10000, and its
  \<^verbatim>\<open>member_count\<close> is their number.
\<close>

theorem share_ledger:
  assumes "runtime_spec rt" "reachable rt w" "orgs w k = Some g"
  shows "unat (org_total_share_bps g) = org_shares (members w) (org_org_id g)
    \<and> org_shares (members w) (org_org_id g) \<le> 10000
    \<and> unat (org_member_count g) = card (members_of (members w) (org_org_id g))"
proof -
  note ok = directory_inv.inv_reachable [OF assms(1,2)]
  from directory_okD(2) [OF ok assms(3)] have "org_total_share_bps g \<le> 10000" by (simp add: org_ok_def)
  with directory_okD(3,4) [OF ok assms(3)] show ?thesis by (simp add: word_le_nat_alt)
qed

definition ex_org :: pubkey where
  "ex_org = ex_pda (org_seeds 1)"

definition ex_treasury :: pubkey where
  "ex_treasury = ex_pda (org_treasury_seeds 1)"

text \<open>Alice with 3000 basis points, bob joining with 4000 and raised to 5000.\<close>

definition ex_shared :: "instruction list" where
  "ex_shared = [ex_create_org, JoinOrg ex_join_ctx 1 ROLE_MEMBER 4000, SetMemberShare ex_share_ctx 1 5000]"

lemma ex_shared_run:
  "ex_check (\<lambda>w. map_option (\<lambda>g. (org_total_share_bps g, org_member_count g, org_org_id g, org_status g))
       (orgs w ex_org) = Some (8000, 2, 1, ORG_STATUS_ACTIVE)) (ex_run 1 ex_shared)"
  by code_simp

theorem share_ledger_witness:
  "\<exists>w g. reachable ex_rt w \<and> orgs w ex_org = Some g \<and> org_shares (members w) 1 = 8000
     \<and> card (members_of (members w) 1) = 2"
proof -
  obtain w g where w: "reachable ex_rt w" "orgs w ex_org = Some g" and g: "org_total_share_bps g = 8000"
    "org_member_count g = 2" "org_org_id g = 1"
    using ex_runD [OF ex_shared_run] by auto
  from share_ledger [OF ex_runtime_spec w] g w show ?thesis by auto
qed

subsection \<open>Who acts for an organization\<close>

text \<open>
  The instructions an admin makes for an organization: the signer, the membership it shows,
  and the organization's id.
\<close>

fun admin_call :: "instruction \<Rightarrow> (pubkey \<times> pubkey \<times> u64) option" where
  "admin_call (JoinOrg c i role share) = Some (jo_admin c, jo_admin_member c, i)"
| "admin_call (SetMemberShare c i share) = Some (sm_admin c, sm_admin_member c, i)"
| "admin_call (OrgSplit c i amounts) = Some (os_admin c, os_admin_member c, i)"
| "admin_call (DissolveOrg c i) = Some (di_admin c, di_admin_member c, i)"
| "admin_call _ = None"

lemma admin_call_member:
  assumes "dispatch rt tx w ins = Inr w'" "admin_call ins = Some (k, km, i)"
  shows "tx_signer tx k \<and> (\<exists>m. members w km = Some m \<and> om_agent m = k \<and> om_role m = ROLE_ADMIN
    \<and> pda_at rt (org_member_seeds i k) (om_bump m) km)"
  using assms
  by (cases ins) (auto elim!: join_org_ok set_member_share_ok org_split_ok dissolve_org_ok)

text \<open>A membership at the address of an organization's member is of that organization.\<close>

lemma member_org_id:
  assumes "runtime_spec rt" "reachable rt w" "members w km = Some m"
    "pda_at rt (org_member_seeds i (om_agent m)) (om_bump m) km"
  shows "om_org_id m = i"
proof -
  have pda: "pda_spec rt" using assms(1) by (simp add: runtime_spec_def)
  from directory_okD(5) [OF directory_inv.inv_reachable [OF assms(1,2)] assms(3)]
  have "rt_find_pda rt (org_member_seeds (om_org_id m) (om_agent m)) = (km, om_bump m)"
    by (simp add: member_ok_def)
  from pda_at_seeds [OF pda pda_canonical [OF pda this] assms(4)] show ?thesis by simp
qed

text \<open>
  C16: Only an admin of the same organization acts for it.  Whenever a member is admitted, a
  share set, the treasury split or the organization dissolved, the transaction is signed by
  the holder of an admin membership of that very organization.  The handlers do not compare
  the membership's organization id; the address derivation does it for them.
\<close>

theorem admin_is_own_org:
  assumes "runtime_spec rt" "reachable rt w" "dispatch rt tx w ins = Inr w'"
    "admin_call ins = Some (k, km, i)"
  shows "tx_signer tx k \<and> (\<exists>m. members w km = Some m \<and> om_agent m = k \<and> om_role m = ROLE_ADMIN
    \<and> om_org_id m = i)"
proof -
  from admin_call_member [OF assms(3,4)] obtain m where "tx_signer tx k" "members w km = Some m"
    "om_agent m = k" "om_role m = ROLE_ADMIN" "pda_at rt (org_member_seeds i k) (om_bump m) km" by blast
  with member_org_id [OF assms(1,2), of km m i] show ?thesis by blast
qed

lemma ex_join_run:
  "ex_check (\<lambda>w. ex_check (\<lambda>w'. True) (dispatch ex_rt (ex_tx 2) w (JoinOrg ex_join_ctx 1 ROLE_MEMBER 4000)))
     (ex_run 1 [ex_create_org])"
  by code_simp

theorem admin_is_own_org_witness:
  "\<exists>w w' m. reachable ex_rt w
     \<and> dispatch ex_rt (ex_tx 2) w (JoinOrg ex_join_ctx 1 ROLE_MEMBER 4000) = Inr w'
     \<and> members w (jo_admin_member ex_join_ctx) = Some m \<and> om_org_id m = 1 \<and> om_role m = ROLE_ADMIN"
proof -
  obtain w w' where w: "reachable ex_rt w"
    "dispatch ex_rt (ex_tx 2) w (JoinOrg ex_join_ctx 1 ROLE_MEMBER 4000) = Inr w'"
    using ex_runD [OF ex_join_run] by (blast dest: ex_checkD)
  from admin_is_own_org [OF ex_runtime_spec w admin_call.simps(1)] w show ?thesis by blast
qed

subsection \<open>The life of an organization\<close>

definition directory_moves ::
    "runtime \<Rightarrow> org_map \<times> member_map \<Rightarrow> org_map \<times> member_map \<Rightarrow> bool" where
  "directory_moves rt = (\<lambda>(G, M) (G', M'). directory_step rt G M G' M')"

lemma chain_directory:
  assumes "runtime_spec rt" "chain_run rt w w'"
  shows "(directory_moves rt)\<^sup>*\<^sup>* (orgs w, members w) (orgs w', members w')"
  using chain_projection [OF assms(2), of "directory_moves rt" "\<lambda>w. (orgs w, members w)"]
    dispatch_directory assms(1)
  by (auto simp: directory_moves_def runtime_spec_def)

lemma directory_run:
  assumes "(directory_moves rt)\<^sup>*\<^sup>* (G, M) (G', M')"
  shows "(G k = Some g \<longrightarrow> (org_status g \<noteq> ORG_STATUS_ACTIVE \<longrightarrow> G' k = Some g)
      \<and> (\<exists>g'. G' k = Some g' \<and> org_org_id g' = org_org_id g \<and> org_creator g' = org_creator g))
    \<and> (M km = Some m \<longrightarrow> (\<exists>m'. M' km = Some m' \<and> om_org_id m' = om_org_id m
         \<and> om_agent m' = om_agent m \<and> om_role m' = om_role m))"
  using assms
proof (induction rule: rtranclp_induct2)
  case refl
  then show ?case by auto
next
  case (step G1 M1 G2 M2)
  from step(2) have s: "directory_step rt G1 M1 G2 M2" by (simp add: directory_moves_def)
  from step(3) directory_step_closed [OF s, of k] directory_step_terms [OF s, of k]
    directory_step_member [OF s, of km] show ?case by fastforce
qed

text \<open>
  C28: A closed organization stays closed.  Once dissolved, nothing of the organization's
  account changes again; and at any time its creator and id are those it was created with,
  and every member keeps its organization, agent and role.
\<close>

theorem org_closed_forever:
  assumes "runtime_spec rt" "chain_run rt w w'" "orgs w k = Some g" "members w km = Some m"
  shows "(org_status g \<noteq> ORG_STATUS_ACTIVE \<longrightarrow> orgs w' k = Some g)
    \<and> (\<exists>g'. orgs w' k = Some g' \<and> org_org_id g' = org_org_id g \<and> org_creator g' = org_creator g)
    \<and> (\<exists>m'. members w' km = Some m' \<and> om_org_id m' = om_org_id m \<and> om_agent m' = om_agent m
         \<and> om_role m' = om_role m)"
  using directory_run [OF chain_directory [OF assms(1,2)], of k g km m] assms(3,4) by blast

lemma ex_closed_run:
  "ex_check (\<lambda>w. map_option org_status (orgs w ex_org) = Some ORG_STATUS_CLOSED
      \<and> members w (ex_pda (org_member_seeds 1 ex_bob)) \<noteq> None)
     (ex_run 1 (ex_shared @ [ex_deposit 100, DissolveOrg (ex_dissolve_ctx None None) 1]))"
  by code_simp

theorem org_closed_forever_witness:
  "\<exists>w g. reachable ex_rt w \<and> orgs w ex_org = Some g \<and> org_status g = ORG_STATUS_CLOSED
     \<and> (\<forall>w'. chain_run ex_rt w w' \<longrightarrow> orgs w' ex_org = Some g)"
proof -
  obtain w g m where w: "reachable ex_rt w" "orgs w ex_org = Some g" "org_status g = ORG_STATUS_CLOSED"
    "members w (ex_pda (org_member_seeds 1 ex_bob)) = Some m"
    using ex_runD [OF ex_closed_run] by auto
  from org_closed_forever [OF ex_runtime_spec _ w(2,4)] w show ?thesis by auto
qed

subsection \<open>The treasury\<close>

text \<open>
  C29: Payouts are rounded down and total.  \<^verbatim>\<open>payout_share\<close> never fails, and for a share of at
  most 10000 basis points it is the floor of balance times share over 10000, so at most the
  balance; two shares that add up to at most 10000 are together at most the balance.
\<close>

theorem payout_share_exact:
  assumes "s1 \<le> 10000" "s2 \<le> 10000"
  shows "\<exists>r1 r2. payout_share b s1 = Inr r1 \<and> payout_share b s2 = Inr r2
    \<and> unat r1 = unat b * unat s1 div 10000 \<and> r1 \<le> b
    \<and> (unat s1 + unat s2 \<le> 10000 \<longrightarrow> unat r1 + unat r2 \<le> unat b)"
proof -
  have r: "payout_share b s1 = Inr (of_nat (unat b * unat s1 div 10000))"
    "payout_share b s2 = Inr (of_nat (unat b * unat s2 div 10000))" by (rule payout_share_eq)+
  from payout_share_floor [OF r(1) assms(1)] two_payouts [OF r] r show ?thesis by blast
qed

theorem payout_share_exact_witness:
  "\<exists>r1 r2. payout_share 101 3000 = Inr r1 \<and> payout_share 101 5000 = Inr r2
    \<and> unat r1 = 30 \<and> unat r1 + unat r2 \<le> 101"
  using payout_share_exact [of 3000 5000 101] by auto

text \<open>One payout of a dissolution, on the balances.\<close>

lemma pay_share_balance:
  assumes "token_transfer_spec rt" "pay_share rt tx i c g m dest amount (t, w) = Inr (t1, w1)"
    "di_org_treasury c \<noteq> dest"
  shows "unat t1 = unat t + unat amount"
    "balance_of (ledger w1) (di_org_treasury c) + unat amount = balance_of (ledger w) (di_org_treasury c)"
    "k \<noteq> di_org_treasury c \<Longrightarrow>
       balance_of (ledger w1) k = balance_of (ledger w) k + (if k = dest then unat amount else 0)"
proof -
  note ps = pay_share_ok [OF assms(2)]
  show "unat t1 = unat t + unat amount" by (rule ps(1))
  have "balance_of (ledger w1) (di_org_treasury c) + unat amount = balance_of (ledger w) (di_org_treasury c)
    \<and> (k \<noteq> di_org_treasury c \<longrightarrow>
       balance_of (ledger w1) k = balance_of (ledger w) k + (if k = dest then unat amount else 0))"
  proof (cases "amount = 0")
    case True
    with ps(3) show ?thesis by simp
  next
    case False
    with ps(2) obtain l where l: "rt_tok_transfer rt (di_token_program c)
           \<lparr>tc_from = di_org_treasury c, tc_mint = di_aeon_mint c, tc_to = dest,
            tc_authority = di_organization c\<rparr>
           (tx_signer tx (di_organization c) \<or> pda_at rt (org_seeds i) (org_bump g) (di_organization c))
           amount (mint_decimals m) (mints w) (ledger w) = Inr l" "w1 = w\<lparr>ledger := l\<rparr>"
      by (auto simp: word_gt_0)
    note moved = transferredD(2) [OF assms(1) l(1)]
    from transferred_balance [OF moved] assms(3) l(2) show ?thesis by (auto simp: balance_of_def)
  qed
  then show "balance_of (ledger w1) (di_org_treasury c) + unat amount = balance_of (ledger w) (di_org_treasury c)"
    "k \<noteq> di_org_treasury c \<Longrightarrow>
       balance_of (ledger w1) k = balance_of (ledger w) k + (if k = dest then unat amount else 0)"
    by blast+
qed

text \<open>What a dissolution does to the organization and to every balance.\<close>

lemma dissolve_effect:
  assumes "token_transfer_spec rt" "dissolve_org rt tx w c i = Inr w'"
    "di_org_treasury c \<noteq> di_admin_token c" "di_member_b_token c \<noteq> Some (di_org_treasury c)"
  shows "\<exists>g am mb tb tr a b. orgs w (di_organization c) = Some g \<and> org_status g = ORG_STATUS_ACTIVE
     \<and> orgs w' = (orgs w)(di_organization c \<mapsto> g\<lparr>org_status := ORG_STATUS_CLOSED\<rparr>)
     \<and> members w (di_admin_member c) = Some am \<and> ledger w (di_org_treasury c) = Some tr
     \<and> load_opt members w (di_member_b c) = Inr mb \<and> load_ext_opt ledger w (di_member_b_token c) = Inr tb
     \<and> payout_share (ta_amount tr) (om_share_bps am) = Inr a
     \<and> (case (mb, tb) of
          (Some x, Some y) \<Rightarrow> om_org_id x = i \<and> ta_owner y = om_agent x
             \<and> payout_share (ta_amount tr) (om_share_bps x) = Inr b
        | _ \<Rightarrow> b = 0)
     \<and> balance_of (ledger w') (di_org_treasury c) + unat a + unat b
         = balance_of (ledger w) (di_org_treasury c)
     \<and> (\<forall>k. k \<noteq> di_org_treasury c \<longrightarrow> balance_of (ledger w') k = balance_of (ledger w) k
          + (if k = di_admin_token c then unat a else 0)
          + (if di_member_b_token c = Some k then unat b else 0))"
  using assms(2)
proof (rule dissolve_org_ok)
  fix am mb tb tr m a t1 w1 t2 w2 and g :: organization
  let ?g = "g\<lparr>org_status := ORG_STATUS_DISSOLVING\<rparr>"
  assume h: "orgs w (di_organization c) = Some g" "org_status g = ORG_STATUS_ACTIVE"
    "members w (di_admin_member c) = Some am" "ledger w (di_org_treasury c) = Some tr"
    "load_opt members w (di_member_b c) = Inr mb" "load_ext_opt ledger w (di_member_b_token c) = Inr tb"
    "payout_share (ta_amount tr) (om_share_bps am) = Inr a"
    and p1: "pay_share rt tx i c ?g m (di_admin_token c) a (0, w) = Inr (t1, w1)"
    and p2: "dissolve_member_b rt tx i c ?g mb tb tr m (t1, w1) = Inr (t2, w2)"
    and w': "w' = put orgs_update (di_organization c) (g\<lparr>org_status := ORG_STATUS_CLOSED\<rparr>)
            (log_event (OrgDissolvedEv i t2) w2)"
  obtain l where "w2 = w\<lparr>ledger := l\<rparr>" using dissolve_frame(1) [OF p1 p2] by blast
  then have orgs: "orgs w' = (orgs w)(di_organization c \<mapsto> g\<lparr>org_status := ORG_STATUS_CLOSED\<rparr>)"
    "ledger w' = ledger w2" by (simp_all add: w' world_frame)
  note b1 = pay_share_balance(2,3) [OF assms(1) p1 assms(3)]
  show ?thesis
    using p2
  proof (cases rule: dissolve_member_b_ok)
    case skip
    have none: "mb = None \<or> tb = None" using skip(1) h(6) by (auto simp: ok_simps)
    from b1 skip(3) orgs h none show ?thesis
      by (intro exI [of _ g] exI [of _ am] exI [of _ mb] exI [of _ tb] exI [of _ tr] exI [of _ a]
          exI [of _ 0]) (auto split: option.splits)
  next
    case (paid x y kb b)
    from paid(3) assms(4) have "di_org_treasury c \<noteq> kb" by auto
    note b2 = pay_share_balance(2,3) [OF assms(1) paid(8) this]
    from b1 b2 paid orgs h show ?thesis
      by (intro exI [of _ g] exI [of _ am] exI [of _ mb] exI [of _ tb] exI [of _ tr] exI [of _ a]
          exI [of _ b]) auto
  qed
qed

text \<open>
  C15: Dissolving conserves the treasury.  When \<^verbatim>\<open>dissolve_org\<close> succeeds the organization is
  closed, the admin has been paid the floor of its share of the treasury and the second
  member, when named with a token account, the floor of its share; the treasury has lost
  exactly what was paid, and no other token account has changed.
\<close>

theorem dissolve_pays_shares:
  assumes "token_transfer_spec rt" "dissolve_org rt tx w c i = Inr w'"
    "di_org_treasury c \<noteq> di_admin_token c" "di_member_b_token c \<noteq> Some (di_org_treasury c)"
  shows "\<exists>g am mb tb tr a b. orgs w (di_organization c) = Some g \<and> org_status g = ORG_STATUS_ACTIVE
     \<and> orgs w' = (orgs w)(di_organization c \<mapsto> g\<lparr>org_status := ORG_STATUS_CLOSED\<rparr>)
     \<and> members w (di_admin_member c) = Some am \<and> ledger w (di_org_treasury c) = Some tr
     \<and> load_opt members w (di_member_b c) = Inr mb \<and> load_ext_opt ledger w (di_member_b_token c) = Inr tb
     \<and> payout_share (ta_amount tr) (om_share_bps am) = Inr a
     \<and> (case (mb, tb) of
          (Some x, Some y) \<Rightarrow> om_org_id x = i \<and> ta_owner y = om_agent x
             \<and> payout_share (ta_amount tr) (om_share_bps x) = Inr b
        | _ \<Rightarrow> b = 0)
     \<and> balance_of (ledger w') (di_org_treasury c) + unat a + unat b
         = balance_of (ledger w) (di_org_treasury c)
     \<and> (\<forall>k. k \<noteq> di_org_treasury c \<longrightarrow> balance_of (ledger w') k = balance_of (ledger w) k
          + (if k = di_admin_token c then unat a else 0)
          + (if di_member_b_token c = Some k then unat b else 0))"
  by (rule dissolve_effect [OF assms])

text \<open>Bob's membership and wallet as the second member; and the admin's own a second time.\<close>

definition ex_funded :: "instruction list" where
  "ex_funded = ex_shared @ [ex_deposit 101]"

definition ex_bob_member :: pubkey where
  "ex_bob_member = ex_pda (org_member_seeds 1 ex_bob)"

definition ex_alice_member :: pubkey where
  "ex_alice_member = ex_pda (org_member_seeds 1 ex_alice)"

lemma ex_dissolve_run:
  "ex_check (\<lambda>w. ex_check (\<lambda>w'. True)
       (dissolve_org ex_rt (ex_tx 2) w (ex_dissolve_ctx (Some ex_bob_member) (Some ex_bob_wallet)) 1)
     \<and> ex_check (\<lambda>w'. True)
       (dissolve_org ex_rt (ex_tx 2) w (ex_dissolve_ctx (Some ex_alice_member) (Some ex_alice_wallet)) 1)
     \<and> map_option om_share_bps (members w ex_alice_member) = Some 3000
     \<and> map_option ta_amount (ledger w ex_treasury) = Some 101)
     (ex_run 1 ex_funded)"
  by code_simp

lemma ex_dissolve_sel:
  "di_org_treasury (ex_dissolve_ctx mb tb) = ex_treasury" "di_admin_token (ex_dissolve_ctx mb tb) = ex_alice_wallet"
  "di_member_b_token (ex_dissolve_ctx mb tb) = tb" "di_member_b (ex_dissolve_ctx mb tb) = mb"
  "di_admin_member (ex_dissolve_ctx mb tb) = ex_alice_member"
  "di_organization (ex_dissolve_ctx mb tb) = ex_org"
  "ex_treasury \<noteq> ex_alice_wallet" "ex_treasury \<noteq> ex_bob_wallet"
  by (simp_all add: ex_dissolve_ctx_def ex_treasury_def ex_alice_member_def ex_org_def ex_pda_def ex_keys)

theorem dissolve_pays_shares_witness:
  "\<exists>w w' a b. reachable ex_rt w
     \<and> dissolve_org ex_rt (ex_tx 2) w (ex_dissolve_ctx (Some ex_bob_member) (Some ex_bob_wallet)) 1 = Inr w'
     \<and> balance_of (ledger w') ex_treasury + unat (a :: u64) + unat (b :: u64) = balance_of (ledger w) ex_treasury
     \<and> balance_of (ledger w') ex_bob_wallet = balance_of (ledger w) ex_bob_wallet + unat b"
proof -
  let ?c = "ex_dissolve_ctx (Some ex_bob_member) (Some ex_bob_wallet)"
  obtain w w' where w: "reachable ex_rt w" "dissolve_org ex_rt (ex_tx 2) w ?c 1 = Inr w'"
    using ex_runD [OF ex_dissolve_run] by (blast dest: ex_checkD)
  have k: "di_org_treasury ?c \<noteq> di_admin_token ?c" "di_member_b_token ?c \<noteq> Some (di_org_treasury ?c)"
    "ex_bob_wallet \<noteq> ex_alice_wallet"
    using ex_dissolve_sel(7,8) by (auto simp: ex_dissolve_sel ex_keys)
  from dissolve_pays_shares [OF token_spec_transfer [OF ex_token_spec] w(2) k(1,2)]
  obtain a b where "balance_of (ledger w') ex_treasury + unat (a :: u64) + unat (b :: u64) = balance_of (ledger w) ex_treasury"
    "\<forall>k. k \<noteq> ex_treasury \<longrightarrow> balance_of (ledger w') k = balance_of (ledger w) k
          + (if k = ex_alice_wallet then unat a else 0)
          + (if Some ex_bob_wallet = Some k then unat b else 0)"
    unfolding ex_dissolve_sel by blast
  then have "balance_of (ledger w') ex_treasury + unat a + unat b = balance_of (ledger w) ex_treasury"
    "balance_of (ledger w') ex_bob_wallet = balance_of (ledger w) ex_bob_wallet + unat b"
    using k(3) ex_dissolve_sel(8) by auto
  with w show ?thesis by blast
qed

text \<open>
  C39: The admin can be paid twice.  Nothing stops an admin from naming its own membership as
  the second member: the dissolution then pays the admin's share of the treasury two times.
\<close>

theorem dissolve_double_pay:
  assumes "token_transfer_spec rt" "dissolve_org rt tx w c i = Inr w'"
    "di_member_b c = Some (di_admin_member c)" "di_member_b_token c = Some (di_admin_token c)"
    "di_org_treasury c \<noteq> di_admin_token c"
  shows "\<exists>am tr a. members w (di_admin_member c) = Some am \<and> ledger w (di_org_treasury c) = Some tr
     \<and> payout_share (ta_amount tr) (om_share_bps am) = Inr a
     \<and> balance_of (ledger w') (di_admin_token c) = balance_of (ledger w) (di_admin_token c) + 2 * unat a"
proof -
  have "di_member_b_token c \<noteq> Some (di_org_treasury c)" using assms(4,5) by auto
  from dissolve_effect [OF assms(1,2,5) this] assms(3,4)
  obtain am tr a b where "members w (di_admin_member c) = Some am" "ledger w (di_org_treasury c) = Some tr"
    "payout_share (ta_amount tr) (om_share_bps am) = Inr a"
    "payout_share (ta_amount tr) (om_share_bps am) = Inr b"
    "balance_of (ledger w') (di_admin_token c) = balance_of (ledger w) (di_admin_token c) + unat a + unat b"
    using assms(5) by (auto simp: ok_simps)
  then show ?thesis by auto
qed

theorem dissolve_double_pay_witness:
  "\<exists>w w' a. reachable ex_rt w
     \<and> dissolve_org ex_rt (ex_tx 2) w (ex_dissolve_ctx (Some ex_alice_member) (Some ex_alice_wallet)) 1 = Inr w'
     \<and> payout_share 101 3000 = Inr a \<and> unat a = 30
     \<and> balance_of (ledger w') ex_alice_wallet = balance_of (ledger w) ex_alice_wallet + 2 * unat a"
proof -
  let ?c = "ex_dissolve_ctx (Some ex_alice_member) (Some ex_alice_wallet)"
  obtain w w' am tr where w: "reachable ex_rt w" "dissolve_org ex_rt (ex_tx 2) w ?c 1 = Inr w'"
    and f: "members w ex_alice_member = Some am" "om_share_bps am = 3000" "ledger w ex_treasury = Some tr"
      "ta_amount tr = 101"
    using ex_runD [OF ex_dissolve_run] by (auto dest!: ex_checkD)
  have "unat a = 30" if "payout_share 101 3000 = Inr a" for a
    using payout_share_floor(1) [OF that] by simp
  with dissolve_double_pay [OF token_spec_transfer [OF ex_token_spec] w(2)] f w ex_dissolve_sel(7)
  show ?thesis by (auto simp: ex_dissolve_sel)
qed

text \<open>
  Reclaiming empties the treasury of a closed organization.  On success the organization
  is closed, the signer is its creator or an admin of it with a membership of it, the
  treasury is empty, the destination has gained all it held, no other token account has
  changed, and neither have the organizations and members.
\<close>

theorem reclaim_drains:
  assumes "token_transfer_spec rt" "reclaim_org_residual rt tx w c i = Inr w'"
    "rr_org_treasury c \<noteq> rr_destination c"
  shows "\<exists>g m. orgs w (rr_organization c) = Some g \<and> org_status g = ORG_STATUS_CLOSED
     \<and> tx_signer tx (rr_authority c)
     \<and> members w (rr_authority_member c) = Some m \<and> om_agent m = rr_authority c \<and> om_org_id m = i
     \<and> (rr_authority c = org_creator g \<or> om_role m = ROLE_ADMIN)
     \<and> 0 < balance_of (ledger w) (rr_org_treasury c)
     \<and> balance_of (ledger w') (rr_org_treasury c) = 0
     \<and> balance_of (ledger w') (rr_destination c)
         = balance_of (ledger w) (rr_destination c) + balance_of (ledger w) (rr_org_treasury c)
     \<and> (\<forall>k. k \<noteq> rr_org_treasury c \<and> k \<noteq> rr_destination c \<longrightarrow> ledger w' k = ledger w k)
     \<and> orgs w' = orgs w \<and> members w' = members w"
  using assms(2)
proof (rule reclaim_org_residual_ok)
  fix am tr l and g :: organization and m :: mint
  assume h: "orgs w (rr_organization c) = Some g" "org_status g = ORG_STATUS_CLOSED"
    "tx_signer tx (rr_authority c)"
    "members w (rr_authority_member c) = Some am" "om_agent am = rr_authority c" "om_org_id am = i"
    "rr_authority c = org_creator g \<or> om_role am = ROLE_ADMIN"
    and tr: "ledger w (rr_org_treasury c) = Some tr" "0 < ta_amount tr"
    and t: "rt_tok_transfer rt (rr_token_program c)
       \<lparr>tc_from = rr_org_treasury c, tc_mint = rr_aeon_mint c, tc_to = rr_destination c,
        tc_authority = rr_organization c\<rparr> True (ta_amount tr) (mint_decimals m) (mints w) (ledger w)
       = Inr l"
    and w': "w' = put orgs_update (rr_organization c) g
            (log_event (OrgResidualReclaimedEv i (ta_amount tr) (rr_destination c)) (w\<lparr>ledger := l\<rparr>))"
  note moved = transferredD(2) [OF assms(1) t]
  have bal: "balance_of (ledger w) (rr_org_treasury c) = unat (ta_amount tr)" by (simp add: balance_of_def tr)
  have others: "\<forall>k. k \<noteq> rr_org_treasury c \<and> k \<noteq> rr_destination c \<longrightarrow> l k = ledger w k"
    using transferred_balance(3) [OF moved] assms(3) by auto
  have fields: "ledger w' = l" "orgs w' = orgs w" "members w' = members w"
    using h(1) by (simp_all add: w' world_frame map_upd_triv)
  have "0 < unat (ta_amount tr)" using tr(2) by (simp add: word_less_nat_alt)
  with h others fields transferred_balance(1,2) [OF moved] assms(3) bal
  show ?thesis by (intro exI [of _ g] exI [of _ am]) simp
qed

lemma ex_reclaim_run:
  "ex_check (\<lambda>w. ex_check (\<lambda>w'. True) (reclaim_org_residual ex_rt (ex_tx 2) w ex_reclaim_ctx 1))
     (ex_run 1 (ex_funded @ [DissolveOrg (ex_dissolve_ctx None None) 1]))"
  by code_simp

theorem reclaim_drains_witness:
  "\<exists>w w'. reachable ex_rt w \<and> reclaim_org_residual ex_rt (ex_tx 2) w ex_reclaim_ctx 1 = Inr w'
     \<and> 0 < balance_of (ledger w) ex_treasury \<and> balance_of (ledger w') ex_treasury = 0"
proof -
  obtain w w' where w: "reachable ex_rt w" "reclaim_org_residual ex_rt (ex_tx 2) w ex_reclaim_ctx 1 = Inr w'"
    using ex_runD [OF ex_reclaim_run] by (blast dest: ex_checkD)
  have k: "rr_org_treasury ex_reclaim_ctx \<noteq> rr_destination ex_reclaim_ctx"
    "rr_org_treasury ex_reclaim_ctx = ex_treasury"
    by (simp_all add: ex_reclaim_ctx_def ex_treasury_def ex_pda_def ex_keys)
  from reclaim_drains [OF token_spec_transfer [OF ex_token_spec] w(2) k(1)] w
  show ?thesis unfolding k by blast
qed

text \<open>The organization of an id and its treasury are found at one address each.\<close>

lemma same_treasury:
  assumes "runtime_spec rt" "reachable rt w" "orgs w k = Some g" "orgs w k' = Some g'"
    "org_org_id g = org_org_id g'"
    and "pda_at rt (org_treasury_seeds (org_org_id g)) (org_treasury_bump g) kt"
    and "pda_at rt (org_treasury_seeds (org_org_id g)) (org_treasury_bump g') kt'"
  shows "k = k'" "g = g'" "kt = kt'"
proof -
  note ok = directory_okD(2) [OF directory_inv.inv_reachable [OF assms(1,2)]]
  show "k = k'" by (rule org_key_unique [OF ok [OF assms(3)] ok [OF assms(4)] assms(5)])
  with assms(3,4) show "g = g'" by simp
  with assms(6,7) show "kt = kt'" by (auto intro: pda_at_unique)
qed

text \<open>What the signers of a dissolution and of a reclaim are, and the treasuries they spend from.\<close>

lemma dissolve_signer:
  assumes "dissolve_org rt tx w c i = Inr w1"
  shows "\<exists>g am. orgs w (di_organization c) = Some g \<and> org_org_id g = i
     \<and> orgs w1 = (orgs w)(di_organization c \<mapsto> g\<lparr>org_status := ORG_STATUS_CLOSED\<rparr>)
     \<and> pda_at rt (org_treasury_seeds i) (org_treasury_bump g) (di_org_treasury c)
     \<and> tx_signer tx (di_admin c) \<and> members w (di_admin_member c) = Some am
     \<and> om_agent am = di_admin c \<and> om_role am = ROLE_ADMIN
     \<and> pda_at rt (org_member_seeds i (om_agent am)) (om_bump am) (di_admin_member c)"
  using assms by (rule dissolve_org_ok) (auto simp: world_frame dest!: dissolve_frame(1))

lemma reclaim_org:
  assumes "reclaim_org_residual rt tx w c i = Inr w1"
  shows "\<exists>g. orgs w (rr_organization c) = Some g \<and> org_org_id g = i
     \<and> pda_at rt (org_treasury_seeds i) (org_treasury_bump g) (rr_org_treasury c)"
  using assms by (rule reclaim_org_residual_ok) auto

text \<open>
  C40: Winding up pays only whom the callers name.  When an organization is dissolved and its
  rest reclaimed, an admin of it signed the one and its creator or an admin the other; the
  treasury ends up empty; the admin gets the floor of its share, the second member, when
  named with a token account, the floor of its share, the destination of the reclaim
  everything else, and no other token account anything.  Nothing is asked about
  the shares of the remaining members, so whoever has not been named gets nothing, however
  large its share.  (The treasury itself must not be named as one of the three accounts that
  are paid.)
\<close>

theorem wind_up_pays_named_only:
  assumes "runtime_spec rt" "reachable rt w" "pda_unsigned rt tx"
    and dissolve: "dissolve_org rt tx w c i = Inr w1"
    and reclaim: "reclaim_org_residual rt tx' w1 d i = Inr w2"
    and distinct: "di_org_treasury c \<noteq> di_admin_token c" "di_member_b_token c \<noteq> Some (di_org_treasury c)"
      "rr_org_treasury d \<noteq> rr_destination d"
  shows "\<exists>g am rm tr mb tb a b rest. orgs w (di_organization c) = Some g \<and> org_org_id g = i
     \<and> tx_signer tx (di_admin c) \<and> members w (di_admin_member c) = Some am
     \<and> om_agent am = di_admin c \<and> om_org_id am = i \<and> om_role am = ROLE_ADMIN
     \<and> tx_signer tx' (rr_authority d) \<and> members w (rr_authority_member d) = Some rm
     \<and> om_agent rm = rr_authority d \<and> om_org_id rm = i
     \<and> (rr_authority d = org_creator g \<or> om_role rm = ROLE_ADMIN)
     \<and> orgs w2 = (orgs w)(di_organization c \<mapsto> g\<lparr>org_status := ORG_STATUS_CLOSED\<rparr>)
     \<and> ledger w (di_org_treasury c) = Some tr
     \<and> load_opt members w (di_member_b c) = Inr mb \<and> load_ext_opt ledger w (di_member_b_token c) = Inr tb
     \<and> payout_share (ta_amount tr) (om_share_bps am) = Inr a
     \<and> (case (mb, tb) of
          (Some x, Some y) \<Rightarrow> om_org_id x = i \<and> ta_owner y = om_agent x
             \<and> payout_share (ta_amount tr) (om_share_bps x) = Inr b
        | _ \<Rightarrow> b = 0)
     \<and> unat a + unat b + rest = unat (ta_amount tr) \<and> 0 < rest
     \<and> balance_of (ledger w2) (di_org_treasury c) = 0
     \<and> (\<forall>k. k \<noteq> di_org_treasury c \<longrightarrow> balance_of (ledger w2) k = balance_of (ledger w) k
          + (if k = di_admin_token c then unat a else 0)
          + (if di_member_b_token c = Some k then unat b else 0)
          + (if k = rr_destination d then rest else 0))"
proof -
  have spec: "token_transfer_spec rt"
    using assms(1) by (auto simp: runtime_spec_def intro: token_spec_transfer)
  have call: "chain_step rt w w1"
    using dissolve by (intro chain_step.call [OF assms(3), where i = "DissolveOrg c i"]) simp
  have r1: "reachable rt w1" using reachable_run [OF assms(2)] call by blast
  from dissolve_signer [OF dissolve] obtain g am where g: "orgs w (di_organization c) = Some g" "org_org_id g = i"
    "orgs w1 = (orgs w)(di_organization c \<mapsto> g\<lparr>org_status := ORG_STATUS_CLOSED\<rparr>)"
    "pda_at rt (org_treasury_seeds i) (org_treasury_bump g) (di_org_treasury c)"
    and am: "tx_signer tx (di_admin c)" "members w (di_admin_member c) = Some am"
    "om_agent am = di_admin c" "om_role am = ROLE_ADMIN"
    "pda_at rt (org_member_seeds i (om_agent am)) (om_bump am) (di_admin_member c)" by blast
  have own: "om_org_id am = i" by (rule member_org_id [OF assms(1,2) am(2,5)])
  from reclaim_org [OF reclaim] obtain g' where g': "orgs w1 (rr_organization d) = Some g'" "org_org_id g' = i"
    "pda_at rt (org_treasury_seeds i) (org_treasury_bump g') (rr_org_treasury d)" by blast
  let ?g = "g\<lparr>org_status := ORG_STATUS_CLOSED\<rparr>"
  have "orgs w1 (di_organization c) = Some ?g" "org_org_id ?g = org_org_id g'"
    "pda_at rt (org_treasury_seeds (org_org_id ?g)) (org_treasury_bump ?g) (di_org_treasury c)"
    "pda_at rt (org_treasury_seeds (org_org_id ?g)) (org_treasury_bump g') (rr_org_treasury d)"
    using g(2-4) g'(2,3) by simp_all
  from same_treasury [OF assms(1) r1 this(1) g'(1) this(2-4)]
  have same: "g' = ?g" "rr_org_treasury d = di_org_treasury c" by simp_all
  have mem: "members w1 = members w" using dissolve_org_frame [OF dissolve] by simp
  from reclaim_drains [OF spec reclaim distinct(3)] g'(1) same(1) mem obtain rm where
    rm: "tx_signer tx' (rr_authority d)" "members w (rr_authority_member d) = Some rm"
      "om_agent rm = rr_authority d" "om_org_id rm = i"
      "rr_authority d = org_creator g \<or> om_role rm = ROLE_ADMIN"
    and rest: "0 < balance_of (ledger w1) (di_org_treasury c)"
      "balance_of (ledger w2) (di_org_treasury c) = 0"
      "balance_of (ledger w2) (rr_destination d)
         = balance_of (ledger w1) (rr_destination d) + balance_of (ledger w1) (di_org_treasury c)"
      "\<forall>k. k \<noteq> di_org_treasury c \<and> k \<noteq> rr_destination d \<longrightarrow> ledger w2 k = ledger w1 k"
      "orgs w2 = orgs w1"
    unfolding same(2) by auto
  from dissolve_effect [OF spec dissolve distinct(1,2)] am(2) obtain mb tb tr a b where
    paid: "ledger w (di_org_treasury c) = Some tr" "load_opt members w (di_member_b c) = Inr mb"
      "load_ext_opt ledger w (di_member_b_token c) = Inr tb"
      "payout_share (ta_amount tr) (om_share_bps am) = Inr a"
      "case (mb, tb) of
          (Some x, Some y) \<Rightarrow> om_org_id x = i \<and> ta_owner y = om_agent x
             \<and> payout_share (ta_amount tr) (om_share_bps x) = Inr b
        | _ \<Rightarrow> b = 0"
    and bal: "balance_of (ledger w1) (di_org_treasury c) + unat a + unat b
         = balance_of (ledger w) (di_org_treasury c)"
      "\<forall>k. k \<noteq> di_org_treasury c \<longrightarrow> balance_of (ledger w1) k = balance_of (ledger w) k
          + (if k = di_admin_token c then unat a else 0)
          + (if di_member_b_token c = Some k then unat b else 0)" by auto
  let ?rest = "balance_of (ledger w1) (di_org_treasury c)"
  have sum: "unat a + unat b + ?rest = unat (ta_amount tr)"
    using bal(1) paid(1) by (simp add: balance_of_def)
  have final: "balance_of (ledger w2) k = balance_of (ledger w) k
          + (if k = di_admin_token c then unat a else 0)
          + (if di_member_b_token c = Some k then unat b else 0)
          + (if k = rr_destination d then ?rest else 0)" if "k \<noteq> di_org_treasury c" for k
    using that bal(2) rest(3,4) by (cases "k = rr_destination d") (simp_all add: balance_of_def)
  show ?thesis
    using g(1-3) am(1-4) own rm paid sum rest(1,2,5) final
    by (intro exI [of _ g] exI [of _ am] exI [of _ rm] exI [of _ tr] exI [of _ mb] exI [of _ tb]
        exI [of _ a] exI [of _ b] exI [of _ ?rest] conjI) (assumption | simp)+
qed

text \<open>
  Bob has half of the shares and a wallet; alice dissolves without naming him and reclaims the
  rest into her own wallet, so that she ends up with all of the 101.
\<close>

lemma ex_wind_up_run:
  "ex_check (\<lambda>w. ex_check (\<lambda>w1. ex_check (\<lambda>w2. True)
        (reclaim_org_residual ex_rt (ex_tx 2) w1 ex_reclaim_ctx 1))
       (dissolve_org ex_rt (ex_tx 2) w (ex_dissolve_ctx None None) 1)
     \<and> map_option (\<lambda>m. (om_agent m, om_org_id m, om_share_bps m)) (members w ex_bob_member) = Some (ex_bob, 1, 5000)
     \<and> map_option ta_amount (ledger w ex_treasury) = Some 101)
     (ex_run 1 ex_funded)"
  by code_simp

theorem wind_up_pays_named_only_witness:
  "\<exists>w w1 w2 m. reachable ex_rt w
     \<and> dissolve_org ex_rt (ex_tx 2) w (ex_dissolve_ctx None None) 1 = Inr w1
     \<and> reclaim_org_residual ex_rt (ex_tx 2) w1 ex_reclaim_ctx 1 = Inr w2
     \<and> members w ex_bob_member = Some m \<and> om_org_id m = 1 \<and> om_agent m = ex_bob \<and> om_share_bps m = 5000
     \<and> balance_of (ledger w2) ex_treasury = 0
     \<and> balance_of (ledger w2) ex_alice_wallet = balance_of (ledger w) ex_alice_wallet + 101
     \<and> balance_of (ledger w2) ex_bob_wallet = balance_of (ledger w) ex_bob_wallet"
proof -
  let ?c = "ex_dissolve_ctx None None"
  obtain w w1 w2 m tr where w: "reachable ex_rt w" "dissolve_org ex_rt (ex_tx 2) w ?c 1 = Inr w1"
    "reclaim_org_residual ex_rt (ex_tx 2) w1 ex_reclaim_ctx 1 = Inr w2"
    and m: "members w ex_bob_member = Some m" "om_org_id m = 1" "om_agent m = ex_bob" "om_share_bps m = 5000"
    and tr: "ledger w ex_treasury = Some tr" "ta_amount tr = 101"
    using ex_runD [OF ex_wind_up_run] by (auto dest!: ex_checkD)
  have k: "di_org_treasury ?c \<noteq> di_admin_token ?c" "di_member_b_token ?c \<noteq> Some (di_org_treasury ?c)"
    "rr_org_treasury ex_reclaim_ctx \<noteq> rr_destination ex_reclaim_ctx"
    "rr_destination ex_reclaim_ctx = ex_alice_wallet" "ex_bob_wallet \<noteq> ex_alice_wallet"
    using ex_dissolve_sel(7,8) by (auto simp: ex_dissolve_sel ex_reclaim_ctx_def ex_pda_def ex_keys)
  from wind_up_pays_named_only [OF ex_runtime_spec w(1) ex_tx_unsigned w(2,3) k(1-3)] tr
  obtain a b :: u64 and rest :: nat where "unat a + unat b + rest = 101" "b = 0"
    "balance_of (ledger w2) ex_treasury = 0"
    "\<forall>k. k \<noteq> ex_treasury \<longrightarrow> balance_of (ledger w2) k = balance_of (ledger w) k
          + (if k = ex_alice_wallet then unat a else 0) + (if None = Some k then unat b else 0)
          + (if k = ex_alice_wallet then rest else 0)"
    unfolding ex_dissolve_sel k(4) by (auto simp: ok_simps)
  moreover from this have "balance_of (ledger w2) ex_alice_wallet = balance_of (ledger w) ex_alice_wallet + 101"
    "balance_of (ledger w2) ex_bob_wallet = balance_of (ledger w) ex_bob_wallet"
    using k(5) ex_dissolve_sel(7,8) by auto
  ultimately show ?thesis using w m by blast
qed

end
