(* ===== verification/Record_Properties.thy ===== *)
theory Record_Properties
  imports Aeon_Example
begin

text \<open>
  What the development shows of bonds and receipts: every active bond is backed, only the
  bonded agent slashes it, and once; receipts never change, carry the hash of their fields
  and extend their actor's chain.
\<close>

subsection \<open>Bonds\<close>

lemma reachable_bonds:
  assumes "runtime_spec rt" "reachable rt w" "bonds w k = Some b"
  shows "bond_ok rt k b"
  using bond_inv.inv_reachable [OF assms(1,2)] assms(3) by (auto dest: all_okD)

text \<open>
  C21: Every active bond is backed.  In every reachable state an active bond has, at an
  associated token address of the bond's own address, a token account that belongs to the
  bond and holds at least the bonded amount.
\<close>

theorem bond_backed:
  assumes "runtime_spec rt" "reachable rt w" "bonds w k = Some b" "bd_status b = BOND_STATUS_ACTIVE"
  shows "\<exists>m vault. ledger w (rt_ata_address rt k m) = Some vault \<and> ta_owner vault = k
    \<and> bd_amount b \<le> ta_amount vault"
proof -
  have "0 < bond_due b" using reachable_bonds [OF assms(1-3)] assms(4)
    by (simp add: bond_ok_def bond_due_def word_less_nat_alt)
  with fundedD [of "bond_vault_at rt" bond_due "bonds w" "ledger w" k b]
    bond_inv.inv_reachable [OF assms(1,2)] assms(3)
  obtain kv where "bond_vault_at rt k b kv" "holds (ledger w) kv k (bond_due b)" by blast
  with assms(4) show ?thesis
    by (auto simp: bond_vault_at_def holds_def bond_due_def word_le_nat_alt)
qed

definition ex_bond :: pubkey where
  "ex_bond = ex_pda (bond_seeds 2)"

lemma ex_bonded_run:
  "ex_check (\<lambda>w. map_option (\<lambda>b. (bd_status b, bd_amount b)) (bonds w ex_bond) = Some (BOND_STATUS_ACTIVE, 7)
     \<and> ex_check (\<lambda>w'. True) (slash_bond ex_rt (ex_tx 2) w ex_slash 2))
   (ex_run 1 [ex_issue, ex_issue_bonded])"
  by code_simp

theorem bond_backed_witness:
  "\<exists>w b m vault. reachable ex_rt w \<and> bonds w ex_bond = Some b
     \<and> ledger w (rt_ata_address ex_rt ex_bond m) = Some vault \<and> ta_owner vault = ex_bond
     \<and> 7 \<le> ta_amount vault"
proof -
  obtain w b where w: "reachable ex_rt w" "bonds w ex_bond = Some b" "bd_status b = BOND_STATUS_ACTIVE"
    "bd_amount b = 7"
    using ex_runD [OF ex_bonded_run] by auto
  from bond_backed [OF ex_runtime_spec w(1-3)] w show ?thesis by auto
qed

text \<open>
  C22: Only the bonded agent slashes, once, exactly the bond.  A successful \<^verbatim>\<open>slash_bond\<close> is
  signed by the agent of the bonded authority; the bond was active, is slashed for ever
  after, and its amount has gone from a token account of the bond to the destination the
  agent chose, and no other token account has changed.
\<close>

theorem slash_bond_once:
  assumes "runtime_spec rt" "slash_bond rt tx w c i = Inr w'" "sb_bond_vault c \<noteq> sb_destination c"
  shows "\<exists>au b vault. authorities w (sb_authority c) = Some au \<and> au_authority_id au = i
     \<and> tx_signer tx (au_agent au)
     \<and> bonds w (sb_bond c) = Some b \<and> bd_authority_id b = i \<and> bd_status b = BOND_STATUS_ACTIVE
     \<and> ledger w (sb_bond_vault c) = Some vault \<and> ta_owner vault = sb_bond c
     \<and> balance_of (ledger w') (sb_bond_vault c) + unat (bd_amount b) = balance_of (ledger w) (sb_bond_vault c)
     \<and> balance_of (ledger w') (sb_destination c) = balance_of (ledger w) (sb_destination c) + unat (bd_amount b)
     \<and> (\<forall>k. k \<noteq> sb_bond_vault c \<and> k \<noteq> sb_destination c \<longrightarrow> ledger w' k = ledger w k)
     \<and> (\<forall>w''. chain_run rt w' w'' \<longrightarrow> bonds w'' (sb_bond c) = Some (b\<lparr>bd_status := BOND_STATUS_SLASHED\<rparr>))"
  using assms(2)
proof (rule slash_bond_ok)
  fix au vault l and bond :: authority_bond and m :: mint
  let ?b = "bond\<lparr>bd_status := BOND_STATUS_SLASHED\<rparr>"
  assume h: "tx_signer tx (sb_slasher c)" "authorities w (sb_authority c) = Some au" "au_agent au = sb_slasher c"
    "au_authority_id au = i" "bonds w (sb_bond c) = Some bond" "bd_status bond = BOND_STATUS_ACTIVE"
    "bd_authority_id bond = i" "ledger w (sb_bond_vault c) = Some vault" "ta_owner vault = sb_bond c"
    and t: "rt_tok_transfer rt (sb_token_program c)
       \<lparr>tc_from = sb_bond_vault c, tc_mint = sb_aeon_mint c, tc_to = sb_destination c,
        tc_authority = sb_bond c\<rparr> True (bd_amount bond) (mint_decimals m) (mints w) (ledger w) = Inr l"
    and w': "w' = put bonds_update (sb_bond c) ?b
            (log_event (BondSlashedEv i (bd_amount bond) (sb_slasher c)) (w\<lparr>ledger := l\<rparr>))"
  have spec: "token_transfer_spec rt" "anchor_serialization rt"
    using assms(1) by (simp_all add: runtime_spec_def token_spec_def)
  note moved = transferredD(2) [OF spec(1) t]
  have fields: "ledger w' = l" "bonds w' (sb_bond c) = Some ?b" by (simp_all add: w' world_frame)
  have others: "\<forall>k. k \<noteq> sb_bond_vault c \<and> k \<noteq> sb_destination c \<longrightarrow> l k = ledger w k"
    using transferred_balance(3) [OF moved] assms(3) by auto
  have final: "bonds w'' (sb_bond c) = Some ?b" if "chain_run rt w' w''" for w''
    using bond_life.run_frozen [OF chain_bonds [OF spec(2) that] fields(2)] by simp
  from h fields(1) others final transferred_balance(1,2) [OF moved] assms(3) show ?thesis
    by (intro exI [of _ au] exI [of _ bond] exI [of _ vault]) simp
qed

theorem slash_bond_once_witness:
  "\<exists>w w' b. reachable ex_rt w \<and> slash_bond ex_rt (ex_tx 2) w ex_slash 2 = Inr w'
     \<and> bonds w ex_bond = Some b
     \<and> balance_of (ledger w') ex_alice_wallet = balance_of (ledger w) ex_alice_wallet + unat (bd_amount b)"
proof -
  obtain w w' where w: "reachable ex_rt w" "slash_bond ex_rt (ex_tx 2) w ex_slash 2 = Inr w'"
    using ex_runD [OF ex_bonded_run] by (blast dest: ex_checkD)
  have k: "sb_bond_vault ex_slash \<noteq> sb_destination ex_slash" "sb_destination ex_slash = ex_alice_wallet"
    "sb_bond ex_slash = ex_bond"
    by (simp_all add: ex_slash_def ex_bond_vault_def ex_bond_def ex_keys)
  from slash_bond_once [OF ex_runtime_spec w(2) k(1)] w show ?thesis unfolding k by blast
qed

subsection \<open>Receipts\<close>

text \<open>
  C23: A receipt extends its actor's chain.  A successful \<^verbatim>\<open>create_receipt\<close> of the next id stores
  a receipt signed by its actor whose previous hash is the actor's last one, whose payload
  hash is the hash of the payload and whose hash is that of its own fields; the actor's
  record then ends in that hash and counts one receipt more.
\<close>

theorem receipt_extends_chain:
  assumes "create_receipt rt tx w c i ty payload = Inr w'"
  shows "\<exists>cfg p p' r. configs w (cr_config c) = Some cfg \<and> unat i = unat (cfg_receipt_counter cfg) + 1
     \<and> tx_signer tx (cr_actor c) \<and> payload \<noteq> [] \<and> length payload \<le> 1024
     \<and> receipts w (cr_receipt c) = None \<and> receipts w' = (receipts w)(cr_receipt c \<mapsto> r)
     \<and> rc_receipt_id r = i \<and> rc_actor r = cr_actor c \<and> rc_slot r = tx_slot tx
     \<and> rc_payload_hash r = rt_sha256 rt payload
     \<and> rc_hash r = rt_sha256 rt (RECEIPT_DOMAIN_SEPARATOR @ le_bytes i @ [ty] @ cr_actor c
          @ le_bytes (tx_slot tx) @ rc_payload_hash r @ rc_prev_hash r)
     \<and> cris w (cr_cri c) = Some p \<and> cri_agent p = cr_actor c \<and> rc_prev_hash r = cri_last_receipt_hash p
     \<and> cris w' = (cris w)(cr_cri c \<mapsto> p') \<and> cri_last_receipt_hash p' = rc_hash r
     \<and> unat (cri_receipt_count p') = unat (cri_receipt_count p) + 1"
  using assms
proof (rule create_receipt_ok)
  fix b n and cfg :: config and ci :: cri
  let ?r = "new_receipt rt i ty (cr_actor c) (tx_slot tx) payload (cri_last_receipt_hash ci) b"
  let ?p = "ci\<lparr>cri_last_receipt_hash := rc_hash ?r, cri_receipt_count := n, cri_last_active_slot := tx_slot tx\<rparr>"
  assume h: "tx_signer tx (cr_actor c)" "configs w (cr_config c) = Some cfg"
    "cris w (cr_cri c) = Some ci" "cri_agent ci = cr_actor c" "\<not> in_use w (cr_receipt c)"
    "payload \<noteq> []" "length payload \<le> 1024" "unat i = unat (cfg_receipt_counter cfg) + 1"
    "unat n = unat (cri_receipt_count ci) + 1"
    and w': "w' = put receipts_update (cr_receipt c) ?r
           (put cris_update (cr_cri c) ?p
             (put configs_update (cr_config c) (cfg\<lparr>cfg_receipt_counter := i\<rparr>)
               (log_event (ReceiptCreatedEv i (cr_actor c) ty (cri_last_receipt_hash ci)
                  (rc_hash ?r) (tx_slot tx)) w)))"
  have fields: "receipts w' = (receipts w)(cr_receipt c \<mapsto> ?r)" "cris w' = (cris w)(cr_cri c \<mapsto> ?p)"
    unfolding w' by (simp_all only: world_frame)
  have "receipts w (cr_receipt c) = None" using not_in_use_fresh [OF h(5)] by simp
  with h(1-4,6-9) fields show ?thesis
    by (intro exI [of _ cfg] exI [of _ ci] exI [of _ ?p] exI [of _ ?r])
      (simp add: new_receipt_def receipt_hash_def)
qed

lemma ex_receipt_run:
  "ex_check (\<lambda>w. ex_check (\<lambda>w'. True) (create_receipt ex_rt (ex_tx 2) w (ex_receipt_ctx 2) 2 0 [9, 9]))
     (ex_run 1 [CreateReceipt (ex_receipt_ctx 1) 1 0 [7]])"
  by code_simp

theorem receipt_extends_chain_witness:
  "\<exists>w w' p r. reachable ex_rt w
     \<and> create_receipt ex_rt (ex_tx 2) w (ex_receipt_ctx 2) 2 0 [9, 9] = Inr w'
     \<and> cris w (cr_cri (ex_receipt_ctx 2)) = Some p
     \<and> receipts w' (cr_receipt (ex_receipt_ctx 2)) = Some r \<and> rc_prev_hash r = cri_last_receipt_hash p"
proof -
  obtain w w' where w: "reachable ex_rt w"
    "create_receipt ex_rt (ex_tx 2) w (ex_receipt_ctx 2) 2 0 [9, 9] = Inr w'"
    using ex_runD [OF ex_receipt_run] by (blast dest: ex_checkD)
  from receipt_extends_chain [OF w(2)] obtain p r where
    "cris w (cr_cri (ex_receipt_ctx 2)) = Some p"
    "receipts w' = (receipts w)(cr_receipt (ex_receipt_ctx 2) \<mapsto> r)" "rc_prev_hash r = cri_last_receipt_hash p"
    by blast
  with w show ?thesis by auto
qed

text \<open>
  C24: Receipts are immutable and authentic.  In every reachable state every receipt lies at
  the address of its id and carries the hash of its own fields, and whatever is executed
  later it stays exactly as it is.
\<close>

theorem receipts_immutable:
  assumes "runtime_spec rt" "reachable rt w" "receipts w k = Some r"
  shows "k = fst (rt_find_pda rt (receipt_seeds (rc_receipt_id r)))
    \<and> rc_hash r = receipt_hash rt (rc_receipt_id r) (rc_receipt_type r) (rc_actor r) (rc_slot r)
          (rc_payload_hash r) (rc_prev_hash r)
    \<and> (\<forall>w'. chain_run rt w w' \<longrightarrow> receipts w' k = Some r)"
proof -
  have "receipt_ok rt k r" using receipt_inv.inv_reachable [OF assms(1,2)] assms(3) by (rule all_okD)
  moreover have "receipts w' k = Some r" if "chain_run rt w w'" for w'
    by (rule receipt_life.run_frozen [OF chain_receipts [OF _ that] assms(3)])
      (use assms(1) in \<open>simp_all add: runtime_spec_def\<close>)
  ultimately show ?thesis by (simp add: receipt_ok_def)
qed

lemma ex_receipt_made:
  "ex_check (\<lambda>w. map_option rc_actor (receipts w (ex_pda (receipt_seeds 1))) = Some ex_alice)
     (ex_run 1 [CreateReceipt (ex_receipt_ctx 1) 1 0 [7]])"
  by code_simp

theorem receipts_immutable_witness:
  "\<exists>w r. reachable ex_rt w \<and> receipts w (ex_pda (receipt_seeds 1)) = Some r \<and> rc_actor r = ex_alice
     \<and> (\<forall>w'. chain_run ex_rt w w' \<longrightarrow> receipts w' (ex_pda (receipt_seeds 1)) = Some r)"
proof -
  obtain w r where w: "reachable ex_rt w" "receipts w (ex_pda (receipt_seeds 1)) = Some r" "rc_actor r = ex_alice"
    using ex_runD [OF ex_receipt_made] by auto
  from receipts_immutable [OF ex_runtime_spec w(1,2)] w show ?thesis by blast
qed

end
