(* ===== verification/Aeon_Avoid.thy ===== *)
theory Aeon_Avoid
  imports Aeon_Program
begin

text \<open>
  Which failures a computation cannot end in.  \<open>avoids E r\<close> says that \<open>r\<close> is no failure of the
  set \<open>E\<close>; the collection \<open>avoid_simps\<close> computes it over a chain of guards, so that the absence
  of panics and of flag errors is proved for every handler by rewriting.
\<close>

definition avoids :: "failure set \<Rightarrow> failure + 'a \<Rightarrow> bool" where
  "avoids E r = (case r of Inl e \<Rightarrow> e \<notin> E | Inr _ \<Rightarrow> True)"

named_theorems avoid_simps "absence of failures over a chain of guards"

lemma avoids_values [avoid_simps]: "avoids E (Inr v)" "avoids E (Inl e) = (e \<notin> E)"
  by (simp_all add: avoids_def)

lemma avoidsD: "avoids E r \<Longrightarrow> e \<in> E \<Longrightarrow> r \<noteq> Inl e"
  by (auto simp: avoids_def)

lemma avoids_bindr [avoid_simps]:
  "avoids E (bindr m k) = (avoids E m \<and> (\<forall>v. m = Inr v \<longrightarrow> avoids E (k v)))"
  by (cases m) (auto simp: avoids_def)

lemma avoids_if [avoid_simps]:
  "avoids E (if c then x else y) = ((c \<longrightarrow> avoids E x) \<and> (\<not> c \<longrightarrow> avoids E y))"
  by simp

lemma avoids_case_prod [avoid_simps]:
  "avoids E (case p of (a, b) \<Rightarrow> k a b) = (\<forall>a b. p = (a, b) \<longrightarrow> avoids E (k a b))"
  by (cases p) simp

lemma avoids_ok_or [avoid_simps]: "avoids E (ok_or x e) = (x = None \<longrightarrow> e \<notin> E)"
  by (cases x) (simp_all add: avoids_def)

lemma avoids_index_at [avoid_simps]:
  "avoids E (index_at xs i) = (\<not> i < length xs \<longrightarrow> Panic \<notin> E)"
  by (simp add: index_at_def avoids_def)

text \<open>The failures of loading an account.\<close>

definition load_errors :: "failure set" where
  "load_errors = {Anchor AccountDiscriminatorMismatch, Anchor AccountOwnedByWrongProgram,
     Anchor AccountNotInitialized}"

lemma avoids_load [avoid_simps]:
  assumes "E \<inter> load_errors = {}"
  shows "avoids E (load sel w k)" "avoids E (load_ext sel w k)"
    "avoids E (load_opt sel w ko)" "avoids E (load_ext_opt sel w ko)"
  using assms
  by (auto simp: avoids_def load_def load_ext_def load_opt_def load_ext_opt_def load_errors_def
      bindr_def split: option.splits sum.splits)

text \<open>
  The failures of programs called by CPI: whatever they return, it is an error of theirs, not a
  panic or an account check of the caller.
\<close>

definition calls_avoid :: "failure set \<Rightarrow> runtime \<Rightarrow> bool" where
  "calls_avoid E rt =
     ((\<forall>prog accs sgnd amount decimals m l.
         avoids E (rt_tok_transfer rt prog accs sgnd amount decimals m l))
      \<and> (\<forall>prog k mk own m l. avoids E (rt_tok_init rt prog k mk own m l))
      \<and> (\<forall>prog k own mk m l. avoids E (rt_ata_create rt prog k own mk m l)))"

lemma avoids_calls:
  assumes "calls_avoid E rt"
  shows "avoids E (rt_tok_transfer rt prog accs sgnd amount decimals m l)"
    and "avoids E (rt_tok_init rt prog k mk own m l)"
    and "avoids E (rt_ata_create rt prog k own mk m l)"
    and "avoids E (cpi_transfer rt prog accs sgnd amount decimals w)"
  using assms by (simp_all add: calls_avoid_def cpi_transfer_def avoid_simps)

end
