(* ===== verification/Panic_Properties.thy ===== *)
theory Panic_Properties
  imports Delegation_Properties Aeon_Avoid
begin

text \<open>
  Why no instruction panics: the indices of the category, blocked-recipient and intersection
  loops stay inside their arrays, the reads of \<^verbatim>\<open>amounts\<close> and the \<^verbatim>\<open>unwrap\<close>s of \<^verbatim>\<open>atomic_split\<close> and
  \<^verbatim>\<open>org_split\<close> follow checks that make them safe, and slices of account data are long enough.  \<open>calm\<close> says that a computation does not
  panic; the collection \<open>avoid_simps\<close> computes it over a chain of guards.
\<close>

subsection \<open>Computations that do not panic\<close>

abbreviation calm :: "failure + 'a \<Rightarrow> bool" where
  "calm \<equiv> avoids {Panic}"

lemma calm_load [avoid_simps]:
  "calm (load sel w k)" "calm (load_ext sel w k)" "calm (load_opt sel w ko)"
  "calm (load_ext_opt sel w ko)"
  by (simp_all add: avoids_load load_errors_def)

lemma calm_init_pda [avoid_simps]: "calm (init_pda rt tx w created seeds k)"
  by (simp add: init_pda_def avoid_simps)

lemma calm_calls:
  assumes "calls_avoid {Panic} rt"
  shows "calm (cpi_transfer rt prog accs sgnd amount decimals w)"
    and "calm (init_token_pda rt tx created seeds prog k mk own w)"
    and "calm (rt_ata_create rt prog k own mk m l)"
  using avoids_calls [OF assms] by (simp_all add: init_token_pda_def avoid_simps)

subsection \<open>The loops\<close>

lemma calm_category_allowed:
  assumes "authority_ok rt k a"
  shows "calm (category_allowed a cat)" "calm (recipient_blocked a r)"
  using assms
  by (simp_all add: category_allowed_eq_allows recipient_blocked_def authority_ok_def
      scan_eq_prefix avoid_simps)

lemma calm_gates:
  assumes "\<And>a. au = Some a \<Longrightarrow> \<exists>k. authority_ok rt k a"
  shows "calm (pay_gate rt slot pc cat pre au i n)"
    and "calm (split_gate rt slot sc cat pre au i n)"
    and "calm (escrow_gate rt slot ec cat pre au i n)"
    and "calm (commit_spent au commit)"
proof -
  have a: "calm (category_allowed a x)" "calm (recipient_blocked a y)" if "au = Some a" for a x y
    using assms [OF that] calm_category_allowed by blast+
  show "calm (pay_gate rt slot pc cat pre au i n)"
    by (auto simp: pay_gate_def avoid_simps ok_or_eq_Inr a)
  show "calm (split_gate rt slot sc cat pre au i n)"
    by (auto simp: split_gate_def avoid_simps ok_or_eq_Inr a split: option.splits)
  show "calm (escrow_gate rt slot ec cat pre au i n)"
    by (auto simp: escrow_gate_def avoid_simps ok_or_eq_Inr a)
  show "calm (commit_spent au commit)"
    by (auto simp: commit_spent_def avoid_simps Let_def split: option.splits)
qed

lemma calm_inherit_categories:
  assumes "authority_ok rt k p" "length cats \<le> MAX_CATEGORIES"
    "copy_from 0 cats blank_categories = Inr arr"
  shows "calm (inherit_categories p cats arr (of_nat (length cats)))"
  using inherit_categories_err [OF assms(2,3)] assms(1)
  by (fastforce simp: avoids_def authority_ok_def split: sum.splits)

lemma calm_issue_terms:
  assumes "\<And>p. parent = Some p \<Longrightarrow> \<exists>k. authority_ok rt k p" "length cats \<le> MAX_CATEGORIES"
  shows "calm (issue_terms parent ag budget mpt mt cats pid)"
proof -
  have "calm (copy_from 0 cats blank_categories)"
    using assms(2) by (simp add: copy_from_eq blank_categories_def avoid_simps)
  moreover have "calm (inherit_categories p cats arr (of_nat (length cats)))"
    if "parent = Some p" "copy_from 0 cats blank_categories = Inr arr" for p arr
    using assms(1) [OF that(1)] calm_inherit_categories [OF _ assms(2) that(2)] by blast
  ultimately show ?thesis
    by (auto simp: issue_terms_def avoid_simps Let_def ok_or_eq_Inr)
qed

subsection \<open>Account declarations and shared steps\<close>

lemma calm_declarations [avoid_simps]:
  "calm (cri_account rt tx k c ag)" "calm (wallet tx k t own m)"
  "calm (vault_ok tx ko tok own m)" "calm (init_bond rt tx w ic i)"
  "calm (org_account rt tx i k org st e)" "calm (admin_account rt i k mb ad)"
  "calm (treasury_account rt tx i org k)" "calm (escrow_accounts rt tx i k es kv)"
  "calm (cri_commit n slot c)" "calm (cri_settle n slot c)"
  "calm (payout_share b s)" "calm (release_condition es slot wi)" "calm (split_total ns tot)"
  by (simp_all add: cri_account_def wallet_def vault_ok_def init_bond_def org_account_def
      admin_account_def treasury_account_def escrow_accounts_def cri_commit_def cri_settle_def
      payout_share_def release_condition_def avoid_simps split: option.splits)
    (induction ns arbitrary: tot; simp add: avoid_simps)+

lemma calm_accounts [avoid_simps]:
  "calm (initialize_config_accounts rt tx w c1)" "calm (set_paused_accounts rt tx w c2)"
  "calm (register_agent_accounts rt tx w c3)" "calm (issue_authority_accounts rt tx w c4 i)"
  "calm (expire_authority_accounts rt tx w c5 i)" "calm (revoke_authority_accounts rt tx w c6 i)"
  "calm (pay_accounts rt tx w c7)" "calm (atomic_split_accounts rt tx w c8)"
  "calm (release_escrow_accounts rt tx w c9 i)" "calm (cancel_escrow_accounts rt tx w c10 i)"
  "calm (join_org_accounts rt tx w c11 i)" "calm (set_member_share_accounts rt tx w c12 i)"
  "calm (deposit_to_org_accounts rt tx w c13 i)" "calm (org_split_accounts rt tx w c14 i)"
  "calm (dissolve_org_accounts rt tx w c15 i)" "calm (reclaim_org_residual_accounts rt tx w c16 i)"
  "calm (slash_bond_accounts rt tx w c17 i)" "calm (create_receipt_accounts rt tx w c18 i)"
  by (simp_all add: handler_defs avoid_simps split: option.splits)

lemma calm_creating_accounts:
  assumes "calls_avoid {Panic} rt"
  shows "calm (create_escrow_accounts rt tx w c i)" "calm (create_org_accounts rt tx w d i)"
  by (simp_all add: create_escrow_accounts_def create_org_accounts_def avoid_simps calm_calls [OF assms])

subsection \<open>The instructions\<close>

lemma calm_simple_handlers:
  "calm (initialize_config rt tx w c1 mk)" "calm (set_paused rt tx w c2 p)"
  "calm (register_agent rt tx w c3)" "calm (expire_authority rt tx w c4 i)"
  "calm (join_org rt tx w c5 i role sh)" "calm (set_member_share rt tx w c6 i sh)"
  "calm (create_receipt rt tx w c7 i ty pl)"
  by (simp_all add: initialize_config_def set_paused_def register_agent_def expire_authority_def
      join_org_def set_member_share_def create_receipt_def avoid_simps Let_def)

lemma calm_calling_handlers:
  assumes "calls_avoid {Panic} rt"
  shows "calm (release_escrow rt tx w c1 i wi)" "calm (cancel_escrow rt tx w c2 i)"
    and "calm (create_org rt tx w c3 i nm sh)" "calm (deposit_to_org rt tx w c4 i n)"
    and "calm (org_split rt tx w c5 i ns)" "calm (reclaim_org_residual rt tx w c6 i)"
    and "calm (slash_bond rt tx w c7 i)"
  by (simp_all add: release_escrow_def cancel_escrow_def create_org_def deposit_to_org_def
      org_split_def reclaim_org_residual_def slash_bond_def treasury_transfer_def
      avoid_simps calm_calls [OF assms] calm_creating_accounts [OF assms] Let_def)

lemma calm_dissolve_org:
  assumes "calls_avoid {Panic} rt"
  shows "calm (dissolve_org rt tx w c i)"
proof -
  have p: "calm (pay_share rt tx i c org m k n tw)" for org m k n tw
    by (simp add: pay_share_def treasury_transfer_def avoid_simps calm_calls [OF assms])
  have "calm (dissolve_member_b rt tx i c org mb tb t m tw)" for org mb tb t m tw
    by (auto simp: dissolve_member_b_def avoid_simps p split: option.splits)
  with p show ?thesis by (simp add: dissolve_org_def avoid_simps Let_def)
qed

text \<open>An authority account that an instruction has loaded is well formed.\<close>

lemma loaded_authority_ok:
  assumes "store_ok rt (authorities w)" "load_opt authorities w ko = Inr (Some a)"
  shows "\<exists>k. authority_ok rt k a"
  using assms by (auto simp: load_opt_eq_Some dest: store_okD(1))

lemma calm_pay:
  assumes "calls_avoid {Panic} rt" "store_ok rt (authorities w)"
  shows "calm (pay rt tx w c n i cat)"
proof -
  have "calm (pay_gate rt slot c cat pre au i n)" "calm (commit_spent au commit)"
    if "pay_accounts rt tx w c = Inr (cfg, au, r)" for cfg au r slot pre commit
    using that loaded_authority_ok [OF assms(2), of "pay_authority c"]
    by (auto simp: pay_accounts_def ok_simps intro!: calm_gates)
  then show ?thesis by (auto simp: pay_def avoid_simps calm_calls [OF assms(1)])
qed

lemma calm_create_escrow:
  assumes "calls_avoid {Panic} rt" "store_ok rt (authorities w)"
  shows "calm (create_escrow rt tx w c i n aid cat ct cd ex)"
proof -
  have "calm (escrow_gate rt slot c cat pre au aid n)" "calm (commit_spent au commit)"
    if "create_escrow_accounts rt tx w c i = Inr (cfg, au, r)" for cfg au r slot pre commit
    using that loaded_authority_ok [OF assms(2), of "ce_authority c"]
    by (auto simp: create_escrow_accounts_def ok_simps intro!: calm_gates)
  then show ?thesis
    by (auto simp: create_escrow_def avoid_simps calm_calls [OF assms(1)]
        calm_creating_accounts [OF assms(1)])
qed

text \<open>
  The \<^verbatim>\<open>unwrap\<close>s of the second leg follow the checks that its three accounts are present.
\<close>

lemma calm_split_b:
  assumes "calls_avoid {Panic} rt"
  shows "length ns = 2 \<longrightarrow> sl_payee_b c \<noteq> None \<and> sl_payee_b_token c \<noteq> None \<and> tb \<noteq> None
      \<Longrightarrow> calm (split_transfer_b rt tx c ns m tb w)"
    and "calm (split_settle_b slot c ns i cat cb)"
  by (auto simp: split_transfer_b_def split_settle_b_def avoid_simps calm_calls [OF assms]
      split: option.splits)

lemma calm_atomic_split:
  assumes "calls_avoid {Panic} rt" "store_ok rt (authorities w)"
  shows "calm (atomic_split rt tx w c i ns cat)"
proof -
  have "calm (split_gate rt slot c cat pre au i n)" "calm (commit_spent au commit)"
    if "atomic_split_accounts rt tx w c = Inr (cfg, au, r)" for cfg au r slot pre commit n
    using that loaded_authority_ok [OF assms(2), of "sl_authority c"]
    by (auto simp: atomic_split_accounts_def ok_simps intro!: calm_gates)
  moreover have "tb \<noteq> None"
    if "atomic_split_accounts rt tx w c = Inr (cfg, au, pt, tb, r)" "sl_payee_b_token c \<noteq> None"
    for cfg au pt tb r
    using that by (auto simp: atomic_split_accounts_def ok_simps)
  ultimately show ?thesis
    by (auto simp: atomic_split_def avoid_simps calm_calls [OF assms(1)]
        intro!: calm_split_b [OF assms(1)])
qed

lemma calm_issue_authority:
  assumes "calls_avoid {Panic} rt" "store_ok rt (authorities w)"
  shows "calm (issue_authority rt tx w c i b mpt mt cats pid ex amt)"
proof -
  have "calm (issue_terms parent ag b mpt mt cats pid)"
    if "issue_authority_accounts rt tx w c i = Inr (cfg, parent, r)" "length cats \<le> MAX_CATEGORIES"
    for cfg parent r ag
    using that loaded_authority_ok [OF assms(2), of "ia_parent_authority c"]
    by (auto simp: issue_authority_accounts_def ok_simps intro!: calm_issue_terms)
  moreover have "calm (issue_bond rt tx c i amt bb m w)" for bb m
    by (simp add: issue_bond_def avoid_simps calm_calls [OF assms(1)] Let_def)
  ultimately show ?thesis by (auto simp: issue_authority_def avoid_simps Let_def)
qed

lemma calm_revoke_authority:
  assumes "anchor_serialization rt"
  shows "calm (revoke_authority rt tx w c i)"
proof -
  have child: "calm (revoke_child rt tx i ag k v)" for ag k v
    by (simp add: revoke_child_def avoid_simps write_child_fails [OF assms])
  have "calm (revoke_children rt tx i ag ks v)" for ag ks v
    by (induction ks arbitrary: v) (simp_all add: avoid_simps child)
  then show ?thesis by (simp add: revoke_authority_def avoid_simps)
qed

lemma calm_dispatch:
  assumes "anchor_serialization rt" "calls_avoid {Panic} rt" "store_ok rt (authorities w)"
  shows "calm (dispatch rt tx w i)"
  by (cases i)
    (simp_all add: calm_simple_handlers calm_calling_handlers [OF assms(2)]
      calm_dissolve_org [OF assms(2)] calm_pay [OF assms(2,3)] calm_create_escrow [OF assms(2,3)]
      calm_atomic_split [OF assms(2,3)] calm_issue_authority [OF assms(2,3)]
      calm_revoke_authority [OF assms(1)])

subsection \<open>Panic freedom\<close>

text \<open>
  C12: No instruction panics.  Whatever is called in a reachable state, with whatever accounts
  and arguments, ends in a new state or in an error value of the program, of Anchor or of a
  called program.  Every operation of the handlers that could panic returns \<open>Panic\<close> in the
  model: the reads and writes by index of \<^verbatim>\<open>categories\<close> and \<^verbatim>\<open>blocked_recipients\<close> and of the
  arrays of the intersection, which stay in range because every stored authority keeps its
  counts within its arrays; \<^verbatim>\<open>amounts[0]\<close> and \<^verbatim>\<open>amounts[1]\<close> of the two splits and the \<^verbatim>\<open>unwrap\<close>s
  of the second leg, which follow the checks of the number of amounts and of the optional
  accounts; and the slice \<^verbatim>\<open>data[8..]\<close> of the cascade.
\<close>

theorem never_panics:
  assumes "runtime_spec rt" "calls_avoid {Panic} rt" "reachable rt w"
  shows "dispatch rt tx w i \<noteq> Inl Panic"
proof -
  have "store_ok rt (authorities w)" by (rule authority_inv.inv_reachable [OF assms(1,3)])
  with calm_dispatch [of rt w tx i] assms(1,2) show ?thesis
    by (simp add: runtime_spec_def avoidsD)
qed

lemma ex_calls_calm: "calls_avoid {Panic} ex_rt"
  by (auto simp: calls_avoid_def ex_rt_def ex_transfer_def ex_init_def ex_ata_def avoid_simps
      split: option.splits)

lemma ex_delegated_run:
  "ex_check (\<lambda>w. map_option au_category_count (authorities w (ex_pda (authority_seeds 2))) = Some 1)
     (ex_run 1 [ex_issue, ex_issue_child 2 100])"
  by code_simp

theorem never_panics_witness:
  "\<exists>w a. reachable ex_rt w \<and> authorities w (ex_pda (authority_seeds 2)) = Some a
     \<and> au_category_count a = 1 \<and> (\<forall>tx i. dispatch ex_rt tx w i \<noteq> Inl Panic)"
proof -
  obtain w a where w: "reachable ex_rt w" "authorities w (ex_pda (authority_seeds 2)) = Some a"
    "au_category_count a = 1"
    using ex_runD [OF ex_delegated_run] by auto
  with never_panics [OF ex_runtime_spec ex_calls_calm w(1)] show ?thesis by blast
qed

end
