(* ===== verification/Aeon_Wire.thy ===== *)
theory Aeon_Wire
  imports Aeon_Base
begin

text \<open>
  The byte format of instructions and accounts: Borsh writes fields in declaration order,
  integers little-endian, a \<^verbatim>\<open>bool\<close> as one byte, fixed-size arrays and public keys as their bytes,
  and a \<^verbatim>\<open>Vec\<close> as its length in four bytes followed by its elements.  A reader returns the value
  and the bytes after it.  The locale \<open>codec\<close> is the contract of a writer and its reader.
\<close>

subsection \<open>Readers\<close>

type_synonym 'a reader = "bytes \<Rightarrow> ('a \<times> bytes) option"

definition and_then :: "'a reader \<Rightarrow> ('a \<Rightarrow> 'b reader) \<Rightarrow> 'b reader" where
  "and_then r k = (\<lambda>bs. case r bs of None \<Rightarrow> None | Some (x, rest) \<Rightarrow> k x rest)"

definition read_done :: "'a \<Rightarrow> 'a reader" where
  "read_done x = (\<lambda>bs. Some (x, bs))"

definition read_bytes :: "nat \<Rightarrow> bytes reader" where
  "read_bytes n = (\<lambda>bs. if n \<le> length bs then Some (take n bs, drop n bs) else None)"

fun le_value :: "bytes \<Rightarrow> 'a::len word" where
  "le_value [] = 0"
| "le_value (b # bs) = ucast b OR push_bit 8 (le_value bs)"

definition read_u8 :: "u8 reader" where
  "read_u8 = and_then (read_bytes 1) (\<lambda>b. read_done (hd b))"

definition read_u16 :: "u16 reader" where
  "read_u16 = and_then (read_bytes 2) (\<lambda>b. read_done (le_value b))"

definition read_u32 :: "32 word reader" where
  "read_u32 = and_then (read_bytes 4) (\<lambda>b. read_done (le_value b))"

definition read_u64 :: "u64 reader" where
  "read_u64 = and_then (read_bytes 8) (\<lambda>b. read_done (le_value b))"

definition read_bool :: "bool reader" where
  "read_bool = and_then read_u8 (\<lambda>b. if b = 0 then read_done False
     else if b = 1 then read_done True else (\<lambda>_. None))"

fun read_many :: "nat \<Rightarrow> 'a reader \<Rightarrow> 'a list reader" where
  "read_many 0 r = read_done []"
| "read_many (Suc n) r = and_then r (\<lambda>x. and_then (read_many n r) (\<lambda>xs. read_done (x # xs)))"

definition read_vec :: "'a reader \<Rightarrow> 'a list reader" where
  "read_vec r = and_then read_u32 (\<lambda>n. read_many (unat n) r)"

subsection \<open>Writers\<close>

definition le16 :: "u16 \<Rightarrow> bytes" where
  "le16 x = [ucast x, ucast (drop_bit 8 x)]"

definition le32 :: "32 word \<Rightarrow> bytes" where
  "le32 x = [ucast x, ucast (drop_bit 8 x), ucast (drop_bit 16 x), ucast (drop_bit 24 x)]"

definition bool_bytes :: "bool \<Rightarrow> bytes" where
  "bool_bytes b = [if b then 1 else 0]"

definition vec_bytes :: "('a \<Rightarrow> bytes) \<Rightarrow> 'a list \<Rightarrow> bytes" where
  "vec_bytes enc xs = le32 (of_nat (length xs)) @ concat (map enc xs)"

text \<open>The first byte and the value of the rest make up the value.\<close>

lemma le_value_step:
  fixes x :: "'a::len word"
  assumes "le_value bs = drop_bit m x" "m = n + 8"
  shows "le_value ((ucast (drop_bit n x) :: u8) # bs) = drop_bit n x"
proof -
  have "ucast (ucast y :: u8) OR push_bit 8 (drop_bit 8 y) = y" for y :: "'a word"
  proof (rule bit_word_eqI)
    fix i assume "i < LENGTH('a)"
    then show "bit (ucast (ucast y :: u8) OR push_bit 8 (drop_bit 8 y)) i = bit y i"
      by (cases "i < 8") (auto simp: bit_simps)
  qed
  from this [of "drop_bit n x"] assms show ?thesis by (simp add: add.commute)
qed

lemma le_value_last:
  fixes x :: "'a::len word"
  assumes "LENGTH('a) \<le> n + 8"
  shows "le_value [ucast (drop_bit n x) :: u8] = drop_bit n x"
proof (rule le_value_step)
  have "drop_bit (n + 8) x = 0" using assms by (intro bit_word_eqI) (auto simp: bit_simps)
  then show "le_value [] = drop_bit (n + 8) x" by simp
qed simp

lemma le_value_writers: "le_value (le_bytes x) = x" "le_value (le16 y) = y" "le_value (le32 z) = z"
proof -
  have "le_value (ucast (drop_bit 0 x) # tl (le_bytes x)) = drop_bit 0 x"
    unfolding le_bytes_def list.sel by (rule le_value_last le_value_step)+ simp_all
  then show "le_value (le_bytes x) = x" by (simp add: le_bytes_def del: le_value.simps)
  have "le_value (ucast (drop_bit 0 y) # tl (le16 y)) = drop_bit 0 y"
    unfolding le16_def list.sel by (rule le_value_last le_value_step)+ simp_all
  then show "le_value (le16 y) = y" by (simp add: le16_def del: le_value.simps)
  have "le_value (ucast (drop_bit 0 z) # tl (le32 z)) = drop_bit 0 z"
    unfolding le32_def list.sel by (rule le_value_last le_value_step)+ simp_all
  then show "le_value (le32 z) = z" by (simp add: le32_def del: le_value.simps)
qed

lemma length_writers [simp]: "length (le16 y) = 2" "length (le32 z) = 4"
  by (simp_all add: le16_def le32_def)

subsection \<open>The contract of a writer and its reader\<close>

text \<open>
  Reading what was written gives the value back and leaves the bytes that follow, for every
  value of the Rust type (\<open>ok\<close> says that an array has its length).
\<close>

locale codec =
  fixes enc :: "'a \<Rightarrow> bytes" and dec :: "'a reader" and ok :: "'a \<Rightarrow> bool"
  assumes dec_enc: "ok x \<Longrightarrow> dec (enc x @ rest) = Some (x, rest)"
begin

lemma dec_enc_all: "ok x \<Longrightarrow> dec (enc x) = Some (x, [])"
  using dec_enc [of x "[]"] by simp

lemma then_enc: "ok x \<Longrightarrow> and_then dec k (enc x @ rest) = k x rest"
  by (simp add: and_then_def dec_enc)

lemma then_enc_all: "ok x \<Longrightarrow> and_then dec k (enc x) = k x []"
  by (simp add: and_then_def dec_enc_all)

lemma read_many_enc:
  "\<forall>x \<in> set xs. ok x \<Longrightarrow> read_many (length xs) dec (concat (map enc xs) @ rest) = Some (xs, rest)"
  by (induction xs) (simp_all add: then_enc and_then_def read_done_def dec_enc)

end

lemma read_bytes_append: "length b = n \<Longrightarrow> read_bytes n (b @ rest) = Some (b, rest)"
  by (auto simp: read_bytes_def)

interpretation u8_codec: codec "\<lambda>b. [b]" read_u8 "\<lambda>_. True"
  by unfold_locales (simp add: read_u8_def and_then_def read_bytes_def read_done_def)
interpretation u16_codec: codec le16 read_u16 "\<lambda>_. True"
  by unfold_locales (simp add: read_u16_def and_then_def read_bytes_append read_done_def le_value_writers)
interpretation u32_codec: codec le32 read_u32 "\<lambda>_. True"
  by unfold_locales (simp add: read_u32_def and_then_def read_bytes_append read_done_def le_value_writers)
interpretation u64_codec: codec le_bytes read_u64 "\<lambda>_. True"
  by unfold_locales (simp add: read_u64_def and_then_def read_bytes_append read_done_def le_value_writers)
interpretation array_codec: codec "\<lambda>b. b" "read_bytes n" "\<lambda>b. length b = n" for n
  by unfold_locales (simp add: read_bytes_append)
interpretation bool_codec: codec bool_bytes read_bool "\<lambda>_. True"
  by unfold_locales
    (simp add: read_bool_def bool_bytes_def and_then_def u8_codec.dec_enc [simplified] read_done_def)

text \<open>A vector of fewer than 2^32 elements, and an array of arrays.\<close>

locale vec_codec = codec +
  fixes n :: nat

sublocale vec_codec \<subseteq> array_of: codec "\<lambda>xs. concat (map enc xs)" "read_many n dec"
    "\<lambda>xs. length xs = n \<and> (\<forall>x \<in> set xs. ok x)"
  by unfold_locales (use read_many_enc in auto)

sublocale vec_codec \<subseteq> vec: codec "vec_bytes enc" "read_vec dec"
    "\<lambda>xs. length xs < 2 ^ 32 \<and> (\<forall>x \<in> set xs. ok x)"
  by unfold_locales
    (auto simp: read_vec_def vec_bytes_def u32_codec.then_enc unat_of_nat intro: read_many_enc)

interpretation u64_vec: vec_codec le_bytes read_u64 "\<lambda>_. True" for n
  by unfold_locales
interpretation array_vec: vec_codec "\<lambda>b. b" "read_bytes k" "\<lambda>b. length b = k" n for k n
  by unfold_locales

lemma read_array_of:
  "length xs = n \<Longrightarrow> \<forall>x \<in> set xs. length x = k
     \<Longrightarrow> and_then (read_many n (read_bytes k)) r (concat xs @ rest) = r xs rest"
  using array_vec.array_of.then_enc [of xs n k r rest] by simp

text \<open>Reading a sequence of fields that was written in order.\<close>

lemmas read_fields = u8_codec.then_enc [OF TrueI, simplified] u16_codec.then_enc [OF TrueI]
  u64_codec.then_enc [OF TrueI] bool_codec.then_enc [OF TrueI] array_codec.then_enc
  u64_vec.vec.then_enc array_vec.vec.then_enc read_array_of
  u8_codec.then_enc_all [OF TrueI] u16_codec.then_enc_all [OF TrueI]
  u64_codec.then_enc_all [OF TrueI] bool_codec.then_enc_all [OF TrueI] array_codec.then_enc_all
  u64_vec.vec.then_enc_all array_vec.vec.then_enc_all

end
