(* ===== verification/Aeon_Entry.thy ===== *)
theory Aeon_Entry
  imports Aeon_Program Aeon_Wire
begin

text \<open>
  The entry point of the program: what Anchor's \<^verbatim>\<open>#[program]\<close> makes of the functions of
  \<^verbatim>\<open>lib.rs\<close>.  The first eight bytes of the data select the function, by the hash of its name; its
  arguments are read from the rest in the order of the signature; the accounts are taken in the
  order of the struct of account declarations, and an optional account for which the caller
  gives the program's own address is absent.  What is left over is \<^verbatim>\<open>remaining_accounts\<close>.
  (Anchor loads each account as it takes it, so with too few accounts it may report the error of
  an earlier one instead of \<^verbatim>\<open>AccountNotEnoughKeys\<close>.)
\<close>

subsection \<open>Arguments and accounts\<close>

definition args_of :: "'a reader \<Rightarrow> bytes \<Rightarrow> failure + 'a" where
  "args_of r bs = (case r bs of None \<Rightarrow> anchor_err InstructionDidNotDeserialize | Some (x, _) \<Rightarrow> Inr x)"

text \<open>\<^verbatim>\<open>Option<..>\<close> in an account declaration.\<close>

definition given :: "pubkey \<Rightarrow> pubkey \<Rightarrow> pubkey option" where
  "given pid k = (if k = pid then None else Some k)"

subsection \<open>\<^verbatim>\<open>initialize_config\<close>\<close>

definition initialize_config_args :: "(pubkey) reader" where
  "initialize_config_args =
     and_then (read_bytes 32) (\<lambda>aeon_mint. read_done aeon_mint)"

definition initialize_config_entry :: "pubkey \<Rightarrow> pubkey list \<Rightarrow> bytes \<Rightarrow> failure + instruction" where
  "initialize_config_entry pid ks args =
     bindr (args_of initialize_config_args args) (\<lambda>aeon_mint.
     case ks of
       admin # config # system_program # rest \<Rightarrow>
         Inr (InitializeConfig
           \<lparr>ic_admin = admin, ic_config = config\<rparr>
           aeon_mint)
     | _ \<Rightarrow> anchor_err AccountNotEnoughKeys)"

subsection \<open>\<^verbatim>\<open>register_agent\<close>\<close>

definition register_agent_args :: "unit reader" where
  "register_agent_args =
     read_done ()"

definition register_agent_entry :: "pubkey \<Rightarrow> pubkey list \<Rightarrow> bytes \<Rightarrow> failure + instruction" where
  "register_agent_entry pid ks args =
     bindr (args_of register_agent_args args) (\<lambda>_.
     case ks of
       agent # config # agent_identity # cri # system_program # rest \<Rightarrow>
         Inr (RegisterAgent
           \<lparr>ra_agent = agent, ra_config = config, ra_agent_identity = agent_identity,
            ra_cri = cri\<rparr>)
     | _ \<Rightarrow> anchor_err AccountNotEnoughKeys)"

subsection \<open>\<^verbatim>\<open>issue_authority\<close>\<close>

definition issue_authority_args :: "(u64 \<times> u64 \<times> u64 \<times> u64 \<times> bytes list \<times> u64 \<times> u64 \<times> u64) reader" where
  "issue_authority_args =
     and_then read_u64 (\<lambda>authority_id. and_then read_u64 (\<lambda>budget.
     and_then read_u64 (\<lambda>max_per_tx. and_then read_u64 (\<lambda>max_total.
     and_then (read_vec (read_bytes 16)) (\<lambda>categories.
     and_then read_u64 (\<lambda>parent_id. and_then read_u64 (\<lambda>expiry_slot.
     and_then read_u64 (\<lambda>bond_amount.
     read_done (authority_id, budget, max_per_tx, max_total, categories, parent_id, expiry_slot, bond_amount)))))))))"

definition issue_authority_entry :: "pubkey \<Rightarrow> pubkey list \<Rightarrow> bytes \<Rightarrow> failure + instruction" where
  "issue_authority_entry pid ks args =
     bindr (args_of issue_authority_args args) (\<lambda>(authority_id, budget, max_per_tx, max_total, categories, parent_id, expiry_slot, bond_amount).
     case ks of
       agent # config # agent_identity # parent_authority # authority # bond # agent_vault #
       bond_vault # aeon_mint # token_program # associated_token_program # system_program # rest \<Rightarrow>
         Inr (IssueAuthority
           \<lparr>ia_agent = agent, ia_config = config, ia_agent_identity = agent_identity,
            ia_parent_authority = given pid parent_authority, ia_authority = authority,
            ia_bond = given pid bond, ia_agent_vault = given pid agent_vault,
            ia_bond_vault = given pid bond_vault, ia_aeon_mint = given pid aeon_mint,
            ia_token_program = given pid token_program,
            ia_associated_token_program = given pid associated_token_program\<rparr>
           authority_id budget max_per_tx max_total categories parent_id expiry_slot bond_amount)
     | _ \<Rightarrow> anchor_err AccountNotEnoughKeys)"

subsection \<open>\<^verbatim>\<open>revoke_authority\<close>\<close>

definition revoke_authority_args :: "(u64) reader" where
  "revoke_authority_args =
     and_then read_u64 (\<lambda>authority_id. read_done authority_id)"

definition revoke_authority_entry :: "pubkey \<Rightarrow> pubkey list \<Rightarrow> bytes \<Rightarrow> failure + instruction" where
  "revoke_authority_entry pid ks args =
     bindr (args_of revoke_authority_args args) (\<lambda>authority_id.
     case ks of
       agent # config # authority # rest \<Rightarrow>
         Inr (RevokeAuthority
           \<lparr>rv_agent = agent, rv_config = config, rv_authority = authority, rv_remaining = rest\<rparr>
           authority_id)
     | _ \<Rightarrow> anchor_err AccountNotEnoughKeys)"

subsection \<open>\<^verbatim>\<open>pay\<close>\<close>

definition pay_args :: "(u64 \<times> u64 \<times> bytes) reader" where
  "pay_args =
     and_then read_u64 (\<lambda>amount. and_then read_u64 (\<lambda>authority_id.
     and_then (read_bytes 16) (\<lambda>category. read_done (amount, authority_id, category))))"

definition pay_entry :: "pubkey \<Rightarrow> pubkey list \<Rightarrow> bytes \<Rightarrow> failure + instruction" where
  "pay_entry pid ks args =
     bindr (args_of pay_args args) (\<lambda>(amount, authority_id, category).
     case ks of
       payer # payee # config # authority # payer_cri # payee_cri # payer_token # payee_token #
       aeon_mint # token_program # rest \<Rightarrow>
         Inr (Pay
           \<lparr>pay_payer = payer, pay_payee = payee, pay_config = config,
            pay_authority = given pid authority, pay_payer_cri = payer_cri,
            pay_payee_cri = payee_cri, pay_payer_token = payer_token,
            pay_payee_token = payee_token, pay_aeon_mint = aeon_mint,
            pay_token_program = token_program\<rparr>
           amount authority_id category)
     | _ \<Rightarrow> anchor_err AccountNotEnoughKeys)"

subsection \<open>\<^verbatim>\<open>create_escrow\<close>\<close>

definition create_escrow_args :: "(u64 \<times> u64 \<times> u64 \<times> bytes \<times> u8 \<times> bytes \<times> u64) reader" where
  "create_escrow_args =
     and_then read_u64 (\<lambda>escrow_id. and_then read_u64 (\<lambda>amount.
     and_then read_u64 (\<lambda>authority_id. and_then (read_bytes 16) (\<lambda>category.
     and_then read_u8 (\<lambda>condition_type.
     and_then (read_bytes 64) (\<lambda>condition_data. and_then read_u64 (\<lambda>expiry_slot.
     read_done (escrow_id, amount, authority_id, category, condition_type, condition_data, expiry_slot))))))))"

definition create_escrow_entry :: "pubkey \<Rightarrow> pubkey list \<Rightarrow> bytes \<Rightarrow> failure + instruction" where
  "create_escrow_entry pid ks args =
     bindr (args_of create_escrow_args args) (\<lambda>(escrow_id, amount, authority_id, category, condition_type, condition_data, expiry_slot).
     case ks of
       payer # payee # config # authority # escrow # escrow_vault # payer_token # aeon_mint #
       token_program # system_program # rent # rest \<Rightarrow>
         Inr (CreateEscrow
           \<lparr>ce_payer = payer, ce_payee = payee, ce_config = config,
            ce_authority = given pid authority, ce_escrow = escrow,
            ce_escrow_vault = escrow_vault, ce_payer_token = payer_token,
            ce_aeon_mint = aeon_mint, ce_token_program = token_program\<rparr>
           escrow_id amount authority_id category condition_type condition_data expiry_slot)
     | _ \<Rightarrow> anchor_err AccountNotEnoughKeys)"

subsection \<open>\<^verbatim>\<open>release_escrow\<close>\<close>

definition release_escrow_args :: "(u64 \<times> bytes) reader" where
  "release_escrow_args =
     and_then read_u64 (\<lambda>escrow_id. and_then (read_bytes 64) (\<lambda>witness.
     read_done (escrow_id, witness)))"

definition release_escrow_entry :: "pubkey \<Rightarrow> pubkey list \<Rightarrow> bytes \<Rightarrow> failure + instruction" where
  "release_escrow_entry pid ks args =
     bindr (args_of release_escrow_args args) (\<lambda>(escrow_id, witness).
     case ks of
       releaser # escrow # escrow_vault # payee_token # payer_cri # payee_cri # aeon_mint #
       token_program # rest \<Rightarrow>
         Inr (ReleaseEscrow
           \<lparr>re_releaser = releaser, re_escrow = escrow, re_escrow_vault = escrow_vault,
            re_payee_token = payee_token, re_payer_cri = payer_cri, re_payee_cri = payee_cri,
            re_aeon_mint = aeon_mint, re_token_program = token_program\<rparr>
           escrow_id witness)
     | _ \<Rightarrow> anchor_err AccountNotEnoughKeys)"

subsection \<open>\<^verbatim>\<open>cancel_escrow\<close>\<close>

definition cancel_escrow_args :: "(u64) reader" where
  "cancel_escrow_args =
     and_then read_u64 (\<lambda>escrow_id. read_done escrow_id)"

definition cancel_escrow_entry :: "pubkey \<Rightarrow> pubkey list \<Rightarrow> bytes \<Rightarrow> failure + instruction" where
  "cancel_escrow_entry pid ks args =
     bindr (args_of cancel_escrow_args args) (\<lambda>escrow_id.
     case ks of
       canceller # escrow # escrow_vault # payer_token # payer_cri # aeon_mint # token_program #
       rest \<Rightarrow>
         Inr (CancelEscrow
           \<lparr>cx_canceller = canceller, cx_escrow = escrow, cx_escrow_vault = escrow_vault,
            cx_payer_token = payer_token, cx_payer_cri = payer_cri, cx_aeon_mint = aeon_mint,
            cx_token_program = token_program\<rparr>
           escrow_id)
     | _ \<Rightarrow> anchor_err AccountNotEnoughKeys)"

subsection \<open>\<^verbatim>\<open>atomic_split\<close>\<close>

definition atomic_split_args :: "(u64 \<times> u64 list \<times> bytes) reader" where
  "atomic_split_args =
     and_then read_u64 (\<lambda>authority_id. and_then (read_vec read_u64) (\<lambda>amounts.
     and_then (read_bytes 16) (\<lambda>category. read_done (authority_id, amounts, category))))"

definition atomic_split_entry :: "pubkey \<Rightarrow> pubkey list \<Rightarrow> bytes \<Rightarrow> failure + instruction" where
  "atomic_split_entry pid ks args =
     bindr (args_of atomic_split_args args) (\<lambda>(authority_id, amounts, category).
     case ks of
       payer # payee_a # payee_b # config # authority # payer_token # payee_a_token #
       payee_b_token # payer_cri # payee_a_cri # payee_b_cri # aeon_mint # token_program # rest \<Rightarrow>
         Inr (AtomicSplit
           \<lparr>sl_payer = payer, sl_payee_a = payee_a, sl_payee_b = given pid payee_b,
            sl_config = config, sl_authority = given pid authority,
            sl_payer_token = payer_token, sl_payee_a_token = payee_a_token,
            sl_payee_b_token = given pid payee_b_token, sl_payer_cri = payer_cri,
            sl_payee_a_cri = payee_a_cri, sl_payee_b_cri = given pid payee_b_cri,
            sl_aeon_mint = aeon_mint, sl_token_program = token_program\<rparr>
           authority_id amounts category)
     | _ \<Rightarrow> anchor_err AccountNotEnoughKeys)"

subsection \<open>\<^verbatim>\<open>create_org\<close>\<close>

definition create_org_args :: "(u64 \<times> bytes \<times> u16) reader" where
  "create_org_args =
     and_then read_u64 (\<lambda>org_id. and_then (read_bytes 32) (\<lambda>name_hash.
     and_then read_u16 (\<lambda>creator_share_bps.
     read_done (org_id, name_hash, creator_share_bps))))"

definition create_org_entry :: "pubkey \<Rightarrow> pubkey list \<Rightarrow> bytes \<Rightarrow> failure + instruction" where
  "create_org_entry pid ks args =
     bindr (args_of create_org_args args) (\<lambda>(org_id, name_hash, creator_share_bps).
     case ks of
       creator # config # creator_identity # organization # org_treasury # creator_member #
       aeon_mint # token_program # system_program # rent # rest \<Rightarrow>
         Inr (CreateOrg
           \<lparr>co_creator = creator, co_config = config, co_creator_identity = creator_identity,
            co_organization = organization, co_org_treasury = org_treasury,
            co_creator_member = creator_member, co_aeon_mint = aeon_mint,
            co_token_program = token_program\<rparr>
           org_id name_hash creator_share_bps)
     | _ \<Rightarrow> anchor_err AccountNotEnoughKeys)"

subsection \<open>\<^verbatim>\<open>deposit_to_org\<close>\<close>

definition deposit_to_org_args :: "(u64 \<times> u64) reader" where
  "deposit_to_org_args =
     and_then read_u64 (\<lambda>org_id. and_then read_u64 (\<lambda>amount.
     read_done (org_id, amount)))"

definition deposit_to_org_entry :: "pubkey \<Rightarrow> pubkey list \<Rightarrow> bytes \<Rightarrow> failure + instruction" where
  "deposit_to_org_entry pid ks args =
     bindr (args_of deposit_to_org_args args) (\<lambda>(org_id, amount).
     case ks of
       member # organization # org_member # org_treasury # member_token # aeon_mint #
       token_program # rest \<Rightarrow>
         Inr (DepositToOrg
           \<lparr>do_member = member, do_organization = organization, do_org_member = org_member,
            do_org_treasury = org_treasury, do_member_token = member_token,
            do_aeon_mint = aeon_mint, do_token_program = token_program\<rparr>
           org_id amount)
     | _ \<Rightarrow> anchor_err AccountNotEnoughKeys)"

subsection \<open>\<^verbatim>\<open>org_split\<close>\<close>

definition org_split_args :: "(u64 \<times> u64 list) reader" where
  "org_split_args =
     and_then read_u64 (\<lambda>org_id. and_then (read_vec read_u64) (\<lambda>amounts.
     read_done (org_id, amounts)))"

definition org_split_entry :: "pubkey \<Rightarrow> pubkey list \<Rightarrow> bytes \<Rightarrow> failure + instruction" where
  "org_split_entry pid ks args =
     bindr (args_of org_split_args args) (\<lambda>(org_id, amounts).
     case ks of
       admin # organization # admin_member # recipient_member # recipient_token # org_treasury #
       aeon_mint # token_program # rest \<Rightarrow>
         Inr (OrgSplit
           \<lparr>os_admin = admin, os_organization = organization, os_admin_member = admin_member,
            os_recipient_member = recipient_member, os_recipient_token = recipient_token,
            os_org_treasury = org_treasury, os_aeon_mint = aeon_mint,
            os_token_program = token_program\<rparr>
           org_id amounts)
     | _ \<Rightarrow> anchor_err AccountNotEnoughKeys)"

subsection \<open>\<^verbatim>\<open>dissolve_org\<close>\<close>

definition dissolve_org_args :: "(u64) reader" where
  "dissolve_org_args =
     and_then read_u64 (\<lambda>org_id. read_done org_id)"

definition dissolve_org_entry :: "pubkey \<Rightarrow> pubkey list \<Rightarrow> bytes \<Rightarrow> failure + instruction" where
  "dissolve_org_entry pid ks args =
     bindr (args_of dissolve_org_args args) (\<lambda>org_id.
     case ks of
       admin # organization # admin_member # admin_token # member_b # member_b_token #
       org_treasury # aeon_mint # token_program # rest \<Rightarrow>
         Inr (DissolveOrg
           \<lparr>di_admin = admin, di_organization = organization, di_admin_member = admin_member,
            di_admin_token = admin_token, di_member_b = given pid member_b,
            di_member_b_token = given pid member_b_token, di_org_treasury = org_treasury,
            di_aeon_mint = aeon_mint, di_token_program = token_program\<rparr>
           org_id)
     | _ \<Rightarrow> anchor_err AccountNotEnoughKeys)"

subsection \<open>\<^verbatim>\<open>join_org\<close>\<close>

definition join_org_args :: "(u64 \<times> u8 \<times> u16) reader" where
  "join_org_args =
     and_then read_u64 (\<lambda>org_id. and_then read_u8 (\<lambda>role.
     and_then read_u16 (\<lambda>share_bps. read_done (org_id, role, share_bps))))"

definition join_org_entry :: "pubkey \<Rightarrow> pubkey list \<Rightarrow> bytes \<Rightarrow> failure + instruction" where
  "join_org_entry pid ks args =
     bindr (args_of join_org_args args) (\<lambda>(org_id, role, share_bps).
     case ks of
       admin # new_agent # organization # admin_member # agent_identity # new_member_account #
       system_program # rest \<Rightarrow>
         Inr (JoinOrg
           \<lparr>jo_admin = admin, jo_new_agent = new_agent, jo_organization = organization,
            jo_admin_member = admin_member, jo_agent_identity = agent_identity,
            jo_new_member = new_member_account\<rparr>
           org_id role share_bps)
     | _ \<Rightarrow> anchor_err AccountNotEnoughKeys)"

subsection \<open>\<^verbatim>\<open>set_member_share\<close>\<close>

definition set_member_share_args :: "(u64 \<times> u16) reader" where
  "set_member_share_args =
     and_then read_u64 (\<lambda>org_id. and_then read_u16 (\<lambda>new_share_bps.
     read_done (org_id, new_share_bps)))"

definition set_member_share_entry :: "pubkey \<Rightarrow> pubkey list \<Rightarrow> bytes \<Rightarrow> failure + instruction" where
  "set_member_share_entry pid ks args =
     bindr (args_of set_member_share_args args) (\<lambda>(org_id, new_share_bps).
     case ks of
       admin # organization # admin_member # target_member # rest \<Rightarrow>
         Inr (SetMemberShare
           \<lparr>sm_admin = admin, sm_organization = organization, sm_admin_member = admin_member,
            sm_target_member = target_member\<rparr>
           org_id new_share_bps)
     | _ \<Rightarrow> anchor_err AccountNotEnoughKeys)"

subsection \<open>\<^verbatim>\<open>reclaim_org_residual\<close>\<close>

definition reclaim_org_residual_args :: "(u64) reader" where
  "reclaim_org_residual_args =
     and_then read_u64 (\<lambda>org_id. read_done org_id)"

definition reclaim_org_residual_entry :: "pubkey \<Rightarrow> pubkey list \<Rightarrow> bytes \<Rightarrow> failure + instruction" where
  "reclaim_org_residual_entry pid ks args =
     bindr (args_of reclaim_org_residual_args args) (\<lambda>org_id.
     case ks of
       authority # organization # authority_member # org_treasury # destination # aeon_mint #
       token_program # rest \<Rightarrow>
         Inr (ReclaimOrgResidual
           \<lparr>rr_authority = authority, rr_organization = organization,
            rr_authority_member = authority_member, rr_org_treasury = org_treasury,
            rr_destination = destination, rr_aeon_mint = aeon_mint,
            rr_token_program = token_program\<rparr>
           org_id)
     | _ \<Rightarrow> anchor_err AccountNotEnoughKeys)"

subsection \<open>\<^verbatim>\<open>create_receipt\<close>\<close>

definition create_receipt_args :: "(u64 \<times> u8 \<times> bytes) reader" where
  "create_receipt_args =
     and_then read_u64 (\<lambda>receipt_id. and_then read_u8 (\<lambda>receipt_type.
     and_then (read_vec read_u8) (\<lambda>payload.
     read_done (receipt_id, receipt_type, payload))))"

definition create_receipt_entry :: "pubkey \<Rightarrow> pubkey list \<Rightarrow> bytes \<Rightarrow> failure + instruction" where
  "create_receipt_entry pid ks args =
     bindr (args_of create_receipt_args args) (\<lambda>(receipt_id, receipt_type, payload).
     case ks of
       actor # config # cri # receipt # system_program # rest \<Rightarrow>
         Inr (CreateReceipt
           \<lparr>cr_actor = actor, cr_config = config, cr_cri = cri, cr_receipt = receipt\<rparr>
           receipt_id receipt_type payload)
     | _ \<Rightarrow> anchor_err AccountNotEnoughKeys)"

subsection \<open>\<^verbatim>\<open>expire_authority\<close>\<close>

definition expire_authority_args :: "(u64) reader" where
  "expire_authority_args =
     and_then read_u64 (\<lambda>authority_id. read_done authority_id)"

definition expire_authority_entry :: "pubkey \<Rightarrow> pubkey list \<Rightarrow> bytes \<Rightarrow> failure + instruction" where
  "expire_authority_entry pid ks args =
     bindr (args_of expire_authority_args args) (\<lambda>authority_id.
     case ks of
       agent # authority # rest \<Rightarrow>
         Inr (ExpireAuthority
           \<lparr>ex_agent = agent, ex_authority = authority\<rparr>
           authority_id)
     | _ \<Rightarrow> anchor_err AccountNotEnoughKeys)"

subsection \<open>\<^verbatim>\<open>set_paused\<close>\<close>

definition set_paused_args :: "(bool) reader" where
  "set_paused_args =
     and_then read_bool (\<lambda>paused. read_done paused)"

definition set_paused_entry :: "pubkey \<Rightarrow> pubkey list \<Rightarrow> bytes \<Rightarrow> failure + instruction" where
  "set_paused_entry pid ks args =
     bindr (args_of set_paused_args args) (\<lambda>paused.
     case ks of
       admin # config # rest \<Rightarrow>
         Inr (SetPaused
           \<lparr>sp_admin = admin, sp_config = config\<rparr>
           paused)
     | _ \<Rightarrow> anchor_err AccountNotEnoughKeys)"

subsection \<open>\<^verbatim>\<open>slash_bond\<close>\<close>

definition slash_bond_args :: "(u64) reader" where
  "slash_bond_args =
     and_then read_u64 (\<lambda>authority_id. read_done authority_id)"

definition slash_bond_entry :: "pubkey \<Rightarrow> pubkey list \<Rightarrow> bytes \<Rightarrow> failure + instruction" where
  "slash_bond_entry pid ks args =
     bindr (args_of slash_bond_args args) (\<lambda>authority_id.
     case ks of
       slasher # config # authority # bond # bond_vault # destination # aeon_mint #
       token_program # rest \<Rightarrow>
         Inr (SlashBond
           \<lparr>sb_slasher = slasher, sb_config = config, sb_authority = authority, sb_bond = bond,
            sb_bond_vault = bond_vault, sb_destination = destination, sb_aeon_mint = aeon_mint,
            sb_token_program = token_program\<rparr>
           authority_id)
     | _ \<Rightarrow> anchor_err AccountNotEnoughKeys)"

subsection \<open>The entry point\<close>

definition sighash :: "runtime \<Rightarrow> string \<Rightarrow> bytes" where
  "sighash rt name = take 8 (rt_sha256 rt (map of_char (''global:'' @ name)))"

definition entry :: "runtime \<Rightarrow> pubkey \<Rightarrow> pubkey list \<Rightarrow> bytes \<Rightarrow> failure + instruction" where
  "entry rt pid ks data =
     (if length data < 8 then anchor_err InstructionMissing
      else let disc = take 8 data; args = drop 8 data in
      if disc = sighash rt ''initialize_config'' then initialize_config_entry pid ks args
      else if disc = sighash rt ''register_agent'' then register_agent_entry pid ks args
      else if disc = sighash rt ''issue_authority'' then issue_authority_entry pid ks args
      else if disc = sighash rt ''revoke_authority'' then revoke_authority_entry pid ks args
      else if disc = sighash rt ''pay'' then pay_entry pid ks args
      else if disc = sighash rt ''create_escrow'' then create_escrow_entry pid ks args
      else if disc = sighash rt ''release_escrow'' then release_escrow_entry pid ks args
      else if disc = sighash rt ''cancel_escrow'' then cancel_escrow_entry pid ks args
      else if disc = sighash rt ''atomic_split'' then atomic_split_entry pid ks args
      else if disc = sighash rt ''create_org'' then create_org_entry pid ks args
      else if disc = sighash rt ''deposit_to_org'' then deposit_to_org_entry pid ks args
      else if disc = sighash rt ''org_split'' then org_split_entry pid ks args
      else if disc = sighash rt ''dissolve_org'' then dissolve_org_entry pid ks args
      else if disc = sighash rt ''join_org'' then join_org_entry pid ks args
      else if disc = sighash rt ''set_member_share'' then set_member_share_entry pid ks args
      else if disc = sighash rt ''reclaim_org_residual'' then reclaim_org_residual_entry pid ks args
      else if disc = sighash rt ''create_receipt'' then create_receipt_entry pid ks args
      else if disc = sighash rt ''expire_authority'' then expire_authority_entry pid ks args
      else if disc = sighash rt ''set_paused'' then set_paused_entry pid ks args
      else if disc = sighash rt ''slash_bond'' then slash_bond_entry pid ks args
      else anchor_err InstructionFallbackNotFound)"

text \<open>A whole instruction, from its bytes to the new state.\<close>

definition process ::
    "runtime \<Rightarrow> pubkey \<Rightarrow> tx \<Rightarrow> world \<Rightarrow> pubkey list \<Rightarrow> bytes \<Rightarrow> failure + world" where
  "process rt pid tx w ks data = bindr (entry rt pid ks data) (\<lambda>i. dispatch rt tx w i)"

lemmas entry_defs =
  initialize_config_entry_def initialize_config_args_def
  register_agent_entry_def register_agent_args_def
  issue_authority_entry_def issue_authority_args_def
  revoke_authority_entry_def revoke_authority_args_def pay_entry_def pay_args_def
  create_escrow_entry_def create_escrow_args_def
  release_escrow_entry_def release_escrow_args_def
  cancel_escrow_entry_def cancel_escrow_args_def atomic_split_entry_def atomic_split_args_def
  create_org_entry_def create_org_args_def deposit_to_org_entry_def deposit_to_org_args_def
  org_split_entry_def org_split_args_def dissolve_org_entry_def dissolve_org_args_def
  join_org_entry_def join_org_args_def set_member_share_entry_def set_member_share_args_def
  reclaim_org_residual_entry_def reclaim_org_residual_args_def
  create_receipt_entry_def create_receipt_args_def
  expire_authority_entry_def expire_authority_args_def set_paused_entry_def set_paused_args_def
  slash_bond_entry_def slash_bond_args_def

end
