(* ===== verification/Client_Instructions.thy ===== *)
theory Client_Instructions
  imports Aeon_Wire
begin

text \<open>
  The client-side instruction builders of \<^verbatim>\<open>trident-tests/remaining_accounts_p2/types.rs\<close>, which
  are generated from the program's interface: for each instruction the accounts and arguments it
  takes, the flags each account is passed with, and the bytes that are sent.  The \<^verbatim>\<open>new\<close>
  functions of the account and data structs are the constructors of their records.  The
  address that \<^verbatim>\<open>program_id()\<close> returns is an argument, as the program's address is everywhere.
\<close>

subsection \<open>Instructions as the runtime takes them\<close>

record account_meta =
  am_pubkey :: pubkey
  am_is_signer :: bool
  am_is_writable :: bool

definition meta_new :: "pubkey \<Rightarrow> bool \<Rightarrow> account_meta" where
  "meta_new k signer = \<lparr>am_pubkey = k, am_is_signer = signer, am_is_writable = True\<rparr>"

definition meta_new_readonly :: "pubkey \<Rightarrow> bool \<Rightarrow> account_meta" where
  "meta_new_readonly k signer = \<lparr>am_pubkey = k, am_is_signer = signer, am_is_writable = False\<rparr>"

definition meta_default :: account_meta where
  "meta_default = \<lparr>am_pubkey = replicate 32 0, am_is_signer = False, am_is_writable = False\<rparr>"

lemma meta_sel [simp]:
  "am_pubkey (meta_new k s) = k" "am_is_signer (meta_new k s) = s" "am_is_writable (meta_new k s) = True"
  "am_pubkey (meta_new_readonly k s) = k" "am_is_signer (meta_new_readonly k s) = s"
  "am_is_writable (meta_new_readonly k s) = False"
  by (simp_all add: meta_new_def meta_new_readonly_def)

record solana_instruction =
  si_program_id :: pubkey
  si_accounts :: "account_meta list"
  si_data :: bytes

subsection \<open>\<^verbatim>\<open>InitializeConfigInstruction\<close>\<close>

record initialize_config_instruction_account_metas =
  icm_admin :: account_meta
  icm_config :: account_meta
  icm_system_program :: account_meta

record initialize_config_instruction_accounts =
  ick_admin :: pubkey
  ick_config :: pubkey
  ick_system_program :: pubkey

record initialize_config_instruction_data =
  icd_aeon_mint :: pubkey

record initialize_config_instruction =
  ici_accounts :: initialize_config_instruction_account_metas
  ici_data :: initialize_config_instruction_data
  ici_remaining_accounts :: "account_meta list"

definition initialize_config_instruction_discriminator :: bytes where
  "initialize_config_instruction_discriminator = [208, 127, 21, 1, 194, 190, 196, 70]"

definition initialize_config_instruction_data_bytes :: "initialize_config_instruction_data \<Rightarrow> bytes" where
  "initialize_config_instruction_data_bytes d =
     icd_aeon_mint d"

definition initialize_config_instruction_of_data :: "initialize_config_instruction_data \<Rightarrow> initialize_config_instruction" where
  "initialize_config_instruction_of_data d =
     \<lparr>ici_accounts = \<lparr>
        icm_admin = meta_default, icm_config = meta_default, icm_system_program = meta_default\<rparr>,
      ici_data = d, ici_remaining_accounts = []\<rparr>"

definition initialize_config_instruction_with_accounts ::
    "initialize_config_instruction \<Rightarrow> initialize_config_instruction_accounts \<Rightarrow> initialize_config_instruction" where
  "initialize_config_instruction_with_accounts ix accounts =
     ix\<lparr>ici_accounts := (ici_accounts ix)\<lparr>
       icm_admin := meta_new (ick_admin accounts) True,
       icm_config := meta_new (ick_config accounts) False,
       icm_system_program := meta_new_readonly (ick_system_program accounts) False\<rparr>\<rparr>"

definition initialize_config_instruction_with_remaining_accounts ::
    "initialize_config_instruction \<Rightarrow> account_meta list \<Rightarrow> initialize_config_instruction" where
  "initialize_config_instruction_with_remaining_accounts ix accounts = ix\<lparr>ici_remaining_accounts := accounts\<rparr>"

definition initialize_config_instruction_to_account_metas :: "initialize_config_instruction \<Rightarrow> account_meta list" where
  "initialize_config_instruction_to_account_metas ix =
     (let a = ici_accounts ix in
      [icm_admin a, icm_config a, icm_system_program a]
      @ ici_remaining_accounts ix)"

definition initialize_config_instruction_build :: "pubkey \<Rightarrow> initialize_config_instruction \<Rightarrow> solana_instruction" where
  "initialize_config_instruction_build program_id ix =
     \<lparr>si_program_id = program_id,
      si_accounts = initialize_config_instruction_to_account_metas ix,
      si_data = initialize_config_instruction_discriminator @ initialize_config_instruction_data_bytes (ici_data ix)\<rparr>"

lemmas initialize_config_client_defs = initialize_config_instruction_of_data_def initialize_config_instruction_with_accounts_def
  initialize_config_instruction_with_remaining_accounts_def initialize_config_instruction_to_account_metas_def
  initialize_config_instruction_build_def initialize_config_instruction_data_bytes_def initialize_config_instruction_discriminator_def

subsection \<open>\<^verbatim>\<open>RegisterAgentInstruction\<close>\<close>

record register_agent_instruction_account_metas =
  ram_agent :: account_meta
  ram_config :: account_meta
  ram_agent_identity :: account_meta
  ram_cri :: account_meta
  ram_system_program :: account_meta

record register_agent_instruction_accounts =
  rak_agent :: pubkey
  rak_config :: pubkey
  rak_agent_identity :: pubkey
  rak_cri :: pubkey
  rak_system_program :: pubkey

record register_agent_instruction =
  rai_accounts :: register_agent_instruction_account_metas
  rai_data :: unit
  rai_remaining_accounts :: "account_meta list"

definition register_agent_instruction_discriminator :: bytes where
  "register_agent_instruction_discriminator = [135, 157, 66, 195, 2, 113, 175, 30]"

definition register_agent_instruction_data_bytes :: "unit \<Rightarrow> bytes" where
  "register_agent_instruction_data_bytes d = []"

definition register_agent_instruction_of_data :: "unit \<Rightarrow> register_agent_instruction" where
  "register_agent_instruction_of_data d =
     \<lparr>rai_accounts = \<lparr>
        ram_agent = meta_default, ram_config = meta_default, ram_agent_identity = meta_default,
        ram_cri = meta_default, ram_system_program = meta_default\<rparr>,
      rai_data = d, rai_remaining_accounts = []\<rparr>"

definition register_agent_instruction_with_accounts ::
    "register_agent_instruction \<Rightarrow> register_agent_instruction_accounts \<Rightarrow> register_agent_instruction" where
  "register_agent_instruction_with_accounts ix accounts =
     ix\<lparr>rai_accounts := (rai_accounts ix)\<lparr>
       ram_agent := meta_new (rak_agent accounts) True,
       ram_config := meta_new_readonly (rak_config accounts) False,
       ram_agent_identity := meta_new (rak_agent_identity accounts) False,
       ram_cri := meta_new (rak_cri accounts) False,
       ram_system_program := meta_new_readonly (rak_system_program accounts) False\<rparr>\<rparr>"

definition register_agent_instruction_with_remaining_accounts ::
    "register_agent_instruction \<Rightarrow> account_meta list \<Rightarrow> register_agent_instruction" where
  "register_agent_instruction_with_remaining_accounts ix accounts = ix\<lparr>rai_remaining_accounts := accounts\<rparr>"

definition register_agent_instruction_to_account_metas :: "register_agent_instruction \<Rightarrow> account_meta list" where
  "register_agent_instruction_to_account_metas ix =
     (let a = rai_accounts ix in
      [ram_agent a, ram_config a, ram_agent_identity a, ram_cri a, ram_system_program a]
      @ rai_remaining_accounts ix)"

definition register_agent_instruction_build :: "pubkey \<Rightarrow> register_agent_instruction \<Rightarrow> solana_instruction" where
  "register_agent_instruction_build program_id ix =
     \<lparr>si_program_id = program_id,
      si_accounts = register_agent_instruction_to_account_metas ix,
      si_data = register_agent_instruction_discriminator @ register_agent_instruction_data_bytes (rai_data ix)\<rparr>"

lemmas register_agent_client_defs = register_agent_instruction_of_data_def register_agent_instruction_with_accounts_def
  register_agent_instruction_with_remaining_accounts_def register_agent_instruction_to_account_metas_def
  register_agent_instruction_build_def register_agent_instruction_data_bytes_def register_agent_instruction_discriminator_def

subsection \<open>\<^verbatim>\<open>IssueAuthorityInstruction\<close>\<close>

record issue_authority_instruction_account_metas =
  iam_agent :: account_meta
  iam_config :: account_meta
  iam_agent_identity :: account_meta
  iam_parent_authority :: account_meta
  iam_authority :: account_meta
  iam_system_program :: account_meta

record issue_authority_instruction_accounts =
  iak_agent :: pubkey
  iak_config :: pubkey
  iak_agent_identity :: pubkey
  iak_parent_authority :: pubkey
  iak_authority :: pubkey
  iak_system_program :: pubkey

record issue_authority_instruction_data =
  iad_authority_id :: u64
  iad_budget :: u64
  iad_max_per_tx :: u64
  iad_max_total :: u64
  iad_categories :: "bytes list"
  iad_parent_id :: u64
  iad_expiry_slot :: u64

record issue_authority_instruction =
  iai_accounts :: issue_authority_instruction_account_metas
  iai_data :: issue_authority_instruction_data
  iai_remaining_accounts :: "account_meta list"

definition issue_authority_instruction_discriminator :: bytes where
  "issue_authority_instruction_discriminator = [46, 62, 161, 139, 184, 96, 84, 23]"

definition issue_authority_instruction_data_bytes :: "issue_authority_instruction_data \<Rightarrow> bytes" where
  "issue_authority_instruction_data_bytes d =
     le_bytes (iad_authority_id d) @ le_bytes (iad_budget d) @ le_bytes (iad_max_per_tx d) @
     le_bytes (iad_max_total d) @ vec_bytes (\<lambda>b. b) (iad_categories d) @
     le_bytes (iad_parent_id d) @ le_bytes (iad_expiry_slot d)"

definition issue_authority_instruction_of_data :: "issue_authority_instruction_data \<Rightarrow> issue_authority_instruction" where
  "issue_authority_instruction_of_data d =
     \<lparr>iai_accounts = \<lparr>
        iam_agent = meta_default, iam_config = meta_default, iam_agent_identity = meta_default,
        iam_parent_authority = meta_default, iam_authority = meta_default,
        iam_system_program = meta_default\<rparr>,
      iai_data = d, iai_remaining_accounts = []\<rparr>"

definition issue_authority_instruction_with_accounts ::
    "issue_authority_instruction \<Rightarrow> issue_authority_instruction_accounts \<Rightarrow> issue_authority_instruction" where
  "issue_authority_instruction_with_accounts ix accounts =
     ix\<lparr>iai_accounts := (iai_accounts ix)\<lparr>
       iam_agent := meta_new (iak_agent accounts) True,
       iam_config := meta_new (iak_config accounts) False,
       iam_agent_identity := meta_new_readonly (iak_agent_identity accounts) False,
       iam_parent_authority := meta_new_readonly (iak_parent_authority accounts) False,
       iam_authority := meta_new (iak_authority accounts) False,
       iam_system_program := meta_new_readonly (iak_system_program accounts) False\<rparr>\<rparr>"

definition issue_authority_instruction_with_remaining_accounts ::
    "issue_authority_instruction \<Rightarrow> account_meta list \<Rightarrow> issue_authority_instruction" where
  "issue_authority_instruction_with_remaining_accounts ix accounts = ix\<lparr>iai_remaining_accounts := accounts\<rparr>"

definition issue_authority_instruction_to_account_metas :: "issue_authority_instruction \<Rightarrow> account_meta list" where
  "issue_authority_instruction_to_account_metas ix =
     (let a = iai_accounts ix in
      [iam_agent a, iam_config a, iam_agent_identity a, iam_parent_authority a, iam_authority a,
       iam_system_program a]
      @ iai_remaining_accounts ix)"

definition issue_authority_instruction_build :: "pubkey \<Rightarrow> issue_authority_instruction \<Rightarrow> solana_instruction" where
  "issue_authority_instruction_build program_id ix =
     \<lparr>si_program_id = program_id,
      si_accounts = issue_authority_instruction_to_account_metas ix,
      si_data = issue_authority_instruction_discriminator @ issue_authority_instruction_data_bytes (iai_data ix)\<rparr>"

lemmas issue_authority_client_defs = issue_authority_instruction_of_data_def issue_authority_instruction_with_accounts_def
  issue_authority_instruction_with_remaining_accounts_def issue_authority_instruction_to_account_metas_def
  issue_authority_instruction_build_def issue_authority_instruction_data_bytes_def issue_authority_instruction_discriminator_def

subsection \<open>\<^verbatim>\<open>RevokeAuthorityInstruction\<close>\<close>

record revoke_authority_instruction_account_metas =
  rvm_agent :: account_meta
  rvm_config :: account_meta
  rvm_authority :: account_meta

record revoke_authority_instruction_accounts =
  rvk_agent :: pubkey
  rvk_config :: pubkey
  rvk_authority :: pubkey

record revoke_authority_instruction_data =
  rvd_authority_id :: u64

record revoke_authority_instruction =
  rvi_accounts :: revoke_authority_instruction_account_metas
  rvi_data :: revoke_authority_instruction_data
  rvi_remaining_accounts :: "account_meta list"

definition revoke_authority_instruction_discriminator :: bytes where
  "revoke_authority_instruction_discriminator = [233, 254, 239, 15, 49, 183, 105, 21]"

definition revoke_authority_instruction_data_bytes :: "revoke_authority_instruction_data \<Rightarrow> bytes" where
  "revoke_authority_instruction_data_bytes d =
     le_bytes (rvd_authority_id d)"

definition revoke_authority_instruction_of_data :: "revoke_authority_instruction_data \<Rightarrow> revoke_authority_instruction" where
  "revoke_authority_instruction_of_data d =
     \<lparr>rvi_accounts = \<lparr>
        rvm_agent = meta_default, rvm_config = meta_default, rvm_authority = meta_default\<rparr>,
      rvi_data = d, rvi_remaining_accounts = []\<rparr>"

definition revoke_authority_instruction_with_accounts ::
    "revoke_authority_instruction \<Rightarrow> revoke_authority_instruction_accounts \<Rightarrow> revoke_authority_instruction" where
  "revoke_authority_instruction_with_accounts ix accounts =
     ix\<lparr>rvi_accounts := (rvi_accounts ix)\<lparr>
       rvm_agent := meta_new_readonly (rvk_agent accounts) True,
       rvm_config := meta_new_readonly (rvk_config accounts) False,
       rvm_authority := meta_new (rvk_authority accounts) False\<rparr>\<rparr>"

definition revoke_authority_instruction_with_remaining_accounts ::
    "revoke_authority_instruction \<Rightarrow> account_meta list \<Rightarrow> revoke_authority_instruction" where
  "revoke_authority_instruction_with_remaining_accounts ix accounts = ix\<lparr>rvi_remaining_accounts := accounts\<rparr>"

definition revoke_authority_instruction_to_account_metas :: "revoke_authority_instruction \<Rightarrow> account_meta list" where
  "revoke_authority_instruction_to_account_metas ix =
     (let a = rvi_accounts ix in
      [rvm_agent a, rvm_config a, rvm_authority a]
      @ rvi_remaining_accounts ix)"

definition revoke_authority_instruction_build :: "pubkey \<Rightarrow> revoke_authority_instruction \<Rightarrow> solana_instruction" where
  "revoke_authority_instruction_build program_id ix =
     \<lparr>si_program_id = program_id,
      si_accounts = revoke_authority_instruction_to_account_metas ix,
      si_data = revoke_authority_instruction_discriminator @ revoke_authority_instruction_data_bytes (rvi_data ix)\<rparr>"

lemmas revoke_authority_client_defs = revoke_authority_instruction_of_data_def revoke_authority_instruction_with_accounts_def
  revoke_authority_instruction_with_remaining_accounts_def revoke_authority_instruction_to_account_metas_def
  revoke_authority_instruction_build_def revoke_authority_instruction_data_bytes_def revoke_authority_instruction_discriminator_def

subsection \<open>\<^verbatim>\<open>PayInstruction\<close>\<close>

record pay_instruction_account_metas =
  paym_payer :: account_meta
  paym_payee :: account_meta
  paym_config :: account_meta
  paym_authority :: account_meta
  paym_payer_cri :: account_meta
  paym_payee_cri :: account_meta
  paym_payer_token :: account_meta
  paym_payee_token :: account_meta
  paym_aeon_mint :: account_meta
  paym_token_program :: account_meta

record pay_instruction_accounts =
  payk_payer :: pubkey
  payk_payee :: pubkey
  payk_config :: pubkey
  payk_authority :: pubkey
  payk_payer_cri :: pubkey
  payk_payee_cri :: pubkey
  payk_payer_token :: pubkey
  payk_payee_token :: pubkey
  payk_aeon_mint :: pubkey
  payk_token_program :: pubkey

record pay_instruction_data =
  payd_amount :: u64
  payd_authority_id :: u64
  payd_category :: bytes

record pay_instruction =
  payi_accounts :: pay_instruction_account_metas
  payi_data :: pay_instruction_data
  payi_remaining_accounts :: "account_meta list"

definition pay_instruction_discriminator :: bytes where
  "pay_instruction_discriminator = [119, 18, 216, 65, 192, 117, 122, 220]"

definition pay_instruction_data_bytes :: "pay_instruction_data \<Rightarrow> bytes" where
  "pay_instruction_data_bytes d =
     le_bytes (payd_amount d) @ le_bytes (payd_authority_id d) @ payd_category d"

definition pay_instruction_of_data :: "pay_instruction_data \<Rightarrow> pay_instruction" where
  "pay_instruction_of_data d =
     \<lparr>payi_accounts = \<lparr>
        paym_payer = meta_default, paym_payee = meta_default, paym_config = meta_default,
        paym_authority = meta_default, paym_payer_cri = meta_default,
        paym_payee_cri = meta_default, paym_payer_token = meta_default,
        paym_payee_token = meta_default, paym_aeon_mint = meta_default,
        paym_token_program = meta_default\<rparr>,
      payi_data = d, payi_remaining_accounts = []\<rparr>"

definition pay_instruction_with_accounts ::
    "pay_instruction \<Rightarrow> pay_instruction_accounts \<Rightarrow> pay_instruction" where
  "pay_instruction_with_accounts ix accounts =
     ix\<lparr>payi_accounts := (payi_accounts ix)\<lparr>
       paym_payer := meta_new_readonly (payk_payer accounts) True,
       paym_payee := meta_new_readonly (payk_payee accounts) False,
       paym_config := meta_new_readonly (payk_config accounts) False,
       paym_authority := meta_new (payk_authority accounts) False,
       paym_payer_cri := meta_new (payk_payer_cri accounts) False,
       paym_payee_cri := meta_new (payk_payee_cri accounts) False,
       paym_payer_token := meta_new (payk_payer_token accounts) False,
       paym_payee_token := meta_new (payk_payee_token accounts) False,
       paym_aeon_mint := meta_new_readonly (payk_aeon_mint accounts) False,
       paym_token_program := meta_new_readonly (payk_token_program accounts) False\<rparr>\<rparr>"

definition pay_instruction_with_remaining_accounts ::
    "pay_instruction \<Rightarrow> account_meta list \<Rightarrow> pay_instruction" where
  "pay_instruction_with_remaining_accounts ix accounts = ix\<lparr>payi_remaining_accounts := accounts\<rparr>"

definition pay_instruction_to_account_metas :: "pay_instruction \<Rightarrow> account_meta list" where
  "pay_instruction_to_account_metas ix =
     (let a = payi_accounts ix in
      [paym_payer a, paym_payee a, paym_config a, paym_authority a, paym_payer_cri a,
       paym_payee_cri a, paym_payer_token a, paym_payee_token a, paym_aeon_mint a,
       paym_token_program a]
      @ payi_remaining_accounts ix)"

definition pay_instruction_build :: "pubkey \<Rightarrow> pay_instruction \<Rightarrow> solana_instruction" where
  "pay_instruction_build program_id ix =
     \<lparr>si_program_id = program_id,
      si_accounts = pay_instruction_to_account_metas ix,
      si_data = pay_instruction_discriminator @ pay_instruction_data_bytes (payi_data ix)\<rparr>"

lemmas pay_client_defs = pay_instruction_of_data_def pay_instruction_with_accounts_def
  pay_instruction_with_remaining_accounts_def pay_instruction_to_account_metas_def
  pay_instruction_build_def pay_instruction_data_bytes_def pay_instruction_discriminator_def

subsection \<open>\<^verbatim>\<open>CreateEscrowInstruction\<close>\<close>

record create_escrow_instruction_account_metas =
  cem_payer :: account_meta
  cem_payee :: account_meta
  cem_config :: account_meta
  cem_authority :: account_meta
  cem_escrow :: account_meta
  cem_escrow_vault :: account_meta
  cem_payer_token :: account_meta
  cem_aeon_mint :: account_meta
  cem_token_program :: account_meta
  cem_system_program :: account_meta
  cem_rent :: account_meta

record create_escrow_instruction_accounts =
  cek_payer :: pubkey
  cek_payee :: pubkey
  cek_config :: pubkey
  cek_authority :: pubkey
  cek_escrow :: pubkey
  cek_escrow_vault :: pubkey
  cek_payer_token :: pubkey
  cek_aeon_mint :: pubkey
  cek_token_program :: pubkey
  cek_system_program :: pubkey
  cek_rent :: pubkey

record create_escrow_instruction_data =
  ced_escrow_id :: u64
  ced_amount :: u64
  ced_authority_id :: u64
  ced_category :: bytes
  ced_condition_type :: u8
  ced_condition_data :: bytes
  ced_expiry_slot :: u64

record create_escrow_instruction =
  cei_accounts :: create_escrow_instruction_account_metas
  cei_data :: create_escrow_instruction_data
  cei_remaining_accounts :: "account_meta list"

definition create_escrow_instruction_discriminator :: bytes where
  "create_escrow_instruction_discriminator = [253, 215, 165, 116, 36, 108, 68, 80]"

definition create_escrow_instruction_data_bytes :: "create_escrow_instruction_data \<Rightarrow> bytes" where
  "create_escrow_instruction_data_bytes d =
     le_bytes (ced_escrow_id d) @ le_bytes (ced_amount d) @ le_bytes (ced_authority_id d) @
     ced_category d @ [ced_condition_type d] @ ced_condition_data d @
     le_bytes (ced_expiry_slot d)"

definition create_escrow_instruction_of_data :: "create_escrow_instruction_data \<Rightarrow> create_escrow_instruction" where
  "create_escrow_instruction_of_data d =
     \<lparr>cei_accounts = \<lparr>
        cem_payer = meta_default, cem_payee = meta_default, cem_config = meta_default,
        cem_authority = meta_default, cem_escrow = meta_default,
        cem_escrow_vault = meta_default, cem_payer_token = meta_default,
        cem_aeon_mint = meta_default, cem_token_program = meta_default,
        cem_system_program = meta_default, cem_rent = meta_default\<rparr>,
      cei_data = d, cei_remaining_accounts = []\<rparr>"

definition create_escrow_instruction_with_accounts ::
    "create_escrow_instruction \<Rightarrow> create_escrow_instruction_accounts \<Rightarrow> create_escrow_instruction" where
  "create_escrow_instruction_with_accounts ix accounts =
     ix\<lparr>cei_accounts := (cei_accounts ix)\<lparr>
       cem_payer := meta_new (cek_payer accounts) True,
       cem_payee := meta_new_readonly (cek_payee accounts) False,
       cem_config := meta_new (cek_config accounts) False,
       cem_authority := meta_new (cek_authority accounts) False,
       cem_escrow := meta_new (cek_escrow accounts) False,
       cem_escrow_vault := meta_new (cek_escrow_vault accounts) False,
       cem_payer_token := meta_new (cek_payer_token accounts) False,
       cem_aeon_mint := meta_new_readonly (cek_aeon_mint accounts) False,
       cem_token_program := meta_new_readonly (cek_token_program accounts) False,
       cem_system_program := meta_new_readonly (cek_system_program accounts) False,
       cem_rent := meta_new_readonly (cek_rent accounts) False\<rparr>\<rparr>"

definition create_escrow_instruction_with_remaining_accounts ::
    "create_escrow_instruction \<Rightarrow> account_meta list \<Rightarrow> create_escrow_instruction" where
  "create_escrow_instruction_with_remaining_accounts ix accounts = ix\<lparr>cei_remaining_accounts := accounts\<rparr>"

definition create_escrow_instruction_to_account_metas :: "create_escrow_instruction \<Rightarrow> account_meta list" where
  "create_escrow_instruction_to_account_metas ix =
     (let a = cei_accounts ix in
      [cem_payer a, cem_payee a, cem_config a, cem_authority a, cem_escrow a,
       cem_escrow_vault a, cem_payer_token a, cem_aeon_mint a, cem_token_program a,
       cem_system_program a, cem_rent a]
      @ cei_remaining_accounts ix)"

definition create_escrow_instruction_build :: "pubkey \<Rightarrow> create_escrow_instruction \<Rightarrow> solana_instruction" where
  "create_escrow_instruction_build program_id ix =
     \<lparr>si_program_id = program_id,
      si_accounts = create_escrow_instruction_to_account_metas ix,
      si_data = create_escrow_instruction_discriminator @ create_escrow_instruction_data_bytes (cei_data ix)\<rparr>"

lemmas create_escrow_client_defs = create_escrow_instruction_of_data_def create_escrow_instruction_with_accounts_def
  create_escrow_instruction_with_remaining_accounts_def create_escrow_instruction_to_account_metas_def
  create_escrow_instruction_build_def create_escrow_instruction_data_bytes_def create_escrow_instruction_discriminator_def

subsection \<open>\<^verbatim>\<open>ReleaseEscrowInstruction\<close>\<close>

record release_escrow_instruction_account_metas =
  rem_releaser :: account_meta
  rem_escrow :: account_meta
  rem_escrow_vault :: account_meta
  rem_payee_token :: account_meta
  rem_payer_cri :: account_meta
  rem_payee_cri :: account_meta
  rem_aeon_mint :: account_meta
  rem_token_program :: account_meta

record release_escrow_instruction_accounts =
  rek_releaser :: pubkey
  rek_escrow :: pubkey
  rek_escrow_vault :: pubkey
  rek_payee_token :: pubkey
  rek_payer_cri :: pubkey
  rek_payee_cri :: pubkey
  rek_aeon_mint :: pubkey
  rek_token_program :: pubkey

record release_escrow_instruction_data =
  red_escrow_id :: u64
  red_witness :: bytes

record release_escrow_instruction =
  rei_accounts :: release_escrow_instruction_account_metas
  rei_data :: release_escrow_instruction_data
  rei_remaining_accounts :: "account_meta list"

definition release_escrow_instruction_discriminator :: bytes where
  "release_escrow_instruction_discriminator = [146, 253, 129, 233, 20, 145, 181, 206]"

definition release_escrow_instruction_data_bytes :: "release_escrow_instruction_data \<Rightarrow> bytes" where
  "release_escrow_instruction_data_bytes d =
     le_bytes (red_escrow_id d) @ red_witness d"

definition release_escrow_instruction_of_data :: "release_escrow_instruction_data \<Rightarrow> release_escrow_instruction" where
  "release_escrow_instruction_of_data d =
     \<lparr>rei_accounts = \<lparr>
        rem_releaser = meta_default, rem_escrow = meta_default, rem_escrow_vault = meta_default,
        rem_payee_token = meta_default, rem_payer_cri = meta_default,
        rem_payee_cri = meta_default, rem_aeon_mint = meta_default,
        rem_token_program = meta_default\<rparr>,
      rei_data = d, rei_remaining_accounts = []\<rparr>"

definition release_escrow_instruction_with_accounts ::
    "release_escrow_instruction \<Rightarrow> release_escrow_instruction_accounts \<Rightarrow> release_escrow_instruction" where
  "release_escrow_instruction_with_accounts ix accounts =
     ix\<lparr>rei_accounts := (rei_accounts ix)\<lparr>
       rem_releaser := meta_new_readonly (rek_releaser accounts) True,
       rem_escrow := meta_new (rek_escrow accounts) False,
       rem_escrow_vault := meta_new (rek_escrow_vault accounts) False,
       rem_payee_token := meta_new (rek_payee_token accounts) False,
       rem_payer_cri := meta_new (rek_payer_cri accounts) False,
       rem_payee_cri := meta_new (rek_payee_cri accounts) False,
       rem_aeon_mint := meta_new_readonly (rek_aeon_mint accounts) False,
       rem_token_program := meta_new_readonly (rek_token_program accounts) False\<rparr>\<rparr>"

definition release_escrow_instruction_with_remaining_accounts ::
    "release_escrow_instruction \<Rightarrow> account_meta list \<Rightarrow> release_escrow_instruction" where
  "release_escrow_instruction_with_remaining_accounts ix accounts = ix\<lparr>rei_remaining_accounts := accounts\<rparr>"

definition release_escrow_instruction_to_account_metas :: "release_escrow_instruction \<Rightarrow> account_meta list" where
  "release_escrow_instruction_to_account_metas ix =
     (let a = rei_accounts ix in
      [rem_releaser a, rem_escrow a, rem_escrow_vault a, rem_payee_token a, rem_payer_cri a,
       rem_payee_cri a, rem_aeon_mint a, rem_token_program a]
      @ rei_remaining_accounts ix)"

definition release_escrow_instruction_build :: "pubkey \<Rightarrow> release_escrow_instruction \<Rightarrow> solana_instruction" where
  "release_escrow_instruction_build program_id ix =
     \<lparr>si_program_id = program_id,
      si_accounts = release_escrow_instruction_to_account_metas ix,
      si_data = release_escrow_instruction_discriminator @ release_escrow_instruction_data_bytes (rei_data ix)\<rparr>"

lemmas release_escrow_client_defs = release_escrow_instruction_of_data_def release_escrow_instruction_with_accounts_def
  release_escrow_instruction_with_remaining_accounts_def release_escrow_instruction_to_account_metas_def
  release_escrow_instruction_build_def release_escrow_instruction_data_bytes_def release_escrow_instruction_discriminator_def

subsection \<open>\<^verbatim>\<open>CancelEscrowInstruction\<close>\<close>

record cancel_escrow_instruction_account_metas =
  cxm_canceller :: account_meta
  cxm_escrow :: account_meta
  cxm_escrow_vault :: account_meta
  cxm_payer_token :: account_meta
  cxm_payer_cri :: account_meta
  cxm_aeon_mint :: account_meta
  cxm_token_program :: account_meta

record cancel_escrow_instruction_accounts =
  cxk_canceller :: pubkey
  cxk_escrow :: pubkey
  cxk_escrow_vault :: pubkey
  cxk_payer_token :: pubkey
  cxk_payer_cri :: pubkey
  cxk_aeon_mint :: pubkey
  cxk_token_program :: pubkey

record cancel_escrow_instruction_data =
  cxd_escrow_id :: u64

record cancel_escrow_instruction =
  cxi_accounts :: cancel_escrow_instruction_account_metas
  cxi_data :: cancel_escrow_instruction_data
  cxi_remaining_accounts :: "account_meta list"

definition cancel_escrow_instruction_discriminator :: bytes where
  "cancel_escrow_instruction_discriminator = [156, 203, 54, 179, 38, 72, 33, 21]"

definition cancel_escrow_instruction_data_bytes :: "cancel_escrow_instruction_data \<Rightarrow> bytes" where
  "cancel_escrow_instruction_data_bytes d =
     le_bytes (cxd_escrow_id d)"

definition cancel_escrow_instruction_of_data :: "cancel_escrow_instruction_data \<Rightarrow> cancel_escrow_instruction" where
  "cancel_escrow_instruction_of_data d =
     \<lparr>cxi_accounts = \<lparr>
        cxm_canceller = meta_default, cxm_escrow = meta_default,
        cxm_escrow_vault = meta_default, cxm_payer_token = meta_default,
        cxm_payer_cri = meta_default, cxm_aeon_mint = meta_default,
        cxm_token_program = meta_default\<rparr>,
      cxi_data = d, cxi_remaining_accounts = []\<rparr>"

definition cancel_escrow_instruction_with_accounts ::
    "cancel_escrow_instruction \<Rightarrow> cancel_escrow_instruction_accounts \<Rightarrow> cancel_escrow_instruction" where
  "cancel_escrow_instruction_with_accounts ix accounts =
     ix\<lparr>cxi_accounts := (cxi_accounts ix)\<lparr>
       cxm_canceller := meta_new_readonly (cxk_canceller accounts) True,
       cxm_escrow := meta_new (cxk_escrow accounts) False,
       cxm_escrow_vault := meta_new (cxk_escrow_vault accounts) False,
       cxm_payer_token := meta_new (cxk_payer_token accounts) False,
       cxm_payer_cri := meta_new (cxk_payer_cri accounts) False,
       cxm_aeon_mint := meta_new_readonly (cxk_aeon_mint accounts) False,
       cxm_token_program := meta_new_readonly (cxk_token_program accounts) False\<rparr>\<rparr>"

definition cancel_escrow_instruction_with_remaining_accounts ::
    "cancel_escrow_instruction \<Rightarrow> account_meta list \<Rightarrow> cancel_escrow_instruction" where
  "cancel_escrow_instruction_with_remaining_accounts ix accounts = ix\<lparr>cxi_remaining_accounts := accounts\<rparr>"

definition cancel_escrow_instruction_to_account_metas :: "cancel_escrow_instruction \<Rightarrow> account_meta list" where
  "cancel_escrow_instruction_to_account_metas ix =
     (let a = cxi_accounts ix in
      [cxm_canceller a, cxm_escrow a, cxm_escrow_vault a, cxm_payer_token a, cxm_payer_cri a,
       cxm_aeon_mint a, cxm_token_program a]
      @ cxi_remaining_accounts ix)"

definition cancel_escrow_instruction_build :: "pubkey \<Rightarrow> cancel_escrow_instruction \<Rightarrow> solana_instruction" where
  "cancel_escrow_instruction_build program_id ix =
     \<lparr>si_program_id = program_id,
      si_accounts = cancel_escrow_instruction_to_account_metas ix,
      si_data = cancel_escrow_instruction_discriminator @ cancel_escrow_instruction_data_bytes (cxi_data ix)\<rparr>"

lemmas cancel_escrow_client_defs = cancel_escrow_instruction_of_data_def cancel_escrow_instruction_with_accounts_def
  cancel_escrow_instruction_with_remaining_accounts_def cancel_escrow_instruction_to_account_metas_def
  cancel_escrow_instruction_build_def cancel_escrow_instruction_data_bytes_def cancel_escrow_instruction_discriminator_def

subsection \<open>\<^verbatim>\<open>AtomicSplitInstruction\<close>\<close>

record atomic_split_instruction_account_metas =
  slm_payer :: account_meta
  slm_payee_a :: account_meta
  slm_payee_b :: account_meta
  slm_config :: account_meta
  slm_authority :: account_meta
  slm_payer_token :: account_meta
  slm_payee_a_token :: account_meta
  slm_payee_b_token :: account_meta
  slm_payer_cri :: account_meta
  slm_payee_a_cri :: account_meta
  slm_payee_b_cri :: account_meta
  slm_aeon_mint :: account_meta
  slm_token_program :: account_meta

record atomic_split_instruction_accounts =
  slk_payer :: pubkey
  slk_payee_a :: pubkey
  slk_payee_b :: pubkey
  slk_config :: pubkey
  slk_authority :: pubkey
  slk_payer_token :: pubkey
  slk_payee_a_token :: pubkey
  slk_payee_b_token :: pubkey
  slk_payer_cri :: pubkey
  slk_payee_a_cri :: pubkey
  slk_payee_b_cri :: pubkey
  slk_aeon_mint :: pubkey
  slk_token_program :: pubkey

record atomic_split_instruction_data =
  sld_authority_id :: u64
  sld_amounts :: "u64 list"
  sld_category :: bytes

record atomic_split_instruction =
  sli_accounts :: atomic_split_instruction_account_metas
  sli_data :: atomic_split_instruction_data
  sli_remaining_accounts :: "account_meta list"

definition atomic_split_instruction_discriminator :: bytes where
  "atomic_split_instruction_discriminator = [48, 8, 165, 93, 2, 50, 35, 231]"

definition atomic_split_instruction_data_bytes :: "atomic_split_instruction_data \<Rightarrow> bytes" where
  "atomic_split_instruction_data_bytes d =
     le_bytes (sld_authority_id d) @ vec_bytes le_bytes (sld_amounts d) @ sld_category d"

definition atomic_split_instruction_of_data :: "atomic_split_instruction_data \<Rightarrow> atomic_split_instruction" where
  "atomic_split_instruction_of_data d =
     \<lparr>sli_accounts = \<lparr>
        slm_payer = meta_default, slm_payee_a = meta_default, slm_payee_b = meta_default,
        slm_config = meta_default, slm_authority = meta_default, slm_payer_token = meta_default,
        slm_payee_a_token = meta_default, slm_payee_b_token = meta_default,
        slm_payer_cri = meta_default, slm_payee_a_cri = meta_default,
        slm_payee_b_cri = meta_default, slm_aeon_mint = meta_default,
        slm_token_program = meta_default\<rparr>,
      sli_data = d, sli_remaining_accounts = []\<rparr>"

definition atomic_split_instruction_with_accounts ::
    "atomic_split_instruction \<Rightarrow> atomic_split_instruction_accounts \<Rightarrow> atomic_split_instruction" where
  "atomic_split_instruction_with_accounts ix accounts =
     ix\<lparr>sli_accounts := (sli_accounts ix)\<lparr>
       slm_payer := meta_new_readonly (slk_payer accounts) True,
       slm_payee_a := meta_new_readonly (slk_payee_a accounts) False,
       slm_payee_b := meta_new_readonly (slk_payee_b accounts) False,
       slm_config := meta_new_readonly (slk_config accounts) False,
       slm_authority := meta_new (slk_authority accounts) False,
       slm_payer_token := meta_new (slk_payer_token accounts) False,
       slm_payee_a_token := meta_new (slk_payee_a_token accounts) False,
       slm_payee_b_token := meta_new (slk_payee_b_token accounts) False,
       slm_payer_cri := meta_new (slk_payer_cri accounts) False,
       slm_payee_a_cri := meta_new (slk_payee_a_cri accounts) False,
       slm_payee_b_cri := meta_new (slk_payee_b_cri accounts) False,
       slm_aeon_mint := meta_new_readonly (slk_aeon_mint accounts) False,
       slm_token_program := meta_new_readonly (slk_token_program accounts) False\<rparr>\<rparr>"

definition atomic_split_instruction_with_remaining_accounts ::
    "atomic_split_instruction \<Rightarrow> account_meta list \<Rightarrow> atomic_split_instruction" where
  "atomic_split_instruction_with_remaining_accounts ix accounts = ix\<lparr>sli_remaining_accounts := accounts\<rparr>"

definition atomic_split_instruction_to_account_metas :: "atomic_split_instruction \<Rightarrow> account_meta list" where
  "atomic_split_instruction_to_account_metas ix =
     (let a = sli_accounts ix in
      [slm_payer a, slm_payee_a a, slm_payee_b a, slm_config a, slm_authority a,
       slm_payer_token a, slm_payee_a_token a, slm_payee_b_token a, slm_payer_cri a,
       slm_payee_a_cri a, slm_payee_b_cri a, slm_aeon_mint a, slm_token_program a]
      @ sli_remaining_accounts ix)"

definition atomic_split_instruction_build :: "pubkey \<Rightarrow> atomic_split_instruction \<Rightarrow> solana_instruction" where
  "atomic_split_instruction_build program_id ix =
     \<lparr>si_program_id = program_id,
      si_accounts = atomic_split_instruction_to_account_metas ix,
      si_data = atomic_split_instruction_discriminator @ atomic_split_instruction_data_bytes (sli_data ix)\<rparr>"

lemmas atomic_split_client_defs = atomic_split_instruction_of_data_def atomic_split_instruction_with_accounts_def
  atomic_split_instruction_with_remaining_accounts_def atomic_split_instruction_to_account_metas_def
  atomic_split_instruction_build_def atomic_split_instruction_data_bytes_def atomic_split_instruction_discriminator_def

subsection \<open>\<^verbatim>\<open>CreateOrgInstruction\<close>\<close>

record create_org_instruction_account_metas =
  com_creator :: account_meta
  com_config :: account_meta
  com_creator_identity :: account_meta
  com_organization :: account_meta
  com_org_treasury :: account_meta
  com_creator_member :: account_meta
  com_aeon_mint :: account_meta
  com_token_program :: account_meta
  com_system_program :: account_meta
  com_rent :: account_meta

record create_org_instruction_accounts =
  cok_creator :: pubkey
  cok_config :: pubkey
  cok_creator_identity :: pubkey
  cok_organization :: pubkey
  cok_org_treasury :: pubkey
  cok_creator_member :: pubkey
  cok_aeon_mint :: pubkey
  cok_token_program :: pubkey
  cok_system_program :: pubkey
  cok_rent :: pubkey

record create_org_instruction_data =
  cod_org_id :: u64
  cod_name_hash :: bytes
  cod_creator_share_bps :: u16

record create_org_instruction =
  coi_accounts :: create_org_instruction_account_metas
  coi_data :: create_org_instruction_data
  coi_remaining_accounts :: "account_meta list"

definition create_org_instruction_discriminator :: bytes where
  "create_org_instruction_discriminator = [48, 115, 187, 249, 36, 3, 186, 175]"

definition create_org_instruction_data_bytes :: "create_org_instruction_data \<Rightarrow> bytes" where
  "create_org_instruction_data_bytes d =
     le_bytes (cod_org_id d) @ cod_name_hash d @ le16 (cod_creator_share_bps d)"

definition create_org_instruction_of_data :: "create_org_instruction_data \<Rightarrow> create_org_instruction" where
  "create_org_instruction_of_data d =
     \<lparr>coi_accounts = \<lparr>
        com_creator = meta_default, com_config = meta_default,
        com_creator_identity = meta_default, com_organization = meta_default,
        com_org_treasury = meta_default, com_creator_member = meta_default,
        com_aeon_mint = meta_default, com_token_program = meta_default,
        com_system_program = meta_default, com_rent = meta_default\<rparr>,
      coi_data = d, coi_remaining_accounts = []\<rparr>"

definition create_org_instruction_with_accounts ::
    "create_org_instruction \<Rightarrow> create_org_instruction_accounts \<Rightarrow> create_org_instruction" where
  "create_org_instruction_with_accounts ix accounts =
     ix\<lparr>coi_accounts := (coi_accounts ix)\<lparr>
       com_creator := meta_new (cok_creator accounts) True,
       com_config := meta_new (cok_config accounts) False,
       com_creator_identity := meta_new_readonly (cok_creator_identity accounts) False,
       com_organization := meta_new (cok_organization accounts) False,
       com_org_treasury := meta_new (cok_org_treasury accounts) False,
       com_creator_member := meta_new (cok_creator_member accounts) False,
       com_aeon_mint := meta_new_readonly (cok_aeon_mint accounts) False,
       com_token_program := meta_new_readonly (cok_token_program accounts) False,
       com_system_program := meta_new_readonly (cok_system_program accounts) False,
       com_rent := meta_new_readonly (cok_rent accounts) False\<rparr>\<rparr>"

definition create_org_instruction_with_remaining_accounts ::
    "create_org_instruction \<Rightarrow> account_meta list \<Rightarrow> create_org_instruction" where
  "create_org_instruction_with_remaining_accounts ix accounts = ix\<lparr>coi_remaining_accounts := accounts\<rparr>"

definition create_org_instruction_to_account_metas :: "create_org_instruction \<Rightarrow> account_meta list" where
  "create_org_instruction_to_account_metas ix =
     (let a = coi_accounts ix in
      [com_creator a, com_config a, com_creator_identity a, com_organization a,
       com_org_treasury a, com_creator_member a, com_aeon_mint a, com_token_program a,
       com_system_program a, com_rent a]
      @ coi_remaining_accounts ix)"

definition create_org_instruction_build :: "pubkey \<Rightarrow> create_org_instruction \<Rightarrow> solana_instruction" where
  "create_org_instruction_build program_id ix =
     \<lparr>si_program_id = program_id,
      si_accounts = create_org_instruction_to_account_metas ix,
      si_data = create_org_instruction_discriminator @ create_org_instruction_data_bytes (coi_data ix)\<rparr>"

lemmas create_org_client_defs = create_org_instruction_of_data_def create_org_instruction_with_accounts_def
  create_org_instruction_with_remaining_accounts_def create_org_instruction_to_account_metas_def
  create_org_instruction_build_def create_org_instruction_data_bytes_def create_org_instruction_discriminator_def

subsection \<open>\<^verbatim>\<open>DepositToOrgInstruction\<close>\<close>

record deposit_to_org_instruction_account_metas =
  dom_member :: account_meta
  dom_organization :: account_meta
  dom_org_member :: account_meta
  dom_org_treasury :: account_meta
  dom_member_token :: account_meta
  dom_aeon_mint :: account_meta
  dom_token_program :: account_meta

record deposit_to_org_instruction_accounts =
  dok_member :: pubkey
  dok_organization :: pubkey
  dok_org_member :: pubkey
  dok_org_treasury :: pubkey
  dok_member_token :: pubkey
  dok_aeon_mint :: pubkey
  dok_token_program :: pubkey

record deposit_to_org_instruction_data =
  dod_org_id :: u64
  dod_amount :: u64

record deposit_to_org_instruction =
  doi_accounts :: deposit_to_org_instruction_account_metas
  doi_data :: deposit_to_org_instruction_data
  doi_remaining_accounts :: "account_meta list"

definition deposit_to_org_instruction_discriminator :: bytes where
  "deposit_to_org_instruction_discriminator = [20, 39, 3, 24, 191, 146, 173, 32]"

definition deposit_to_org_instruction_data_bytes :: "deposit_to_org_instruction_data \<Rightarrow> bytes" where
  "deposit_to_org_instruction_data_bytes d =
     le_bytes (dod_org_id d) @ le_bytes (dod_amount d)"

definition deposit_to_org_instruction_of_data :: "deposit_to_org_instruction_data \<Rightarrow> deposit_to_org_instruction" where
  "deposit_to_org_instruction_of_data d =
     \<lparr>doi_accounts = \<lparr>
        dom_member = meta_default, dom_organization = meta_default,
        dom_org_member = meta_default, dom_org_treasury = meta_default,
        dom_member_token = meta_default, dom_aeon_mint = meta_default,
        dom_token_program = meta_default\<rparr>,
      doi_data = d, doi_remaining_accounts = []\<rparr>"

definition deposit_to_org_instruction_with_accounts ::
    "deposit_to_org_instruction \<Rightarrow> deposit_to_org_instruction_accounts \<Rightarrow> deposit_to_org_instruction" where
  "deposit_to_org_instruction_with_accounts ix accounts =
     ix\<lparr>doi_accounts := (doi_accounts ix)\<lparr>
       dom_member := meta_new_readonly (dok_member accounts) True,
       dom_organization := meta_new (dok_organization accounts) False,
       dom_org_member := meta_new_readonly (dok_org_member accounts) False,
       dom_org_treasury := meta_new (dok_org_treasury accounts) False,
       dom_member_token := meta_new (dok_member_token accounts) False,
       dom_aeon_mint := meta_new_readonly (dok_aeon_mint accounts) False,
       dom_token_program := meta_new_readonly (dok_token_program accounts) False\<rparr>\<rparr>"

definition deposit_to_org_instruction_with_remaining_accounts ::
    "deposit_to_org_instruction \<Rightarrow> account_meta list \<Rightarrow> deposit_to_org_instruction" where
  "deposit_to_org_instruction_with_remaining_accounts ix accounts = ix\<lparr>doi_remaining_accounts := accounts\<rparr>"

definition deposit_to_org_instruction_to_account_metas :: "deposit_to_org_instruction \<Rightarrow> account_meta list" where
  "deposit_to_org_instruction_to_account_metas ix =
     (let a = doi_accounts ix in
      [dom_member a, dom_organization a, dom_org_member a, dom_org_treasury a,
       dom_member_token a, dom_aeon_mint a, dom_token_program a]
      @ doi_remaining_accounts ix)"

definition deposit_to_org_instruction_build :: "pubkey \<Rightarrow> deposit_to_org_instruction \<Rightarrow> solana_instruction" where
  "deposit_to_org_instruction_build program_id ix =
     \<lparr>si_program_id = program_id,
      si_accounts = deposit_to_org_instruction_to_account_metas ix,
      si_data = deposit_to_org_instruction_discriminator @ deposit_to_org_instruction_data_bytes (doi_data ix)\<rparr>"

lemmas deposit_to_org_client_defs = deposit_to_org_instruction_of_data_def deposit_to_org_instruction_with_accounts_def
  deposit_to_org_instruction_with_remaining_accounts_def deposit_to_org_instruction_to_account_metas_def
  deposit_to_org_instruction_build_def deposit_to_org_instruction_data_bytes_def deposit_to_org_instruction_discriminator_def

subsection \<open>\<^verbatim>\<open>OrgSplitInstruction\<close>\<close>

record org_split_instruction_account_metas =
  osm_admin :: account_meta
  osm_organization :: account_meta
  osm_admin_member :: account_meta
  osm_recipient_member :: account_meta
  osm_recipient_token :: account_meta
  osm_org_treasury :: account_meta
  osm_aeon_mint :: account_meta
  osm_token_program :: account_meta

record org_split_instruction_accounts =
  osk_admin :: pubkey
  osk_organization :: pubkey
  osk_admin_member :: pubkey
  osk_recipient_member :: pubkey
  osk_recipient_token :: pubkey
  osk_org_treasury :: pubkey
  osk_aeon_mint :: pubkey
  osk_token_program :: pubkey

record org_split_instruction_data =
  osd_org_id :: u64
  osd_amounts :: "u64 list"

record org_split_instruction =
  osi_accounts :: org_split_instruction_account_metas
  osi_data :: org_split_instruction_data
  osi_remaining_accounts :: "account_meta list"

definition org_split_instruction_discriminator :: bytes where
  "org_split_instruction_discriminator = [100, 227, 62, 222, 189, 106, 19, 24]"

definition org_split_instruction_data_bytes :: "org_split_instruction_data \<Rightarrow> bytes" where
  "org_split_instruction_data_bytes d =
     le_bytes (osd_org_id d) @ vec_bytes le_bytes (osd_amounts d)"

definition org_split_instruction_of_data :: "org_split_instruction_data \<Rightarrow> org_split_instruction" where
  "org_split_instruction_of_data d =
     \<lparr>osi_accounts = \<lparr>
        osm_admin = meta_default, osm_organization = meta_default,
        osm_admin_member = meta_default, osm_recipient_member = meta_default,
        osm_recipient_token = meta_default, osm_org_treasury = meta_default,
        osm_aeon_mint = meta_default, osm_token_program = meta_default\<rparr>,
      osi_data = d, osi_remaining_accounts = []\<rparr>"

definition org_split_instruction_with_accounts ::
    "org_split_instruction \<Rightarrow> org_split_instruction_accounts \<Rightarrow> org_split_instruction" where
  "org_split_instruction_with_accounts ix accounts =
     ix\<lparr>osi_accounts := (osi_accounts ix)\<lparr>
       osm_admin := meta_new_readonly (osk_admin accounts) True,
       osm_organization := meta_new (osk_organization accounts) False,
       osm_admin_member := meta_new_readonly (osk_admin_member accounts) False,
       osm_recipient_member := meta_new_readonly (osk_recipient_member accounts) False,
       osm_recipient_token := meta_new (osk_recipient_token accounts) False,
       osm_org_treasury := meta_new (osk_org_treasury accounts) False,
       osm_aeon_mint := meta_new_readonly (osk_aeon_mint accounts) False,
       osm_token_program := meta_new_readonly (osk_token_program accounts) False\<rparr>\<rparr>"

definition org_split_instruction_with_remaining_accounts ::
    "org_split_instruction \<Rightarrow> account_meta list \<Rightarrow> org_split_instruction" where
  "org_split_instruction_with_remaining_accounts ix accounts = ix\<lparr>osi_remaining_accounts := accounts\<rparr>"

definition org_split_instruction_to_account_metas :: "org_split_instruction \<Rightarrow> account_meta list" where
  "org_split_instruction_to_account_metas ix =
     (let a = osi_accounts ix in
      [osm_admin a, osm_organization a, osm_admin_member a, osm_recipient_member a,
       osm_recipient_token a, osm_org_treasury a, osm_aeon_mint a, osm_token_program a]
      @ osi_remaining_accounts ix)"

definition org_split_instruction_build :: "pubkey \<Rightarrow> org_split_instruction \<Rightarrow> solana_instruction" where
  "org_split_instruction_build program_id ix =
     \<lparr>si_program_id = program_id,
      si_accounts = org_split_instruction_to_account_metas ix,
      si_data = org_split_instruction_discriminator @ org_split_instruction_data_bytes (osi_data ix)\<rparr>"

lemmas org_split_client_defs = org_split_instruction_of_data_def org_split_instruction_with_accounts_def
  org_split_instruction_with_remaining_accounts_def org_split_instruction_to_account_metas_def
  org_split_instruction_build_def org_split_instruction_data_bytes_def org_split_instruction_discriminator_def

subsection \<open>\<^verbatim>\<open>DissolveOrgInstruction\<close>\<close>

record dissolve_org_instruction_account_metas =
  dim_admin :: account_meta
  dim_organization :: account_meta
  dim_admin_member :: account_meta
  dim_admin_token :: account_meta
  dim_member_b :: account_meta
  dim_member_b_token :: account_meta
  dim_org_treasury :: account_meta
  dim_aeon_mint :: account_meta
  dim_token_program :: account_meta

record dissolve_org_instruction_accounts =
  dik_admin :: pubkey
  dik_organization :: pubkey
  dik_admin_member :: pubkey
  dik_admin_token :: pubkey
  dik_member_b :: pubkey
  dik_member_b_token :: pubkey
  dik_org_treasury :: pubkey
  dik_aeon_mint :: pubkey
  dik_token_program :: pubkey

record dissolve_org_instruction_data =
  did_org_id :: u64

record dissolve_org_instruction =
  dii_accounts :: dissolve_org_instruction_account_metas
  dii_data :: dissolve_org_instruction_data
  dii_remaining_accounts :: "account_meta list"

definition dissolve_org_instruction_discriminator :: bytes where
  "dissolve_org_instruction_discriminator = [143, 107, 214, 170, 100, 0, 213, 54]"

definition dissolve_org_instruction_data_bytes :: "dissolve_org_instruction_data \<Rightarrow> bytes" where
  "dissolve_org_instruction_data_bytes d =
     le_bytes (did_org_id d)"

definition dissolve_org_instruction_of_data :: "dissolve_org_instruction_data \<Rightarrow> dissolve_org_instruction" where
  "dissolve_org_instruction_of_data d =
     \<lparr>dii_accounts = \<lparr>
        dim_admin = meta_default, dim_organization = meta_default,
        dim_admin_member = meta_default, dim_admin_token = meta_default,
        dim_member_b = meta_default, dim_member_b_token = meta_default,
        dim_org_treasury = meta_default, dim_aeon_mint = meta_default,
        dim_token_program = meta_default\<rparr>,
      dii_data = d, dii_remaining_accounts = []\<rparr>"

definition dissolve_org_instruction_with_accounts ::
    "dissolve_org_instruction \<Rightarrow> dissolve_org_instruction_accounts \<Rightarrow> dissolve_org_instruction" where
  "dissolve_org_instruction_with_accounts ix accounts =
     ix\<lparr>dii_accounts := (dii_accounts ix)\<lparr>
       dim_admin := meta_new_readonly (dik_admin accounts) True,
       dim_organization := meta_new (dik_organization accounts) False,
       dim_admin_member := meta_new_readonly (dik_admin_member accounts) False,
       dim_admin_token := meta_new (dik_admin_token accounts) False,
       dim_member_b := meta_new_readonly (dik_member_b accounts) False,
       dim_member_b_token := meta_new (dik_member_b_token accounts) False,
       dim_org_treasury := meta_new (dik_org_treasury accounts) False,
       dim_aeon_mint := meta_new_readonly (dik_aeon_mint accounts) False,
       dim_token_program := meta_new_readonly (dik_token_program accounts) False\<rparr>\<rparr>"

definition dissolve_org_instruction_with_remaining_accounts ::
    "dissolve_org_instruction \<Rightarrow> account_meta list \<Rightarrow> dissolve_org_instruction" where
  "dissolve_org_instruction_with_remaining_accounts ix accounts = ix\<lparr>dii_remaining_accounts := accounts\<rparr>"

definition dissolve_org_instruction_to_account_metas :: "dissolve_org_instruction \<Rightarrow> account_meta list" where
  "dissolve_org_instruction_to_account_metas ix =
     (let a = dii_accounts ix in
      [dim_admin a, dim_organization a, dim_admin_member a, dim_admin_token a, dim_member_b a,
       dim_member_b_token a, dim_org_treasury a, dim_aeon_mint a, dim_token_program a]
      @ dii_remaining_accounts ix)"

definition dissolve_org_instruction_build :: "pubkey \<Rightarrow> dissolve_org_instruction \<Rightarrow> solana_instruction" where
  "dissolve_org_instruction_build program_id ix =
     \<lparr>si_program_id = program_id,
      si_accounts = dissolve_org_instruction_to_account_metas ix,
      si_data = dissolve_org_instruction_discriminator @ dissolve_org_instruction_data_bytes (dii_data ix)\<rparr>"

lemmas dissolve_org_client_defs = dissolve_org_instruction_of_data_def dissolve_org_instruction_with_accounts_def
  dissolve_org_instruction_with_remaining_accounts_def dissolve_org_instruction_to_account_metas_def
  dissolve_org_instruction_build_def dissolve_org_instruction_data_bytes_def dissolve_org_instruction_discriminator_def

subsection \<open>\<^verbatim>\<open>JoinOrgInstruction\<close>\<close>

record join_org_instruction_account_metas =
  jom_admin :: account_meta
  jom_new_agent :: account_meta
  jom_organization :: account_meta
  jom_admin_member :: account_meta
  jom_agent_identity :: account_meta
  jom_new_member :: account_meta
  jom_system_program :: account_meta

record join_org_instruction_accounts =
  jok_admin :: pubkey
  jok_new_agent :: pubkey
  jok_organization :: pubkey
  jok_admin_member :: pubkey
  jok_agent_identity :: pubkey
  jok_new_member :: pubkey
  jok_system_program :: pubkey

record join_org_instruction_data =
  jod_org_id :: u64
  jod_role :: u8
  jod_share_bps :: u16

record join_org_instruction =
  joi_accounts :: join_org_instruction_account_metas
  joi_data :: join_org_instruction_data
  joi_remaining_accounts :: "account_meta list"

definition join_org_instruction_discriminator :: bytes where
  "join_org_instruction_discriminator = [109, 42, 124, 13, 143, 30, 147, 188]"

definition join_org_instruction_data_bytes :: "join_org_instruction_data \<Rightarrow> bytes" where
  "join_org_instruction_data_bytes d =
     le_bytes (jod_org_id d) @ [jod_role d] @ le16 (jod_share_bps d)"

definition join_org_instruction_of_data :: "join_org_instruction_data \<Rightarrow> join_org_instruction" where
  "join_org_instruction_of_data d =
     \<lparr>joi_accounts = \<lparr>
        jom_admin = meta_default, jom_new_agent = meta_default, jom_organization = meta_default,
        jom_admin_member = meta_default, jom_agent_identity = meta_default,
        jom_new_member = meta_default, jom_system_program = meta_default\<rparr>,
      joi_data = d, joi_remaining_accounts = []\<rparr>"

definition join_org_instruction_with_accounts ::
    "join_org_instruction \<Rightarrow> join_org_instruction_accounts \<Rightarrow> join_org_instruction" where
  "join_org_instruction_with_accounts ix accounts =
     ix\<lparr>joi_accounts := (joi_accounts ix)\<lparr>
       jom_admin := meta_new (jok_admin accounts) True,
       jom_new_agent := meta_new_readonly (jok_new_agent accounts) False,
       jom_organization := meta_new (jok_organization accounts) False,
       jom_admin_member := meta_new_readonly (jok_admin_member accounts) False,
       jom_agent_identity := meta_new_readonly (jok_agent_identity accounts) False,
       jom_new_member := meta_new (jok_new_member accounts) False,
       jom_system_program := meta_new_readonly (jok_system_program accounts) False\<rparr>\<rparr>"

definition join_org_instruction_with_remaining_accounts ::
    "join_org_instruction \<Rightarrow> account_meta list \<Rightarrow> join_org_instruction" where
  "join_org_instruction_with_remaining_accounts ix accounts = ix\<lparr>joi_remaining_accounts := accounts\<rparr>"

definition join_org_instruction_to_account_metas :: "join_org_instruction \<Rightarrow> account_meta list" where
  "join_org_instruction_to_account_metas ix =
     (let a = joi_accounts ix in
      [jom_admin a, jom_new_agent a, jom_organization a, jom_admin_member a,
       jom_agent_identity a, jom_new_member a, jom_system_program a]
      @ joi_remaining_accounts ix)"

definition join_org_instruction_build :: "pubkey \<Rightarrow> join_org_instruction \<Rightarrow> solana_instruction" where
  "join_org_instruction_build program_id ix =
     \<lparr>si_program_id = program_id,
      si_accounts = join_org_instruction_to_account_metas ix,
      si_data = join_org_instruction_discriminator @ join_org_instruction_data_bytes (joi_data ix)\<rparr>"

lemmas join_org_client_defs = join_org_instruction_of_data_def join_org_instruction_with_accounts_def
  join_org_instruction_with_remaining_accounts_def join_org_instruction_to_account_metas_def
  join_org_instruction_build_def join_org_instruction_data_bytes_def join_org_instruction_discriminator_def

subsection \<open>\<^verbatim>\<open>SetMemberShareInstruction\<close>\<close>

record set_member_share_instruction_account_metas =
  smm_admin :: account_meta
  smm_organization :: account_meta
  smm_admin_member :: account_meta
  smm_target_member :: account_meta

record set_member_share_instruction_accounts =
  smk_admin :: pubkey
  smk_organization :: pubkey
  smk_admin_member :: pubkey
  smk_target_member :: pubkey

record set_member_share_instruction_data =
  smd_org_id :: u64
  smd_new_share_bps :: u16

record set_member_share_instruction =
  smi_accounts :: set_member_share_instruction_account_metas
  smi_data :: set_member_share_instruction_data
  smi_remaining_accounts :: "account_meta list"

definition set_member_share_instruction_discriminator :: bytes where
  "set_member_share_instruction_discriminator = [201, 0, 164, 254, 106, 117, 223, 152]"

definition set_member_share_instruction_data_bytes :: "set_member_share_instruction_data \<Rightarrow> bytes" where
  "set_member_share_instruction_data_bytes d =
     le_bytes (smd_org_id d) @ le16 (smd_new_share_bps d)"

definition set_member_share_instruction_of_data :: "set_member_share_instruction_data \<Rightarrow> set_member_share_instruction" where
  "set_member_share_instruction_of_data d =
     \<lparr>smi_accounts = \<lparr>
        smm_admin = meta_default, smm_organization = meta_default,
        smm_admin_member = meta_default, smm_target_member = meta_default\<rparr>,
      smi_data = d, smi_remaining_accounts = []\<rparr>"

definition set_member_share_instruction_with_accounts ::
    "set_member_share_instruction \<Rightarrow> set_member_share_instruction_accounts \<Rightarrow> set_member_share_instruction" where
  "set_member_share_instruction_with_accounts ix accounts =
     ix\<lparr>smi_accounts := (smi_accounts ix)\<lparr>
       smm_admin := meta_new_readonly (smk_admin accounts) True,
       smm_organization := meta_new (smk_organization accounts) False,
       smm_admin_member := meta_new_readonly (smk_admin_member accounts) False,
       smm_target_member := meta_new (smk_target_member accounts) False\<rparr>\<rparr>"

definition set_member_share_instruction_with_remaining_accounts ::
    "set_member_share_instruction \<Rightarrow> account_meta list \<Rightarrow> set_member_share_instruction" where
  "set_member_share_instruction_with_remaining_accounts ix accounts = ix\<lparr>smi_remaining_accounts := accounts\<rparr>"

definition set_member_share_instruction_to_account_metas :: "set_member_share_instruction \<Rightarrow> account_meta list" where
  "set_member_share_instruction_to_account_metas ix =
     (let a = smi_accounts ix in
      [smm_admin a, smm_organization a, smm_admin_member a, smm_target_member a]
      @ smi_remaining_accounts ix)"

definition set_member_share_instruction_build :: "pubkey \<Rightarrow> set_member_share_instruction \<Rightarrow> solana_instruction" where
  "set_member_share_instruction_build program_id ix =
     \<lparr>si_program_id = program_id,
      si_accounts = set_member_share_instruction_to_account_metas ix,
      si_data = set_member_share_instruction_discriminator @ set_member_share_instruction_data_bytes (smi_data ix)\<rparr>"

lemmas set_member_share_client_defs = set_member_share_instruction_of_data_def set_member_share_instruction_with_accounts_def
  set_member_share_instruction_with_remaining_accounts_def set_member_share_instruction_to_account_metas_def
  set_member_share_instruction_build_def set_member_share_instruction_data_bytes_def set_member_share_instruction_discriminator_def

subsection \<open>\<^verbatim>\<open>ReclaimOrgResidualInstruction\<close>\<close>

record reclaim_org_residual_instruction_account_metas =
  rrm_authority :: account_meta
  rrm_organization :: account_meta
  rrm_authority_member :: account_meta
  rrm_org_treasury :: account_meta
  rrm_destination :: account_meta
  rrm_aeon_mint :: account_meta
  rrm_token_program :: account_meta

record reclaim_org_residual_instruction_accounts =
  rrk_authority :: pubkey
  rrk_organization :: pubkey
  rrk_authority_member :: pubkey
  rrk_org_treasury :: pubkey
  rrk_destination :: pubkey
  rrk_aeon_mint :: pubkey
  rrk_token_program :: pubkey

record reclaim_org_residual_instruction_data =
  rrd_org_id :: u64

record reclaim_org_residual_instruction =
  rri_accounts :: reclaim_org_residual_instruction_account_metas
  rri_data :: reclaim_org_residual_instruction_data
  rri_remaining_accounts :: "account_meta list"

definition reclaim_org_residual_instruction_discriminator :: bytes where
  "reclaim_org_residual_instruction_discriminator = [238, 65, 100, 177, 211, 144, 234, 246]"

definition reclaim_org_residual_instruction_data_bytes :: "reclaim_org_residual_instruction_data \<Rightarrow> bytes" where
  "reclaim_org_residual_instruction_data_bytes d =
     le_bytes (rrd_org_id d)"

definition reclaim_org_residual_instruction_of_data :: "reclaim_org_residual_instruction_data \<Rightarrow> reclaim_org_residual_instruction" where
  "reclaim_org_residual_instruction_of_data d =
     \<lparr>rri_accounts = \<lparr>
        rrm_authority = meta_default, rrm_organization = meta_default,
        rrm_authority_member = meta_default, rrm_org_treasury = meta_default,
        rrm_destination = meta_default, rrm_aeon_mint = meta_default,
        rrm_token_program = meta_default\<rparr>,
      rri_data = d, rri_remaining_accounts = []\<rparr>"

definition reclaim_org_residual_instruction_with_accounts ::
    "reclaim_org_residual_instruction \<Rightarrow> reclaim_org_residual_instruction_accounts \<Rightarrow> reclaim_org_residual_instruction" where
  "reclaim_org_residual_instruction_with_accounts ix accounts =
     ix\<lparr>rri_accounts := (rri_accounts ix)\<lparr>
       rrm_authority := meta_new_readonly (rrk_authority accounts) True,
       rrm_organization := meta_new (rrk_organization accounts) False,
       rrm_authority_member := meta_new_readonly (rrk_authority_member accounts) False,
       rrm_org_treasury := meta_new (rrk_org_treasury accounts) False,
       rrm_destination := meta_new (rrk_destination accounts) False,
       rrm_aeon_mint := meta_new_readonly (rrk_aeon_mint accounts) False,
       rrm_token_program := meta_new_readonly (rrk_token_program accounts) False\<rparr>\<rparr>"

definition reclaim_org_residual_instruction_with_remaining_accounts ::
    "reclaim_org_residual_instruction \<Rightarrow> account_meta list \<Rightarrow> reclaim_org_residual_instruction" where
  "reclaim_org_residual_instruction_with_remaining_accounts ix accounts = ix\<lparr>rri_remaining_accounts := accounts\<rparr>"

definition reclaim_org_residual_instruction_to_account_metas :: "reclaim_org_residual_instruction \<Rightarrow> account_meta list" where
  "reclaim_org_residual_instruction_to_account_metas ix =
     (let a = rri_accounts ix in
      [rrm_authority a, rrm_organization a, rrm_authority_member a, rrm_org_treasury a,
       rrm_destination a, rrm_aeon_mint a, rrm_token_program a]
      @ rri_remaining_accounts ix)"

definition reclaim_org_residual_instruction_build :: "pubkey \<Rightarrow> reclaim_org_residual_instruction \<Rightarrow> solana_instruction" where
  "reclaim_org_residual_instruction_build program_id ix =
     \<lparr>si_program_id = program_id,
      si_accounts = reclaim_org_residual_instruction_to_account_metas ix,
      si_data = reclaim_org_residual_instruction_discriminator @ reclaim_org_residual_instruction_data_bytes (rri_data ix)\<rparr>"

lemmas reclaim_org_residual_client_defs = reclaim_org_residual_instruction_of_data_def reclaim_org_residual_instruction_with_accounts_def
  reclaim_org_residual_instruction_with_remaining_accounts_def reclaim_org_residual_instruction_to_account_metas_def
  reclaim_org_residual_instruction_build_def reclaim_org_residual_instruction_data_bytes_def reclaim_org_residual_instruction_discriminator_def

subsection \<open>The calls of the client\<close>

text \<open>
  A call is what a test writes, \<^verbatim>\<open>XInstruction::data(d).accounts(k).remaining_accounts(r)\<close>, and
  then \<^verbatim>\<open>.instruction()\<close>.
\<close>

datatype client_call =
    CallInitializeConfig initialize_config_instruction_accounts initialize_config_instruction_data
  | CallRegisterAgent register_agent_instruction_accounts
  | CallIssueAuthority issue_authority_instruction_accounts issue_authority_instruction_data
  | CallRevokeAuthority revoke_authority_instruction_accounts revoke_authority_instruction_data
  | CallPay pay_instruction_accounts pay_instruction_data
  | CallCreateEscrow create_escrow_instruction_accounts create_escrow_instruction_data
  | CallReleaseEscrow release_escrow_instruction_accounts release_escrow_instruction_data
  | CallCancelEscrow cancel_escrow_instruction_accounts cancel_escrow_instruction_data
  | CallAtomicSplit atomic_split_instruction_accounts atomic_split_instruction_data
  | CallCreateOrg create_org_instruction_accounts create_org_instruction_data
  | CallDepositToOrg deposit_to_org_instruction_accounts deposit_to_org_instruction_data
  | CallOrgSplit org_split_instruction_accounts org_split_instruction_data
  | CallDissolveOrg dissolve_org_instruction_accounts dissolve_org_instruction_data
  | CallJoinOrg join_org_instruction_accounts join_org_instruction_data
  | CallSetMemberShare set_member_share_instruction_accounts set_member_share_instruction_data
  | CallReclaimOrgResidual reclaim_org_residual_instruction_accounts reclaim_org_residual_instruction_data

fun client_instruction :: "pubkey \<Rightarrow> client_call \<Rightarrow> account_meta list \<Rightarrow> solana_instruction" where
  "client_instruction pid (CallInitializeConfig k d) rs =
     initialize_config_instruction_build pid (initialize_config_instruction_with_remaining_accounts
       (initialize_config_instruction_with_accounts (initialize_config_instruction_of_data d) k) rs)"
| "client_instruction pid (CallRegisterAgent k) rs =
     register_agent_instruction_build pid (register_agent_instruction_with_remaining_accounts
       (register_agent_instruction_with_accounts (register_agent_instruction_of_data ()) k) rs)"
| "client_instruction pid (CallIssueAuthority k d) rs =
     issue_authority_instruction_build pid (issue_authority_instruction_with_remaining_accounts
       (issue_authority_instruction_with_accounts (issue_authority_instruction_of_data d) k) rs)"
| "client_instruction pid (CallRevokeAuthority k d) rs =
     revoke_authority_instruction_build pid (revoke_authority_instruction_with_remaining_accounts
       (revoke_authority_instruction_with_accounts (revoke_authority_instruction_of_data d) k) rs)"
| "client_instruction pid (CallPay k d) rs =
     pay_instruction_build pid (pay_instruction_with_remaining_accounts
       (pay_instruction_with_accounts (pay_instruction_of_data d) k) rs)"
| "client_instruction pid (CallCreateEscrow k d) rs =
     create_escrow_instruction_build pid (create_escrow_instruction_with_remaining_accounts
       (create_escrow_instruction_with_accounts (create_escrow_instruction_of_data d) k) rs)"
| "client_instruction pid (CallReleaseEscrow k d) rs =
     release_escrow_instruction_build pid (release_escrow_instruction_with_remaining_accounts
       (release_escrow_instruction_with_accounts (release_escrow_instruction_of_data d) k) rs)"
| "client_instruction pid (CallCancelEscrow k d) rs =
     cancel_escrow_instruction_build pid (cancel_escrow_instruction_with_remaining_accounts
       (cancel_escrow_instruction_with_accounts (cancel_escrow_instruction_of_data d) k) rs)"
| "client_instruction pid (CallAtomicSplit k d) rs =
     atomic_split_instruction_build pid (atomic_split_instruction_with_remaining_accounts
       (atomic_split_instruction_with_accounts (atomic_split_instruction_of_data d) k) rs)"
| "client_instruction pid (CallCreateOrg k d) rs =
     create_org_instruction_build pid (create_org_instruction_with_remaining_accounts
       (create_org_instruction_with_accounts (create_org_instruction_of_data d) k) rs)"
| "client_instruction pid (CallDepositToOrg k d) rs =
     deposit_to_org_instruction_build pid (deposit_to_org_instruction_with_remaining_accounts
       (deposit_to_org_instruction_with_accounts (deposit_to_org_instruction_of_data d) k) rs)"
| "client_instruction pid (CallOrgSplit k d) rs =
     org_split_instruction_build pid (org_split_instruction_with_remaining_accounts
       (org_split_instruction_with_accounts (org_split_instruction_of_data d) k) rs)"
| "client_instruction pid (CallDissolveOrg k d) rs =
     dissolve_org_instruction_build pid (dissolve_org_instruction_with_remaining_accounts
       (dissolve_org_instruction_with_accounts (dissolve_org_instruction_of_data d) k) rs)"
| "client_instruction pid (CallJoinOrg k d) rs =
     join_org_instruction_build pid (join_org_instruction_with_remaining_accounts
       (join_org_instruction_with_accounts (join_org_instruction_of_data d) k) rs)"
| "client_instruction pid (CallSetMemberShare k d) rs =
     set_member_share_instruction_build pid (set_member_share_instruction_with_remaining_accounts
       (set_member_share_instruction_with_accounts (set_member_share_instruction_of_data d) k) rs)"
| "client_instruction pid (CallReclaimOrgResidual k d) rs =
     reclaim_org_residual_instruction_build pid (reclaim_org_residual_instruction_with_remaining_accounts
       (reclaim_org_residual_instruction_with_accounts (reclaim_org_residual_instruction_of_data d) k) rs)"

end
