(* ===== verification/Client_Calls.thy ===== *)
theory Client_Calls
  imports Aeon_Entry Client_Instructions Aeon_Avoid
begin

text \<open>
  Client and program together: which instruction of the program a client call stands for, the
  transaction its account flags make, and the flags the account declarations ask for.
\<close>

subsection \<open>What a call stands for\<close>

text \<open>The values the Rust types of the data allow: arrays have their length.\<close>

fun call_ok :: "client_call \<Rightarrow> bool" where
  "call_ok (CallInitializeConfig k d) = (length (icd_aeon_mint d) = 32)"
| "call_ok (CallRegisterAgent k) = True"
| "call_ok (CallIssueAuthority k d) = (length (iad_categories d) < 2 ^ 32 \<and> (\<forall>c \<in> set (iad_categories d). length c = 16))"
| "call_ok (CallRevokeAuthority k d) = True"
| "call_ok (CallPay k d) = (length (payd_category d) = 16)"
| "call_ok (CallCreateEscrow k d) = (length (ced_category d) = 16 \<and> length (ced_condition_data d) = 64)"
| "call_ok (CallReleaseEscrow k d) = (length (red_witness d) = 64)"
| "call_ok (CallCancelEscrow k d) = True"
| "call_ok (CallAtomicSplit k d) = (length (sld_amounts d) < 2 ^ 32 \<and> length (sld_category d) = 16)"
| "call_ok (CallCreateOrg k d) = (length (cod_name_hash d) = 32)"
| "call_ok (CallDepositToOrg k d) = True"
| "call_ok (CallOrgSplit k d) = (length (osd_amounts d) < 2 ^ 32)"
| "call_ok (CallDissolveOrg k d) = True"
| "call_ok (CallJoinOrg k d) = True"
| "call_ok (CallSetMemberShare k d) = True"
| "call_ok (CallReclaimOrgResidual k d) = True"

text \<open>
  The instruction a call stands for: every account under its own name, every argument as given.
  The client's \<^verbatim>\<open>IssueAuthorityInstruction\<close> knows neither the bond nor its accounts, so that it
  stands for no instruction of this program.
\<close>

fun client_intent :: "pubkey \<Rightarrow> client_call \<Rightarrow> account_meta list \<Rightarrow> instruction option" where
  "client_intent pid (CallInitializeConfig k d) rs =
     Some (InitializeConfig
       \<lparr>ic_admin = ick_admin k, ic_config = ick_config k\<rparr>
       (icd_aeon_mint d))"
| "client_intent pid (CallRegisterAgent k) rs =
     Some (RegisterAgent
       \<lparr>ra_agent = rak_agent k, ra_config = rak_config k,
        ra_agent_identity = rak_agent_identity k, ra_cri = rak_cri k\<rparr>)"
| "client_intent pid (CallIssueAuthority k d) rs = None"
| "client_intent pid (CallRevokeAuthority k d) rs =
     Some (RevokeAuthority
       \<lparr>rv_agent = rvk_agent k, rv_config = rvk_config k, rv_authority = rvk_authority k,
        rv_remaining = map am_pubkey rs\<rparr>
       (rvd_authority_id d))"
| "client_intent pid (CallPay k d) rs =
     Some (Pay
       \<lparr>pay_payer = payk_payer k, pay_payee = payk_payee k, pay_config = payk_config k,
        pay_authority = given pid (payk_authority k), pay_payer_cri = payk_payer_cri k,
        pay_payee_cri = payk_payee_cri k, pay_payer_token = payk_payer_token k,
        pay_payee_token = payk_payee_token k, pay_aeon_mint = payk_aeon_mint k,
        pay_token_program = payk_token_program k\<rparr>
       (payd_amount d) (payd_authority_id d) (payd_category d))"
| "client_intent pid (CallCreateEscrow k d) rs =
     Some (CreateEscrow
       \<lparr>ce_payer = cek_payer k, ce_payee = cek_payee k, ce_config = cek_config k,
        ce_authority = given pid (cek_authority k), ce_escrow = cek_escrow k,
        ce_escrow_vault = cek_escrow_vault k, ce_payer_token = cek_payer_token k,
        ce_aeon_mint = cek_aeon_mint k, ce_token_program = cek_token_program k\<rparr>
       (ced_escrow_id d) (ced_amount d) (ced_authority_id d) (ced_category d) (ced_condition_type d) (ced_condition_data d) (ced_expiry_slot d))"
| "client_intent pid (CallReleaseEscrow k d) rs =
     Some (ReleaseEscrow
       \<lparr>re_releaser = rek_releaser k, re_escrow = rek_escrow k,
        re_escrow_vault = rek_escrow_vault k, re_payee_token = rek_payee_token k,
        re_payer_cri = rek_payer_cri k, re_payee_cri = rek_payee_cri k,
        re_aeon_mint = rek_aeon_mint k, re_token_program = rek_token_program k\<rparr>
       (red_escrow_id d) (red_witness d))"
| "client_intent pid (CallCancelEscrow k d) rs =
     Some (CancelEscrow
       \<lparr>cx_canceller = cxk_canceller k, cx_escrow = cxk_escrow k,
        cx_escrow_vault = cxk_escrow_vault k, cx_payer_token = cxk_payer_token k,
        cx_payer_cri = cxk_payer_cri k, cx_aeon_mint = cxk_aeon_mint k,
        cx_token_program = cxk_token_program k\<rparr>
       (cxd_escrow_id d))"
| "client_intent pid (CallAtomicSplit k d) rs =
     Some (AtomicSplit
       \<lparr>sl_payer = slk_payer k, sl_payee_a = slk_payee_a k,
        sl_payee_b = given pid (slk_payee_b k), sl_config = slk_config k,
        sl_authority = given pid (slk_authority k), sl_payer_token = slk_payer_token k,
        sl_payee_a_token = slk_payee_a_token k,
        sl_payee_b_token = given pid (slk_payee_b_token k), sl_payer_cri = slk_payer_cri k,
        sl_payee_a_cri = slk_payee_a_cri k, sl_payee_b_cri = given pid (slk_payee_b_cri k),
        sl_aeon_mint = slk_aeon_mint k, sl_token_program = slk_token_program k\<rparr>
       (sld_authority_id d) (sld_amounts d) (sld_category d))"
| "client_intent pid (CallCreateOrg k d) rs =
     Some (CreateOrg
       \<lparr>co_creator = cok_creator k, co_config = cok_config k,
        co_creator_identity = cok_creator_identity k, co_organization = cok_organization k,
        co_org_treasury = cok_org_treasury k, co_creator_member = cok_creator_member k,
        co_aeon_mint = cok_aeon_mint k, co_token_program = cok_token_program k\<rparr>
       (cod_org_id d) (cod_name_hash d) (cod_creator_share_bps d))"
| "client_intent pid (CallDepositToOrg k d) rs =
     Some (DepositToOrg
       \<lparr>do_member = dok_member k, do_organization = dok_organization k,
        do_org_member = dok_org_member k, do_org_treasury = dok_org_treasury k,
        do_member_token = dok_member_token k, do_aeon_mint = dok_aeon_mint k,
        do_token_program = dok_token_program k\<rparr>
       (dod_org_id d) (dod_amount d))"
| "client_intent pid (CallOrgSplit k d) rs =
     Some (OrgSplit
       \<lparr>os_admin = osk_admin k, os_organization = osk_organization k,
        os_admin_member = osk_admin_member k, os_recipient_member = osk_recipient_member k,
        os_recipient_token = osk_recipient_token k, os_org_treasury = osk_org_treasury k,
        os_aeon_mint = osk_aeon_mint k, os_token_program = osk_token_program k\<rparr>
       (osd_org_id d) (osd_amounts d))"
| "client_intent pid (CallDissolveOrg k d) rs =
     Some (DissolveOrg
       \<lparr>di_admin = dik_admin k, di_organization = dik_organization k,
        di_admin_member = dik_admin_member k, di_admin_token = dik_admin_token k,
        di_member_b = given pid (dik_member_b k),
        di_member_b_token = given pid (dik_member_b_token k),
        di_org_treasury = dik_org_treasury k, di_aeon_mint = dik_aeon_mint k,
        di_token_program = dik_token_program k\<rparr>
       (did_org_id d))"
| "client_intent pid (CallJoinOrg k d) rs =
     Some (JoinOrg
       \<lparr>jo_admin = jok_admin k, jo_new_agent = jok_new_agent k,
        jo_organization = jok_organization k, jo_admin_member = jok_admin_member k,
        jo_agent_identity = jok_agent_identity k, jo_new_member = jok_new_member k\<rparr>
       (jod_org_id d) (jod_role d) (jod_share_bps d))"
| "client_intent pid (CallSetMemberShare k d) rs =
     Some (SetMemberShare
       \<lparr>sm_admin = smk_admin k, sm_organization = smk_organization k,
        sm_admin_member = smk_admin_member k, sm_target_member = smk_target_member k\<rparr>
       (smd_org_id d) (smd_new_share_bps d))"
| "client_intent pid (CallReclaimOrgResidual k d) rs =
     Some (ReclaimOrgResidual
       \<lparr>rr_authority = rrk_authority k, rr_organization = rrk_organization k,
        rr_authority_member = rrk_authority_member k, rr_org_treasury = rrk_org_treasury k,
        rr_destination = rrk_destination k, rr_aeon_mint = rrk_aeon_mint k,
        rr_token_program = rrk_token_program k\<rparr>
       (rrd_org_id d))"

text \<open>
  The transaction a call is sent in: an account signs or is writable when one of its entries
  says so, as the runtime merges the entries of an account.
\<close>

definition client_tx :: "u64 \<Rightarrow> account_meta list \<Rightarrow> tx" where
  "client_tx slot metas =
     \<lparr>tx_slot = slot,
      tx_signer = (\<lambda>k. list_ex (\<lambda>m. am_pubkey m = k \<and> am_is_signer m) metas),
      tx_writable = (\<lambda>k. list_ex (\<lambda>m. am_pubkey m = k \<and> am_is_writable m) metas)\<rparr>"

text \<open>
  The selectors: the client carries the first eight bytes of the hash of the name of each
  function, which Anchor's build computes.
\<close>

definition sighash_spec :: "runtime \<Rightarrow> bool" where
  "sighash_spec rt =
     (sighash rt ''initialize_config'' = initialize_config_instruction_discriminator
      \<and> sighash rt ''register_agent'' = register_agent_instruction_discriminator
      \<and> sighash rt ''issue_authority'' = issue_authority_instruction_discriminator
      \<and> sighash rt ''revoke_authority'' = revoke_authority_instruction_discriminator
      \<and> sighash rt ''pay'' = pay_instruction_discriminator
      \<and> sighash rt ''create_escrow'' = create_escrow_instruction_discriminator
      \<and> sighash rt ''release_escrow'' = release_escrow_instruction_discriminator
      \<and> sighash rt ''cancel_escrow'' = cancel_escrow_instruction_discriminator
      \<and> sighash rt ''atomic_split'' = atomic_split_instruction_discriminator
      \<and> sighash rt ''create_org'' = create_org_instruction_discriminator
      \<and> sighash rt ''deposit_to_org'' = deposit_to_org_instruction_discriminator
      \<and> sighash rt ''org_split'' = org_split_instruction_discriminator
      \<and> sighash rt ''dissolve_org'' = dissolve_org_instruction_discriminator
      \<and> sighash rt ''join_org'' = join_org_instruction_discriminator
      \<and> sighash rt ''set_member_share'' = set_member_share_instruction_discriminator
      \<and> sighash rt ''reclaim_org_residual'' = reclaim_org_residual_instruction_discriminator)"

lemmas client_defs =
  initialize_config_client_defs register_agent_client_defs issue_authority_client_defs
  revoke_authority_client_defs pay_client_defs create_escrow_client_defs
  release_escrow_client_defs cancel_escrow_client_defs atomic_split_client_defs
  create_org_client_defs deposit_to_org_client_defs org_split_client_defs
  dissolve_org_client_defs join_org_client_defs set_member_share_client_defs
  reclaim_org_residual_client_defs

text \<open>The flags the account declarations ask for: \<^verbatim>\<open>Signer\<close>, and \<^verbatim>\<open>mut\<close> or \<^verbatim>\<open>init\<close>.\<close>

fun flags_met :: "tx \<Rightarrow> instruction \<Rightarrow> bool" where
  "flags_met tx (InitializeConfig c _) =
     (tx_signer tx (ic_admin c) \<and> tx_writable tx (ic_admin c) \<and>
      tx_writable tx (ic_config c))"
| "flags_met tx (RegisterAgent c) =
     (tx_signer tx (ra_agent c) \<and> tx_writable tx (ra_agent c) \<and>
      tx_writable tx (ra_agent_identity c) \<and> tx_writable tx (ra_cri c))"
| "flags_met tx (IssueAuthority c _ _ _ _ _ _ _ _) =
     (tx_signer tx (ia_agent c) \<and> tx_writable tx (ia_agent c) \<and>
      tx_writable tx (ia_config c) \<and> tx_writable tx (ia_authority c) \<and>
      opt_writable tx (ia_bond c) \<and> opt_writable tx (ia_agent_vault c) \<and>
      opt_writable tx (ia_bond_vault c))"
| "flags_met tx (RevokeAuthority c _) =
     (tx_signer tx (rv_agent c) \<and> tx_writable tx (rv_authority c))"
| "flags_met tx (Pay c _ _ _) =
     (tx_signer tx (pay_payer c) \<and> opt_writable tx (pay_authority c) \<and>
      tx_writable tx (pay_payer_cri c) \<and> tx_writable tx (pay_payee_cri c) \<and>
      tx_writable tx (pay_payer_token c) \<and> tx_writable tx (pay_payee_token c))"
| "flags_met tx (CreateEscrow c _ _ _ _ _ _ _) =
     (tx_signer tx (ce_payer c) \<and> tx_writable tx (ce_payer c) \<and>
      tx_writable tx (ce_config c) \<and> opt_writable tx (ce_authority c) \<and>
      tx_writable tx (ce_escrow c) \<and> tx_writable tx (ce_escrow_vault c) \<and>
      tx_writable tx (ce_payer_token c))"
| "flags_met tx (ReleaseEscrow c _ _) =
     (tx_signer tx (re_releaser c) \<and> tx_writable tx (re_escrow c) \<and>
      tx_writable tx (re_escrow_vault c) \<and> tx_writable tx (re_payee_token c) \<and>
      tx_writable tx (re_payer_cri c) \<and> tx_writable tx (re_payee_cri c))"
| "flags_met tx (CancelEscrow c _) =
     (tx_signer tx (cx_canceller c) \<and> tx_writable tx (cx_escrow c) \<and>
      tx_writable tx (cx_escrow_vault c) \<and> tx_writable tx (cx_payer_token c) \<and>
      tx_writable tx (cx_payer_cri c))"
| "flags_met tx (AtomicSplit c _ _ _) =
     (tx_signer tx (sl_payer c) \<and> opt_writable tx (sl_authority c) \<and>
      tx_writable tx (sl_payer_token c) \<and> tx_writable tx (sl_payee_a_token c) \<and>
      opt_writable tx (sl_payee_b_token c) \<and> tx_writable tx (sl_payer_cri c) \<and>
      tx_writable tx (sl_payee_a_cri c) \<and> opt_writable tx (sl_payee_b_cri c))"
| "flags_met tx (CreateOrg c _ _ _) =
     (tx_signer tx (co_creator c) \<and> tx_writable tx (co_creator c) \<and>
      tx_writable tx (co_config c) \<and> tx_writable tx (co_organization c) \<and>
      tx_writable tx (co_org_treasury c) \<and> tx_writable tx (co_creator_member c))"
| "flags_met tx (DepositToOrg c _ _) =
     (tx_signer tx (do_member c) \<and> tx_writable tx (do_organization c) \<and>
      tx_writable tx (do_org_treasury c) \<and> tx_writable tx (do_member_token c))"
| "flags_met tx (OrgSplit c _ _) =
     (tx_signer tx (os_admin c) \<and> tx_writable tx (os_organization c) \<and>
      tx_writable tx (os_recipient_token c) \<and> tx_writable tx (os_org_treasury c))"
| "flags_met tx (DissolveOrg c _) =
     (tx_signer tx (di_admin c) \<and> tx_writable tx (di_organization c) \<and>
      tx_writable tx (di_admin_token c) \<and> opt_writable tx (di_member_b_token c) \<and>
      tx_writable tx (di_org_treasury c))"
| "flags_met tx (JoinOrg c _ _ _) =
     (tx_signer tx (jo_admin c) \<and> tx_writable tx (jo_admin c) \<and>
      tx_writable tx (jo_organization c) \<and> tx_writable tx (jo_new_member c))"
| "flags_met tx (SetMemberShare c _ _) =
     (tx_signer tx (sm_admin c) \<and> tx_writable tx (sm_organization c) \<and>
      tx_writable tx (sm_target_member c))"
| "flags_met tx (ReclaimOrgResidual c _) =
     (tx_signer tx (rr_authority c) \<and> tx_writable tx (rr_organization c) \<and>
      tx_writable tx (rr_org_treasury c) \<and> tx_writable tx (rr_destination c))"
| "flags_met tx (CreateReceipt c _ _ _) =
     (tx_signer tx (cr_actor c) \<and> tx_writable tx (cr_actor c) \<and>
      tx_writable tx (cr_config c) \<and> tx_writable tx (cr_cri c) \<and>
      tx_writable tx (cr_receipt c))"
| "flags_met tx (ExpireAuthority c _) =
     (tx_signer tx (ex_agent c) \<and> tx_writable tx (ex_authority c))"
| "flags_met tx (SetPaused c _) =
     (tx_signer tx (sp_admin c) \<and> tx_writable tx (sp_admin c) \<and>
      tx_writable tx (sp_config c))"
| "flags_met tx (SlashBond c _) =
     (tx_signer tx (sb_slasher c) \<and> tx_writable tx (sb_bond c) \<and>
      tx_writable tx (sb_bond_vault c) \<and> tx_writable tx (sb_destination c))"

subsection \<open>Flags and failures\<close>

text \<open>
  A transaction with the flags that the declarations ask for never fails for a missing signature
  or for an account that is not writable; rewriting with \<open>avoid_simps\<close> shows it handler by handler.
\<close>

definition flag_errors :: "failure set" where
  "flag_errors = {Anchor AccountNotSigner, Anchor ConstraintMut}"

abbreviation unflagged :: "failure + 'a \<Rightarrow> bool" where
  "unflagged \<equiv> avoids {Anchor AccountNotSigner, Anchor ConstraintMut}"

lemma unflagged_load [avoid_simps]:
  "unflagged (load sel w k)" "unflagged (load_ext sel w k)" "unflagged (load_opt sel w ko)"
  "unflagged (load_ext_opt sel w ko)"
  by (simp_all add: avoids_load load_errors_def)
lemma unflagged_init_pda [avoid_simps]: "tx_writable tx k \<Longrightarrow> unflagged (init_pda rt tx w created seeds k)"
  by (auto simp: init_pda_def avoid_simps)

lemma unflagged_loops [avoid_simps]:
  "unflagged (scan xs x i n)" "unflagged (copy_from i as arr)" "unflagged (copy_prefix i n src dst)"
  "unflagged (intersect_loop i n cs pcs pn acc count)"
proof -
  show s: "unflagged (scan xs x i n)" for xs x i n
    by (induction xs x i n rule: scan.induct) (subst scan.simps, simp add: avoid_simps)
  show "unflagged (copy_from i as arr)"
    by (induction i as arr rule: copy_from.induct) (simp_all add: avoid_simps)
  show "unflagged (copy_prefix i n src dst)"
    by (induction i n src dst rule: copy_prefix.induct) (subst copy_prefix.simps, simp add: avoid_simps)
  show "unflagged (intersect_loop i n cs pcs pn acc count)"
    by (induction i n cs pcs pn acc count rule: intersect_loop.induct)
      (subst intersect_loop.simps, auto simp: avoid_simps s)
qed

lemma unflagged_gates [avoid_simps]:
  "unflagged (category_allowed a cat)" "unflagged (recipient_blocked a r)"
  "unflagged (pay_gate rt slot pc cat pre au i n)" "unflagged (split_gate rt slot sc cat pre au i n)"
  "unflagged (escrow_gate rt slot ec cat pre au i n)" "unflagged (commit_spent au commit)"
  "unflagged (inherit_categories p cats fc n')" "unflagged (issue_terms parent ag b mpt mt cats pid)"
  by (simp_all add: category_allowed_def recipient_blocked_def pay_gate_def split_gate_def
      escrow_gate_def commit_spent_def inherit_categories_def issue_terms_def avoid_simps Let_def
      split: option.splits)

lemma unflagged_steps [avoid_simps]:
  "unflagged (cri_commit n slot c)" "unflagged (cri_settle n slot c)" "unflagged (payout_share b s)"
  "unflagged (release_condition es slot wi)" "unflagged (split_total ns tot)"
  "unflagged (split_settle_b slot sc ns i cat cb)" "unflagged (revoke_children rt tx i ag ks w)"
  "unflagged (admin_account rt i k mb ad)"
proof -
  show "unflagged (split_total ns tot)"
    by (induction ns arbitrary: tot) (simp_all add: avoid_simps)
  have "unflagged (revoke_child rt tx i ag k v)" for k v
    by (simp add: revoke_child_def write_child_def avoid_simps Let_def split: option.splits)
  then show "unflagged (revoke_children rt tx i ag ks w)"
    by (induction ks arbitrary: w) (simp_all add: avoid_simps)
qed (simp_all add: cri_commit_def cri_settle_def payout_share_def release_condition_def
    split_settle_b_def admin_account_def avoid_simps split: option.splits)

lemma unflagged_calls:
  assumes "calls_avoid flag_errors rt"
  shows "unflagged (cpi_transfer rt prog accs sgnd amount decimals w)"
    and "tx_writable tx k \<Longrightarrow> unflagged (init_token_pda rt tx created seeds prog k mk own w)"
    and "unflagged (issue_bond rt tx ic i amt bb mo w)"
    and "unflagged (split_transfer_b rt tx sc ns m tb w)"
    and "unflagged (pay_share rt tx i dc org m dest n tw)"
    and "unflagged (dissolve_member_b rt tx i dc org mb tok t m tw)"
  using avoids_calls [OF assms [unfolded flag_errors_def]]
  by (simp_all add: init_token_pda_def issue_bond_def split_transfer_b_def pay_share_def
      dissolve_member_b_def treasury_transfer_def avoid_simps Let_def split: option.splits)

lemmas flag_checks = cri_account_def wallet_def vault_ok_def init_bond_def org_account_def
  treasury_account_def escrow_accounts_def treasury_transfer_def opt_writable_def

lemma flags_suffice:
  assumes "calls_avoid flag_errors rt" "flags_met tx i"
  shows "unflagged (dispatch rt tx w i)"
  using assms(2)
  by (cases i)
    (simp_all add: handler_defs flag_checks avoid_simps unflagged_calls [OF assms(1)] Let_def
      split: option.splits)

end
