(* ===== verification/Client_Accounts.thy ===== *)
theory Client_Accounts
  imports Aeon_Wire Aeon_State
begin

text \<open>
  The bytes of the program's accounts (\<^verbatim>\<open>#[account]\<close> in \<^verbatim>\<open>state.rs\<close>, after the discriminator) and
  the account structs of \<^verbatim>\<open>trident-tests/remaining_accounts_p2/types.rs\<close>, with which a client
  reads them.  The client's \<^verbatim>\<open>Cri\<close> and \<^verbatim>\<open>Authority\<close> are those of an earlier version of the
  program, without the receipt fields and the bond amount.
\<close>

subsection \<open>What the program writes\<close>

definition borsh_config :: "config \<Rightarrow> bytes" where
  "borsh_config a =
     cfg_admin a @ cfg_aeon_mint a @ le_bytes (cfg_authority_counter a) @
     le_bytes (cfg_escrow_counter a) @ le_bytes (cfg_org_counter a) @
     le_bytes (cfg_receipt_counter a) @ le16 (cfg_min_solvency_bps a) @
     bool_bytes (cfg_paused a) @ [cfg_bump a]"

definition borsh_agent_identity :: "agent_identity \<Rightarrow> bytes" where
  "borsh_agent_identity a =
     ag_agent a @ le_bytes (ag_created_slot a) @ bool_bytes (ag_active a) @
     ag_metadata_uri_hash a @ [ag_bump a]"

definition borsh_cri :: "cri \<Rightarrow> bytes" where
  "borsh_cri a =
     cri_agent a @ le_bytes (cri_successful_settlements a) @
     le_bytes (cri_failed_settlements a) @ le_bytes (cri_successful_commitments a) @
     le_bytes (cri_failed_commitments a) @ le_bytes (cri_volume_settled a) @
     le_bytes (cri_last_active_slot a) @ le_bytes (cri_created_slot a) @
     cri_last_receipt_hash a @ le_bytes (cri_receipt_count a) @ [cri_bump a]"

definition borsh_escrow :: "escrow \<Rightarrow> bytes" where
  "borsh_escrow a =
     le_bytes (es_escrow_id a) @ es_payer a @ es_payee a @ le_bytes (es_amount a) @
     le_bytes (es_authority_id a) @ es_category a @ [es_condition_type a] @
     es_condition_data a @ [es_status a] @ le_bytes (es_created_slot a) @
     le_bytes (es_expiry_slot a) @ [es_vault_bump a] @ [es_bump a]"

definition borsh_organization :: "organization \<Rightarrow> bytes" where
  "borsh_organization a =
     le_bytes (org_org_id a) @ org_name_hash a @ org_creator a @ le16 (org_member_count a) @
     le16 (org_total_share_bps a) @ [org_status a] @ le_bytes (org_created_slot a) @
     [org_treasury_bump a] @ [org_bump a]"

definition borsh_org_member :: "org_member \<Rightarrow> bytes" where
  "borsh_org_member a =
     le_bytes (om_org_id a) @ om_agent a @ [om_role a] @ le16 (om_share_bps a) @ [om_bump a]"

subsection \<open>What the client reads\<close>

record client_config =
  ccfg_admin :: pubkey
  ccfg_aeon_mint :: pubkey
  ccfg_authority_counter :: u64
  ccfg_escrow_counter :: u64
  ccfg_org_counter :: u64
  ccfg_receipt_counter :: u64
  ccfg_min_solvency_bps :: u16
  ccfg_paused :: bool
  ccfg_bump :: u8

definition read_client_config :: "client_config reader" where
  "read_client_config =
     and_then (read_bytes 32) (\<lambda>admin. and_then (read_bytes 32) (\<lambda>aeon_mint.
     and_then read_u64 (\<lambda>authority_counter. and_then read_u64 (\<lambda>escrow_counter.
     and_then read_u64 (\<lambda>org_counter. and_then read_u64 (\<lambda>receipt_counter.
     and_then read_u16 (\<lambda>min_solvency_bps. and_then read_bool (\<lambda>paused.
     and_then read_u8 (\<lambda>bump.
     read_done \<lparr>ccfg_admin = admin, ccfg_aeon_mint = aeon_mint,
       ccfg_authority_counter = authority_counter, ccfg_escrow_counter = escrow_counter,
       ccfg_org_counter = org_counter, ccfg_receipt_counter = receipt_counter,
       ccfg_min_solvency_bps = min_solvency_bps, ccfg_paused = paused, ccfg_bump = bump\<rparr>)))))))))"

record client_agent_identity =
  cag_agent :: pubkey
  cag_created_slot :: u64
  cag_active :: bool
  cag_metadata_uri_hash :: bytes
  cag_bump :: u8

definition read_client_agent_identity :: "client_agent_identity reader" where
  "read_client_agent_identity =
     and_then (read_bytes 32) (\<lambda>agent. and_then read_u64 (\<lambda>created_slot.
     and_then read_bool (\<lambda>active. and_then (read_bytes 32) (\<lambda>metadata_uri_hash.
     and_then read_u8 (\<lambda>bump.
     read_done \<lparr>cag_agent = agent, cag_created_slot = created_slot, cag_active = active,
       cag_metadata_uri_hash = metadata_uri_hash, cag_bump = bump\<rparr>)))))"

record client_cri =
  ccri_agent :: pubkey
  ccri_successful_settlements :: u64
  ccri_failed_settlements :: u64
  ccri_successful_commitments :: u64
  ccri_failed_commitments :: u64
  ccri_volume_settled :: u64
  ccri_last_active_slot :: u64
  ccri_created_slot :: u64
  ccri_bump :: u8

definition read_client_cri :: "client_cri reader" where
  "read_client_cri =
     and_then (read_bytes 32) (\<lambda>agent.
     and_then read_u64 (\<lambda>successful_settlements.
     and_then read_u64 (\<lambda>failed_settlements.
     and_then read_u64 (\<lambda>successful_commitments.
     and_then read_u64 (\<lambda>failed_commitments. and_then read_u64 (\<lambda>volume_settled.
     and_then read_u64 (\<lambda>last_active_slot. and_then read_u64 (\<lambda>created_slot.
     and_then read_u8 (\<lambda>bump.
     read_done \<lparr>ccri_agent = agent, ccri_successful_settlements = successful_settlements,
       ccri_failed_settlements = failed_settlements,
       ccri_successful_commitments = successful_commitments,
       ccri_failed_commitments = failed_commitments, ccri_volume_settled = volume_settled,
       ccri_last_active_slot = last_active_slot, ccri_created_slot = created_slot,
       ccri_bump = bump\<rparr>)))))))))"

record client_authority =
  cau_authority_id :: u64
  cau_agent :: pubkey
  cau_parent_id :: u64
  cau_depth :: u8
  cau_budget :: u64
  cau_spent :: u64
  cau_max_per_tx :: u64
  cau_max_total :: u64
  cau_category_count :: u8
  cau_categories :: "bytes list"
  cau_blocked_count :: u8
  cau_blocked_recipients :: "pubkey list"
  cau_require_min_reserve :: u64
  cau_expiry_slot :: u64
  cau_status :: u8
  cau_bump :: u8

definition read_client_authority :: "client_authority reader" where
  "read_client_authority =
     and_then read_u64 (\<lambda>authority_id. and_then (read_bytes 32) (\<lambda>agent.
     and_then read_u64 (\<lambda>parent_id. and_then read_u8 (\<lambda>depth.
     and_then read_u64 (\<lambda>budget. and_then read_u64 (\<lambda>spent.
     and_then read_u64 (\<lambda>max_per_tx. and_then read_u64 (\<lambda>max_total.
     and_then read_u8 (\<lambda>category_count.
     and_then (read_many MAX_CATEGORIES (read_bytes 16)) (\<lambda>categories.
     and_then read_u8 (\<lambda>blocked_count.
     and_then (read_many MAX_BLOCKED_RECIPIENTS (read_bytes 32)) (\<lambda>blocked_recipients.
     and_then read_u64 (\<lambda>require_min_reserve. and_then read_u64 (\<lambda>expiry_slot.
     and_then read_u8 (\<lambda>status. and_then read_u8 (\<lambda>bump.
     read_done \<lparr>cau_authority_id = authority_id, cau_agent = agent, cau_parent_id = parent_id,
       cau_depth = depth, cau_budget = budget, cau_spent = spent, cau_max_per_tx = max_per_tx,
       cau_max_total = max_total, cau_category_count = category_count,
       cau_categories = categories, cau_blocked_count = blocked_count,
       cau_blocked_recipients = blocked_recipients,
       cau_require_min_reserve = require_min_reserve, cau_expiry_slot = expiry_slot,
       cau_status = status, cau_bump = bump\<rparr>))))))))))))))))"

record client_escrow =
  ces_escrow_id :: u64
  ces_payer :: pubkey
  ces_payee :: pubkey
  ces_amount :: u64
  ces_authority_id :: u64
  ces_category :: bytes
  ces_condition_type :: u8
  ces_condition_data :: bytes
  ces_status :: u8
  ces_created_slot :: u64
  ces_expiry_slot :: u64
  ces_vault_bump :: u8
  ces_bump :: u8

definition read_client_escrow :: "client_escrow reader" where
  "read_client_escrow =
     and_then read_u64 (\<lambda>escrow_id. and_then (read_bytes 32) (\<lambda>payer.
     and_then (read_bytes 32) (\<lambda>payee. and_then read_u64 (\<lambda>amount.
     and_then read_u64 (\<lambda>authority_id. and_then (read_bytes 16) (\<lambda>category.
     and_then read_u8 (\<lambda>condition_type.
     and_then (read_bytes 64) (\<lambda>condition_data. and_then read_u8 (\<lambda>status.
     and_then read_u64 (\<lambda>created_slot. and_then read_u64 (\<lambda>expiry_slot.
     and_then read_u8 (\<lambda>vault_bump. and_then read_u8 (\<lambda>bump.
     read_done \<lparr>ces_escrow_id = escrow_id, ces_payer = payer, ces_payee = payee, ces_amount = amount,
       ces_authority_id = authority_id, ces_category = category,
       ces_condition_type = condition_type, ces_condition_data = condition_data,
       ces_status = status, ces_created_slot = created_slot, ces_expiry_slot = expiry_slot,
       ces_vault_bump = vault_bump, ces_bump = bump\<rparr>)))))))))))))"

record client_organization =
  corg_org_id :: u64
  corg_name_hash :: bytes
  corg_creator :: pubkey
  corg_member_count :: u16
  corg_total_share_bps :: u16
  corg_status :: u8
  corg_created_slot :: u64
  corg_treasury_bump :: u8
  corg_bump :: u8

definition read_client_organization :: "client_organization reader" where
  "read_client_organization =
     and_then read_u64 (\<lambda>org_id. and_then (read_bytes 32) (\<lambda>name_hash.
     and_then (read_bytes 32) (\<lambda>creator. and_then read_u16 (\<lambda>member_count.
     and_then read_u16 (\<lambda>total_share_bps. and_then read_u8 (\<lambda>status.
     and_then read_u64 (\<lambda>created_slot. and_then read_u8 (\<lambda>treasury_bump.
     and_then read_u8 (\<lambda>bump.
     read_done \<lparr>corg_org_id = org_id, corg_name_hash = name_hash, corg_creator = creator,
       corg_member_count = member_count, corg_total_share_bps = total_share_bps,
       corg_status = status, corg_created_slot = created_slot,
       corg_treasury_bump = treasury_bump, corg_bump = bump\<rparr>)))))))))"

record client_org_member =
  com_org_id :: u64
  com_agent :: pubkey
  com_role :: u8
  com_share_bps :: u16
  com_bump :: u8

definition read_client_org_member :: "client_org_member reader" where
  "read_client_org_member =
     and_then read_u64 (\<lambda>org_id. and_then (read_bytes 32) (\<lambda>agent.
     and_then read_u8 (\<lambda>role. and_then read_u16 (\<lambda>share_bps.
     and_then read_u8 (\<lambda>bump.
     read_done \<lparr>com_org_id = org_id, com_agent = agent, com_role = role, com_share_bps = share_bps,
       com_bump = bump\<rparr>)))))"

subsection \<open>Accounts that are read back as written\<close>

lemmas reader_defs = read_client_config_def read_client_agent_identity_def read_client_cri_def
  read_client_authority_def read_client_escrow_def read_client_organization_def
  read_client_org_member_def

lemmas writer_defs = borsh_config_def borsh_agent_identity_def borsh_cri_def borsh_authority_def
  borsh_escrow_def borsh_organization_def borsh_org_member_def

lemma client_reads_config:
  assumes "length (cfg_admin a) = 32" "length (cfg_aeon_mint a) = 32"
  shows "read_client_config (borsh_config a) = Some (
    \<lparr>ccfg_admin = cfg_admin a, ccfg_aeon_mint = cfg_aeon_mint a,
      ccfg_authority_counter = cfg_authority_counter a,
      ccfg_escrow_counter = cfg_escrow_counter a, ccfg_org_counter = cfg_org_counter a,
      ccfg_receipt_counter = cfg_receipt_counter a,
      ccfg_min_solvency_bps = cfg_min_solvency_bps a, ccfg_paused = cfg_paused a,
      ccfg_bump = cfg_bump a\<rparr>, [])"
  using assms by (simp add: reader_defs writer_defs read_fields read_done_def)

lemma client_reads_agent_identity:
  assumes "length (ag_agent a) = 32" "length (ag_metadata_uri_hash a) = 32"
  shows "read_client_agent_identity (borsh_agent_identity a) = Some (
    \<lparr>cag_agent = ag_agent a, cag_created_slot = ag_created_slot a, cag_active = ag_active a,
      cag_metadata_uri_hash = ag_metadata_uri_hash a, cag_bump = ag_bump a\<rparr>, [])"
  using assms by (simp add: reader_defs writer_defs read_fields read_done_def)

lemma client_reads_escrow:
  assumes "length (es_payer a) = 32" "length (es_payee a) = 32" "length (es_category a) = 16" "length (es_condition_data a) = 64"
  shows "read_client_escrow (borsh_escrow a) = Some (
    \<lparr>ces_escrow_id = es_escrow_id a, ces_payer = es_payer a, ces_payee = es_payee a,
      ces_amount = es_amount a, ces_authority_id = es_authority_id a,
      ces_category = es_category a, ces_condition_type = es_condition_type a,
      ces_condition_data = es_condition_data a, ces_status = es_status a,
      ces_created_slot = es_created_slot a, ces_expiry_slot = es_expiry_slot a,
      ces_vault_bump = es_vault_bump a, ces_bump = es_bump a\<rparr>, [])"
  using assms by (simp add: reader_defs writer_defs read_fields read_done_def)

lemma client_reads_organization:
  assumes "length (org_name_hash a) = 32" "length (org_creator a) = 32"
  shows "read_client_organization (borsh_organization a) = Some (
    \<lparr>corg_org_id = org_org_id a, corg_name_hash = org_name_hash a,
      corg_creator = org_creator a, corg_member_count = org_member_count a,
      corg_total_share_bps = org_total_share_bps a, corg_status = org_status a,
      corg_created_slot = org_created_slot a, corg_treasury_bump = org_treasury_bump a,
      corg_bump = org_bump a\<rparr>, [])"
  using assms by (simp add: reader_defs writer_defs read_fields read_done_def)

lemma client_reads_org_member:
  assumes "length (om_agent a) = 32"
  shows "read_client_org_member (borsh_org_member a) = Some (
    \<lparr>com_org_id = om_org_id a, com_agent = om_agent a, com_role = om_role a,
      com_share_bps = om_share_bps a, com_bump = om_bump a\<rparr>, [])"
  using assms by (simp add: reader_defs writer_defs read_fields read_done_def)

end
