(* ===== verification/Client_Properties.thy ===== *)
theory Client_Properties
  imports Client_Calls Client_Accounts Aeon_Example
begin

text \<open>
  What the development shows of the generated client: its calls arrive at the program as the
  instructions they stand for, with the flags the program asks for, with two exceptions that
  its age explains: the call that issues an authority, and the accounts of authorities and
  reputations, are those of an earlier version of the program.
\<close>

subsection \<open>An instance with the selectors\<close>

text \<open>
  The example's hash function is replaced by one with the selectors at the sixteen names.
\<close>

definition ex_names :: "(string \<times> bytes) list" where
  "ex_names = [
    (''initialize_config'', initialize_config_instruction_discriminator),
    (''register_agent'', register_agent_instruction_discriminator),
    (''issue_authority'', issue_authority_instruction_discriminator),
    (''revoke_authority'', revoke_authority_instruction_discriminator),
    (''pay'', pay_instruction_discriminator),
    (''create_escrow'', create_escrow_instruction_discriminator),
    (''release_escrow'', release_escrow_instruction_discriminator),
    (''cancel_escrow'', cancel_escrow_instruction_discriminator),
    (''atomic_split'', atomic_split_instruction_discriminator),
    (''create_org'', create_org_instruction_discriminator),
    (''deposit_to_org'', deposit_to_org_instruction_discriminator),
    (''org_split'', org_split_instruction_discriminator),
    (''dissolve_org'', dissolve_org_instruction_discriminator),
    (''join_org'', join_org_instruction_discriminator),
    (''set_member_share'', set_member_share_instruction_discriminator),
    (''reclaim_org_residual'', reclaim_org_residual_instruction_discriminator)]"

definition ex_client_rt :: runtime where
  "ex_client_rt = ex_rt\<lparr>rt_sha256 := (\<lambda>b.
     case map_of (map (\<lambda>(n, d). (map of_char (''global:'' @ n), d)) ex_names) b of
       Some d \<Rightarrow> d | None \<Rightarrow> [])\<rparr>"

lemma ex_sighash: "sighash_spec ex_client_rt"
  by code_simp

definition ex_pid :: pubkey where
  "ex_pid = replicate 32 5"

lemma ex_pid_no_pda [simp]: "ex_pda s \<noteq> ex_pid" "0 # b \<noteq> ex_pid"
  using replicate_Suc [of 31 "5 :: u8"] by (auto simp: ex_pda_def ex_pid_def)

definition ex_call_pay :: "bytes \<Rightarrow> client_call" where
  "ex_call_pay category = CallPay
     \<lparr>payk_payer = pay_payer ex_pay_ctx, payk_payee = pay_payee ex_pay_ctx,
      payk_config = pay_config ex_pay_ctx, payk_authority = ex_pda (authority_seeds 1),
      payk_payer_cri = pay_payer_cri ex_pay_ctx, payk_payee_cri = pay_payee_cri ex_pay_ctx,
      payk_payer_token = pay_payer_token ex_pay_ctx, payk_payee_token = pay_payee_token ex_pay_ctx,
      payk_aeon_mint = pay_aeon_mint ex_pay_ctx, payk_token_program = pay_token_program ex_pay_ctx\<rparr>
     \<lparr>payd_amount = 30, payd_authority_id = 1, payd_category = category\<rparr>"

definition ex_call_instruction :: "bytes \<Rightarrow> solana_instruction" where
  "ex_call_instruction category = client_instruction ex_pid (ex_call_pay category) []"

subsection \<open>Calls and instructions\<close>

text \<open>
  C32: A client call arrives as the instruction it stands for.  For every call of the client
  except issuing an authority, the program's entry point reads from the bytes and the accounts
  that the client sends exactly the intended instruction: the selector picks the function, every
  argument is decoded to the value given, every account ends up under its own name, and an
  optional account given as the program's address is absent.
\<close>

theorem client_calls_arrive:
  assumes "sighash_spec rt" "call_ok call" "client_intent pid call rs = Some i"
  shows "entry rt pid (map am_pubkey (si_accounts (client_instruction pid call rs)))
      (si_data (client_instruction pid call rs)) = Inr i"
  using assms
  by (cases call)
    (auto simp: sighash_spec_def entry_def client_defs entry_defs args_of_def read_fields read_done_def)

theorem client_calls_arrive_witness:
  "entry ex_client_rt ex_pid (map am_pubkey (si_accounts (ex_call_instruction (replicate 16 1))))
     (si_data (ex_call_instruction (replicate 16 1))) = Inr (Pay ex_pay_ctx 30 1 (replicate 16 1))"
proof -
  have "call_ok (ex_call_pay (replicate 16 1))" by (simp add: ex_call_pay_def)
  moreover have "client_intent ex_pid (ex_call_pay (replicate 16 1)) []
      = Some (Pay ex_pay_ctx 30 1 (replicate 16 1))"
    by (simp add: ex_call_pay_def ex_pay_ctx_def given_def)
  ultimately show ?thesis
    unfolding ex_call_instruction_def by (rule client_calls_arrive [OF ex_sighash])
qed

text \<open>
  C33: The client passes its accounts with the flags the program asks for.  In the transaction
  made of a call's accounts, the instruction the call stands for never fails for a missing
  signature or because an account is not writable, in any state.
\<close>

theorem client_flags_suffice:
  assumes "calls_avoid flag_errors rt" "client_intent pid call rs = Some i"
  shows "dispatch rt (client_tx slot (si_accounts (client_instruction pid call rs))) w i
      \<notin> {Inl (Anchor AccountNotSigner), Inl (Anchor ConstraintMut)}"
proof -
  have "flags_met (client_tx slot (si_accounts (client_instruction pid call rs))) i"
    using assms(2) by (cases call) (auto simp: client_defs client_tx_def opt_writable_def given_def)
  from flags_suffice [OF assms(1) this, of w] show ?thesis by (auto dest: avoidsD)
qed

lemma ex_calls_avoid_flags: "calls_avoid flag_errors ex_rt"
  by (auto simp: calls_avoid_def flag_errors_def ex_rt_def ex_transfer_def ex_init_def ex_ata_def
      avoid_simps split: option.splits)

lemma ex_client_pays:
  "ex_check (\<lambda>w. ex_check (\<lambda>w'. balance_of (ledger w') ex_bob_wallet = balance_of (ledger w) ex_bob_wallet + 30)
     (dispatch ex_rt (client_tx 2 (si_accounts (ex_call_instruction ex_category))) w
        (Pay ex_pay_ctx 30 1 ex_category)))
   (ex_run 1 [ex_issue])"
  by code_simp

theorem client_flags_suffice_witness:
  "\<exists>w w'. reachable ex_rt w
     \<and> dispatch ex_rt (client_tx 2 (si_accounts (ex_call_instruction ex_category))) w
         (Pay ex_pay_ctx 30 1 ex_category) = Inr w'
     \<and> (\<forall>v. dispatch ex_rt (client_tx 2 (si_accounts (ex_call_instruction ex_category))) v
         (Pay ex_pay_ctx 30 1 ex_category) \<noteq> Inl (Anchor ConstraintMut))"
proof -
  obtain w w' where w: "reachable ex_rt w"
    "dispatch ex_rt (client_tx 2 (si_accounts (ex_call_instruction ex_category))) w
       (Pay ex_pay_ctx 30 1 ex_category) = Inr w'"
    using ex_runD [OF ex_client_pays] by (auto dest!: ex_checkD simp del: dispatch.simps)
  have "client_intent ex_pid (ex_call_pay ex_category) [] = Some (Pay ex_pay_ctx 30 1 ex_category)"
    by (simp add: ex_call_pay_def ex_pay_ctx_def given_def)
  from client_flags_suffice [OF ex_calls_avoid_flags this, of 2] w
  show ?thesis unfolding ex_call_instruction_def by blast
qed

subsection \<open>What the client's age breaks\<close>

text \<open>
  C34: The client cannot issue an authority.  Its call carries the arguments of the earlier
  \<^verbatim>\<open>issue_authority\<close>, without the bond amount, so the program's entry point always fails to decode
  it, whatever the accounts, and no state changes.
\<close>

theorem client_issue_rejected:
  assumes "sighash_spec rt" "call_ok (CallIssueAuthority k d)"
  shows "process rt pid tx w ks (si_data (client_instruction pid (CallIssueAuthority k d) rs))
      = Inl (Anchor InstructionDidNotDeserialize)"
proof -
  have "entry rt pid ks (si_data (client_instruction pid (CallIssueAuthority k d) rs))
      = issue_authority_entry pid ks (issue_authority_instruction_data_bytes d)"
    using assms by (auto simp: sighash_spec_def entry_def client_defs)
  also have "\<dots> = Inl (Anchor InstructionDidNotDeserialize)"
    using assms(2)
    by (simp add: issue_authority_entry_def issue_authority_args_def args_of_def read_fields
        issue_authority_instruction_data_bytes_def)
      (simp add: and_then_def read_u64_def read_bytes_def)
  finally show ?thesis by (simp add: process_def)
qed

theorem client_issue_rejected_witness:
  "\<exists>k d. iad_categories d = [replicate 16 1] \<and>
     (\<forall>w. process ex_client_rt ex_pid (ex_tx 2) w (replicate 12 ex_alice)
       (si_data (client_instruction ex_pid (CallIssueAuthority k d) []))
     = Inl (Anchor InstructionDidNotDeserialize))"
proof -
  define d :: issue_authority_instruction_data where
    "d = \<lparr>iad_authority_id = 1, iad_budget = 100, iad_max_per_tx = 40, iad_max_total = 100,
      iad_categories = [replicate 16 1], iad_parent_id = 0, iad_expiry_slot = 0\<rparr>"
  have "call_ok (CallIssueAuthority k d)" "iad_categories d = [replicate 16 1]" for k
    by (simp_all add: d_def)
  with client_issue_rejected [OF ex_sighash, of _ d] show ?thesis by blast
qed

text \<open>
  C35: The client misreads authorities.  From the bytes of an authority it reads every field
  that both versions have, except the bump: in its place it takes the lowest byte of the bond
  amount, and eight bytes are left over.
\<close>

theorem client_misreads_authority:
  assumes "authority_arrays a"
  shows "read_client_authority (borsh_authority a) = Some (
    \<lparr>cau_authority_id = au_authority_id a, cau_agent = au_agent a, cau_parent_id = au_parent_id a,
      cau_depth = au_depth a, cau_budget = au_budget a, cau_spent = au_spent a,
      cau_max_per_tx = au_max_per_tx a, cau_max_total = au_max_total a,
      cau_category_count = au_category_count a, cau_categories = au_categories a,
      cau_blocked_count = au_blocked_count a, cau_blocked_recipients = au_blocked_recipients a,
      cau_require_min_reserve = au_require_min_reserve a, cau_expiry_slot = au_expiry_slot a,
      cau_status = au_status a, cau_bump = ucast (au_bond_amount a)\<rparr>,
    tl (le_bytes (au_bond_amount a)) @ [au_bump a])"
proof -
  have "read_u8 (le_bytes x @ bs) = Some (ucast x, tl (le_bytes x) @ bs)" for x bs
    by (simp add: le_bytes_def u8_codec.dec_enc [simplified])
  then have bump: "and_then read_u8 r (le_bytes x @ bs) = r (ucast x) (tl (le_bytes x) @ bs)" for r x bs
    by (simp add: and_then_def)
  show ?thesis
    using assms
    by (simp add: read_client_authority_def borsh_authority_def authority_arrays_def read_fields
        bump read_done_def del: read_many.simps)
qed

definition ex_bonded :: authority where
  "ex_bonded = new_authority 1 (replicate 32 7) 0 0 100 40 100 0 blank_categories 0 513 250"

theorem client_misreads_authority_witness:
  "map_option (\<lambda>(b, rest). (cau_budget b, cau_bump b, length rest))
     (read_client_authority (borsh_authority ex_bonded)) = Some (100, 1, 8) \<and> au_bump ex_bonded = 250"
proof -
  have "authority_arrays ex_bonded"
    by (simp add: authority_arrays_def ex_bonded_def new_authority_def blank_categories_def)
  from client_misreads_authority [OF this] show ?thesis
    by (simp add: ex_bonded_def new_authority_def)
qed

end
