(* ===== verification/Spec2Isabelle.thy ===== *)
theory Spec2Isabelle
  imports Authority_Properties Payment_Properties Delegation_Properties Escrow_Properties
    Org_Properties Record_Properties Panic_Properties Client_Properties
begin

text \<open>
  A verification development of the AEON program, an Anchor program for Solana under
  \<^verbatim>\<open>src/programs/aeon/src\<close> that gives software agents an identity, scoped spending authorities,
  payments, escrows, shared treasuries, receipts and bonds.

  \<^bold>\<open>The program and the model.\<close>  The program has twenty instructions (\<^verbatim>\<open>lib.rs\<close>).  Each has an
  account declaration (an Anchor \<^verbatim>\<open>Accounts\<close> struct with constraints) and a handler, under
  \<^verbatim>\<open>instructions/\<close>.  The model keeps this shape: for an instruction \<open>f\<close> there is a record
  \<open>f_ctx\<close> of the addresses the caller names, a function \<open>f_accounts\<close> that loads them and checks
  the constraints in the order the framework does (initialised accounts first, then the checks
  in the order of declaration), and a function \<open>f\<close>, the handler, which takes a transaction (slot, signers, writable
  accounts) and a world and returns a new world or a \<open>failure\<close>.  A handler works on copies and
  writes them back at its end in the order of declaration, as the framework's exit does.
  The fields keep their width: \<open>u8\<close>, \<open>u16\<close>, \<open>u64\<close> are words, \<^verbatim>\<open>checked_add\<close> and its like return an
  option, \<^verbatim>\<open>?\<close> is \<open>bindr\<close>, an index out of bounds or an \<^verbatim>\<open>unwrap\<close> of nothing is the failure \<open>Panic\<close>.

  \<^bold>\<open>Theories of the model.\<close>
  \<^item> \<open>Aeon_Prelude\<close>: word types, checked arithmetic, guard chains and the collection \<open>ok_simps\<close>,
    which reads a successful chain of guards backwards.
  \<^item> \<open>Aeon_Base\<close>: \<^verbatim>\<open>constants.rs\<close>, \<^verbatim>\<open>errors.rs\<close>, \<^verbatim>\<open>events.rs\<close>.  \<open>Aeon_State\<close>: \<^verbatim>\<open>state.rs\<close>, with the scan
    loops of \<^verbatim>\<open>Authority\<close> and the byte layout of an authority.
  \<^item> \<open>Aeon_Runtime\<close>: the world (one map per account type, the token accounts, the event log),
    the record \<open>runtime\<close> of what lies outside the repository, and the account declarations.  The
    locale \<open>account_slot\<close> is the interface of one account map, interpreted for all nine.
  \<^item> \<open>Aeon_Config\<close>: \<^verbatim>\<open>initialize_config\<close>, \<^verbatim>\<open>set_paused\<close>, \<^verbatim>\<open>register_agent\<close>.
  \<^item> \<open>Aeon_Lifecycle\<close>: the abstract life of an authority and the step relation on the store of
    authorities.  \<open>Aeon_Authority\<close>: \<^verbatim>\<open>issue_authority\<close>, \<^verbatim>\<open>expire_authority\<close>, \<^verbatim>\<open>revoke_authority\<close>.
  \<^item> \<open>Aeon_Spend\<close>: what the spending instructions share, the locale \<open>spend_gate\<close> (the contract of
    a gate that stages a spend) and the documented behaviour of the token programs.
    \<open>Aeon_Pay\<close>: \<^verbatim>\<open>pay\<close>; \<open>Aeon_Split\<close>: \<^verbatim>\<open>atomic_split\<close>.
  \<^item> \<open>Aeon_Store\<close>: the locale \<open>life_cycle\<close> of account stores that move by a state machine, and
    the documented behaviour of program-derived addresses.
  \<^item> \<open>Aeon_Escrow\<close>: \<^verbatim>\<open>create_escrow\<close>, \<^verbatim>\<open>release_escrow\<close>, \<^verbatim>\<open>cancel_escrow\<close> and the abstract escrow machine.
  \<^item> \<open>Aeon_Org\<close>: \<^verbatim>\<open>create_org\<close>, \<^verbatim>\<open>join_org\<close>, \<^verbatim>\<open>set_member_share\<close>, \<^verbatim>\<open>deposit_to_org\<close> and the member
    directory.  \<open>Aeon_Treasury\<close>: \<^verbatim>\<open>org_split\<close>, \<^verbatim>\<open>dissolve_org\<close>, \<^verbatim>\<open>reclaim_org_residual\<close>.
  \<^item> \<open>Aeon_Bond\<close>: \<^verbatim>\<open>slash_bond\<close>.  \<open>Aeon_Receipt\<close>: \<^verbatim>\<open>create_receipt\<close>.
  \<^item> \<open>Aeon_Frames\<close>: what each instruction leaves alone.  \<open>Aeon_Program\<close>: \<^verbatim>\<open>lib.rs\<close> as the type
    \<open>instruction\<close> and the function \<open>dispatch\<close>, the chain, and the locale \<open>program_invariant\<close>,
    interpreted for authorities, escrows with their vaults, organizations, bonds with their vaults,
    receipts and the configuration.
  \<^item> \<open>Aeon_Wire\<close>: the Borsh byte format, with the locale \<open>codec\<close> (reading undoes writing) and its
    interpretations.  \<open>Aeon_Entry\<close>: the entry point that \<^verbatim>\<open>#[program]\<close> makes of the functions of
    \<^verbatim>\<open>lib.rs\<close>, from the bytes and accounts of an instruction to a value of \<open>instruction\<close>.
    \<open>Aeon_Avoid\<close>: which failures a chain of guards cannot end in.
  \<^item> \<open>Escrow_Machine\<close>: the contract of the escrow component as a function on a book of deals
    (\<open>settle\<close>), the reading of accounts as deals and of instructions as requests, and the proof that
    every run of the chain keeps it.  Each request is decided by the slot, the signers, what is shown
    and who calls, all taken from the call itself.
  \<^item> \<open>Client_Instructions\<close> and \<open>Client_Accounts\<close>: the generated client of
    \<^verbatim>\<open>trident-tests/remaining_accounts_p2/types.rs\<close>, its instruction builders and its account structs;
    \<open>Client_Calls\<close>: the instruction each client call stands for and the flags it is sent with.
  \<^item> \<open>Aeon_Example\<close>: an executable instance of \<open>runtime\<close> and a chain started from nothing by the
    program's own instructions; the theorems are applied to concrete runs of it.

  \<^bold>\<open>The chain.\<close>  \<open>reachable\<close> states start from a world in which the program owns nothing and move by
  \<open>chain_step\<close>: a successful instruction in any transaction that no program-derived address has
  signed, or any change of the token programs' accounts made by others that does not lower or
  re-own what a program-derived address owns.  A failed instruction changes nothing, as the
  runtime rolls it back.

  \<^bold>\<open>Properties.\<close>
  \<^item> \<open>Authority_Properties\<close>: budgets, attenuation of limits and categories by delegation (not of
    the expiry), and the life of an authority.
  \<^item> \<open>Payment_Properties\<close>: the decision of the payment gate, the effect of payments and splits, and
    two behaviours a reader may not expect (children outlive a revoked parent; an aliased
    reputation account loses an update).
  \<^item> \<open>Delegation_Properties\<close>: what issuing grants, the category loops, revocation and expiry, and
    two limits of delegation (issuing reserves nothing, so siblings can be granted more than their
    parent has left; the cascade never succeeds).
  \<^item> \<open>Escrow_Properties\<close>: solvency, the escrow contract along every run, exact settlement, and that
    the payer can always cancel and is repaid.
  \<^item> \<open>Org_Properties\<close>: the share ledger, who acts for an organization, payouts and their rounding,
    dissolution and reclaim, and that winding up pays only the members the callers name.
  \<^item> \<open>Record_Properties\<close>: bonds are backed and slashed once; receipts are immutable and chained.
  \<^item> \<open>Panic_Properties\<close>: no instruction panics.
  \<^item> \<open>Client_Properties\<close>: the client's calls arrive as intended and with the flags the program
    asks for, except that issuing an authority and reading authorities follow an earlier version.
  \<^item> This theory: the configuration, the pause flag, and whose consent a token movement needs.

  \<^bold>\<open>Hypotheses.\<close>  \<open>runtime_spec\<close> collects documented behaviour of code outside the repository:
  \<open>token_spec\<close> (a transfer that succeeds was authorised by the owner and moves exactly the amount;
  a new token account is empty and belongs to the owner given), \<open>pda_spec\<close> (derived addresses
  are canonical and collision resistant) and \<open>anchor_serialization\<close> (eight bytes of discriminator,
  then the fields).  Theorems that an instruction succeeds also use \<open>token_transfer_live\<close> (a
  transfer goes through when nothing is wrong with it), panic freedom and the
  flags of client calls use \<open>calls_avoid\<close> (a called program reports its own errors, not a panic or an
  account check of the caller), and the client's calls \<open>sighash_spec\<close> (the selectors are the first
  bytes of the hashes of the names).  \<open>Aeon_Example\<close>,
  \<open>Panic_Properties\<close> and \<open>Client_Properties\<close> prove all of these of the example.

  \<^bold>\<open>Termination.\<close>  Every definition is total; the loops recurse structurally or on the distance
  of their index to the bound, so no fuel is used anywhere.

  \<^bold>\<open>Not modelled.\<close>  Lamports, rent and the funding of new accounts (an \<open>init\<close> is assumed to be
  paid for); the addresses of the system program and of the rent sysvar; frozen token accounts,
  delegates, transfer fees and hooks, all of which stay inside the parameter for transfers and
  are restricted by \<open>token_spec\<close> only where a theorem says so (a mint with transfer fees does not
  meet it); \<^verbatim>\<open>OracleEntry\<close>, the receipt type constants and the oracle seed, which no instruction
  uses; compute limits; Anchor's own IDL instructions and event CPI, which the entry point answers
  before it compares selectors.  The fuzzing flows of the Trident harness (\<^verbatim>\<open>test_fuzz.rs\<close>,
  \<^verbatim>\<open>fuzz_accounts.rs\<close>) drive the fuzzer, and the TypeScript clients and scripts only call the
  program: neither holds logic of it.
\<close>

section \<open>Properties of the whole program\<close>

subsection \<open>The configuration\<close>

text \<open>A reachable state has one configuration at most, at its canonical address.\<close>

lemma config_unique:
  assumes "runtime_spec rt" "reachable rt w" "configs w k = Some cfg" "configs w k' = Some cfg'"
  shows "k = k'" "cfg = cfg'"
proof -
  have "rt_find_pda rt [SEED_CONFIG] = (k, cfg_bump cfg)" "rt_find_pda rt [SEED_CONFIG] = (k', cfg_bump cfg')"
    using all_okD [OF config_inv.inv_reachable [OF assms(1,2)]] assms(3,4)
    unfolding config_ok_def by blast+
  then show "k = k'" by simp
  with assms(3,4) show "cfg = cfg'" by simp
qed

text \<open>
  C25: There is one configuration and its terms are fixed.  Whatever is executed, the admin,
  the mint, the bump and the solvency floor of the configuration stay what they were, its
  four counters never fall, and no second configuration ever appears.
\<close>

theorem config_fixed:
  assumes "runtime_spec rt" "reachable rt w" "chain_run rt w w'" "configs w k = Some cfg"
  shows "(\<exists>cfg'. configs w' k = Some cfg'
      \<and> cfg_admin cfg' = cfg_admin cfg \<and> cfg_aeon_mint cfg' = cfg_aeon_mint cfg
      \<and> cfg_bump cfg' = cfg_bump cfg \<and> cfg_min_solvency_bps cfg' = cfg_min_solvency_bps cfg
      \<and> cfg_authority_counter cfg \<le> cfg_authority_counter cfg'
      \<and> cfg_escrow_counter cfg \<le> cfg_escrow_counter cfg'
      \<and> cfg_org_counter cfg \<le> cfg_org_counter cfg'
      \<and> cfg_receipt_counter cfg \<le> cfg_receipt_counter cfg')
    \<and> (\<forall>k'. k' \<noteq> k \<longrightarrow> configs w' k' = None)"
proof -
  have "anchor_serialization rt" using assms(1) by (simp add: runtime_spec_def)
  from config_life.run_same [OF chain_configs [OF this assms(3)] assms(4)]
  obtain cfg' where c: "configs w' k = Some cfg'" "config_keeps cfg cfg'" by blast
  have "configs w' k' = None" if "k' \<noteq> k" for k'
    using config_unique(1) [OF assms(1) reachable_run [OF assms(2,3)] c(1)] that by (cases "configs w' k'") auto
  with c show ?thesis unfolding config_keeps_def by blast
qed

definition ex_config :: pubkey where
  "ex_config = ex_pda [SEED_CONFIG]"

lemma ex_config_run:
  "ex_check (\<lambda>w. map_option cfg_admin (configs w ex_config) = Some ex_admin) (ex_run 1 [ex_issue])"
  by code_simp

theorem config_fixed_witness:
  "\<exists>w cfg. reachable ex_rt w \<and> configs w ex_config = Some cfg \<and> cfg_admin cfg = ex_admin
     \<and> (\<forall>w'. chain_run ex_rt w w' \<longrightarrow>
          (\<exists>cfg'. configs w' ex_config = Some cfg' \<and> cfg_admin cfg' = ex_admin))"
proof -
  obtain w cfg where w: "reachable ex_rt w" "configs w ex_config = Some cfg" "cfg_admin cfg = ex_admin"
    using ex_runD [OF ex_config_run] by auto
  from config_fixed [OF ex_runtime_spec w(1) _ w(2)] w show ?thesis by metis
qed

subsection \<open>Pausing\<close>

text \<open>The seven instructions whose handlers check the flag.\<close>

fun pausable :: "instruction \<Rightarrow> bool" where
  "pausable (RegisterAgent _) = True"
| "pausable (IssueAuthority _ _ _ _ _ _ _ _ _) = True"
| "pausable (Pay _ _ _ _) = True"
| "pausable (CreateEscrow _ _ _ _ _ _ _ _) = True"
| "pausable (AtomicSplit _ _ _ _) = True"
| "pausable (CreateOrg _ _ _ _) = True"
| "pausable (CreateReceipt _ _ _ _) = True"
| "pausable _ = False"

lemma pausable_unpaused:
  assumes "dispatch rt tx w i = Inr w'" "pausable i"
  obtains k cfg where "configs w k = Some cfg" "\<not> cfg_paused cfg"
  using assms
  by (cases i) (auto elim!: register_agent_ok issue_authority_ok pay_ok create_escrow_ok
      atomic_split_ok create_org_ok create_receipt_ok)

text \<open>
  C26: A paused program accepts no new business.  While the configuration of a reachable
  state is paused, registering an agent, issuing an authority, paying, splitting, and
  creating an escrow, an organization or a receipt all fail.
\<close>

theorem paused_blocks:
  assumes "runtime_spec rt" "reachable rt w" "configs w k = Some cfg" "cfg_paused cfg" "pausable i"
  shows "dispatch rt tx w i \<noteq> Inr w'"
proof
  assume "dispatch rt tx w i = Inr w'"
  then obtain k' cfg' where "configs w k' = Some cfg'" "\<not> cfg_paused cfg'"
    using assms(5) by (rule pausable_unpaused)
  with config_unique(2) [OF assms(1-3)] assms(4) show False by blast
qed

lemma ex_paused_run:
  "ex_check (\<lambda>w. map_option cfg_paused (configs w ex_config) = Some True
      \<and> ex_check (\<lambda>w'. True) (dispatch ex_rt (ex_tx 2) w (ReleaseEscrow ex_release_ctx 1 [])))
     (ex_run 1 [ex_issue, ex_open CONDITION_IMMEDIATE 5, ex_pause True])"
  by code_simp

theorem paused_blocks_witness:
  "\<exists>w. reachable ex_rt w \<and> (\<forall>w'. dispatch ex_rt (ex_tx 2) w (Pay ex_pay_ctx 30 1 ex_category) \<noteq> Inr w')
     \<and> (\<exists>w'. dispatch ex_rt (ex_tx 2) w (ReleaseEscrow ex_release_ctx 1 []) = Inr w')"
proof -
  obtain w cfg w' where w: "reachable ex_rt w" "configs w ex_config = Some cfg" "cfg_paused cfg"
    "dispatch ex_rt (ex_tx 2) w (ReleaseEscrow ex_release_ctx 1 []) = Inr w'"
    using ex_runD [OF ex_paused_run] by (auto dest!: ex_checkD)
  from paused_blocks [OF ex_runtime_spec w(1-3), of "Pay ex_pay_ctx 30 1 ex_category"] w
  show ?thesis by auto
qed

lemma config_writers_keep_flag:
  assumes "configs w k = Some cfg"
  shows "initialize_config rt tx w c1 mk = Inr w' \<Longrightarrow> map_option cfg_paused (configs w' k) = Some (cfg_paused cfg)"
    and "issue_authority rt tx w c2 i b mpt mt cats pid ex amt = Inr w' \<Longrightarrow>
      map_option cfg_paused (configs w' k) = Some (cfg_paused cfg)"
    and "create_escrow rt tx w c3 i amount aid cat ct cd ex = Inr w' \<Longrightarrow>
      map_option cfg_paused (configs w' k) = Some (cfg_paused cfg)"
    and "create_org rt tx w c4 i name sh = Inr w' \<Longrightarrow>
      map_option cfg_paused (configs w' k) = Some (cfg_paused cfg)"
    and "create_receipt rt tx w c5 i ty pl = Inr w' \<Longrightarrow>
      map_option cfg_paused (configs w' k) = Some (cfg_paused cfg)"
proof -
  show "initialize_config rt tx w c1 mk = Inr w' \<Longrightarrow> map_option cfg_paused (configs w' k) = Some (cfg_paused cfg)"
    by (erule initialize_config_ok) (use assms in \<open>auto simp: world_frame dest: not_in_use_fresh\<close>)
  show "issue_authority rt tx w c2 i b mpt mt cats pid ex amt = Inr w' \<Longrightarrow>
      map_option cfg_paused (configs w' k) = Some (cfg_paused cfg)"
    by (erule issue_authority_ok) (use assms in \<open>auto dest!: issue_bond_world\<close>)
  show "create_escrow rt tx w c3 i amount aid cat ct cd ex = Inr w' \<Longrightarrow>
      map_option cfg_paused (configs w' k) = Some (cfg_paused cfg)"
    by (erule create_escrow_ok) (use assms in \<open>auto simp: world_frame\<close>)
  show "create_org rt tx w c4 i name sh = Inr w' \<Longrightarrow>
      map_option cfg_paused (configs w' k) = Some (cfg_paused cfg)"
    by (erule create_org_ok) (use assms in \<open>auto simp: world_frame\<close>)
  show "create_receipt rt tx w c5 i ty pl = Inr w' \<Longrightarrow>
      map_option cfg_paused (configs w' k) = Some (cfg_paused cfg)"
    by (erule create_receipt_ok) (use assms in \<open>auto simp: world_frame\<close>)
qed

lemma paused_kept:
  assumes "anchor_serialization rt" "dispatch rt tx w i = Inr w'" "configs w k = Some cfg"
    "\<And>c p. i \<noteq> SetPaused c p"
  shows "map_option cfg_paused (configs w' k) = Some (cfg_paused cfg)"
  using assms(2-4)
  by (cases i)
    (auto intro: config_writers_keep_flag [simplified]
      dest!: register_agent_frame expire_authority_frame revoke_authority_frame [OF assms(1)]
        pay_frame atomic_split_frame release_escrow_frame cancel_escrow_frame join_org_frame
        set_member_share_frame deposit_to_org_frame org_split_frame dissolve_org_frame
        reclaim_org_residual_frame slash_bond_frame)

text \<open>
  C27: Only the admin pauses.  An instruction after which the configuration's flag differs is
  \<^verbatim>\<open>set_paused\<close> with the new value, signed by the configuration's admin.
\<close>

theorem only_admin_pauses:
  assumes "runtime_spec rt" "dispatch rt tx w i = Inr w'" "configs w k = Some cfg"
    "configs w' k = Some cfg'" "cfg_paused cfg' \<noteq> cfg_paused cfg"
  shows "tx_signer tx (cfg_admin cfg) \<and> (\<exists>c. i = SetPaused c (cfg_paused cfg') \<and> sp_admin c = cfg_admin cfg)"
proof -
  have "\<exists>c p. i = SetPaused c p"
    using paused_kept [OF _ assms(2,3)] assms(1,4,5) by (auto simp: runtime_spec_def)
  then obtain c p where i: "i = SetPaused c p" by blast
  with assms(2) have "set_paused rt tx w c p = Inr w'" by simp
  then show ?thesis
    by (rule set_paused_ok) (use assms(3-5) i in \<open>auto simp: world_frame split: if_splits\<close>)
qed

lemma ex_pausing_run:
  "ex_check (\<lambda>w. map_option (\<lambda>c. (cfg_paused c, cfg_admin c)) (configs w ex_config) = Some (False, ex_admin)
      \<and> ex_check (\<lambda>w'. map_option cfg_paused (configs w' ex_config) = Some True)
          (dispatch ex_rt (ex_tx 2) w (ex_pause True)))
     (ex_run 1 [ex_issue])"
  by code_simp

theorem only_admin_pauses_witness:
  "\<exists>w w' cfg'. reachable ex_rt w \<and> dispatch ex_rt (ex_tx 2) w (ex_pause True) = Inr w'
     \<and> configs w' ex_config = Some cfg' \<and> cfg_paused cfg' \<and> tx_signer (ex_tx 2) ex_admin
     \<and> (\<exists>c. ex_pause True = SetPaused c True \<and> sp_admin c = ex_admin)"
proof -
  obtain w w' cfg cfg' where w: "reachable ex_rt w" "dispatch ex_rt (ex_tx 2) w (ex_pause True) = Inr w'"
    and c: "configs w ex_config = Some cfg" "cfg_admin cfg = ex_admin" "\<not> cfg_paused cfg"
      "configs w' ex_config = Some cfg'" "cfg_paused cfg'"
    using ex_runD [OF ex_pausing_run] by (auto dest!: ex_checkD)
  from only_admin_pauses [OF ex_runtime_spec w(2) c(1,4)] c w show ?thesis by auto
qed

subsection \<open>Consent\<close>

text \<open>
  C4: Tokens leave an account only with its owner's consent.  If an instruction leaves any
  token account with less than before, it is one that spends for that account's owner, and
  the owner signed the transaction, or is an escrow being released or cancelled, an
  organization, or a bond being slashed, for which the program itself signs.
\<close>

theorem tokens_need_consent:
  assumes "runtime_spec rt" "dispatch rt tx w i = Inr w'" "ledger w k = Some t"
    "balance_of (ledger w') k < balance_of (ledger w) k"
  shows "spender i = Some (ta_owner t)
    \<and> (tx_signer tx (ta_owner t)
      \<or> (\<exists>j b. pda_at rt (escrow_seeds j) b (ta_owner t)
           \<and> ((\<exists>c. i = CancelEscrow c j) \<or> (\<exists>c wi. i = ReleaseEscrow c j wi)))
      \<or> (\<exists>j b. pda_at rt (org_seeds j) b (ta_owner t))
      \<or> (\<exists>j b c. pda_at rt (bond_seeds j) b (ta_owner t) \<and> i = SlashBond c j))"
proof
  have spec: "token_spec rt" using assms(1) by (simp add: runtime_spec_def)
  show s: "spender i = Some (ta_owner t)"
  proof (rule ccontr)
    assume "spender i \<noteq> Some (ta_owner t)"
    from keepsD [OF dispatch_keeps [OF spec assms(2) this] assms(3) refl]
    obtain t' where "ledger w' k = Some t'" "ta_amount t \<le> ta_amount t'" .
    with assms(3,4) show False by (simp add: balance_of_def word_le_nat_alt)
  qed
  show "tx_signer tx (ta_owner t)
      \<or> (\<exists>j b. pda_at rt (escrow_seeds j) b (ta_owner t)
           \<and> ((\<exists>c. i = CancelEscrow c j) \<or> (\<exists>c wi. i = ReleaseEscrow c j wi)))
      \<or> (\<exists>j b. pda_at rt (org_seeds j) b (ta_owner t))
      \<or> (\<exists>j b c. pda_at rt (bond_seeds j) b (ta_owner t) \<and> i = SlashBond c j)"
    by (rule spender_signs [OF assms(2) s])
qed

lemma ex_consent_run:
  "ex_check (\<lambda>w. map_option (\<lambda>t. (ta_amount t, ta_owner t)) (ledger w ex_alice_wallet) = Some (1000, ex_alice)
      \<and> ex_check (\<lambda>w'. map_option ta_amount (ledger w' ex_alice_wallet) = Some 970)
          (dispatch ex_rt (ex_tx 2) w (Pay ex_pay_ctx 30 1 ex_category)))
     (ex_run 1 [ex_issue])"
  by code_simp

theorem tokens_need_consent_witness:
  "\<exists>w w'. reachable ex_rt w \<and> dispatch ex_rt (ex_tx 2) w (Pay ex_pay_ctx 30 1 ex_category) = Inr w'
     \<and> balance_of (ledger w') ex_alice_wallet < balance_of (ledger w) ex_alice_wallet
     \<and> spender (Pay ex_pay_ctx 30 1 ex_category) = Some ex_alice"
proof -
  obtain w w' t t' where w: "reachable ex_rt w"
    "dispatch ex_rt (ex_tx 2) w (Pay ex_pay_ctx 30 1 ex_category) = Inr w'"
    and t: "ledger w ex_alice_wallet = Some t" "ta_amount t = 1000" "ta_owner t = ex_alice"
      "ledger w' ex_alice_wallet = Some t'" "ta_amount t' = 970"
    using ex_runD [OF ex_consent_run] by (auto dest!: ex_checkD simp del: dispatch.simps)
  have less: "balance_of (ledger w') ex_alice_wallet < balance_of (ledger w) ex_alice_wallet"
    using t by (simp add: balance_of_def)
  from tokens_need_consent [OF ex_runtime_spec w(2) t(1) less]
  have "spender (Pay ex_pay_ctx 30 1 ex_category) = Some ex_alice" unfolding t(3) ..
  with w less show ?thesis by blast
qed

end
